(* ===== verification/Prelude.thy ===== *)
theory Prelude
  imports Main "HOL-Library.Word"
begin

text \<open>
  Shared vocabulary of the development: the Rust machine integers, the outcome of a fallible
  Rust function (a returned value, a returned error, or a panic), the loops that stop at the
  first error, and the little- and big-endian byte conversions with their round trips.

  Integers keep their width (\<^typ>\<open>8 word\<close>, \<^typ>\<open>32 word\<close>, \<^typ>\<open>64 word\<close>); \<open>usize\<close> values that
  count bytes or elements of a buffer are natural numbers, with the wrap-around written out
  where the source narrows them.
\<close>

unbundle bit_operations_syntax

named_theorems result_simps \<open>equations for chaining fallible computations\<close>
named_theorems bytes_simps \<open>byte-level conversions\<close>
named_theorems codec_defs \<open>definitions of the binary codec\<close>

section \<open>Machine integers\<close>

type_synonym u8 = "8 word"
type_synonym u16 = "16 word"
type_synonym u32 = "32 word"
type_synonym u64 = "64 word"
type_synonym u128 = "128 word"
type_synonym bytes = "u8 list"

section \<open>Outcomes of Rust functions\<close>

text \<open>
  \<open>Ok\<close> and \<open>Err\<close> are the constructors of Rust's \<open>Result\<close>; \<open>Panic\<close> is a call that does not
  return (a failed slice bound, \<open>expect\<close>, \<open>unwrap\<close>, \<open>unreachable!\<close>, \<open>panic!\<close>).
\<close>

datatype ('a, 'e) result = Ok 'a | Err 'e | Panic

fun rbind :: "('a, 'e) result \<Rightarrow> ('a \<Rightarrow> ('b, 'e) result) \<Rightarrow> ('b, 'e) result" where
  "rbind (Ok x) f = f x"
| "rbind (Err e) f = Err e"
| "rbind Panic f = Panic"

fun map_err :: "('e \<Rightarrow> 'f) \<Rightarrow> ('a, 'e) result \<Rightarrow> ('a, 'f) result" where
  "map_err g (Ok x) = Ok x"
| "map_err g (Err e) = Err (g e)"
| "map_err g Panic = Panic"

fun map_ok :: "('a \<Rightarrow> 'b) \<Rightarrow> ('a, 'e) result \<Rightarrow> ('b, 'e) result" where
  "map_ok g (Ok x) = Ok (g x)"
| "map_ok g (Err e) = Err e"
| "map_ok g Panic = Panic"

fun ok_or :: "'e \<Rightarrow> 'a option \<Rightarrow> ('a, 'e) result" where
  "ok_or e (Some x) = Ok x"
| "ok_or e None = Err e"

text \<open>\<open>Result::expect\<close> and \<open>Result::unwrap\<close>: an error becomes a panic.\<close>

fun expect :: "('a, 'e) result \<Rightarrow> ('a, 'f) result" where
  "expect (Ok x) = Ok x"
| "expect (Err e) = Panic"
| "expect Panic = Panic"

fun is_ok :: "('a, 'e) result \<Rightarrow> bool" where
  "is_ok (Ok x) = True"
| "is_ok (Err e) = False"
| "is_ok Panic = False"

text \<open>A \<open>for\<close> loop whose body pushes one result per element and leaves at the first \<open>?\<close>.\<close>

fun rtraverse :: "('a \<Rightarrow> ('b, 'e) result) \<Rightarrow> 'a list \<Rightarrow> ('b list, 'e) result" where
  "rtraverse f [] = Ok []"
| "rtraverse f (x # xs) = rbind (f x) (\<lambda>y. rbind (rtraverse f xs) (\<lambda>ys. Ok (y # ys)))"

lemma rbind_Ok_iff [result_simps]:
  "rbind m f = Ok y \<longleftrightarrow> (\<exists>x. m = Ok x \<and> f x = Ok y)"
  by (cases m) auto

lemma rbind_Panic_iff [result_simps]:
  "rbind m f = Panic \<longleftrightarrow> m = Panic \<or> (\<exists>x. m = Ok x \<and> f x = Panic)"
  by (cases m) auto

lemma rbind_Err_iff [result_simps]:
  "rbind m f = Err e \<longleftrightarrow> m = Err e \<or> (\<exists>x. m = Ok x \<and> f x = Err e)"
  by (cases m) auto

lemma map_err_iff [result_simps]:
  "map_err g m = Ok y \<longleftrightarrow> m = Ok y"
  "map_err g m = Panic \<longleftrightarrow> m = Panic"
  "map_err g m = Err e \<longleftrightarrow> (\<exists>e'. m = Err e' \<and> g e' = e)"
  by (cases m; auto)+

lemma map_ok_iff [result_simps]:
  "map_ok g m = Ok y \<longleftrightarrow> (\<exists>x. m = Ok x \<and> g x = y)"
  "map_ok g m = Panic \<longleftrightarrow> m = Panic"
  "map_ok g m = Err e \<longleftrightarrow> m = Err e"
  by (cases m; auto)+

lemma ok_or_iff [result_simps]:
  "ok_or e m = Ok y \<longleftrightarrow> m = Some y"
  "ok_or e m = Panic \<longleftrightarrow> False"
  "ok_or e m = Err e' \<longleftrightarrow> m = None \<and> e' = e"
  by (cases m; auto)+

lemma expect_iff [result_simps]:
  "expect m = Ok y \<longleftrightarrow> m = Ok y"
  "expect m = Panic \<longleftrightarrow> (\<forall>x. m \<noteq> Ok x)"
  "expect m = Err e' \<longleftrightarrow> False"
  by (cases m; auto)+

text \<open>\<open>Vec::pop\<close>: the last element and the vector without it.\<close>

definition vec_pop :: "'a list \<Rightarrow> ('a \<times> 'a list) option" where
  "vec_pop xs = (if xs = [] then None else Some (last xs, butlast xs))"

lemma vec_pop_simps [simp]:
  "vec_pop [] = None" "vec_pop (xs @ [x]) = Some (x, xs)" "vec_pop [x] = Some (x, [])"
  by (simp_all add: vec_pop_def)

lemma rbind_assoc: "rbind (rbind m f) g = rbind m (\<lambda>x. rbind (f x) g)"
  by (cases m) auto

lemma rtraverse_Ok_length: "rtraverse f xs = Ok ys \<Longrightarrow> length ys = length xs"
  by (induction xs arbitrary: ys) (auto simp: result_simps)

lemma rtraverse_Ok_nth:
  "rtraverse f xs = Ok ys \<Longrightarrow> i < length xs \<Longrightarrow> f (xs ! i) = Ok (ys ! i)"
  by (induction xs arbitrary: ys i) (auto simp: result_simps nth_Cons split: nat.splits)

lemma rtraverse_map_Ok:
  "(\<And>x. x \<in> set xs \<Longrightarrow> f x = Ok (g x)) \<Longrightarrow> rtraverse f xs = Ok (map g xs)"
  by (induction xs) auto

lemma rtraverse_append:
  "rtraverse f (xs @ ys) = rbind (rtraverse f xs) (\<lambda>a. rbind (rtraverse f ys) (\<lambda>b. Ok (a @ b)))"
  by (induction xs) (auto simp: rbind_assoc, metis result.exhaust rbind.simps append_Nil)

section \<open>Early return\<close>

text \<open>The \<open>?\<close> operator in a method that has already changed its receiver: the state so far is what
  remains.\<close>

definition or_return ::
    "('a, 'e) result \<Rightarrow> 's \<Rightarrow> ('a \<Rightarrow> ('b, 'e) result \<times> 's) \<Rightarrow> ('b, 'e) result \<times> 's" where
  "or_return r st k = (case r of Ok x \<Rightarrow> k x | Err e \<Rightarrow> (Err e, st) | Panic \<Rightarrow> (Panic, st))"

lemma or_return_simps [simp]:
  "or_return (Ok x) st k = k x" "or_return (Err e) st k = (Err e, st)" "or_return Panic st k = (Panic, st)"
  by (simp_all add: or_return_def)

lemma or_return_cases:
  assumes "or_return r st k = (out, st')"
  obtains x where "r = Ok x" "k x = (out, st')" | e where "r = Err e" "out = Err e" "st' = st"
    | "r = Panic" "out = Panic" "st' = st"
  using assms by (cases r) auto

section \<open>Slices\<close>

text \<open>Rust's \<open>&xs[i..]\<close> and \<open>&xs[..i]\<close>: a bound past the end panics.\<close>

definition slice_from :: "'a list \<Rightarrow> nat \<Rightarrow> ('a list, 'e) result" where
  "slice_from xs i = (if i \<le> length xs then Ok (drop i xs) else Panic)"

definition split_at :: "'a list \<Rightarrow> nat \<Rightarrow> ('a list \<times> 'a list, 'e) result" where
  "split_at xs i = (if i \<le> length xs then Ok (take i xs, drop i xs) else Panic)"

lemma slice_from_iff [result_simps]:
  "slice_from xs i = Ok ys \<longleftrightarrow> i \<le> length xs \<and> ys = drop i xs"
  "slice_from xs i = Panic \<longleftrightarrow> length xs < i"
  "slice_from xs i = Err e \<longleftrightarrow> False"
  by (auto simp: slice_from_def)

lemma split_at_iff [result_simps]:
  "split_at xs i = Ok p \<longleftrightarrow> i \<le> length xs \<and> p = (take i xs, drop i xs)"
  "split_at xs i = Panic \<longleftrightarrow> length xs < i"
  "split_at xs i = Err e \<longleftrightarrow> False"
  by (auto simp: split_at_def)

text \<open>Overwriting a run of bytes in place: \<open>dst[i..i + src.len()].copy_from_slice(src)\<close>.\<close>

definition write_at :: "nat \<Rightarrow> 'a list \<Rightarrow> 'a list \<Rightarrow> 'a list" where
  "write_at i src dst = take i dst @ src @ drop (i + length src) dst"

lemma length_write_at [simp]:
  "i + length src \<le> length dst \<Longrightarrow> length (write_at i src dst) = length dst"
  by (simp add: write_at_def)

lemma write_at_append:
  "length pre = i \<Longrightarrow> length old = length src \<Longrightarrow>
   write_at i src (pre @ old @ post) = pre @ src @ post"
  by (simp add: write_at_def)

section \<open>Little- and big-endian integers\<close>

fun nat_to_le :: "nat \<Rightarrow> nat \<Rightarrow> bytes" where
  "nat_to_le 0 v = []"
| "nat_to_le (Suc n) v = word_of_nat (v mod 256) # nat_to_le n (v div 256)"

fun nat_of_le :: "bytes \<Rightarrow> nat" where
  "nat_of_le [] = 0"
| "nat_of_le (b # bs) = unat b + 256 * nat_of_le bs"

lemma length_nat_to_le [simp]: "length (nat_to_le n v) = n"
  by (induction n v rule: nat_to_le.induct) auto

lemma nat_of_le_bound: "nat_of_le bs < 256 ^ length bs"
proof (induction bs)
  case Nil
  then show ?case by simp
next
  case (Cons b bs)
  have "unat b < 256" using unsigned_less [of b, where ?'a = nat] by simp
  with Cons have "unat b + 256 * nat_of_le bs < 256 * (nat_of_le bs + 1)" by simp
  also have "\<dots> \<le> 256 * 256 ^ length bs" using Cons by (intro mult_le_mono) auto
  finally show ?case by simp
qed

lemma nat_of_le_to_le: "nat_of_le (nat_to_le n v) = v mod 256 ^ n"
proof (induction n v rule: nat_to_le.induct)
  case (1 v)
  then show ?case by simp
next
  case (2 n v)
  have u: "unat (word_of_nat (v mod 256) :: u8) = v mod 256"
    by (simp add: unat_of_nat take_bit_eq_mod)
  have "v mod 256 ^ Suc n = v mod 256 + 256 * (v div 256 mod 256 ^ n)"
    using mod_mult2_eq [of v 256 "256 ^ n"] by (simp add: mult.commute add.commute)
  with u 2 show ?case by simp
qed

lemma nat_to_le_of_le: "nat_to_le (length bs) (nat_of_le bs) = bs"
proof (induction bs)
  case Nil
  then show ?case by simp
next
  case (Cons b bs)
  have b: "unat b < 256" using unsigned_less [of b, where ?'a = nat] by simp
  have "(unat b + 256 * nat_of_le bs) mod 256 = unat b"
    using b by simp
  moreover have "(unat b + 256 * nat_of_le bs) div 256 = nat_of_le bs"
    using b by simp
  ultimately show ?case using Cons by simp
qed

lemma nat_of_le_append:
  "nat_of_le (xs @ ys) = nat_of_le xs + 256 ^ length xs * nat_of_le ys"
  by (induction xs) (auto simp: algebra_simps)

lemma nat_of_le_inject:
  "length xs = length ys \<Longrightarrow> nat_of_le xs = nat_of_le ys \<longleftrightarrow> xs = ys"
  by (metis nat_to_le_of_le)

lemma take_nat_to_le: "k \<le> n \<Longrightarrow> take k (nat_to_le n v) = nat_to_le k v"
  by (induction n v arbitrary: k rule: nat_to_le.induct) (auto simp: take_Cons split: nat.splits)

definition to_le_bytes :: "'a::len word \<Rightarrow> bytes" where
  "to_le_bytes w = nat_to_le (LENGTH('a) div 8) (unat w)"

definition from_le_bytes :: "bytes \<Rightarrow> 'a::len word" where
  "from_le_bytes bs = word_of_nat (nat_of_le bs)"

definition to_be_bytes :: "'a::len word \<Rightarrow> bytes" where
  "to_be_bytes w = rev (to_le_bytes w)"

definition from_be_bytes :: "bytes \<Rightarrow> 'a::len word" where
  "from_be_bytes bs = from_le_bytes (rev bs)"

lemma length_to_le_bytes [simp]: "length (to_le_bytes (w :: 'a::len word)) = LENGTH('a) div 8"
  by (simp add: to_le_bytes_def)

lemma length_to_be_bytes [simp]: "length (to_be_bytes (w :: 'a::len word)) = LENGTH('a) div 8"
  by (simp add: to_be_bytes_def)

lemma pow_256_bits: "(256 :: nat) ^ n = 2 ^ (8 * n)"
  by (simp add: power_mult)

lemma from_to_le_bytes [bytes_simps]:
  "8 dvd LENGTH('a) \<Longrightarrow> from_le_bytes (to_le_bytes (w :: 'a::len word)) = w"
  by (simp add: from_le_bytes_def to_le_bytes_def nat_of_le_to_le pow_256_bits
        unsigned_less mod_less)

lemma from_to_be_bytes [bytes_simps]:
  "8 dvd LENGTH('a) \<Longrightarrow> from_be_bytes (to_be_bytes (w :: 'a::len word)) = w"
  by (simp add: from_be_bytes_def to_be_bytes_def from_to_le_bytes)

lemma unat_from_le_bytes:
  "8 * length bs \<le> LENGTH('a) \<Longrightarrow> unat (from_le_bytes bs :: 'a::len word) = nat_of_le bs"
proof -
  assume len: "8 * length bs \<le> LENGTH('a)"
  have "nat_of_le bs < 2 ^ (8 * length bs)"
    using nat_of_le_bound [of bs] by (simp add: pow_256_bits)
  also have "\<dots> \<le> 2 ^ LENGTH('a)" using len by (simp add: power_increasing)
  finally show ?thesis by (simp add: from_le_bytes_def unat_of_nat take_bit_nat_eq_self)
qed

lemma to_from_le_bytes [bytes_simps]:
  "8 * length bs = LENGTH('a) \<Longrightarrow> to_le_bytes (from_le_bytes bs :: 'a::len word) = bs"
proof -
  assume len: "8 * length bs = LENGTH('a)"
  then have "LENGTH('a) div 8 = length bs" by simp
  with len show ?thesis
    by (simp add: to_le_bytes_def unat_from_le_bytes nat_to_le_of_le)
qed

lemma to_from_be_bytes [bytes_simps]:
  "8 * length bs = LENGTH('a) \<Longrightarrow> to_be_bytes (from_be_bytes bs :: 'a::len word) = bs"
  by (simp add: from_be_bytes_def to_be_bytes_def to_from_le_bytes)

lemma to_le_bytes_inject:
  "8 dvd LENGTH('a) \<Longrightarrow> to_le_bytes (v :: 'a::len word) = to_le_bytes w \<longleftrightarrow> v = w"
  by (metis from_to_le_bytes)

lemma unat_of_nat_small: "n < 2 ^ LENGTH('a) \<Longrightarrow> unat (of_nat n :: 'a::len word) = n"
  by (simp add: unat_of_nat take_bit_nat_eq_self)

lemma unat_plus_one:
  assumes "Suc (unat w) < 2 ^ LENGTH('a)"
  shows "unat (w + 1 :: 'a::len word) = Suc (unat w)"
proof -
  have "w + 1 = of_nat (Suc (unat w))" by simp
  then show ?thesis using unat_of_nat_small [OF assms] by (simp add: add.commute)
qed

end
