(* ===== verification/Datatypes.thy ===== *)
theory Datatypes
  imports Prelude
begin

text \<open>
  The SV2 data types of \<open>protocols/v2/binary-sv2/codec/src/datatypes\<close>: the byte container
  \<open>Inner\<close> with its const parameters, the copy types (\<open>bool\<close>, the unsigned integers, \<open>U24\<close>,
  \<open>f32\<close>), and the trait \<open>Sv2DataType\<close> as the locale \<open>sv2_datatype\<close>, interpreted on each of
  them. A reader (\<open>impl Read\<close>) is the list of bytes still to be read. An \<open>f32\<close> is its 32-bit
  pattern, which is what \<open>from_le_bytes\<close> and \<open>to_le_bytes\<close> convert.
\<close>

section \<open>Errors\<close>

datatype sv2_error =
    OutOfBound
  | NotABool u8
  | WriteError nat nat
  | U24TooBig u32
  | InvalidSignatureSize nat
  | InvalidU256 nat
  | InvalidU24 u32
  | InvalidB0255Size nat
  | InvalidB064KSize nat
  | InvalidB016MSize nat
  | InvalidSeq0255Size nat
  | NonPrimitiveTypeCannotBeEncoded
  | PrimitiveConversionError
  | DecodableConversionError
  | UnInitializedDecoder
  | IoError
  | ReadError nat nat
  | VoidFieldMarker
  | ValueExceedsMaxSize bool nat nat nat bytes nat
  | SeqExceedsMaxSize
  | NoDecodableFieldPassed
  | ValueIsNotAValidProtocol u8
  | UnknownMessageType u8
  | Sv2OptionHaveMoreThenOneElement u8

type_synonym 'a sv2 = "('a, sv2_error) result"

section \<open>Readers\<close>

text \<open>
  \<open>Read::read_exact\<close> fills the buffer or fails with \<open>UnexpectedEof\<close>, which
  \<open>impl From<E> for Error\<close> turns into \<open>OutOfBound\<close>.
\<close>

definition read_exact :: "nat \<Rightarrow> bytes \<Rightarrow> (bytes \<times> bytes) sv2" where
  "read_exact n reader =
     (if n \<le> length reader then Ok (take n reader, drop n reader) else Err OutOfBound)"

section \<open>The byte container Inner\<close>

record inner_kind =
  ISFIXED :: bool
  SIZE :: nat
  HEADERSIZE :: nat
  MAXSIZE :: nat

datatype inner = Ref bytes | Owned bytes

definition U32AsRef :: inner_kind where
  "U32AsRef = \<lparr>ISFIXED = True, SIZE = 4, HEADERSIZE = 0, MAXSIZE = 0\<rparr>"

definition U256 :: inner_kind where
  "U256 = \<lparr>ISFIXED = True, SIZE = 32, HEADERSIZE = 0, MAXSIZE = 0\<rparr>"

definition PubKey :: inner_kind where
  "PubKey = \<lparr>ISFIXED = True, SIZE = 32, HEADERSIZE = 0, MAXSIZE = 0\<rparr>"

definition Signature :: inner_kind where
  "Signature = \<lparr>ISFIXED = True, SIZE = 64, HEADERSIZE = 0, MAXSIZE = 0\<rparr>"

definition B032 :: inner_kind where
  "B032 = \<lparr>ISFIXED = False, SIZE = 1, HEADERSIZE = 1, MAXSIZE = 32\<rparr>"

definition B0255 :: inner_kind where
  "B0255 = \<lparr>ISFIXED = False, SIZE = 1, HEADERSIZE = 1, MAXSIZE = 255\<rparr>"

definition Str0255 :: inner_kind where
  "Str0255 = \<lparr>ISFIXED = False, SIZE = 1, HEADERSIZE = 1, MAXSIZE = 255\<rparr>"

definition B064K :: inner_kind where
  "B064K = \<lparr>ISFIXED = False, SIZE = 1, HEADERSIZE = 2, MAXSIZE = 65535\<rparr>"

definition B016M :: inner_kind where
  "B016M = \<lparr>ISFIXED = False, SIZE = 1, HEADERSIZE = 3, MAXSIZE = 2 ^ 24 - 1\<rparr>"

lemmas inner_kinds = U32AsRef_def U256_def PubKey_def Signature_def B032_def B0255_def
  Str0255_def B064K_def B016M_def

fun inner_as_ref :: "inner \<Rightarrow> bytes" where
  "inner_as_ref (Ref b) = b"
| "inner_as_ref (Owned v) = v"

fun inner_eq :: "inner \<Rightarrow> inner \<Rightarrow> bool" where
  "inner_eq (Ref b) (Owned a) = (b = a)"
| "inner_eq (Owned b) (Ref a) = (a = b)"
| "inner_eq (Owned b) (Owned a) = (b = a)"
| "inner_eq (Ref b) (Ref a) = (b = a)"

fun into_static :: "inner \<Rightarrow> inner" where
  "into_static (Ref data) = Owned data"
| "into_static (Owned data) = Owned data"

definition expected_length_fixed :: "inner_kind \<Rightarrow> nat" where
  "expected_length_fixed K = SIZE K"

definition expected_length_variable :: "inner_kind \<Rightarrow> bytes \<Rightarrow> nat sv2" where
  "expected_length_variable K data =
     (if HEADERSIZE K \<le> length data then
        (let size = (if HEADERSIZE K = 1 then Ok (unat (data ! 0))
                     else if HEADERSIZE K = 2 then
                       Ok (unat (from_le_bytes [data ! 0, data ! 1] :: u16))
                     else if HEADERSIZE K = 3 then
                       Ok (unat (from_le_bytes [data ! 0, data ! 1, data ! 2, 0] :: u32))
                     else Panic)
         in map_ok (\<lambda>x. x + HEADERSIZE K) size)
      else Err (ReadError (length data) (HEADERSIZE K)))"

definition expected_length :: "inner_kind \<Rightarrow> bytes \<Rightarrow> nat sv2" where
  "expected_length K data =
     rbind (if ISFIXED K then Ok (expected_length_fixed K) else expected_length_variable K data)
       (\<lambda>l. if ISFIXED K \<or> l \<le> MAXSIZE K + HEADERSIZE K then Ok l
            else Err (ReadError (length data) (MAXSIZE K)))"

definition expected_length_for_reader :: "inner_kind \<Rightarrow> bytes \<Rightarrow> (nat \<times> bytes) sv2" where
  "expected_length_for_reader K reader =
     (if ISFIXED K then Ok (SIZE K, reader)
      else rbind (read_exact (HEADERSIZE K) reader) (\<lambda>(header, reader).
        rbind (if HEADERSIZE K = 1 then Ok (unat (header ! 0))
               else if HEADERSIZE K = 2 then
                 Ok (unat (from_le_bytes [header ! 0, header ! 1] :: u16))
               else if HEADERSIZE K = 3 then
                 Ok (unat (from_le_bytes [header ! 0, header ! 1, header ! 2, 0] :: u32))
               else Panic)
          (\<lambda>l. if l \<le> MAXSIZE K + HEADERSIZE K then Ok (l, reader)
               else Err (ReadError l (MAXSIZE K)))))"

definition inner_len :: "inner_kind \<Rightarrow> inner \<Rightarrow> nat" where
  "inner_len K v = (if ISFIXED K then 1 else length (inner_as_ref v))"

text \<open>\<open>len.to_le_bytes()\<close> of a \<open>usize\<close>: eight bytes, of which the caller takes \<open>HEADERSIZE\<close>.\<close>

definition get_header :: "inner_kind \<Rightarrow> inner \<Rightarrow> bytes" where
  "get_header K v = (if HEADERSIZE K = 0 then [] else nat_to_le 8 (inner_len K v))"

definition exceeds_max_size :: "inner_kind \<Rightarrow> bytes \<Rightarrow> sv2_error" where
  "exceeds_max_size K value =
     ValueExceedsMaxSize (ISFIXED K) (SIZE K) (HEADERSIZE K) (MAXSIZE K) value (length value)"

definition inner_try_from_slice :: "inner_kind \<Rightarrow> bytes \<Rightarrow> inner sv2" where
  "inner_try_from_slice K value =
     (if ISFIXED K \<and> length value = SIZE K then Ok (Ref value)
      else if ISFIXED K then Err (exceeds_max_size K value)
      else if length value \<le> MAXSIZE K then Ok (Ref value)
      else Err (exceeds_max_size K value))"

definition inner_try_from_vec :: "inner_kind \<Rightarrow> bytes \<Rightarrow> inner sv2" where
  "inner_try_from_vec K value =
     (if ISFIXED K \<and> length value = SIZE K then Ok (Owned value)
      else if ISFIXED K then Err (exceeds_max_size K value)
      else if length value \<le> MAXSIZE K then Ok (Owned value)
      else Err (exceeds_max_size K value))"

definition inner_get_size :: "inner_kind \<Rightarrow> inner \<Rightarrow> nat" where
  "inner_get_size K v = length (inner_as_ref v) + HEADERSIZE K"

definition inner_size_hint :: "inner_kind \<Rightarrow> bytes \<Rightarrow> nat \<Rightarrow> nat sv2" where
  "inner_size_hint K data offset =
     (if length data \<le> offset then Err (ReadError (length data) offset)
      else expected_length K (drop offset data))"

definition inner_from_bytes_unchecked :: "inner_kind \<Rightarrow> bytes \<Rightarrow> inner sv2" where
  "inner_from_bytes_unchecked K data =
     (if ISFIXED K then Ok (Ref data)
      else map_ok Ref (slice_from data (HEADERSIZE K)))"

definition inner_from_vec :: "inner_kind \<Rightarrow> bytes \<Rightarrow> inner sv2" where
  "inner_from_vec K data = rbind (inner_size_hint K data 0) (\<lambda>_. Ok (Owned data))"

definition inner_from_vec_unchecked :: "bytes \<Rightarrow> inner" where
  "inner_from_vec_unchecked data = Owned data"

definition inner_from_reader :: "inner_kind \<Rightarrow> bytes \<Rightarrow> (inner \<times> bytes) sv2" where
  "inner_from_reader K reader =
     rbind (expected_length_for_reader K reader) (\<lambda>(size, reader).
       rbind (read_exact size reader) (\<lambda>(dst, reader).
         Ok (inner_from_vec_unchecked dst, reader)))"

definition inner_to_slice_unchecked :: "inner_kind \<Rightarrow> inner \<Rightarrow> bytes \<Rightarrow> bytes sv2" where
  "inner_to_slice_unchecked K v dst =
     (let size = inner_get_size K v; header = get_header K v in
      if HEADERSIZE K \<le> length header \<and> size \<le> length dst then
        Ok (write_at (HEADERSIZE K) (inner_as_ref v)
              (write_at 0 (take (HEADERSIZE K) header) dst))
      else Panic)"

text \<open>\<open>to_writer_\<close> appends to the writer what \<open>write_all\<close> is given: the data, no header.\<close>

definition inner_to_writer :: "inner \<Rightarrow> bytes \<Rightarrow> bytes" where
  "inner_to_writer v writer = writer @ inner_as_ref v"

section \<open>Copy types\<close>

definition BOOL_SIZE :: nat where
  "BOOL_SIZE = 1"

text \<open>\<open>x << 7\<close> then \<open>x >> 7\<close> keeps the lowest bit of the byte.\<close>

definition bool_from_bytes_unchecked :: "bytes \<Rightarrow> bool sv2" where
  "bool_from_bytes_unchecked data =
     (case data of
        [] \<Rightarrow> Panic
      | x # _ \<Rightarrow>
          (let y = drop_bit 7 (push_bit 7 x) in
           if y = 0 then Ok False else if y = 1 then Ok True else Panic))"

definition bool_to_slice_unchecked :: "bool \<Rightarrow> bytes \<Rightarrow> bytes sv2" where
  "bool_to_slice_unchecked b dst =
     (if dst = [] then Panic else Ok (dst[0 := (if b then 1 else 0)]))"

definition uint_SIZE :: "'a::len itself \<Rightarrow> nat" where
  "uint_SIZE _ = LENGTH('a) div 8"

definition uint_from_bytes_unchecked :: "bytes \<Rightarrow> 'a::len word sv2" where
  "uint_from_bytes_unchecked data =
     (if uint_SIZE TYPE('a) \<le> length data
      then Ok (from_le_bytes (take (uint_SIZE TYPE('a)) data)) else Panic)"

definition uint_to_slice_unchecked :: "'a::len word \<Rightarrow> bytes \<Rightarrow> bytes sv2" where
  "uint_to_slice_unchecked v dst =
     (if uint_SIZE TYPE('a) \<le> length dst then Ok (write_at 0 (to_le_bytes v) dst) else Panic)"

definition uint_from_reader :: "bytes \<Rightarrow> ('a::len word \<times> bytes) sv2" where
  "uint_from_reader reader =
     rbind (read_exact (uint_SIZE TYPE('a)) reader) (\<lambda>(dst, reader).
       rbind (uint_from_bytes_unchecked dst) (\<lambda>v. Ok (v, reader)))"

definition uint_to_writer :: "'a::len word \<Rightarrow> bytes \<Rightarrow> bytes" where
  "uint_to_writer v writer = writer @ to_le_bytes v"

datatype u24 = U24 (u24_inner: u32)

definition U24_SIZE :: nat where
  "U24_SIZE = 3"

definition u24_from_le_bytes :: "bytes \<Rightarrow> u24" where
  "u24_from_le_bytes b = U24 (from_le_bytes [b ! 0, b ! 1, b ! 2, 0])"

definition u24_to_le_bytes :: "u24 \<Rightarrow> bytes" where
  "u24_to_le_bytes v =
     (let b = to_le_bytes (u24_inner v) in [b ! 0, b ! 1, b ! 2])"

definition u24_from_bytes_unchecked :: "bytes \<Rightarrow> u24 sv2" where
  "u24_from_bytes_unchecked data =
     (if U24_SIZE \<le> length data then Ok (u24_from_le_bytes (take U24_SIZE data)) else Panic)"

definition u24_to_slice_unchecked :: "u24 \<Rightarrow> bytes \<Rightarrow> bytes sv2" where
  "u24_to_slice_unchecked v dst =
     (if U24_SIZE \<le> length dst then Ok (write_at 0 (u24_to_le_bytes v) dst) else Panic)"

definition u24_try_from_u32 :: "u32 \<Rightarrow> u24 sv2" where
  "u24_try_from_u32 value =
     (if value \<le> 16777215 then Ok (U24 value) else Err (InvalidU24 value))"

definition u32_from_u24 :: "u24 \<Rightarrow> u32" where
  "u32_from_u24 v = u24_inner v"

text \<open>The blanket \<open>impl SizeHint for T: Fixed\<close>: the constant, whatever the buffer holds.\<close>

definition fixed_size_hint :: "nat \<Rightarrow> bytes \<Rightarrow> nat \<Rightarrow> nat sv2" where
  "fixed_size_hint SZ data offset = Ok SZ"

section \<open>The trait's provided methods\<close>

definition from_bytes_checked ::
  "(bytes \<Rightarrow> nat \<Rightarrow> nat sv2) \<Rightarrow> (bytes \<Rightarrow> 'v sv2) \<Rightarrow> bytes \<Rightarrow> 'v sv2" where
  "from_bytes_checked size_hint from_bytes_unchecked data =
     rbind (size_hint data 0) (\<lambda>_. from_bytes_unchecked data)"

text \<open>The new contents of \<open>dst\<close> and the number of bytes written.\<close>

definition to_slice ::
  "('v \<Rightarrow> nat) \<Rightarrow> ('v \<Rightarrow> bytes \<Rightarrow> bytes sv2) \<Rightarrow> 'v \<Rightarrow> bytes \<Rightarrow> (bytes \<times> nat) sv2" where
  "to_slice get_size to_slice_unchecked v dst =
     (if get_size v \<le> length dst
      then rbind (to_slice_unchecked v dst) (\<lambda>dst'. Ok (dst', get_size v))
      else Err (WriteError (get_size v) (length dst)))"

section \<open>Wire images\<close>

text \<open>
  What each type looks like on the wire, and which values have a wire image: the specification
  the trait's operations are measured against.
\<close>

definition inner_wire :: "inner_kind \<Rightarrow> inner \<Rightarrow> bytes" where
  "inner_wire K v = nat_to_le (HEADERSIZE K) (length (inner_as_ref v)) @ inner_as_ref v"

definition inner_wf :: "inner_kind \<Rightarrow> inner \<Rightarrow> bool" where
  "inner_wf K v =
     (if ISFIXED K then length (inner_as_ref v) = SIZE K
      else length (inner_as_ref v) \<le> MAXSIZE K)"

definition kind_ok :: "inner_kind \<Rightarrow> bool" where
  "kind_ok K =
     (if ISFIXED K then HEADERSIZE K = 0 \<and> 0 < SIZE K
      else HEADERSIZE K \<in> {1, 2, 3} \<and> MAXSIZE K < 256 ^ HEADERSIZE K)"

definition inner_norm :: "inner \<Rightarrow> inner" where
  "inner_norm v = Ref (inner_as_ref v)"

definition bool_wire :: "bool \<Rightarrow> bytes" where
  "bool_wire b = [if b then 1 else 0]"

definition u24_wf :: "u24 \<Rightarrow> bool" where
  "u24_wf v = (unat (u24_inner v) < 2 ^ 24)"

definition u24_wire :: "u24 \<Rightarrow> bytes" where
  "u24_wire v = nat_to_le 3 (unat (u24_inner v))"

section \<open>The contract of Sv2DataType\<close>

locale sv2_datatype =
  fixes size_hint :: "bytes \<Rightarrow> nat \<Rightarrow> nat sv2"
    and get_size :: "'v \<Rightarrow> nat"
    and from_bytes_unchecked :: "bytes \<Rightarrow> 'v sv2"
    and to_slice_unchecked :: "'v \<Rightarrow> bytes \<Rightarrow> bytes sv2"
    and wire :: "'v \<Rightarrow> bytes"
    and wf :: "'v \<Rightarrow> bool"
    and norm :: "'v \<Rightarrow> 'v"
  assumes get_size_pos: "wf v \<Longrightarrow> 0 < get_size v"
    and length_wire: "wf v \<Longrightarrow> length (wire v) = get_size v"
    and wf_norm: "wf v \<Longrightarrow> wf (norm v) \<and> wire (norm v) = wire v"
    and size_hint_wire:
      "wf v \<Longrightarrow> size_hint (pre @ wire v @ post) (length pre) = Ok (get_size v)"
    and decode_wire: "wf v \<Longrightarrow> from_bytes_unchecked (wire v) = Ok (norm v)"
    and encode_wire:
      "wf v \<Longrightarrow> get_size v \<le> length dst \<Longrightarrow>
       to_slice_unchecked v dst = Ok (wire v @ drop (get_size v) dst)"
    and decode_total:
      "size_hint data 0 = Ok n \<Longrightarrow> n \<le> length data \<Longrightarrow>
       \<exists>v. from_bytes_unchecked (take n data) = Ok v \<and> wf v \<and> get_size v = n \<and> norm v = v"
    and size_hint_local:
      "size_hint data offset = Ok n \<Longrightarrow> offset + n \<le> length data \<Longrightarrow>
       size_hint (take n (drop offset data) @ post) 0 = Ok n"
    and size_hint_no_panic: "size_hint data offset \<noteq> Panic"
begin

lemma to_slice_fits:
  "wf v \<Longrightarrow> get_size v \<le> length dst \<Longrightarrow>
   to_slice get_size to_slice_unchecked v dst = Ok (wire v @ drop (get_size v) dst, get_size v)"
  by (simp add: to_slice_def encode_wire)

lemma to_slice_short:
  "length dst < get_size v \<Longrightarrow>
   to_slice get_size to_slice_unchecked v dst = Err (WriteError (get_size v) (length dst))"
  by (simp add: to_slice_def)

lemma from_bytes_checked_wire:
  "wf v \<Longrightarrow> from_bytes_checked size_hint from_bytes_unchecked (wire v) = Ok (norm v)"
  using size_hint_wire [of v "[]" "[]"] by (simp add: from_bytes_checked_def decode_wire)

lemma to_slice_from_bytes:
  assumes "wf v" and "to_slice get_size to_slice_unchecked v dst = Ok (dst', n)"
  shows "from_bytes_checked size_hint from_bytes_unchecked (take n dst') = Ok (norm v)"
proof -
  have "get_size v \<le> length dst"
    using assms(2) by (simp add: to_slice_def split: if_splits)
  with assms have "dst' = wire v @ drop (get_size v) dst" and "n = get_size v"
    by (auto simp: to_slice_fits)
  with assms(1) show ?thesis by (simp add: from_bytes_checked_wire flip: length_wire)
qed

end

text \<open>A type whose wire image is unique: decoding and encoding again gives the same bytes.\<close>

locale sv2_canonical = sv2_datatype +
  assumes reencode:
    "size_hint data 0 = Ok n \<Longrightarrow> n \<le> length data \<Longrightarrow>
     from_bytes_unchecked (take n data) = Ok v \<Longrightarrow> wire v = take n data"

section \<open>Inner implements the contract\<close>

lemma nat_of_le_Cons0: "nat_of_le (xs @ [0]) = nat_of_le xs"
  by (simp add: nat_of_le_append)

lemma header_value:
  assumes "HEADERSIZE K \<in> {1, 2, 3}" and "HEADERSIZE K \<le> length data"
  shows "expected_length_variable K data =
    Ok (nat_of_le (take (HEADERSIZE K) data) + HEADERSIZE K)"
proof -
  consider "HEADERSIZE K = 1" | "HEADERSIZE K = 2" | "HEADERSIZE K = 3"
    using assms(1) by auto
  then show ?thesis
  proof cases
    case 1
    with assms(2) obtain a d where "data = a # d" by (cases data) auto
    with 1 show ?thesis by (simp add: expected_length_variable_def)
  next
    case 2
    with assms(2) obtain a b d where "data = a # b # d"
      by (cases data; cases "tl data") auto
    with 2 show ?thesis
      by (simp add: expected_length_variable_def unat_from_le_bytes)
  next
    case 3
    with assms(2) obtain a b c d where "data = a # b # c # d"
      by (cases data; cases "tl data"; cases "tl (tl data)") auto
    with 3 show ?thesis
      by (simp add: expected_length_variable_def unat_from_le_bytes)
  qed
qed

lemma expected_length_no_panic: "kind_ok K \<Longrightarrow> expected_length K data \<noteq> Panic"
  by (cases "HEADERSIZE K \<le> length data")
    (auto simp: expected_length_def kind_ok_def header_value expected_length_variable_def [of K data]
       result_simps split: if_splits)

lemma expected_length_wire:
  assumes "kind_ok K" and "inner_wf K v"
  shows "expected_length K (inner_wire K v @ post) = Ok (inner_get_size K v)"
proof (cases "ISFIXED K")
  case True
  with assms show ?thesis
    by (simp add: expected_length_def expected_length_fixed_def inner_get_size_def
          inner_wf_def kind_ok_def)
next
  case False
  with assms have h: "HEADERSIZE K \<in> {1, 2, 3}"
    and lt: "length (inner_as_ref v) < 256 ^ HEADERSIZE K"
    and le: "length (inner_as_ref v) \<le> MAXSIZE K"
    by (auto simp: kind_ok_def inner_wf_def)
  have "nat_of_le (take (HEADERSIZE K) (inner_wire K v @ post)) = length (inner_as_ref v)"
    using lt by (simp add: inner_wire_def nat_of_le_to_le)
  with False h le show ?thesis
    by (simp add: expected_length_def header_value inner_wire_def inner_get_size_def)
qed

lemma expected_length_Ok:
  assumes "kind_ok K" and "expected_length K data = Ok n" and "n \<le> length data"
  shows "inner_from_bytes_unchecked K (take n data) = Ok (Ref (drop (HEADERSIZE K) (take n data)))"
    and "inner_wf K (Ref (drop (HEADERSIZE K) (take n data)))"
    and "HEADERSIZE K \<le> n"
    and "inner_wire K (Ref (drop (HEADERSIZE K) (take n data))) = take n data"
proof -
  have "HEADERSIZE K \<le> n \<and>
    nat_to_le (HEADERSIZE K) (n - HEADERSIZE K) = take (HEADERSIZE K) data \<and>
    (if ISFIXED K then n = SIZE K else n \<le> MAXSIZE K + HEADERSIZE K)"
  proof (cases "ISFIXED K")
    case True
    with assms show ?thesis
      by (simp add: expected_length_def expected_length_fixed_def kind_ok_def)
  next
    case False
    with assms have h: "HEADERSIZE K \<in> {1, 2, 3}" by (simp add: kind_ok_def)
    have hl: "HEADERSIZE K \<le> length data"
      using False assms(2)
      by (auto simp: expected_length_def expected_length_variable_def split: if_splits)
    with False h assms(2) have n: "n = nat_of_le (take (HEADERSIZE K) data) + HEADERSIZE K"
      and "n \<le> MAXSIZE K + HEADERSIZE K"
      by (auto simp: expected_length_def header_value split: if_splits)
    moreover have "nat_to_le (HEADERSIZE K) (nat_of_le (take (HEADERSIZE K) data)) =
      take (HEADERSIZE K) data"
      using nat_to_le_of_le [of "take (HEADERSIZE K) data"] hl by simp
    ultimately show ?thesis using False by simp
  qed
  then have hn: "HEADERSIZE K \<le> n"
    and img: "nat_to_le (HEADERSIZE K) (n - HEADERSIZE K) = take (HEADERSIZE K) data"
    and sz: "if ISFIXED K then n = SIZE K else n \<le> MAXSIZE K + HEADERSIZE K"
    by simp_all
  show "HEADERSIZE K \<le> n" by (rule hn)
  show "inner_from_bytes_unchecked K (take n data) = Ok (Ref (drop (HEADERSIZE K) (take n data)))"
    using assms(1,3) hn
    by (auto simp: inner_from_bytes_unchecked_def kind_ok_def slice_from_def)
  show "inner_wf K (Ref (drop (HEADERSIZE K) (take n data)))"
    using assms(1,3) sz by (auto simp: inner_wf_def kind_ok_def split: if_splits)
  have "take (HEADERSIZE K) data = take (HEADERSIZE K) (take n data)"
    using hn by (simp add: min_def)
  with img have "nat_to_le (HEADERSIZE K) (n - HEADERSIZE K) @ drop (HEADERSIZE K) (take n data) =
    take n data"
    by (metis append_take_drop_id)
  with assms(3) show "inner_wire K (Ref (drop (HEADERSIZE K) (take n data))) = take n data"
    by (simp add: inner_wire_def)
qed

lemma inner_encode_wire:
  assumes "kind_ok K" and "inner_get_size K v \<le> length dst"
  shows "inner_to_slice_unchecked K v dst = Ok (inner_wire K v @ drop (inner_get_size K v) dst)"
proof -
  have hdr: "take (HEADERSIZE K) (get_header K v) =
    nat_to_le (HEADERSIZE K) (length (inner_as_ref v))"
    using assms(1)
    by (auto simp: get_header_def inner_len_def kind_ok_def take_nat_to_le split: if_splits)
  have "HEADERSIZE K \<le> length (get_header K v)"
    using assms(1) by (auto simp: get_header_def kind_ok_def split: if_splits)
  with assms hdr show ?thesis
    by (simp add: inner_to_slice_unchecked_def write_at_def inner_wire_def inner_get_size_def
          add.commute)
qed

lemma inner_sv2_datatype:
  assumes "kind_ok K"
  shows "sv2_datatype (inner_size_hint K) (inner_get_size K) (inner_from_bytes_unchecked K)
    (inner_to_slice_unchecked K) (inner_wire K) (inner_wf K) inner_norm"
proof (unfold_locales, goal_cases)
  case (1 v)
  with assms show ?case
    by (auto simp: inner_get_size_def inner_wf_def kind_ok_def split: if_splits)
next
  case (2 v)
  show ?case by (simp add: inner_wire_def inner_get_size_def)
next
  case (3 v)
  then show ?case by (simp add: inner_wf_def inner_wire_def inner_norm_def)
next
  case (4 v pre post)
  have "0 < length (inner_wire K v)"
    using 4 assms by (auto simp: inner_wire_def inner_wf_def kind_ok_def split: if_splits)
  with 4 show ?case
    by (simp add: inner_size_hint_def expected_length_wire [OF assms])
next
  case (5 v)
  show ?case using assms
    by (auto simp: inner_from_bytes_unchecked_def inner_wire_def inner_norm_def kind_ok_def
          slice_from_def)
next
  case (6 v dst)
  then show ?case by (simp add: inner_encode_wire [OF assms])
next
  case (7 data n)
  then have e: "expected_length K data = Ok n"
    by (simp add: inner_size_hint_def split: if_splits)
  note x = expected_length_Ok [OF assms e 7(2)]
  have "inner_get_size K (Ref (drop (HEADERSIZE K) (take n data))) = n"
    using x(3) 7(2) by (simp add: inner_get_size_def)
  with x show ?case by (auto simp: inner_norm_def)
next
  case (8 data offset n post)
  then have e: "expected_length K (drop offset data) = Ok n" and n: "n \<le> length (drop offset data)"
    by (auto simp: inner_size_hint_def split: if_splits)
  note x = expected_length_Ok [OF assms e n]
  have g: "inner_get_size K (Ref (drop (HEADERSIZE K) (take n (drop offset data)))) = n"
    using x(3) n by (simp add: inner_get_size_def)
  have "0 < n" using g x(2) assms
    by (auto simp: inner_get_size_def inner_wf_def kind_ok_def split: if_splits)
  with n have "0 < length (take n (drop offset data) @ post)" by simp
  with expected_length_wire [OF assms x(2), of post] x(4) g show ?case
    by (simp add: inner_size_hint_def del: length_append length_take)
next
  case (9 data offset)
  show ?case using assms by (simp add: inner_size_hint_def expected_length_no_panic)
qed

lemma inner_sv2_canonical:
  assumes "kind_ok K"
  shows "sv2_canonical (inner_size_hint K) (inner_get_size K) (inner_from_bytes_unchecked K)
    (inner_to_slice_unchecked K) (inner_wire K) (inner_wf K) inner_norm"
proof -
  have "sv2_canonical_axioms (inner_size_hint K) (inner_from_bytes_unchecked K) (inner_wire K)"
  proof (unfold_locales, goal_cases)
    case (1 data n v)
    then have "expected_length K data = Ok n"
      by (simp add: inner_size_hint_def split: if_splits)
    from expected_length_Ok [OF assms this 1(2)] 1(3) show ?case by simp
  qed
  with inner_sv2_datatype [OF assms] show ?thesis by (rule sv2_canonical.intro)
qed

lemma kinds_ok:
  "kind_ok U32AsRef" "kind_ok U256" "kind_ok PubKey" "kind_ok Signature" "kind_ok B032"
  "kind_ok B0255" "kind_ok Str0255" "kind_ok B064K" "kind_ok B016M"
  by (simp_all add: kind_ok_def inner_kinds)

interpretation U32AsRef: sv2_canonical "inner_size_hint U32AsRef" "inner_get_size U32AsRef"
  "inner_from_bytes_unchecked U32AsRef" "inner_to_slice_unchecked U32AsRef"
  "inner_wire U32AsRef" "inner_wf U32AsRef" inner_norm
  by (rule inner_sv2_canonical [OF kinds_ok(1)])

interpretation U256: sv2_canonical "inner_size_hint U256" "inner_get_size U256"
  "inner_from_bytes_unchecked U256" "inner_to_slice_unchecked U256"
  "inner_wire U256" "inner_wf U256" inner_norm
  by (rule inner_sv2_canonical [OF kinds_ok(2)])

interpretation Signature: sv2_canonical "inner_size_hint Signature" "inner_get_size Signature"
  "inner_from_bytes_unchecked Signature" "inner_to_slice_unchecked Signature"
  "inner_wire Signature" "inner_wf Signature" inner_norm
  by (rule inner_sv2_canonical [OF kinds_ok(4)])

interpretation B032: sv2_canonical "inner_size_hint B032" "inner_get_size B032"
  "inner_from_bytes_unchecked B032" "inner_to_slice_unchecked B032"
  "inner_wire B032" "inner_wf B032" inner_norm
  by (rule inner_sv2_canonical [OF kinds_ok(5)])

interpretation B0255: sv2_canonical "inner_size_hint B0255" "inner_get_size B0255"
  "inner_from_bytes_unchecked B0255" "inner_to_slice_unchecked B0255"
  "inner_wire B0255" "inner_wf B0255" inner_norm
  by (rule inner_sv2_canonical [OF kinds_ok(6)])

interpretation B064K: sv2_canonical "inner_size_hint B064K" "inner_get_size B064K"
  "inner_from_bytes_unchecked B064K" "inner_to_slice_unchecked B064K"
  "inner_wire B064K" "inner_wf B064K" inner_norm
  by (rule inner_sv2_canonical [OF kinds_ok(8)])

interpretation B016M: sv2_canonical "inner_size_hint B016M" "inner_get_size B016M"
  "inner_from_bytes_unchecked B016M" "inner_to_slice_unchecked B016M"
  "inner_wire B016M" "inner_wf B016M" inner_norm
  by (rule inner_sv2_canonical [OF kinds_ok(9)])

lemma kind_aliases [simp]: "PubKey = U256" "Str0255 = B0255"
  by (simp_all add: inner_kinds)

section \<open>The copy types implement the contract\<close>

lemma uint_sv2_canonical:
  assumes "8 dvd LENGTH('a::len)"
  shows "sv2_canonical (fixed_size_hint (uint_SIZE TYPE('a))) (\<lambda>_. uint_SIZE TYPE('a))
    uint_from_bytes_unchecked (uint_to_slice_unchecked :: 'a word \<Rightarrow> bytes \<Rightarrow> bytes sv2)
    to_le_bytes (\<lambda>_. True) (\<lambda>v. v)"
proof -
  have pos: "0 < uint_SIZE TYPE('a)"
    using dvd_imp_le [OF assms len_gt_0] by (simp add: uint_SIZE_def div_greater_zero_iff)
  have "sv2_datatype (fixed_size_hint (uint_SIZE TYPE('a))) (\<lambda>_. uint_SIZE TYPE('a))
    uint_from_bytes_unchecked (uint_to_slice_unchecked :: 'a word \<Rightarrow> bytes \<Rightarrow> bytes sv2)
    to_le_bytes (\<lambda>_. True) (\<lambda>v. v)"
    using assms pos
    by unfold_locales
      (auto simp: fixed_size_hint_def uint_SIZE_def uint_from_bytes_unchecked_def
         uint_to_slice_unchecked_def write_at_def from_to_le_bytes)
  moreover have "sv2_canonical_axioms (fixed_size_hint (uint_SIZE TYPE('a)))
    (uint_from_bytes_unchecked :: bytes \<Rightarrow> 'a word sv2) to_le_bytes"
    using assms
    by unfold_locales
      (auto simp: fixed_size_hint_def uint_SIZE_def uint_from_bytes_unchecked_def
         to_from_le_bytes split: if_splits)
  ultimately show ?thesis by (rule sv2_canonical.intro)
qed

interpretation u8: sv2_canonical "fixed_size_hint (uint_SIZE TYPE(8))" "\<lambda>_. uint_SIZE TYPE(8)"
  uint_from_bytes_unchecked "uint_to_slice_unchecked :: u8 \<Rightarrow> bytes \<Rightarrow> bytes sv2"
  to_le_bytes "\<lambda>_. True" "\<lambda>v. v"
  by (rule uint_sv2_canonical) simp

interpretation u16: sv2_canonical "fixed_size_hint (uint_SIZE TYPE(16))" "\<lambda>_. uint_SIZE TYPE(16)"
  uint_from_bytes_unchecked "uint_to_slice_unchecked :: u16 \<Rightarrow> bytes \<Rightarrow> bytes sv2"
  to_le_bytes "\<lambda>_. True" "\<lambda>v. v"
  by (rule uint_sv2_canonical) simp

interpretation u32: sv2_canonical "fixed_size_hint (uint_SIZE TYPE(32))" "\<lambda>_. uint_SIZE TYPE(32)"
  uint_from_bytes_unchecked "uint_to_slice_unchecked :: u32 \<Rightarrow> bytes \<Rightarrow> bytes sv2"
  to_le_bytes "\<lambda>_. True" "\<lambda>v. v"
  by (rule uint_sv2_canonical) simp

interpretation u64: sv2_canonical "fixed_size_hint (uint_SIZE TYPE(64))" "\<lambda>_. uint_SIZE TYPE(64)"
  uint_from_bytes_unchecked "uint_to_slice_unchecked :: u64 \<Rightarrow> bytes \<Rightarrow> bytes sv2"
  to_le_bytes "\<lambda>_. True" "\<lambda>v. v"
  by (rule uint_sv2_canonical) simp

lemma low_bit_shift: "drop_bit 7 (push_bit 7 (x :: u8)) = x AND 1"
  by (rule bit_word_eqI) (auto simp: bit_simps)

lemma bool_from_bytes_Cons: "bool_from_bytes_unchecked (x # xs) = Ok (odd x)"
  by (simp add: bool_from_bytes_unchecked_def low_bit_shift and_one_eq Let_def mod2_eq_if)

interpretation sv2_bool: sv2_datatype "fixed_size_hint BOOL_SIZE" "\<lambda>_. BOOL_SIZE"
  bool_from_bytes_unchecked bool_to_slice_unchecked bool_wire "\<lambda>_. True" "\<lambda>v. v"
proof (unfold_locales, goal_cases)
  case (6 v dst)
  then show ?case
    by (cases dst) (auto simp: bool_to_slice_unchecked_def bool_wire_def BOOL_SIZE_def)
next
  case (7 data n)
  then show ?case
    by (cases data) (auto simp: fixed_size_hint_def BOOL_SIZE_def bool_from_bytes_Cons)
qed (auto simp: fixed_size_hint_def BOOL_SIZE_def bool_wire_def bool_from_bytes_Cons)

lemma first_three: "3 \<le> length b \<Longrightarrow> [b ! 0, b ! 1, b ! 2] = take 3 b"
  by (cases b; cases "tl b"; cases "tl (tl b)") auto

lemma u24_to_le: "u24_to_le_bytes v = u24_wire v"
  using first_three [of "to_le_bytes (u24_inner v)"]
  by (simp add: u24_to_le_bytes_def u24_wire_def to_le_bytes_def Let_def take_nat_to_le)

lemma u24_from_le:
  "length b = 3 \<Longrightarrow> unat (u24_inner (u24_from_le_bytes b)) = nat_of_le b"
  by (cases b; cases "tl b"; cases "tl (tl b)")
    (auto simp: u24_from_le_bytes_def unat_from_le_bytes)

lemma u24_eqI: "unat (u24_inner v) = unat (u24_inner w) \<Longrightarrow> v = w"
  by (cases v; cases w) (simp add: word_unat_eq_iff)

interpretation sv2_u24: sv2_canonical "fixed_size_hint U24_SIZE" "\<lambda>_. U24_SIZE"
  u24_from_bytes_unchecked u24_to_slice_unchecked u24_wire u24_wf "\<lambda>v. v"
proof (unfold_locales, goal_cases)
  case (5 v)
  then have "u24_from_le_bytes (u24_wire v) = v"
    by (intro u24_eqI) (simp add: u24_from_le u24_wire_def nat_of_le_to_le u24_wf_def)
  then show ?case by (simp add: u24_from_bytes_unchecked_def U24_SIZE_def u24_wire_def)
next
  case (7 data n)
  then have "nat_of_le (take 3 data) < 256 ^ 3"
    using nat_of_le_bound [of "take 3 data"] by (simp add: fixed_size_hint_def U24_SIZE_def)
  with 7 show ?case
    by (simp add: fixed_size_hint_def U24_SIZE_def u24_from_bytes_unchecked_def u24_wf_def
          u24_from_le)
next
  case (10 data n v)
  then have "length (take 3 data) = 3"
    by (simp add: fixed_size_hint_def U24_SIZE_def)
  with 10 show ?case
    using nat_to_le_of_le [of "take 3 data"]
    by (auto simp: fixed_size_hint_def U24_SIZE_def u24_from_bytes_unchecked_def u24_wire_def
          u24_from_le split: if_splits)
qed (auto simp: fixed_size_hint_def U24_SIZE_def u24_wire_def u24_to_slice_unchecked_def
       u24_to_le write_at_def)

end
