(* ===== verification/Extranonce.thy ===== *)
theory Extranonce
  imports Datatypes
begin

text \<open>
  \<open>Target\<close>, \<open>Extranonce\<close> and \<open>ExtendedExtranonce\<close> of \<open>subprotocols/mining/src/lib.rs\<close>. A target is
  ordered as the 256-bit number it stands for. The extended extranonce hands out prefixes for
  extended and for standard channels by counting in its own range of bytes; the lemmas show the
  well-formedness invariant, what each call changes, and that prefixes of extended channels never
  repeat.
\<close>

section \<open>Target\<close>

datatype Target = Target (head: u128) (tail: u128)

definition target_from_bytes :: "bytes \<Rightarrow> (Target, 'e) result" where
  "target_from_bytes v =
     (if length v < 32 then Panic
      else Ok (Target (from_le_bytes (take 16 v)) (from_le_bytes (take 16 (drop 16 v)))))"

definition target_from_u256 :: "inner \<Rightarrow> (Target, 'e) result" where
  "target_from_u256 v = target_from_bytes (inner_as_ref v)"

definition u256_from_target :: "Target \<Rightarrow> inner sv2" where
  "u256_from_target v =
     expect (inner_try_from_vec U256 (to_le_bytes (head v) @ to_le_bytes (tail v)))"

datatype ordering = Less | Equal | Greater

definition u128_cmp :: "u128 \<Rightarrow> u128 \<Rightarrow> ordering" where
  "u128_cmp a b = (if a < b then Less else if a = b then Equal else Greater)"

definition target_cmp :: "Target \<Rightarrow> Target \<Rightarrow> ordering" where
  "target_cmp self other =
     (if tail self = tail other \<and> head self = head other then Equal
      else if tail self \<noteq> tail other then u128_cmp (tail self) (tail other)
      else u128_cmp (head self) (head other))"

text \<open>\<open>PartialOrd\<close> and \<open>Ord\<close>: the comparison operators all go through \<open>cmp\<close>.\<close>

instantiation Target :: linorder
begin

definition less_eq_Target :: "Target \<Rightarrow> Target \<Rightarrow> bool" where
  "less_eq_Target a b \<longleftrightarrow> target_cmp a b \<noteq> Greater"

definition less_Target :: "Target \<Rightarrow> Target \<Rightarrow> bool" where
  "less_Target a b \<longleftrightarrow> target_cmp a b = Less"

instance
proof
qed (auto simp: less_eq_Target_def less_Target_def target_cmp_def u128_cmp_def Target.expand
    split: if_splits)

end

section \<open>Counting in big-endian bytes\<close>

text \<open>
  The loop of \<open>increment_bytes_be\<close> runs from the last byte; on the reversed slice it is a carry
  chain. When every byte is 255 the slice is refilled with 255 and an error returned.
\<close>

fun carry :: "bytes \<Rightarrow> bool \<times> bytes" where
  "carry [] = (False, [])"
| "carry (b # bs) =
     (if b \<noteq> 255 then (True, (b + 1) # bs)
      else (let (ok, bs') = carry bs in (ok, 0 # bs')))"

definition increment_bytes_be :: "bytes \<Rightarrow> bytes \<times> (unit, unit) result" where
  "increment_bytes_be bs =
     (case carry (rev bs) of
        (True, bs') \<Rightarrow> (rev bs', Ok ())
      | (False, bs') \<Rightarrow> (replicate (length bs) 255, Err ()))"

section \<open>Extranonce\<close>

definition MAX_EXTRANONCE_LEN :: nat where "MAX_EXTRANONCE_LEN = 32"

record Extranonce =
  extranonce :: bytes

definition extranonce_from_inner :: "inner \<Rightarrow> Extranonce" where
  "extranonce_from_inner v = \<lparr>extranonce = inner_as_ref v\<rparr>"

definition u256_from_extranonce :: "Extranonce \<Rightarrow> inner sv2" where
  "u256_from_extranonce v = expect (inner_try_from_vec U256 (extranonce v))"

definition b032_from_extranonce :: "Extranonce \<Rightarrow> inner sv2" where
  "b032_from_extranonce v = expect (inner_try_from_vec B032 (extranonce v))"

definition extranonce_default :: Extranonce where
  "extranonce_default = \<lparr>extranonce = replicate 32 0\<rparr>"

definition extranonce_try_from :: "bytes \<Rightarrow> (Extranonce, unit) result" where
  "extranonce_try_from v = (if length v > MAX_EXTRANONCE_LEN then Err () else Ok \<lparr>extranonce = v\<rparr>)"

definition extranonce_new :: "nat \<Rightarrow> Extranonce option" where
  "extranonce_new len =
     (if len > MAX_EXTRANONCE_LEN then None else Some \<lparr>extranonce = replicate len 0\<rparr>)"

definition vec_resize :: "bytes \<Rightarrow> nat \<Rightarrow> u8 \<Rightarrow> bytes" where
  "vec_resize v n b = (if n \<le> length v then take n v else v @ replicate (n - length v) b)"

definition from_vec_with_len :: "bytes \<Rightarrow> nat \<Rightarrow> Extranonce" where
  "from_vec_with_len v len = \<lparr>extranonce = vec_resize v len 0\<rparr>"

definition extranonce_next :: "Extranonce \<Rightarrow> Extranonce \<times> inner option sv2" where
  "extranonce_next self =
     (case increment_bytes_be (extranonce self) of
        (bs, Ok _) \<Rightarrow>
          (\<lparr>extranonce = bs\<rparr>, map_ok Some (expect (inner_try_from_vec B032 bs)))
      | (bs, _) \<Rightarrow> (\<lparr>extranonce = bs\<rparr>, Ok None))"

section \<open>ExtendedExtranonce\<close>

record range =
  start :: nat
  stop :: nat

record ExtendedExtranonce =
  inner_bytes :: bytes
  range_0 :: range
  range_1 :: range
  range_2 :: range
  static_prefix :: "bytes option"

datatype ExtendedExtranonceError =
    ExceedsMaxLength
  | InvalidRanges
  | InvalidDownstreamLength
  | MaxValueReached
  | InvalidStaticPrefixLength

definition ranges_invalid :: "range \<Rightarrow> range \<Rightarrow> range \<Rightarrow> bool" where
  "ranges_invalid r0 r1 r2 \<longleftrightarrow>
     start r0 \<noteq> 0 \<or> stop r0 \<noteq> start r1 \<or> stop r1 \<noteq> start r2 \<or> stop r1 < start r1 \<or> stop r2 < start r2"

definition extended_new ::
  "range \<Rightarrow> range \<Rightarrow> range \<Rightarrow> bytes option \<Rightarrow> (ExtendedExtranonce, ExtendedExtranonceError) result" where
  "extended_new r0 r1 r2 prefix =
     (if ranges_invalid r0 r1 r2 then Err InvalidRanges
      else if (case prefix of Some p \<Rightarrow> length p > min 2 (stop r1 - start r1) | None \<Rightarrow> False)
        then Err InvalidStaticPrefixLength
      else if stop r2 > MAX_EXTRANONCE_LEN then Err ExceedsMaxLength
      else Ok \<lparr>inner_bytes =
                 (case prefix of
                    Some p \<Rightarrow> write_at (start r1) p (replicate (stop r2) 0)
                  | None \<Rightarrow> replicate (stop r2) 0),
               range_0 = r0, range_1 = r1, range_2 = r2, static_prefix = prefix\<rparr>)"

definition new_with_inner_only_test ::
  "range \<Rightarrow> range \<Rightarrow> range \<Rightarrow> bytes \<Rightarrow> (ExtendedExtranonce, ExtendedExtranonceError) result" where
  "new_with_inner_only_test r0 r1 r2 v =
     (if ranges_invalid r0 r1 r2 then Err InvalidRanges
      else if stop r2 > MAX_EXTRANONCE_LEN then Err ExceedsMaxLength
      else Ok \<lparr>inner_bytes = vec_resize v MAX_EXTRANONCE_LEN 0,
               range_0 = r0, range_1 = r1, range_2 = r2, static_prefix = None\<rparr>)"

definition extended_eq :: "ExtendedExtranonce \<Rightarrow> ExtendedExtranonce \<Rightarrow> (bool, 'e) result" where
  "extended_eq self other =
     (let len = stop (range_2 self) in
      if length (inner_bytes self) < len \<or> length (inner_bytes other) < len then Panic
      else Ok (take len (inner_bytes self) = take len (inner_bytes other) \<and>
               range_0 self = range_0 other \<and> range_1 self = range_1 other \<and>
               range_2 self = range_2 other))"

definition get_len :: "ExtendedExtranonce \<Rightarrow> nat" where
  "get_len self = stop (range_2 self)"

definition get_range2_len :: "ExtendedExtranonce \<Rightarrow> nat" where
  "get_range2_len self = stop (range_2 self) - start (range_2 self)"

definition get_range0_len :: "ExtendedExtranonce \<Rightarrow> nat" where
  "get_range0_len self = stop (range_0 self) - start (range_0 self)"

definition get_prefix_len :: "ExtendedExtranonce \<Rightarrow> nat" where
  "get_prefix_len self = stop (range_1 self) - start (range_0 self)"

definition from_upstream_extranonce ::
  "Extranonce \<Rightarrow> range \<Rightarrow> range \<Rightarrow> range \<Rightarrow> (ExtendedExtranonce, ExtendedExtranonceError) result" where
  "from_upstream_extranonce v r0 r1 r2 =
     (if ranges_invalid r0 r1 r2 then Err InvalidRanges
      else if stop r2 > MAX_EXTRANONCE_LEN then Err ExceedsMaxLength
      else (let resized = vec_resize (extranonce v) (stop r2) 0;
                rest = replicate (stop r2 - length resized) 0
            in Ok \<lparr>inner_bytes = resized @ rest, range_0 = r0, range_1 = r1, range_2 = r2,
                   static_prefix = None\<rparr>))"

text \<open>The slice \<open>&inner[from..to]\<close>, which panics outside the vector or for an inverted range.\<close>

definition slice_range :: "bytes \<Rightarrow> nat \<Rightarrow> nat \<Rightarrow> (bytes, ExtendedExtranonceError) result" where
  "slice_range v from to =
     (if from \<le> to \<and> to \<le> length v then Ok (drop from (take to v)) else Panic)"

definition try_extranonce :: "bytes \<Rightarrow> (Extranonce, ExtendedExtranonceError) result" where
  "try_extranonce v = map_err (\<lambda>_. ExceedsMaxLength) (extranonce_try_from v)"

definition extranonce_from_downstream_extranonce ::
  "ExtendedExtranonce \<Rightarrow> Extranonce \<Rightarrow> (Extranonce, ExtendedExtranonceError) result" where
  "extranonce_from_downstream_extranonce self downstream =
     (if length (extranonce downstream) \<noteq> stop (range_2 self) - start (range_2 self)
      then Err InvalidDownstreamLength
      else rbind (slice_range (inner_bytes self) (start (range_0 self)) (stop (range_1 self)))
        (\<lambda>res. try_extranonce (res @ extranonce downstream)))"

text \<open>Methods on \<open>&mut self\<close> return the new state with their result.\<close>

definition increment_range ::
  "ExtendedExtranonce \<Rightarrow> nat \<Rightarrow> nat \<Rightarrow> (ExtendedExtranonce \<times> (unit, unit) result, ExtendedExtranonceError) result" where
  "increment_range self from to =
     rbind (slice_range (inner_bytes self) from to) (\<lambda>part.
       let (part', r) = increment_bytes_be part in
       Ok (self\<lparr>inner_bytes := write_at from part' (inner_bytes self)\<rparr>, r))"

definition next_prefix_standard ::
  "ExtendedExtranonce \<Rightarrow>
   (ExtendedExtranonce \<times> (Extranonce, ExtendedExtranonceError) result, ExtendedExtranonceError) result" where
  "next_prefix_standard self =
     rbind (increment_range self (start (range_2 self)) (stop (range_2 self))) (\<lambda>(self, r).
       case r of
         Ok _ \<Rightarrow> Ok (self, Ok \<lparr>extranonce = take (stop (range_2 self)) (inner_bytes self)\<rparr>)
       | _ \<Rightarrow> Ok (self, Err MaxValueReached))"

definition extended_part_start :: "ExtendedExtranonce \<Rightarrow> nat" where
  "extended_part_start self =
     start (range_1 self) + (case static_prefix self of Some p \<Rightarrow> length p | None \<Rightarrow> 0)"

definition next_prefix_extended ::
  "ExtendedExtranonce \<Rightarrow> nat \<Rightarrow>
   (ExtendedExtranonce \<times> (Extranonce, ExtendedExtranonceError) result, ExtendedExtranonceError) result" where
  "next_prefix_extended self required_len =
     (if required_len > stop (range_2 self) - start (range_2 self)
      then Ok (self, Err InvalidDownstreamLength)
      else rbind (increment_range self (extended_part_start self) (stop (range_1 self)))
        (\<lambda>(self, r).
          case r of
            Ok _ \<Rightarrow> rbind (slice_range (inner_bytes self) 0 (stop (range_1 self))) (\<lambda>result.
                      Ok (self, try_extranonce result))
          | _ \<Rightarrow> Ok (self, Err MaxValueReached)))"

definition without_upstream_part ::
  "ExtendedExtranonce \<Rightarrow> Extranonce option \<Rightarrow> (Extranonce, ExtendedExtranonceError) result" where
  "without_upstream_part self downstream =
     (case downstream of
        Some d \<Rightarrow>
          if length (extranonce d) \<noteq> stop (range_2 self) - start (range_2 self)
          then Err InvalidDownstreamLength
          else rbind (slice_range (inner_bytes self) (start (range_1 self)) (stop (range_1 self)))
            (\<lambda>res. try_extranonce (res @ extranonce d))
      | None \<Rightarrow>
          rbind (slice_range (inner_bytes self) (start (range_1 self)) (stop (range_2 self)))
            try_extranonce)"

definition upstream_part :: "ExtendedExtranonce \<Rightarrow> (Extranonce, ExtendedExtranonceError) result" where
  "upstream_part self =
     rbind (slice_range (inner_bytes self) (start (range_0 self)) (stop (range_1 self)))
       (\<lambda>v. expect (extranonce_try_from v))"

section \<open>Counting\<close>

definition nat_of_be :: "bytes \<Rightarrow> nat" where
  "nat_of_be bs = nat_of_le (rev bs)"

lemma nat_of_be_append: "nat_of_be (xs @ ys) = nat_of_be xs * 256 ^ length ys + nat_of_be ys"
  by (simp add: nat_of_be_def nat_of_le_append ac_simps)

lemma nat_of_be_bound: "nat_of_be bs < 256 ^ length bs"
  using nat_of_le_bound [of "rev bs"] by (simp add: nat_of_be_def)

lemma nat_of_be_inject: "length xs = length ys \<Longrightarrow> nat_of_be xs = nat_of_be ys \<longleftrightarrow> xs = ys"
  using nat_of_le_inject [of "rev xs" "rev ys"] by (auto simp: nat_of_be_def)

lemma unat_succ_u8: "(b :: u8) \<noteq> 255 \<Longrightarrow> unat (b + 1) = unat b + 1"
proof -
  assume "b \<noteq> 255"
  then have "unat b \<noteq> 255" by (simp add: word_unat_eq_iff)
  then have "unat b + 1 < 2 ^ LENGTH(8)" using unsigned_less [of b, where ?'a = nat] by simp
  then show ?thesis by (simp add: unat_word_ariths)
qed

lemma carry_correct:
  "carry bs = (ok, bs') \<Longrightarrow> length bs' = length bs \<and>
     (ok \<longrightarrow> nat_of_le bs' = nat_of_le bs + 1) \<and> (\<not> ok \<longrightarrow> bs = replicate (length bs) 255)"
proof (induction bs arbitrary: ok bs')
  case (Cons b bs)
  show ?case
  proof (cases "b = 255")
    case True
    obtain k cs where "carry bs = (k, cs)" by (cases "carry bs")
    with Cons.IH [OF this] Cons.prems True show ?thesis by auto
  next
    case False
    with Cons.prems show ?thesis by (auto simp: unat_succ_u8)
  qed
qed simp

lemma increment_bytes_be_length: "length (fst (increment_bytes_be bs)) = length bs"
  using carry_correct [of "rev bs"] by (auto simp: increment_bytes_be_def split: prod.splits bool.splits)

lemma increment_bytes_be_Ok:
  "increment_bytes_be bs = (bs', Ok u) \<Longrightarrow> nat_of_be bs' = nat_of_be bs + 1"
  using carry_correct [of "rev bs"]
  by (auto simp: increment_bytes_be_def nat_of_be_def split: prod.splits bool.splits)

lemma increment_bytes_be_Err:
  "increment_bytes_be bs = (bs', Err u) \<Longrightarrow> bs' = bs \<and> bs = replicate (length bs) 255"
  using carry_correct [of "rev bs"]
  by (auto simp: increment_bytes_be_def rev_swap split: prod.splits bool.splits)

lemma increment_bytes_be_no_panic: "snd (increment_bytes_be bs) \<noteq> Panic"
  by (auto simp: increment_bytes_be_def split: prod.splits bool.splits)

lemma nat_of_be_max: "nat_of_be (replicate n 255) + 1 = 256 ^ n"
proof (induction n)
  case (Suc n)
  have "replicate (Suc n) 255 = replicate n 255 @ [255 :: u8]" by (simp add: replicate_append_same)
  moreover have "nat_of_be [255] = 255" by (simp add: nat_of_be_def)
  ultimately have "nat_of_be (replicate (Suc n) 255) + 1 = (nat_of_be (replicate n 255) + 1) * 256"
    by (simp only: nat_of_be_append) simp
  with Suc show ?case by simp
qed (simp add: nat_of_be_def)

lemma increment_bytes_be_iff:
  "snd (increment_bytes_be bs) = Ok () \<longleftrightarrow> nat_of_be bs + 1 < 256 ^ length bs"
proof (cases "increment_bytes_be bs")
  case (Pair bs' r)
  show ?thesis
  proof (cases r)
    case (Ok u)
    with Pair have "nat_of_be bs' = nat_of_be bs + 1" "length bs' = length bs"
      using increment_bytes_be_Ok increment_bytes_be_length [of bs] by auto
    then show ?thesis using Pair Ok nat_of_be_bound [of bs'] by simp
  next
    case (Err u)
    then have bs: "bs = replicate (length bs) 255" using increment_bytes_be_Err Pair by blast
    have "nat_of_be bs + 1 = 256 ^ length bs" using nat_of_be_max [of "length bs"] bs by simp
    then show ?thesis using Pair Err by simp
  next
    case Panic
    then show ?thesis using Pair increment_bytes_be_no_panic [of bs] by simp
  qed
qed


section \<open>The extended extranonce keeps its shape\<close>

definition extended_wf :: "ExtendedExtranonce \<Rightarrow> bool" where
  "extended_wf x \<longleftrightarrow> \<not> ranges_invalid (range_0 x) (range_1 x) (range_2 x) \<and>
     stop (range_2 x) \<le> MAX_EXTRANONCE_LEN \<and> stop (range_2 x) \<le> length (inner_bytes x) \<and>
     (case static_prefix x of
        Some p \<Rightarrow> length p \<le> min 2 (stop (range_1 x) - start (range_1 x)) \<and>
                  take (length p) (drop (start (range_1 x)) (inner_bytes x)) = p
      | None \<Rightarrow> True)"

definition prefix_of :: "ExtendedExtranonce \<Rightarrow> bytes" where
  "prefix_of x = take (stop (range_1 x)) (inner_bytes x)"

definition used_of :: "ExtendedExtranonce \<Rightarrow> bytes" where
  "used_of x = take (stop (range_2 x)) (inner_bytes x)"

lemma extended_wf_ranges:
  assumes "extended_wf x"
  shows "start (range_0 x) = 0" "start (range_1 x) \<le> extended_part_start x"
    "extended_part_start x \<le> stop (range_1 x)" "stop (range_1 x) \<le> stop (range_2 x)"
    "start (range_2 x) = stop (range_1 x)" "stop (range_2 x) \<le> length (inner_bytes x)"
    "stop (range_2 x) \<le> 32" "stop (range_0 x) = start (range_1 x)"
  using assms
  by (auto simp: extended_wf_def ranges_invalid_def extended_part_start_def MAX_EXTRANONCE_LEN_def
    split: option.splits)

lemma extended_new_wf:
  assumes "extended_new r0 r1 r2 prefix = Ok x"
  shows "extended_wf x \<and> prefix_of x = replicate (start r1) 0 @
    (case prefix of Some p \<Rightarrow> p | None \<Rightarrow> []) @
    replicate (stop r1 - start r1 - (case prefix of Some p \<Rightarrow> length p | None \<Rightarrow> 0)) 0"
  using assms
  by (auto simp: extended_new_def extended_wf_def prefix_of_def ranges_invalid_def write_at_def
      take_replicate drop_replicate min_def
    split: if_splits option.splits simp flip: replicate_add)

lemma from_upstream_wf:
  assumes "from_upstream_extranonce v r0 r1 r2 = Ok x"
  shows "extended_wf x \<and> inner_bytes x = vec_resize (extranonce v) (stop r2) 0"
  using assms
  by (auto simp: from_upstream_extranonce_def extended_wf_def vec_resize_def split: if_splits)

lemma increment_range_spec:
  assumes "from \<le> to" and "to \<le> length (inner_bytes x)"
  shows "increment_range x from to =
    (let part = drop from (take to (inner_bytes x)) in
     Ok (x\<lparr>inner_bytes := take from (inner_bytes x) @ fst (increment_bytes_be part) @
              drop to (inner_bytes x)\<rparr>, snd (increment_bytes_be part)))"
  using assms increment_bytes_be_length [of "drop from (take to (inner_bytes x))"]
  by (auto simp: increment_range_def slice_range_def write_at_def Let_def split: prod.split)

lemma increment_range_cases:
  assumes "from \<le> to" and "to \<le> length (inner_bytes x)"
  obtains (incremented) y where "increment_range x from to = Ok (y, Ok ())"
      "nat_of_be (take to (inner_bytes y)) = nat_of_be (take to (inner_bytes x)) + 1"
      "take from (inner_bytes y) = take from (inner_bytes x)"
      "drop to (inner_bytes y) = drop to (inner_bytes x)"
      "length (inner_bytes y) = length (inner_bytes x)"
      "y = x\<lparr>inner_bytes := inner_bytes y\<rparr>"
      "nat_of_be (drop from (take to (inner_bytes x))) + 1 < 256 ^ (to - from)"
  | (exhausted) "increment_range x from to = Ok (x, Err ())"
      "drop from (take to (inner_bytes x)) = replicate (to - from) 255"
proof -
  let ?part = "drop from (take to (inner_bytes x))"
  obtain part' r where inc: "increment_bytes_be ?part = (part', r)" by fastforce
  have len: "length part' = to - from" "length ?part = to - from"
    using increment_bytes_be_length [of ?part] inc assms by auto
  have split: "take to (inner_bytes x) = take from (inner_bytes x) @ ?part"
    using assms by (metis append_take_drop_id min.absorb1 take_take)
  consider u where "r = Ok u" | u where "r = Err u"
    using increment_bytes_be_no_panic [of ?part] inc by (cases r) auto
  then show ?thesis
  proof cases
    case 1
    let ?y = "x\<lparr>inner_bytes := take from (inner_bytes x) @ part' @ drop to (inner_bytes x)\<rparr>"
    have "increment_range x from to = Ok (?y, Ok ())"
      using increment_range_spec [OF assms] inc 1 by (simp add: Let_def)
    moreover have "nat_of_be part' = nat_of_be ?part + 1"
      using increment_bytes_be_Ok inc 1 by blast
    then have "nat_of_be (take to (inner_bytes ?y)) = nat_of_be (take to (inner_bytes x)) + 1"
      using assms len by (subst split) (simp add: nat_of_be_append)
    moreover have "nat_of_be ?part + 1 < 256 ^ (to - from)"
      using increment_bytes_be_iff [of ?part] inc 1 len by simp
    ultimately show ?thesis using assms len by (intro incremented [of ?y]) auto
  next
    case 2
    then have *: "part' = ?part" "?part = replicate (to - from) 255"
      using increment_bytes_be_Err [of ?part part'] inc len by auto
    have "take from (inner_bytes x) @ ?part @ drop to (inner_bytes x) = inner_bytes x"
      using split by (metis append.assoc append_take_drop_id)
    then have "increment_range x from to = Ok (x, Err ())"
      using increment_range_spec [OF assms] inc 2 *(1) by (simp add: Let_def)
    with * show ?thesis by (intro exhausted)
  qed
qed


section \<open>Handing out prefixes\<close>

lemma used_of_split:
  assumes "extended_wf x"
  shows "used_of x = prefix_of x @ drop (stop (range_1 x)) (used_of x)"
    "length (used_of x) = stop (range_2 x)" "length (prefix_of x) = stop (range_1 x)"
  using extended_wf_ranges [OF assms]
  by (auto simp: used_of_def prefix_of_def min_def) (metis append_take_drop_id min.absorb1 take_take)

text \<open>An operation that changes only bytes at or after \<open>from\<close> keeps the shape.\<close>

lemma extended_wf_update:
  assumes "extended_wf x" and "y = x\<lparr>inner_bytes := inner_bytes y\<rparr>"
    and "length (inner_bytes y) = length (inner_bytes x)"
    and "take (extended_part_start x) (inner_bytes y) = take (extended_part_start x) (inner_bytes x)"
  shows "extended_wf y"
proof -
  have same: "range_0 y = range_0 x" "range_1 y = range_1 x" "range_2 y = range_2 x"
    "static_prefix y = static_prefix x"
    by (subst assms(2), simp)+
  have "take (length p) (drop (start (range_1 x)) (inner_bytes y)) =
      take (length p) (drop (start (range_1 x)) (inner_bytes x))" if "static_prefix x = Some p" for p
    using arg_cong [OF assms(4), of "drop (start (range_1 x))"] that
    by (simp add: drop_take extended_part_start_def)
  then show ?thesis
    using assms(1,3) by (simp add: extended_wf_def same split: option.splits)
qed

lemma next_prefix_extended_cases:
  assumes "extended_wf x"
  obtains (too_long) "next_prefix_extended x n = Ok (x, Err InvalidDownstreamLength)"
      "get_range2_len x < n"
  | (exhausted) "next_prefix_extended x n = Ok (x, Err MaxValueReached)" "n \<le> get_range2_len x"
  | (allocated) y where "next_prefix_extended x n = Ok (y, Ok \<lparr>extranonce = prefix_of y\<rparr>)"
      "n \<le> get_range2_len x" "extended_wf y" "y = x\<lparr>inner_bytes := inner_bytes y\<rparr>"
      "nat_of_be (prefix_of y) = nat_of_be (prefix_of x) + 1"
      "drop (stop (range_1 x)) (used_of y) = drop (stop (range_1 x)) (used_of x)"
      "take (extended_part_start x) (prefix_of y) = take (extended_part_start x) (prefix_of x)"
proof (cases "n \<le> get_range2_len x")
  case False
  then show ?thesis by (intro too_long) (simp_all add: next_prefix_extended_def get_range2_len_def)
next
  case True
  note r = extended_wf_ranges [OF assms]
  have le: "extended_part_start x \<le> stop (range_1 x)" "stop (range_1 x) \<le> length (inner_bytes x)"
    using r by auto
  show ?thesis
  proof (rule increment_range_cases [OF le])
    fix y assume y: "increment_range x (extended_part_start x) (stop (range_1 x)) = Ok (y, Ok ())"
      "nat_of_be (take (stop (range_1 x)) (inner_bytes y)) =
         nat_of_be (take (stop (range_1 x)) (inner_bytes x)) + 1"
      "take (extended_part_start x) (inner_bytes y) = take (extended_part_start x) (inner_bytes x)"
      "drop (stop (range_1 x)) (inner_bytes y) = drop (stop (range_1 x)) (inner_bytes x)"
      "length (inner_bytes y) = length (inner_bytes x)" "y = x\<lparr>inner_bytes := inner_bytes y\<rparr>"
    have same: "range_1 y = range_1 x" "range_2 y = range_2 x" by (subst y(6), simp)+
    have "next_prefix_extended x n = Ok (y, Ok \<lparr>extranonce = prefix_of y\<rparr>)"
      using True r y(1,5)
      by (simp add: next_prefix_extended_def get_range2_len_def slice_range_def same try_extranonce_def
        extranonce_try_from_def prefix_of_def MAX_EXTRANONCE_LEN_def)
    then show thesis
      using True y extended_wf_update [OF assms y(6,5,3)] r
      by (intro allocated [of y])
        (simp_all add: prefix_of_def used_of_def same drop_take min_def)
  next
    assume "increment_range x (extended_part_start x) (stop (range_1 x)) = Ok (x, Err ())"
    then show thesis
      using True by (intro exhausted) (simp_all add: next_prefix_extended_def get_range2_len_def)
  qed
qed

lemma next_prefix_standard_cases:
  assumes "extended_wf x"
  obtains (exhausted) "next_prefix_standard x = Ok (x, Err MaxValueReached)"
  | (allocated) y where "next_prefix_standard x = Ok (y, Ok \<lparr>extranonce = used_of y\<rparr>)"
      "extended_wf y" "y = x\<lparr>inner_bytes := inner_bytes y\<rparr>"
      "nat_of_be (used_of y) = nat_of_be (used_of x) + 1" "prefix_of y = prefix_of x"
proof -
  note r = extended_wf_ranges [OF assms]
  have le: "start (range_2 x) \<le> stop (range_2 x)" "stop (range_2 x) \<le> length (inner_bytes x)"
    using r by auto
  show ?thesis
  proof (rule increment_range_cases [OF le])
    fix y assume y: "increment_range x (start (range_2 x)) (stop (range_2 x)) = Ok (y, Ok ())"
      "nat_of_be (take (stop (range_2 x)) (inner_bytes y)) =
         nat_of_be (take (stop (range_2 x)) (inner_bytes x)) + 1"
      "take (start (range_2 x)) (inner_bytes y) = take (start (range_2 x)) (inner_bytes x)"
      "length (inner_bytes y) = length (inner_bytes x)" "y = x\<lparr>inner_bytes := inner_bytes y\<rparr>"
    have same: "range_1 y = range_1 x" "range_2 y = range_2 x" by (subst y(5), simp)+
    have "take (extended_part_start x) (inner_bytes y) = take (extended_part_start x) (inner_bytes x)"
      using arg_cong [OF y(3), of "take (extended_part_start x)"] r by (simp add: min_def)
    from extended_wf_update [OF assms y(5,4) this] y r show thesis
      by (intro allocated [of y])
        (simp_all add: next_prefix_standard_def used_of_def prefix_of_def same)
  next
    assume "increment_range x (start (range_2 x)) (stop (range_2 x)) = Ok (x, Err ())"
    then show thesis by (intro exhausted) (simp add: next_prefix_standard_def)
  qed
qed

section \<open>Sequences of requests\<close>

text \<open>
  The allocator of a pool serves requests to open standard and extended channels one after the
  other; a request that fails allocates nothing. The result is the final state with the extranonces
  given to standard and to extended channels, in order.
\<close>

datatype channel_request = Standard | Extended nat

fun allocate ::
  "ExtendedExtranonce \<Rightarrow> channel_request list \<Rightarrow>
   (ExtendedExtranonce \<times> Extranonce list \<times> Extranonce list, ExtendedExtranonceError) result" where
  "allocate x [] = Ok (x, [], [])"
| "allocate x (Standard # rs) =
     rbind (next_prefix_standard x) (\<lambda>(x, r).
       rbind (allocate x rs) (\<lambda>(y, ss, es).
         Ok (y, (case r of Ok e \<Rightarrow> e # ss | _ \<Rightarrow> ss), es)))"
| "allocate x (Extended n # rs) =
     rbind (next_prefix_extended x n) (\<lambda>(x, r).
       rbind (allocate x rs) (\<lambda>(y, ss, es).
         Ok (y, ss, (case r of Ok e \<Rightarrow> e # es | _ \<Rightarrow> es))))"

text \<open>Extranonces that grow strictly, all of length \<open>n\<close> and above \<open>v\<close>.\<close>

definition increasing :: "nat \<Rightarrow> nat \<Rightarrow> Extranonce list \<Rightarrow> bool" where
  "increasing n v es \<longleftrightarrow>
     sorted_wrt (\<lambda>a b. nat_of_be (extranonce a) < nat_of_be (extranonce b)) es \<and>
     (\<forall>e \<in> set es. length (extranonce e) = n \<and> v < nat_of_be (extranonce e))"

lemma increasing_weaken: "increasing n v es \<Longrightarrow> u \<le> v \<Longrightarrow> increasing n u es"
  by (auto simp: increasing_def)

lemma increasing_Cons:
  "increasing n (nat_of_be (extranonce e)) es \<Longrightarrow> length (extranonce e) = n \<Longrightarrow>
   u < nat_of_be (extranonce e) \<Longrightarrow> increasing n u (e # es)"
  by (auto simp: increasing_def)

lemma increasing_distinct: "increasing n v es \<Longrightarrow> distinct (map extranonce es)"
proof (induction es)
  case (Cons e es)
  then have "\<forall>a \<in> set es. nat_of_be (extranonce e) < nat_of_be (extranonce a)" "increasing n v es"
    by (simp_all add: increasing_def)
  with Cons.IH show ?case by force
qed simp

lemma nat_of_be_prefix_mono:
  assumes "extended_wf x" and "extended_wf y" and "range_1 y = range_1 x" and "range_2 y = range_2 x"
    and "nat_of_be (prefix_of x) \<le> nat_of_be (prefix_of y)"
    and "drop (stop (range_1 x)) (used_of y) = drop (stop (range_1 x)) (used_of x)"
  shows "nat_of_be (used_of x) \<le> nat_of_be (used_of y)"
proof -
  have "nat_of_be (used_of z) = nat_of_be (prefix_of z) *
      256 ^ length (drop (stop (range_1 z)) (used_of z)) + nat_of_be (drop (stop (range_1 z)) (used_of z))"
    if "extended_wf z" for z
    by (subst used_of_split(1) [OF that]) (rule nat_of_be_append)
  from this [OF assms(1)] this [OF assms(2)] assms(3-6) show ?thesis by (simp add: mult_le_mono1)
qed

lemma allocate_increasing:
  assumes "extended_wf x"
  shows "\<exists>y ss es. allocate x rs = Ok (y, ss, es) \<and> extended_wf y \<and> range_1 y = range_1 x \<and>
    range_2 y = range_2 x \<and> increasing (stop (range_2 x)) (nat_of_be (used_of x)) ss \<and>
    increasing (stop (range_1 x)) (nat_of_be (prefix_of x)) es"
  using assms
proof (induction x rs rule: allocate.induct)
  case (1 x)
  then show ?case by (simp add: increasing_def)
next
  case (2 x rs)
  show ?case
  proof (rule next_prefix_standard_cases [OF 2(2)])
    assume "next_prefix_standard x = Ok (x, Err MaxValueReached)"
    with 2(1) [OF 2(2)] show ?thesis by auto
  next
    fix y assume y: "next_prefix_standard x = Ok (y, Ok \<lparr>extranonce = used_of y\<rparr>)" "extended_wf y"
      "y = x\<lparr>inner_bytes := inner_bytes y\<rparr>" "nat_of_be (used_of y) = nat_of_be (used_of x) + 1"
      "prefix_of y = prefix_of x"
    have same: "range_1 y = range_1 x" "range_2 y = range_2 x" by (subst y(3), simp)+
    from 2(1) [OF y(2)] obtain z ss es where
      "allocate y rs = Ok (z, ss, es)" "extended_wf z" "range_1 z = range_1 y" "range_2 z = range_2 y"
      "increasing (stop (range_2 y)) (nat_of_be (used_of y)) ss"
      "increasing (stop (range_1 y)) (nat_of_be (prefix_of y)) es" by blast
    note z = this
    have "allocate x (Standard # rs) = Ok (z, \<lparr>extranonce = used_of y\<rparr> # ss, es)"
      using y(1) z(1) by simp
    moreover have "increasing (stop (range_2 x)) (nat_of_be (used_of x)) (\<lparr>extranonce = used_of y\<rparr> # ss)"
      using z(5) y(4) used_of_split(2) [OF y(2)] same by (intro increasing_Cons) simp_all
    ultimately show ?thesis
      using z same y(5) by (intro exI [of _ z] exI [of _ "\<lparr>extranonce = used_of y\<rparr> # ss"]
        exI [of _ es] conjI) simp_all
  qed
next
  case (3 x n rs)
  show ?case
  proof (rule next_prefix_extended_cases [OF 3(2), of n])
    fix y assume y: "next_prefix_extended x n = Ok (y, Ok \<lparr>extranonce = prefix_of y\<rparr>)"
      "extended_wf y" "y = x\<lparr>inner_bytes := inner_bytes y\<rparr>"
      "nat_of_be (prefix_of y) = nat_of_be (prefix_of x) + 1"
      "drop (stop (range_1 x)) (used_of y) = drop (stop (range_1 x)) (used_of x)"
    have same: "range_1 y = range_1 x" "range_2 y = range_2 x" by (subst y(3), simp)+
    from 3(1) [OF y(2)] obtain z ss es where
      "allocate y rs = Ok (z, ss, es)" "extended_wf z" "range_1 z = range_1 y" "range_2 z = range_2 y"
      "increasing (stop (range_2 y)) (nat_of_be (used_of y)) ss"
      "increasing (stop (range_1 y)) (nat_of_be (prefix_of y)) es" by blast
    note z = this
    have "allocate x (Extended n # rs) = Ok (z, ss, \<lparr>extranonce = prefix_of y\<rparr> # es)"
      using y(1) z(1) by simp
    moreover have "increasing (stop (range_1 x)) (nat_of_be (prefix_of x)) (\<lparr>extranonce = prefix_of y\<rparr> # es)"
      using z(6) y(4) used_of_split(3) [OF y(2)] same by (intro increasing_Cons) simp_all
    moreover have "increasing (stop (range_2 x)) (nat_of_be (used_of x)) ss"
      using z(5) same y(4,5) nat_of_be_prefix_mono [OF 3(2) y(2) same]
      by (intro increasing_weaken [OF z(5) [unfolded same]]) simp
    ultimately show ?thesis
      using z same by (intro exI [of _ z] exI [of _ ss]
        exI [of _ "\<lparr>extranonce = prefix_of y\<rparr> # es"] conjI) simp_all
  next
    assume *: "next_prefix_extended x n = Ok (x, Err InvalidDownstreamLength)"
    with 3(1) [OF 3(2)] show ?thesis by auto
  next
    assume *: "next_prefix_extended x n = Ok (x, Err MaxValueReached)"
    with 3(1) [OF 3(2)] show ?thesis by auto
  qed
qed

section \<open>Targets as 256-bit numbers\<close>

definition target_nat :: "Target \<Rightarrow> nat" where
  "target_nat t = unat (head t) + 2 ^ 128 * unat (tail t)"

lemma two_digits_less:
  fixes a b c d :: nat
  assumes "a < k" and "b < d"
  shows "a + k * b < c + k * d"
proof -
  have "k * Suc b \<le> k * d" using assms(2) by (intro mult_le_mono2) simp
  with assms(1) show ?thesis by simp
qed

lemma target_less_iff: "s < t \<longleftrightarrow> target_nat s < target_nat t"
proof -
  have bound: "unat (head u) < 2 ^ 128" for u
    using unsigned_less [of "head u", where ?'a = nat] by simp
  consider "tail s = tail t" | "tail s < tail t" | "tail t < tail s" by fastforce
  then show ?thesis
  proof cases
    case 1
    then show ?thesis
      by (auto simp: less_Target_def target_cmp_def u128_cmp_def target_nat_def word_less_nat_alt)
  next
    case 2
    then show ?thesis
      using two_digits_less [OF bound [of s], of "unat (tail s)" "unat (tail t)" "unat (head t)"]
      by (auto simp: less_Target_def target_cmp_def u128_cmp_def target_nat_def word_less_nat_alt)
  next
    case 3
    then show ?thesis
      using two_digits_less [OF bound [of t], of "unat (tail t)" "unat (tail s)" "unat (head s)"]
      by (auto simp: less_Target_def target_cmp_def u128_cmp_def target_nat_def word_less_nat_alt)
  qed
qed

lemma u256_from_target_Ok:
  "u256_from_target t = Ok (Owned (to_le_bytes (head t) @ to_le_bytes (tail t)))"
  by (simp add: u256_from_target_def inner_try_from_vec_def U256_def)

lemma target_bytes_value:
  "nat_of_le (to_le_bytes (head t) @ to_le_bytes (tail t)) = target_nat t"
proof -
  have v: "nat_of_le (to_le_bytes (w :: u128)) = unat w" for w
    using unat_from_le_bytes [of "to_le_bytes w", where ?'a = 128] by (simp add: bytes_simps)
  show ?thesis by (simp add: nat_of_le_append v target_nat_def)
qed

lemma target_roundtrip: "rbind (u256_from_target t) target_from_u256 = Ok t"
  by (simp add: u256_from_target_Ok target_from_u256_def target_from_bytes_def bytes_simps)

section \<open>Properties\<close>

text \<open>C26: Incrementing a slice of bytes adds one to the big-endian number it holds and keeps its
  length; it fails exactly when every byte is 255, and then leaves the slice as it was.\<close>

theorem increment_bytes_be_spec:
  "(nat_of_be bs + 1 < 256 ^ length bs \<longrightarrow>
      snd (increment_bytes_be bs) = Ok () \<and> nat_of_be (fst (increment_bytes_be bs)) = nat_of_be bs + 1) \<and>
   (nat_of_be bs + 1 = 256 ^ length bs \<longrightarrow> increment_bytes_be bs = (bs, Err ())) \<and>
   length (fst (increment_bytes_be bs)) = length bs"
proof (cases "increment_bytes_be bs")
  case (Pair bs' r)
  show ?thesis
  proof (cases r)
    case (Ok u)
    then show ?thesis
      using Pair increment_bytes_be_Ok [of bs bs'] increment_bytes_be_length [of bs]
        increment_bytes_be_iff [of bs] by auto
  next
    case (Err u)
    then show ?thesis
      using Pair increment_bytes_be_Err [of bs bs'] increment_bytes_be_length [of bs]
        increment_bytes_be_iff [of bs] by auto
  next
    case Panic
    then show ?thesis using Pair increment_bytes_be_no_panic [of bs] by simp
  qed
qed

theorem increment_bytes_be_spec_witness:
  "snd (increment_bytes_be [0, 255]) = Ok () \<and> increment_bytes_be [255, 255] = ([255, 255], Err ())"
  using increment_bytes_be_spec [of "[0, 255]"] increment_bytes_be_spec [of "[255, 255]"]
  by (simp add: nat_of_be_def)

text \<open>C11: Whatever sequence of requests for standard and extended channels an extended extranonce
  serves, no call panics, no two extended channels get the same extranonce prefix and no two
  standard channels the same extranonce, and each has the length of its range.\<close>

theorem allocate_distinct:
  assumes "extended_new r0 r1 r2 prefix = Ok x"
  shows "\<exists>y ss es. allocate x rs = Ok (y, ss, es) \<and> extended_wf y \<and>
    distinct (map extranonce ss) \<and> distinct (map extranonce es) \<and>
    (\<forall>e \<in> set ss. length (extranonce e) = stop r2) \<and> (\<forall>e \<in> set es. length (extranonce e) = stop r1)"
proof -
  have "extended_wf x" "range_1 x = r1" "range_2 x = r2"
    using assms extended_new_wf [OF assms] by (auto simp: extended_new_def split: if_splits)
  with allocate_increasing [of x rs] obtain y ss es where
    y: "allocate x rs = Ok (y, ss, es)" "extended_wf y"
      "increasing (stop r2) (nat_of_be (used_of x)) ss"
      "increasing (stop r1) (nat_of_be (prefix_of x)) es" by auto
  then show ?thesis
    using increasing_distinct [OF y(3)] increasing_distinct [OF y(4)]
    by (intro exI [of _ y] exI [of _ ss] exI [of _ es] conjI) (simp_all add: increasing_def)
qed

theorem allocate_distinct_witness:
  "\<exists>x y ss es. extended_new \<lparr>start = 0, stop = 0\<rparr> \<lparr>start = 0, stop = 7\<rparr> \<lparr>start = 7, stop = 32\<rparr>
      (Some [0x42, 0x43]) = Ok x \<and>
    allocate x [Extended 3, Standard, Extended 26, Extended 25] = Ok (y, ss, es) \<and>
    distinct (map extranonce es)"
proof -
  obtain x where "extended_new \<lparr>start = 0, stop = 0\<rparr> \<lparr>start = 0, stop = 7\<rparr> \<lparr>start = 7, stop = 32\<rparr>
      (Some [0x42, 0x43]) = Ok x"
    by (simp add: extended_new_def ranges_invalid_def MAX_EXTRANONCE_LEN_def)
  with allocate_distinct [OF this, of "[Extended 3, Standard, Extended 26, Extended 25]"]
  show ?thesis by blast
qed

text \<open>C30: An extranonce given to a standard channel begins with the prefix given to the last
  extended channel. The holder of that prefix may choose the remaining bytes freely, so the two
  channels can search the same space, although each downstream is documented to get a unique one.\<close>

theorem standard_inside_last_extended:
  assumes "extended_wf x" and "next_prefix_extended x n = Ok (y, Ok p)"
    and "next_prefix_standard y = Ok (z, Ok e)"
  shows "take (length (extranonce p)) (extranonce e) = extranonce p \<and>
    length (drop (length (extranonce p)) (extranonce e)) = get_range2_len x"
proof -
  have y': "extended_wf y \<and> p = \<lparr>extranonce = prefix_of y\<rparr> \<and> y = x\<lparr>inner_bytes := inner_bytes y\<rparr>"
    by (rule next_prefix_extended_cases [OF assms(1), of n]) (use assms(2) in auto)
  have same: "range_1 y = range_1 x" "range_2 y = range_2 x"
    by (subst conjunct2 [OF conjunct2 [OF y']], simp)+
  have z': "extended_wf z \<and> e = \<lparr>extranonce = used_of z\<rparr> \<and> prefix_of z = prefix_of y \<and>
      z = y\<lparr>inner_bytes := inner_bytes z\<rparr>"
    by (rule next_prefix_standard_cases [OF conjunct1 [OF y']]) (use assms(3) in auto)
  have same': "range_1 z = range_1 y" "range_2 z = range_2 y"
    by (subst conjunct2 [OF conjunct2 [OF conjunct2 [OF z']]], simp)+
  have e: "extranonce e = extranonce p @ drop (stop (range_1 z)) (used_of z)"
    using used_of_split(1) [of z] y' z' by simp
  moreover have "length (extranonce e) = stop (range_2 x)" "length (extranonce p) = stop (range_1 x)"
    using used_of_split(2) [of z] used_of_split(3) [of y] y' z' same same' by simp_all
  ultimately show ?thesis
    using extended_wf_ranges(5) [OF assms(1)] by (simp add: get_range2_len_def)
qed

theorem standard_inside_last_extended_witness:
  "\<exists>x y z p e. extended_wf x \<and> next_prefix_extended x 1 = Ok (y, Ok p) \<and>
     next_prefix_standard y = Ok (z, Ok e) \<and> take 1 (extranonce e) = extranonce p"
proof -
  let ?x = "\<lparr>inner_bytes = [0, 0], range_0 = \<lparr>start = 0, stop = 0\<rparr>,
    range_1 = \<lparr>start = 0, stop = 1\<rparr>, range_2 = \<lparr>start = 1, stop = 2\<rparr>, static_prefix = None\<rparr>"
  have wf: "extended_wf ?x"
    by (simp add: extended_wf_def ranges_invalid_def MAX_EXTRANONCE_LEN_def)
  have p: "next_prefix_extended ?x 1 = Ok (?x\<lparr>inner_bytes := [1, 0]\<rparr>, Ok \<lparr>extranonce = [1]\<rparr>)"
    by (simp add: next_prefix_extended_def increment_range_def slice_range_def extended_part_start_def
      increment_bytes_be_def write_at_def try_extranonce_def extranonce_try_from_def
      MAX_EXTRANONCE_LEN_def)
  have e: "next_prefix_standard (?x\<lparr>inner_bytes := [1, 0]\<rparr>) =
      Ok (?x\<lparr>inner_bytes := [1, 1]\<rparr>, Ok \<lparr>extranonce = [1, 1]\<rparr>)"
    by (simp add: next_prefix_standard_def increment_range_def slice_range_def
      increment_bytes_be_def write_at_def)
  show ?thesis
    using standard_inside_last_extended [OF wf p e] wf p e by auto
qed



text \<open>C27: Targets are ordered as the 256-bit numbers that their little-endian bytes on the wire
  stand for, and converting a target to its wire form and back is the identity.\<close>

theorem target_order_is_numeric:
  "(s < t \<longleftrightarrow> target_nat s < target_nat t) \<and> (s \<le> t \<longleftrightarrow> target_nat s \<le> target_nat t) \<and>
   rbind (u256_from_target t) target_from_u256 = Ok t \<and>
   (\<exists>bs. u256_from_target t = Ok (Owned bs) \<and> length bs = 32 \<and> nat_of_le bs = target_nat t)"
  using target_less_iff [of s t] target_less_iff [of t s] target_roundtrip [of t]
  by (auto simp: u256_from_target_Ok target_bytes_value not_less [symmetric])

end
