(* ===== verification/Floats.thy ===== *)
theory Floats
  imports Prelude "HOL-Library.Log_Nat"
begin

text \<open>The fragment of IEEE 754 arithmetic the channel code relies on. A finite double is its sign and
  its exact rational magnitude; every operation is computed exactly and rounded to the nearest
  representable double, ties to even, with gradual underflow and overflow to infinity. Casts to
  unsigned integers truncate and saturate, as Rust's \<open>as\<close> does, and a NaN casts to zero. The sign
  of a NaN matters only for the sign tests on inputs, so results that are NaN carry no sign.\<close>

section \<open>Doubles and rounding\<close>

datatype f64 = Finite (negative: bool) (magnitude: rat) | Infinite bool | NaN bool

definition round_half_even :: "rat \<Rightarrow> int" where
  "round_half_even x =
     (let n = \<lfloor>x\<rfloor>; r = x - of_int n in
      if r < 1 / 2 then n else if 1 / 2 < r then n + 1 else if even n then n else n + 1)"

definition exponent_of :: "rat \<Rightarrow> int" where
  "exponent_of x =
     (case quotient_of x of (a, b) \<Rightarrow>
        let e = int (floorlog 2 (nat a)) - int (floorlog 2 (nat b)) in
        if x < 2 powi e then e - 1 else e)"

definition f64_round :: "bool \<Rightarrow> rat \<Rightarrow> f64" where
  "f64_round s x =
     (if x = 0 then Finite s 0
      else let q = max (exponent_of x - 52) (- 1074);
               y = of_int (round_half_even (x / 2 powi q)) * 2 powi q
           in if 2 ^ 1024 \<le> y then Infinite s else Finite s y)"

definition f64_zero :: f64 where "f64_zero = Finite False 0"

definition f64_of_nat :: "nat \<Rightarrow> f64" where
  "f64_of_nat n = f64_round False (of_nat n)"

text \<open>Widening the 32-bit pattern of an \<open>f32\<close> to a double is exact.\<close>

definition f64_from_f32 :: "u32 \<Rightarrow> f64" where
  "f64_from_f32 w =
     (let s = bit w 31; e = unat (take_bit 8 (drop_bit 23 w)); m = unat (take_bit 23 w) in
      if e = 255 then (if m = 0 then Infinite s else NaN s)
      else if e = 0 then Finite s (of_nat m * 2 powi (- 149))
      else Finite s (of_nat (2 ^ 23 + m) * 2 powi (int e - 150)))"

section \<open>Operations\<close>

fun f64_is_sign_negative :: "f64 \<Rightarrow> bool" where
  "f64_is_sign_negative (Finite s x) = s"
| "f64_is_sign_negative (Infinite s) = s"
| "f64_is_sign_negative (NaN s) = s"

fun f64_mul :: "f64 \<Rightarrow> f64 \<Rightarrow> f64" where
  "f64_mul (Finite s x) (Finite t y) = f64_round (s \<noteq> t) (x * y)"
| "f64_mul (Infinite s) (Infinite t) = Infinite (s \<noteq> t)"
| "f64_mul (Infinite s) (Finite t y) = (if y = 0 then NaN False else Infinite (s \<noteq> t))"
| "f64_mul (Finite s x) (Infinite t) = (if x = 0 then NaN False else Infinite (s \<noteq> t))"
| "f64_mul _ _ = NaN False"

fun f64_div :: "f64 \<Rightarrow> f64 \<Rightarrow> f64" where
  "f64_div (Finite s x) (Finite t y) =
     (if y \<noteq> 0 then f64_round (s \<noteq> t) (x / y)
      else if x = 0 then NaN False else Infinite (s \<noteq> t))"
| "f64_div (Infinite s) (Finite t y) = Infinite (s \<noteq> t)"
| "f64_div (Finite s x) (Infinite t) = Finite (s \<noteq> t) 0"
| "f64_div _ _ = NaN False"

definition signed_value :: "bool \<Rightarrow> rat \<Rightarrow> rat" where
  "signed_value s x = (if s then - x else x)"

fun f64_add :: "f64 \<Rightarrow> f64 \<Rightarrow> f64" where
  "f64_add (Finite s x) (Finite t y) =
     (let v = signed_value s x + signed_value t y in
      if v = 0 then Finite (s \<and> t) 0 else f64_round (v < 0) \<bar>v\<bar>)"
| "f64_add (Infinite s) (Infinite t) = (if s = t then Infinite s else NaN False)"
| "f64_add (Infinite s) (Finite t y) = Infinite s"
| "f64_add (Finite s x) (Infinite t) = Infinite t"
| "f64_add _ _ = NaN False"

fun f64_eq :: "f64 \<Rightarrow> f64 \<Rightarrow> bool" where
  "f64_eq (Finite s x) (Finite t y) = (signed_value s x = signed_value t y)"
| "f64_eq (Infinite s) (Infinite t) = (s = t)"
| "f64_eq _ _ = False"

fun f64_less :: "f64 \<Rightarrow> f64 \<Rightarrow> bool" where
  "f64_less (Finite s x) (Finite t y) = (signed_value s x < signed_value t y)"
| "f64_less (Infinite s) (Infinite t) = (s \<and> \<not> t)"
| "f64_less (Infinite s) (Finite t y) = s"
| "f64_less (Finite s x) (Infinite t) = (\<not> t)"
| "f64_less _ _ = False"

fun f64_as_unsigned :: "nat \<Rightarrow> f64 \<Rightarrow> nat" where
  "f64_as_unsigned w (Finite s x) = (if s then 0 else min (nat \<lfloor>x\<rfloor>) (2 ^ w - 1))"
| "f64_as_unsigned w (Infinite s) = (if s then 0 else 2 ^ w - 1)"
| "f64_as_unsigned w (NaN s) = 0"

definition f64_as_u64 :: "f64 \<Rightarrow> u64" where
  "f64_as_u64 x = of_nat (f64_as_unsigned 64 x)"

definition f64_as_u128 :: "f64 \<Rightarrow> u128" where
  "f64_as_u128 x = of_nat (f64_as_unsigned 128 x)"

section \<open>Exactness of rounding\<close>

lemma f64_as_unsigned_bound: "f64_as_unsigned w x < 2 ^ w"
proof -
  have "min a (2 ^ w - 1) < 2 ^ w" for a :: nat
    by (simp add: min_less_iff_disj)
  then show ?thesis by (cases x) auto
qed

lemma unat_f64_as_u128 [simp]: "unat (f64_as_u128 x) = f64_as_unsigned 128 x"
  using f64_as_unsigned_bound [of 128 x] by (simp add: f64_as_u128_def unat_of_nat_small)

lemma unat_f64_as_u64 [simp]: "unat (f64_as_u64 x) = f64_as_unsigned 64 x"
  using f64_as_unsigned_bound [of 64 x] by (simp add: f64_as_u64_def unat_of_nat_small)

lemma powi_split: "2 powi (a + b) = (2 powi a * 2 powi b :: rat)"
  by (simp add: power_int_add)

lemma powi_diff: "2 powi (a - b) = (2 powi a / 2 powi b :: rat)"
  by (simp add: power_int_diff)

lemma powi_mono: "a \<le> b \<Longrightarrow> (2 powi a :: rat) \<le> 2 powi b"
  by (simp add: power_int_increasing)

lemma powi_less_iff [simp]: "(2 powi a :: rat) < 2 powi b \<longleftrightarrow> a < b"
  by (metis linorder_not_less one_less_numeral_iff power_int_strict_increasing powi_mono semiring_norm(76))

lemma floorlog_powi_bounds:
  assumes "0 < n"
  shows "2 powi (int (floorlog 2 n) - 1) \<le> (of_nat n :: rat) \<and> (of_nat n :: rat) < 2 powi int (floorlog 2 n)"
proof -
  have "2 ^ (floorlog 2 n - 1) \<le> n" and "n < 2 ^ floorlog 2 n" and pos: "0 < floorlog 2 n"
    using floorlog_bounds [of n 2] assms by (auto simp: floorlog_def)
  then have "(2 ^ (floorlog 2 n - 1) :: rat) \<le> of_nat n" and "(of_nat n :: rat) < 2 ^ floorlog 2 n"
    by (metis of_nat_le_iff of_nat_numeral of_nat_power, metis of_nat_less_iff of_nat_numeral of_nat_power)
  moreover have "(2 powi (int (floorlog 2 n) - 1) :: rat) = 2 ^ (floorlog 2 n - 1)"
    using pos by (simp add: power_int_def nat_diff_distrib)
  ultimately show ?thesis by (simp add: power_int_def)
qed

text \<open>The exponent is the integral part of the binary logarithm.\<close>

lemma exponent_of_bounds:
  assumes "0 < x"
  shows "2 powi exponent_of x \<le> x \<and> x < 2 powi (exponent_of x + 1)"
proof -
  obtain a b where q: "quotient_of x = (a, b)" by force
  have b: "0 < b" and x: "x = of_int a / of_int b"
    using quotient_of_denom_pos [OF q] quotient_of_div [OF q] by auto
  with assms have a: "0 < a" by (simp add: zero_less_divide_iff)
  define e where "e = int (floorlog 2 (nat a)) - int (floorlog 2 (nat b))"
  have A: "2 powi (int (floorlog 2 (nat a)) - 1) \<le> (of_int a :: rat)"
      "(of_int a :: rat) < 2 powi int (floorlog 2 (nat a))"
    using floorlog_powi_bounds [of "nat a"] a by (simp_all add: of_nat_nat)
  have B: "2 powi (int (floorlog 2 (nat b)) - 1) \<le> (of_int b :: rat)"
      "(of_int b :: rat) < 2 powi int (floorlog 2 (nat b))"
    using floorlog_powi_bounds [of "nat b"] b by (simp_all add: of_nat_nat)
  have p: "(0 :: rat) < 2 powi k" for k by simp
  have "x < 2 powi int (floorlog 2 (nat a)) / 2 powi (int (floorlog 2 (nat b)) - 1)"
    unfolding x using A B a b p by (intro frac_less) auto
  moreover have "e + 1 = int (floorlog 2 (nat a)) - (int (floorlog 2 (nat b)) - 1)"
    by (simp add: e_def)
  ultimately have up: "x < 2 powi (e + 1)" by (simp only: powi_diff)
  have "2 powi (int (floorlog 2 (nat a)) - 1) / 2 powi int (floorlog 2 (nat b)) \<le> x"
    unfolding x using A B a b p by (intro frac_le) auto
  moreover have "e - 1 = int (floorlog 2 (nat a)) - 1 - int (floorlog 2 (nat b))"
    by (simp add: e_def)
  ultimately have low: "2 powi (e - 1) \<le> x" by (simp only: powi_diff)
  show ?thesis
    using up low by (auto simp: exponent_of_def q e_def [symmetric] Let_def)
qed

lemma round_half_even_int [simp]: "round_half_even (of_int n) = n"
  by (simp add: round_half_even_def)

text \<open>A value with a significand of at most 53 bits and an exponent in range is not changed.\<close>

lemma f64_round_exact:
  assumes "x = of_int m * 2 powi k" and "0 < m" and "m < 2 ^ 53" and "- 1074 \<le> k" and "k \<le> 971"
  shows "f64_round s x = Finite s x"
proof -
  have pos: "0 < x" using assms(1,2) by simp
  have "(of_int m :: rat) < of_int (2 ^ 53)" using assms(3) by (simp only: of_int_less_iff)
  then have "(of_int m :: rat) < 2 powi 53" by (simp add: power_int_def)
  then have up: "x < 2 powi (53 + k)"
    unfolding assms(1) powi_split by (intro mult_strict_right_mono) simp_all
  define q where "q = max (exponent_of x - 52) (- 1074)"
  have "2 powi exponent_of x < (2 powi (53 + k) :: rat)"
    using exponent_of_bounds [OF pos] up by (blast intro: le_less_trans)
  then have "q \<le> k" using assms(4) by (simp add: q_def)
  then obtain d where d: "k = q + int d" by (metis zle_iff_zadd)
  have "x = of_int (m * 2 ^ d) * 2 powi q"
    using assms(1) by (simp add: d powi_split)
  then have "x / 2 powi q = of_int (m * 2 ^ d)" and "of_int (m * 2 ^ d) * 2 powi q = x" by simp_all
  moreover have "x < 2 ^ 1024"
  proof -
    have "(2 powi (53 + k) :: rat) \<le> 2 powi 1024" using assms(5) by (intro powi_mono) simp
    with up show ?thesis by (simp add: power_int_def)
  qed
  ultimately show ?thesis
    using pos by (simp add: f64_round_def Let_def q_def [symmetric] del: of_int_mult)
qed

end
