(* ===== verification/Channel_Target.thy ===== *)
theory Channel_Target
  imports Extranonce Floats
begin

text \<open>Difficulty and target arithmetic of channels (\<open>channels-sv2/src/target.rs\<close>). The 256-bit
  integers of the \<open>primitive_types\<close> crate are words of that length.\<close>

section \<open>Difficulty of a target\<close>

definition target_u256 :: "Target \<Rightarrow> 256 word" where
  "target_u256 t = from_le_bytes (to_le_bytes (head t) @ to_le_bytes (tail t))"

definition TWO_POW_256 :: f64 where
  "TWO_POW_256 = f64_round False (1157920892373162 * 10 ^ 62)"

definition target_to_difficulty :: "Target \<Rightarrow> f64" where
  "target_to_difficulty t =
     (let target = target_u256 t;
          target_high = f64_of_nat (unat (ucast (drop_bit 128 target) :: u128));
          target_low = f64_of_nat (unat (ucast target :: u128));
          target_f64 = f64_add (f64_mul target_high (Finite False (2 ^ 128))) target_low
      in f64_div TWO_POW_256 target_f64)"

section \<open>Target of a hashrate\<close>

datatype HashRateToTargetError = DivisionByZero | NegativeInput

definition from_u128_to_u256 :: "u128 \<Rightarrow> 256 word" where
  "from_u128_to_u256 w = from_be_bytes (replicate 16 0 @ to_be_bytes w)"

definition work_per_share :: "f64 \<Rightarrow> f64 \<Rightarrow> u128" where
  "work_per_share hashrate share_per_min =
     f64_as_u128 (f64_mul hashrate (f64_div (Finite False 60) share_per_min))"

definition hash_rate_to_target :: "f64 \<Rightarrow> f64 \<Rightarrow> (inner, HashRateToTargetError) result" where
  "hash_rate_to_target hashrate share_per_min =
     (if f64_eq share_per_min f64_zero then Err DivisionByZero
      else if f64_is_sign_negative share_per_min then Err NegativeInput
      else if f64_is_sign_negative hashrate then Err NegativeInput
      else
        let h_times_s = work_per_share hashrate share_per_min;
            denominator = from_u128_to_u256 (max h_times_s (h_times_s + 1));
            two_to_256_minus_one = from_be_bytes (replicate 32 255) :: 256 word;
            numerator = two_to_256_minus_one -
              from_be_bytes (replicate 16 0 @ to_be_bytes h_times_s)
        in if denominator = 0 then Panic
           else Ok (Owned (rev (to_be_bytes (numerator div denominator)))))"

section \<open>Facts\<close>

lemma target_u256_of_u256:
  "u256_from_target t = Ok u \<Longrightarrow> from_le_bytes (inner_as_ref u) = target_u256 t"
  by (auto simp: u256_from_target_Ok target_u256_def)

lemma nat_of_le_replicate_0 [simp]: "nat_of_le (xs @ replicate n 0) = nat_of_le xs"
  by (induction xs) (simp_all, induction n, simp_all)

lemma unat_from_be_padded:
  "unat (from_be_bytes (replicate 16 0 @ to_be_bytes (w :: u128)) :: 256 word) = unat w"
proof -
  have "unat (from_le_bytes (to_le_bytes w @ replicate 16 0) :: 256 word) =
      nat_of_le (to_le_bytes w @ replicate 16 0)"
    by (rule unat_from_le_bytes) simp
  also have "\<dots> = unat w"
    using unat_from_le_bytes [of "to_le_bytes w", where ?'a = 128] by (simp add: bytes_simps)
  finally show ?thesis
    by (simp add: from_be_bytes_def to_be_bytes_def)
qed

lemma unat_from_u128_to_u256: "unat (from_u128_to_u256 w) = unat w"
  by (simp add: from_u128_to_u256_def unat_from_be_padded)

lemma nat_of_le_max: "Suc (nat_of_le (replicate n 255)) = 256 ^ n"
  by (induction n) simp_all

lemma unat_max_u256 [simp]: "unat (from_be_bytes (replicate 32 255) :: 256 word) = 2 ^ 256 - 1"
proof -
  have "unat (from_le_bytes (replicate 32 255) :: 256 word) = nat_of_le (replicate 32 255)"
    by (rule unat_from_le_bytes) simp
  moreover have "(256 :: nat) ^ 32 = 2 ^ 256" by (simp add: pow_256_bits)
  ultimately show ?thesis
    using nat_of_le_max [of 32] by (simp add: from_be_bytes_def)
qed

lemma unat_max_succ:
  "unat (max w (w + 1 :: u128)) = (if unat w = 2 ^ 128 - 1 then 2 ^ 128 - 1 else unat w + 1)"
proof (cases "unat w = 2 ^ 128 - 1")
  case True
  then show ?thesis by (simp add: max_def word_le_nat_alt unat_word_ariths)
next
  case False
  then have "Suc (unat w) < 2 ^ LENGTH(128)"
    using unsigned_less [of w, where ?'a = nat] by simp
  from unat_plus_one [OF this] False show ?thesis
    by (simp add: max_def word_le_nat_alt)
qed

lemma nat_of_le_rev_be: "nat_of_le (rev (to_be_bytes (w :: 256 word))) = unat w"
  using unat_from_le_bytes [of "to_le_bytes w", where ?'a = 256]
  by (simp add: to_be_bytes_def bytes_simps)

lemma hash_rate_to_target_value:
  assumes "\<not> f64_eq s f64_zero" and "\<not> f64_is_sign_negative s" and "\<not> f64_is_sign_negative h"
  shows "\<exists>bs. hash_rate_to_target h s = Ok (Owned bs) \<and> length bs = 32 \<and>
    nat_of_le bs = (2 ^ 256 - 1 - unat (work_per_share h s)) div
      (if unat (work_per_share h s) = 2 ^ 128 - 1 then 2 ^ 128 - 1 else unat (work_per_share h s) + 1)"
proof -
  let ?w = "work_per_share h s"
  let ?d = "from_u128_to_u256 (max ?w (?w + 1))"
  have w: "unat ?w < 2 ^ 128" using unsigned_less [of ?w, where ?'a = nat] by simp
  have d: "unat ?d = (if unat ?w = 2 ^ 128 - 1 then 2 ^ 128 - 1 else unat ?w + 1)"
    by (simp only: unat_from_u128_to_u256 unat_max_succ)
  then have "unat ?d \<noteq> 0" by simp
  then have "?d \<noteq> 0" by (auto simp only: unat_eq_zero)
  moreover have "unat (from_be_bytes (replicate 32 255) - from_be_bytes (replicate 16 0 @ to_be_bytes ?w) :: 256 word)
     = 2 ^ 256 - 1 - unat ?w"
    using w by (subst unat_sub) (simp_all add: word_le_nat_alt unat_from_be_padded)
  ultimately show ?thesis
    using assms by (simp add: hash_rate_to_target_def Let_def nat_of_le_rev_be unat_div_distrib d)
qed

lemma div_window:
  fixes n w :: nat
  assumes "w \<le> n" and "t = (n - w) div (w + 1)"
  shows "t * (w + 1) + w \<le> n \<and> n < (t + 1) * (w + 1) + w"
proof -
  have "t * (w + 1) \<le> n - w" unfolding assms(2) by (rule div_times_less_eq_dividend)
  moreover have "n - w < (t + 1) * (w + 1)"
    unfolding assms(2) using dividend_less_div_times [of "w + 1" "n - w"] by (simp add: algebra_simps)
  ultimately show ?thesis using assms(1) by linarith
qed

section \<open>Properties\<close>



end
