(* ===== verification/Codec.thy ===== *)
theory Codec
  imports Datatypes
begin

text \<open>
  The self-describing decoder and the encoder of \<open>protocols/v2/binary-sv2/codec/src/codec\<close>:
  field markers and their size hints, decoding of primitives and structures from a slice or a
  reader, encoding into a slice or a writer, and the conversions of \<open>impls.rs\<close> between Rust
  types and decoded fields. Lemmas: encoding writes exactly the wire image, decoding a wire
  image gives the encoded value back whatever follows it, and the decoding loop that every
  message goes through never panics.
\<close>

section \<open>Markers, decodable and encodable fields\<close>

datatype primitive_marker =
    M_U8 | M_U16 | M_Bool | M_U24 | M_U256 | M_Signature | M_U32 | M_U32AsRef | M_F32 | M_U64
  | M_B032 | M_B0255 | M_B064K | M_B016M

datatype field_marker = MPrimitive primitive_marker | MStruct "field_marker list"

datatype decodable_primitive =
    D_U8 u8 | D_U16 u16 | D_Bool bool | D_U24 u24 | D_U256 inner | D_Signature inner
  | D_U32 u32 | D_U32AsRef inner | D_F32 u32 | D_U64 u64 | D_B032 inner | D_B0255 inner
  | D_B064K inner | D_B016M inner

datatype decodable_field = DPrimitive decodable_primitive | DStruct "decodable_field list"

datatype encodable_primitive =
    E_U8 u8 | E_OwnedU8 u8 | E_U16 u16 | E_Bool bool | E_U24 u24 | E_U256 inner
  | E_Signature inner | E_U32 u32 | E_U32AsRef inner | E_F32 u32 | E_U64 u64 | E_B032 inner
  | E_B0255 inner | E_B064K inner | E_B016M inner

datatype encodable_field = EPrimitive encodable_primitive | EStruct "encodable_field list"

section \<open>Size hints\<close>

fun primitive_size_hint :: "primitive_marker \<Rightarrow> bytes \<Rightarrow> nat \<Rightarrow> nat sv2" where
  "primitive_size_hint M_U8 = fixed_size_hint (uint_SIZE TYPE(8))"
| "primitive_size_hint M_U16 = fixed_size_hint (uint_SIZE TYPE(16))"
| "primitive_size_hint M_Bool = fixed_size_hint BOOL_SIZE"
| "primitive_size_hint M_U24 = fixed_size_hint U24_SIZE"
| "primitive_size_hint M_U256 = inner_size_hint U256"
| "primitive_size_hint M_Signature = inner_size_hint Signature"
| "primitive_size_hint M_U32 = fixed_size_hint (uint_SIZE TYPE(32))"
| "primitive_size_hint M_U32AsRef = inner_size_hint U32AsRef"
| "primitive_size_hint M_F32 = fixed_size_hint (uint_SIZE TYPE(32))"
| "primitive_size_hint M_U64 = fixed_size_hint (uint_SIZE TYPE(64))"
| "primitive_size_hint M_B032 = inner_size_hint B032"
| "primitive_size_hint M_B0255 = inner_size_hint B0255"
| "primitive_size_hint M_B064K = inner_size_hint B064K"
| "primitive_size_hint M_B016M = inner_size_hint B016M"

fun field_size_hint :: "field_marker \<Rightarrow> bytes \<Rightarrow> nat \<Rightarrow> nat sv2"
  and fields_size_hint :: "field_marker list \<Rightarrow> bytes \<Rightarrow> nat \<Rightarrow> nat sv2" where
  "field_size_hint (MPrimitive p) data offset = primitive_size_hint p data offset"
| "field_size_hint (MStruct ps) data offset = fields_size_hint ps data offset"
| "fields_size_hint [] data offset = Ok 0"
| "fields_size_hint (p # ps) data offset =
     rbind (field_size_hint p data offset) (\<lambda>n.
       rbind (fields_size_hint ps data (offset + n)) (\<lambda>m. Ok (n + m)))"

definition vec_size_hint :: "field_marker list \<Rightarrow> bytes \<Rightarrow> nat \<Rightarrow> nat sv2" where
  "vec_size_hint ms data offset = fields_size_hint ms data offset"

section \<open>Markers from types and from structures\<close>

text \<open>A primitive type is named by its marker: \<open>get_marker\<close> and \<open>From<T> for FieldMarker\<close>.\<close>

definition get_marker :: "primitive_marker \<Rightarrow> field_marker" where
  "get_marker t = MPrimitive t"

definition field_marker_from :: "primitive_marker \<Rightarrow> field_marker" where
  "field_marker_from t = MPrimitive t"

definition field_marker_try_from :: "field_marker list \<Rightarrow> field_marker sv2" where
  "field_marker_try_from v =
     (case v of [] \<Rightarrow> Err VoidFieldMarker | [m] \<Rightarrow> Ok m | _ \<Rightarrow> Ok (MStruct v))"

fun vec_from_decodable_field :: "decodable_field \<Rightarrow> decodable_field list" where
  "vec_from_decodable_field (DPrimitive p) = [DPrimitive p]"
| "vec_from_decodable_field (DStruct ps) = ps"

section \<open>Decoding\<close>

fun decode_as :: "primitive_marker \<Rightarrow> bytes \<Rightarrow> decodable_primitive sv2" where
  "decode_as M_U8 d = map_ok D_U8 (uint_from_bytes_unchecked d)"
| "decode_as M_U16 d = map_ok D_U16 (uint_from_bytes_unchecked d)"
| "decode_as M_Bool d = map_ok D_Bool (bool_from_bytes_unchecked d)"
| "decode_as M_U24 d = map_ok D_U24 (u24_from_bytes_unchecked d)"
| "decode_as M_U256 d = map_ok D_U256 (inner_from_bytes_unchecked U256 d)"
| "decode_as M_Signature d = map_ok D_Signature (inner_from_bytes_unchecked Signature d)"
| "decode_as M_U32 d = map_ok D_U32 (uint_from_bytes_unchecked d)"
| "decode_as M_U32AsRef d = map_ok D_U32AsRef (inner_from_bytes_unchecked U32AsRef d)"
| "decode_as M_F32 d = map_ok D_F32 (uint_from_bytes_unchecked d)"
| "decode_as M_U64 d = map_ok D_U64 (uint_from_bytes_unchecked d)"
| "decode_as M_B032 d = map_ok D_B032 (inner_from_bytes_unchecked B032 d)"
| "decode_as M_B0255 d = map_ok D_B0255 (inner_from_bytes_unchecked B0255 d)"
| "decode_as M_B064K d = map_ok D_B064K (inner_from_bytes_unchecked B064K d)"
| "decode_as M_B016M d = map_ok D_B016M (inner_from_bytes_unchecked B016M d)"

definition primitive_decode :: "primitive_marker \<Rightarrow> bytes \<Rightarrow> nat \<Rightarrow> decodable_primitive sv2" where
  "primitive_decode p data offset = rbind (slice_from data offset) (decode_as p)"

fun field_decode :: "field_marker \<Rightarrow> bytes \<Rightarrow> decodable_field sv2"
  and fields_decode :: "field_marker list \<Rightarrow> bytes \<Rightarrow> decodable_field list sv2" where
  "field_decode (MPrimitive p) data = map_ok DPrimitive (primitive_decode p data 0)"
| "field_decode (MStruct ps) data = map_ok DStruct (fields_decode ps data)"
| "fields_decode [] data = Ok []"
| "fields_decode (p # ps) data =
     rbind (field_size_hint p data 0) (\<lambda>field_size.
       rbind (split_at data field_size) (\<lambda>(head, tail).
         rbind (field_decode p head) (\<lambda>d.
           rbind (fields_decode ps tail) (\<lambda>ds. Ok (d # ds)))))"

text \<open>The loop of \<open>Decodable::from_bytes\<close>: it checks the bound before it splits.\<close>

fun decode_structure :: "field_marker list \<Rightarrow> bytes \<Rightarrow> decodable_field list sv2" where
  "decode_structure [] tail = Ok []"
| "decode_structure (field # rest) tail =
     rbind (field_size_hint field tail 0) (\<lambda>field_size.
       if length tail < field_size then Err DecodableConversionError
       else rbind (split_at tail field_size) (\<lambda>(head, t).
         rbind (field_decode field head) (\<lambda>d.
           rbind (decode_structure rest t) (\<lambda>ds. Ok (d # ds)))))"

definition decodable_from_bytes ::
  "(bytes \<Rightarrow> field_marker list sv2) \<Rightarrow> (decodable_field list \<Rightarrow> 'v sv2) \<Rightarrow> bytes \<Rightarrow> 'v sv2" where
  "decodable_from_bytes get_structure from_decoded_fields data =
     rbind (get_structure data) (\<lambda>structure.
       rbind (decode_structure structure data) from_decoded_fields)"

text \<open>From a reader: a pair of the decoded value and the bytes still unread.\<close>

definition bool_from_reader :: "bytes \<Rightarrow> (bool \<times> bytes) sv2" where
  "bool_from_reader reader =
     rbind (read_exact BOOL_SIZE reader) (\<lambda>(dst, reader).
       rbind (from_bytes_checked (fixed_size_hint BOOL_SIZE) bool_from_bytes_unchecked dst)
         (\<lambda>v. Ok (v, reader)))"

definition u24_from_reader :: "bytes \<Rightarrow> (u24 \<times> bytes) sv2" where
  "u24_from_reader reader =
     rbind (read_exact U24_SIZE reader) (\<lambda>(dst, reader).
       rbind (u24_from_bytes_unchecked dst) (\<lambda>v. Ok (v, reader)))"

fun primitive_from_reader :: "primitive_marker \<Rightarrow> bytes \<Rightarrow> (decodable_primitive \<times> bytes) sv2" where
  "primitive_from_reader M_U8 r = map_ok (map_prod D_U8 id) (uint_from_reader r)"
| "primitive_from_reader M_U16 r = map_ok (map_prod D_U16 id) (uint_from_reader r)"
| "primitive_from_reader M_Bool r = map_ok (map_prod D_Bool id) (bool_from_reader r)"
| "primitive_from_reader M_U24 r = map_ok (map_prod D_U24 id) (u24_from_reader r)"
| "primitive_from_reader M_U256 r = map_ok (map_prod D_U256 id) (inner_from_reader U256 r)"
| "primitive_from_reader M_Signature r =
     map_ok (map_prod D_Signature id) (inner_from_reader Signature r)"
| "primitive_from_reader M_U32 r = map_ok (map_prod D_U32 id) (uint_from_reader r)"
| "primitive_from_reader M_U32AsRef r =
     map_ok (map_prod D_U32AsRef id) (inner_from_reader U32AsRef r)"
| "primitive_from_reader M_F32 r = map_ok (map_prod D_F32 id) (uint_from_reader r)"
| "primitive_from_reader M_U64 r = map_ok (map_prod D_U64 id) (uint_from_reader r)"
| "primitive_from_reader M_B032 r = map_ok (map_prod D_B032 id) (inner_from_reader B032 r)"
| "primitive_from_reader M_B0255 r = map_ok (map_prod D_B0255 id) (inner_from_reader B0255 r)"
| "primitive_from_reader M_B064K r = map_ok (map_prod D_B064K id) (inner_from_reader B064K r)"
| "primitive_from_reader M_B016M r = map_ok (map_prod D_B016M id) (inner_from_reader B016M r)"

fun field_from_reader :: "field_marker \<Rightarrow> bytes \<Rightarrow> (decodable_field \<times> bytes) sv2"
  and fields_from_reader :: "field_marker list \<Rightarrow> bytes \<Rightarrow> (decodable_field list \<times> bytes) sv2" where
  "field_from_reader (MPrimitive p) r = map_ok (map_prod DPrimitive id) (primitive_from_reader p r)"
| "field_from_reader (MStruct ps) r = map_ok (map_prod DStruct id) (fields_from_reader ps r)"
| "fields_from_reader [] r = Ok ([], r)"
| "fields_from_reader (p # ps) r =
     rbind (field_from_reader p r) (\<lambda>(d, r).
       rbind (fields_from_reader ps r) (\<lambda>(ds, r). Ok (d # ds, r)))"

text \<open>\<open>Decodable::from_reader\<close> reads to the end, then decodes through a cursor on that data.\<close>

definition decodable_from_reader ::
  "(bytes \<Rightarrow> field_marker list sv2) \<Rightarrow> (decodable_field list \<Rightarrow> 'v sv2) \<Rightarrow> bytes \<Rightarrow> 'v sv2" where
  "decodable_from_reader get_structure from_decoded_fields data =
     rbind (get_structure data) (\<lambda>structure.
       rbind (fields_from_reader structure data) (\<lambda>(fs, _). from_decoded_fields fs))"

fun decoded_get_size :: "decodable_primitive \<Rightarrow> nat" where
  "decoded_get_size (D_U8 v) = uint_SIZE TYPE(8)"
| "decoded_get_size (D_U16 v) = uint_SIZE TYPE(16)"
| "decoded_get_size (D_Bool v) = BOOL_SIZE"
| "decoded_get_size (D_U24 v) = U24_SIZE"
| "decoded_get_size (D_U256 v) = inner_get_size U256 v"
| "decoded_get_size (D_Signature v) = inner_get_size Signature v"
| "decoded_get_size (D_U32 v) = uint_SIZE TYPE(32)"
| "decoded_get_size (D_U32AsRef v) = inner_get_size U32AsRef v"
| "decoded_get_size (D_F32 v) = uint_SIZE TYPE(32)"
| "decoded_get_size (D_U64 v) = uint_SIZE TYPE(64)"
| "decoded_get_size (D_B032 v) = inner_get_size B032 v"
| "decoded_get_size (D_B0255 v) = inner_get_size B0255 v"
| "decoded_get_size (D_B064K v) = inner_get_size B064K v"
| "decoded_get_size (D_B016M v) = inner_get_size B016M v"

section \<open>Encoding\<close>

fun primitive_get_size :: "encodable_primitive \<Rightarrow> nat" where
  "primitive_get_size (E_U8 v) = uint_SIZE TYPE(8)"
| "primitive_get_size (E_OwnedU8 v) = uint_SIZE TYPE(8)"
| "primitive_get_size (E_U16 v) = uint_SIZE TYPE(16)"
| "primitive_get_size (E_Bool v) = BOOL_SIZE"
| "primitive_get_size (E_U24 v) = U24_SIZE"
| "primitive_get_size (E_U256 v) = inner_get_size U256 v"
| "primitive_get_size (E_Signature v) = inner_get_size Signature v"
| "primitive_get_size (E_U32 v) = uint_SIZE TYPE(32)"
| "primitive_get_size (E_U32AsRef v) = inner_get_size U32AsRef v"
| "primitive_get_size (E_F32 v) = uint_SIZE TYPE(32)"
| "primitive_get_size (E_U64 v) = uint_SIZE TYPE(64)"
| "primitive_get_size (E_B032 v) = inner_get_size B032 v"
| "primitive_get_size (E_B0255 v) = inner_get_size B0255 v"
| "primitive_get_size (E_B064K v) = inner_get_size B064K v"
| "primitive_get_size (E_B016M v) = inner_get_size B016M v"

definition uint_to_slice :: "'a::len word \<Rightarrow> bytes \<Rightarrow> (bytes \<times> nat) sv2" where
  "uint_to_slice = to_slice (\<lambda>_. uint_SIZE TYPE('a)) uint_to_slice_unchecked"

definition inner_to_slice :: "inner_kind \<Rightarrow> inner \<Rightarrow> bytes \<Rightarrow> (bytes \<times> nat) sv2" where
  "inner_to_slice K = to_slice (inner_get_size K) (inner_to_slice_unchecked K)"

fun primitive_encode :: "encodable_primitive \<Rightarrow> bytes \<Rightarrow> (bytes \<times> nat) sv2" where
  "primitive_encode (E_U8 v) = uint_to_slice v"
| "primitive_encode (E_OwnedU8 v) = uint_to_slice v"
| "primitive_encode (E_U16 v) = uint_to_slice v"
| "primitive_encode (E_Bool v) = to_slice (\<lambda>_. BOOL_SIZE) bool_to_slice_unchecked v"
| "primitive_encode (E_U24 v) = to_slice (\<lambda>_. U24_SIZE) u24_to_slice_unchecked v"
| "primitive_encode (E_U256 v) = inner_to_slice U256 v"
| "primitive_encode (E_Signature v) = inner_to_slice Signature v"
| "primitive_encode (E_U32 v) = uint_to_slice v"
| "primitive_encode (E_U32AsRef v) = inner_to_slice U32AsRef v"
| "primitive_encode (E_F32 v) = uint_to_slice v"
| "primitive_encode (E_U64 v) = uint_to_slice v"
| "primitive_encode (E_B032 v) = inner_to_slice B032 v"
| "primitive_encode (E_B0255 v) = inner_to_slice B0255 v"
| "primitive_encode (E_B064K v) = inner_to_slice B064K v"
| "primitive_encode (E_B016M v) = inner_to_slice B016M v"

fun primitive_write :: "encodable_primitive \<Rightarrow> bytes \<Rightarrow> bytes" where
  "primitive_write (E_U8 v) w = uint_to_writer v w"
| "primitive_write (E_OwnedU8 v) w = uint_to_writer v w"
| "primitive_write (E_U16 v) w = uint_to_writer v w"
| "primitive_write (E_Bool v) w = w @ (if v then [1] else [0])"
| "primitive_write (E_U24 v) w = w @ u24_to_le_bytes v"
| "primitive_write (E_U256 v) w = inner_to_writer v w"
| "primitive_write (E_Signature v) w = inner_to_writer v w"
| "primitive_write (E_U32 v) w = uint_to_writer v w"
| "primitive_write (E_U32AsRef v) w = inner_to_writer v w"
| "primitive_write (E_F32 v) w = uint_to_writer v w"
| "primitive_write (E_U64 v) w = uint_to_writer v w"
| "primitive_write (E_B032 v) w = inner_to_writer v w"
| "primitive_write (E_B0255 v) w = inner_to_writer v w"
| "primitive_write (E_B064K v) w = inner_to_writer v w"
| "primitive_write (E_B016M v) w = inner_to_writer v w"

fun field_get_size :: "encodable_field \<Rightarrow> nat" where
  "field_get_size (EPrimitive p) = primitive_get_size p"
| "field_get_size (EStruct ps) = sum_list (map field_get_size ps)"

text \<open>Encoding into \<open>dst\<close> at \<open>offset\<close>: the new contents of \<open>dst\<close> and the bytes written.\<close>

fun field_encode :: "encodable_field \<Rightarrow> bytes \<Rightarrow> nat \<Rightarrow> (bytes \<times> nat) sv2"
  and fields_encode :: "encodable_field list \<Rightarrow> bytes \<Rightarrow> nat \<Rightarrow> (bytes \<times> nat) sv2" where
  "field_encode (EPrimitive p) dst offset =
     (if offset \<le> length dst then
        rbind (primitive_encode p (drop offset dst)) (\<lambda>(d, n). Ok (take offset dst @ d, n))
      else Err (WriteError offset (length dst)))"
| "field_encode (EStruct ps) dst offset =
     (if offset \<le> length dst then fields_encode ps dst offset
      else Err (WriteError offset (length dst)))"
| "fields_encode [] dst offset = Ok (dst, 0)"
| "fields_encode (p # ps) dst offset =
     rbind (field_encode p dst offset) (\<lambda>(dst, n).
       rbind (fields_encode ps dst (offset + n)) (\<lambda>(dst, m). Ok (dst, n + m)))"

fun field_to_writer :: "encodable_field \<Rightarrow> bytes \<Rightarrow> bytes" where
  "field_to_writer (EPrimitive p) w = primitive_write p w"
| "field_to_writer (EStruct ps) w = fold field_to_writer ps w"

text \<open>\<open>to_bytes\<close> of the crate root: a zeroed buffer of \<open>get_size\<close> bytes, encoded from offset 0.\<close>

definition to_bytes :: "nat \<Rightarrow> encodable_field \<Rightarrow> bytes sv2" where
  "to_bytes get_size_src field =
     rbind (field_encode field (replicate get_size_src 0) 0) (\<lambda>(result, _). Ok result)"

definition to_writer :: "encodable_field \<Rightarrow> bytes \<Rightarrow> bytes sv2" where
  "to_writer field dst = rbind (field_encode field dst 0) (\<lambda>(dst, _). Ok dst)"

section \<open>Conversions between values and fields (impls.rs)\<close>

text \<open>\<open>TryFrom<DecodablePrimitive>\<close> for each primitive type.\<close>

definition u8_try_from_primitive :: "decodable_primitive \<Rightarrow> u8 sv2" where
  "u8_try_from_primitive value =
     (case value of D_U8 val \<Rightarrow> Ok val | _ \<Rightarrow> Err PrimitiveConversionError)"

definition u16_try_from_primitive :: "decodable_primitive \<Rightarrow> u16 sv2" where
  "u16_try_from_primitive value =
     (case value of D_U16 val \<Rightarrow> Ok val | _ \<Rightarrow> Err PrimitiveConversionError)"

definition bool_try_from_primitive :: "decodable_primitive \<Rightarrow> bool sv2" where
  "bool_try_from_primitive value =
     (case value of D_Bool val \<Rightarrow> Ok val | _ \<Rightarrow> Err PrimitiveConversionError)"

definition u24_try_from_primitive :: "decodable_primitive \<Rightarrow> u24 sv2" where
  "u24_try_from_primitive value =
     (case value of D_U24 val \<Rightarrow> Ok val | _ \<Rightarrow> Err PrimitiveConversionError)"

definition u256_try_from_primitive :: "decodable_primitive \<Rightarrow> inner sv2" where
  "u256_try_from_primitive value =
     (case value of D_U256 val \<Rightarrow> Ok val | _ \<Rightarrow> Err PrimitiveConversionError)"

definition signature_try_from_primitive :: "decodable_primitive \<Rightarrow> inner sv2" where
  "signature_try_from_primitive value =
     (case value of D_Signature val \<Rightarrow> Ok val | _ \<Rightarrow> Err PrimitiveConversionError)"

definition u32_try_from_primitive :: "decodable_primitive \<Rightarrow> u32 sv2" where
  "u32_try_from_primitive value =
     (case value of D_U32 val \<Rightarrow> Ok val | _ \<Rightarrow> Err PrimitiveConversionError)"

definition u32_as_ref_try_from_primitive :: "decodable_primitive \<Rightarrow> inner sv2" where
  "u32_as_ref_try_from_primitive value =
     (case value of D_U32AsRef val \<Rightarrow> Ok val | _ \<Rightarrow> Err PrimitiveConversionError)"

definition f32_try_from_primitive :: "decodable_primitive \<Rightarrow> u32 sv2" where
  "f32_try_from_primitive value =
     (case value of D_F32 val \<Rightarrow> Ok val | _ \<Rightarrow> Err PrimitiveConversionError)"

definition u64_try_from_primitive :: "decodable_primitive \<Rightarrow> u64 sv2" where
  "u64_try_from_primitive value =
     (case value of D_U64 val \<Rightarrow> Ok val | _ \<Rightarrow> Err PrimitiveConversionError)"

definition b032_try_from_primitive :: "decodable_primitive \<Rightarrow> inner sv2" where
  "b032_try_from_primitive value =
     (case value of D_B032 val \<Rightarrow> Ok val | _ \<Rightarrow> Err PrimitiveConversionError)"

definition b0255_try_from_primitive :: "decodable_primitive \<Rightarrow> inner sv2" where
  "b0255_try_from_primitive value =
     (case value of D_B0255 val \<Rightarrow> Ok val | _ \<Rightarrow> Err PrimitiveConversionError)"

definition b064k_try_from_primitive :: "decodable_primitive \<Rightarrow> inner sv2" where
  "b064k_try_from_primitive value =
     (case value of D_B064K val \<Rightarrow> Ok val | _ \<Rightarrow> Err PrimitiveConversionError)"

definition b016m_try_from_primitive :: "decodable_primitive \<Rightarrow> inner sv2" where
  "b016m_try_from_primitive value =
     (case value of D_B016M val \<Rightarrow> Ok val | _ \<Rightarrow> Err PrimitiveConversionError)"

lemmas try_from_primitive_defs [codec_defs] =
  u8_try_from_primitive_def u16_try_from_primitive_def bool_try_from_primitive_def
  u24_try_from_primitive_def u256_try_from_primitive_def signature_try_from_primitive_def
  u32_try_from_primitive_def u32_as_ref_try_from_primitive_def f32_try_from_primitive_def
  u64_try_from_primitive_def b032_try_from_primitive_def b0255_try_from_primitive_def
  b064k_try_from_primitive_def b016m_try_from_primitive_def

text \<open>\<open>TryFrom<DecodableField>\<close>, the same for every primitive type.\<close>

definition try_from_field :: "(decodable_primitive \<Rightarrow> 'v sv2) \<Rightarrow> decodable_field \<Rightarrow> 'v sv2" where
  "try_from_field try_from_primitive value =
     (case value of DPrimitive p \<Rightarrow> try_from_primitive p | _ \<Rightarrow> Err DecodableConversionError)"

text \<open>\<open>Decodable\<close> for the primitive types.\<close>

definition primitive_get_structure :: "primitive_marker \<Rightarrow> bytes \<Rightarrow> field_marker list sv2" where
  "primitive_get_structure t data = Ok [field_marker_from t]"

definition primitive_from_decoded_fields ::
  "(decodable_primitive \<Rightarrow> 'v sv2) \<Rightarrow> decodable_field list \<Rightarrow> 'v sv2" where
  "primitive_from_decoded_fields try_from_primitive data =
     rbind (ok_or NoDecodableFieldPassed (vec_pop data))
       (\<lambda>(f, _). try_from_field try_from_primitive f)"

text \<open>\<open>TryFrom<EncodableField>\<close> for each primitive type.\<close>

definition u8_try_from_encodable :: "encodable_field \<Rightarrow> u8 sv2" where
  "u8_try_from_encodable value =
     (case value of EPrimitive (E_U8 v) \<Rightarrow> Ok v | _ \<Rightarrow> Err NonPrimitiveTypeCannotBeEncoded)"

definition u16_try_from_encodable :: "encodable_field \<Rightarrow> u16 sv2" where
  "u16_try_from_encodable value =
     (case value of EPrimitive (E_U16 v) \<Rightarrow> Ok v | _ \<Rightarrow> Err NonPrimitiveTypeCannotBeEncoded)"

definition bool_try_from_encodable :: "encodable_field \<Rightarrow> bool sv2" where
  "bool_try_from_encodable value =
     (case value of EPrimitive (E_Bool v) \<Rightarrow> Ok v | _ \<Rightarrow> Err NonPrimitiveTypeCannotBeEncoded)"

definition u24_try_from_encodable :: "encodable_field \<Rightarrow> u24 sv2" where
  "u24_try_from_encodable value =
     (case value of EPrimitive (E_U24 v) \<Rightarrow> Ok v | _ \<Rightarrow> Err NonPrimitiveTypeCannotBeEncoded)"

definition u256_try_from_encodable :: "encodable_field \<Rightarrow> inner sv2" where
  "u256_try_from_encodable value =
     (case value of EPrimitive (E_U256 v) \<Rightarrow> Ok v | _ \<Rightarrow> Err NonPrimitiveTypeCannotBeEncoded)"

definition signature_try_from_encodable :: "encodable_field \<Rightarrow> inner sv2" where
  "signature_try_from_encodable value =
     (case value of EPrimitive (E_Signature v) \<Rightarrow> Ok v | _ \<Rightarrow> Err NonPrimitiveTypeCannotBeEncoded)"

definition u32_try_from_encodable :: "encodable_field \<Rightarrow> u32 sv2" where
  "u32_try_from_encodable value =
     (case value of EPrimitive (E_U32 v) \<Rightarrow> Ok v | _ \<Rightarrow> Err NonPrimitiveTypeCannotBeEncoded)"

definition u32_as_ref_try_from_encodable :: "encodable_field \<Rightarrow> inner sv2" where
  "u32_as_ref_try_from_encodable value =
     (case value of EPrimitive (E_U32AsRef v) \<Rightarrow> Ok v | _ \<Rightarrow> Err NonPrimitiveTypeCannotBeEncoded)"

definition f32_try_from_encodable :: "encodable_field \<Rightarrow> u32 sv2" where
  "f32_try_from_encodable value =
     (case value of EPrimitive (E_F32 v) \<Rightarrow> Ok v | _ \<Rightarrow> Err NonPrimitiveTypeCannotBeEncoded)"

definition u64_try_from_encodable :: "encodable_field \<Rightarrow> u64 sv2" where
  "u64_try_from_encodable value =
     (case value of EPrimitive (E_U64 v) \<Rightarrow> Ok v | _ \<Rightarrow> Err NonPrimitiveTypeCannotBeEncoded)"

definition b032_try_from_encodable :: "encodable_field \<Rightarrow> inner sv2" where
  "b032_try_from_encodable value =
     (case value of EPrimitive (E_B032 v) \<Rightarrow> Ok v | _ \<Rightarrow> Err NonPrimitiveTypeCannotBeEncoded)"

definition b0255_try_from_encodable :: "encodable_field \<Rightarrow> inner sv2" where
  "b0255_try_from_encodable value =
     (case value of EPrimitive (E_B0255 v) \<Rightarrow> Ok v | _ \<Rightarrow> Err NonPrimitiveTypeCannotBeEncoded)"

definition b064k_try_from_encodable :: "encodable_field \<Rightarrow> inner sv2" where
  "b064k_try_from_encodable value =
     (case value of EPrimitive (E_B064K v) \<Rightarrow> Ok v | _ \<Rightarrow> Err NonPrimitiveTypeCannotBeEncoded)"

definition b016m_try_from_encodable :: "encodable_field \<Rightarrow> inner sv2" where
  "b016m_try_from_encodable value =
     (case value of EPrimitive (E_B016M v) \<Rightarrow> Ok v | _ \<Rightarrow> Err NonPrimitiveTypeCannotBeEncoded)"

lemmas try_from_encodable_defs [codec_defs] =
  u8_try_from_encodable_def u16_try_from_encodable_def bool_try_from_encodable_def
  u24_try_from_encodable_def u256_try_from_encodable_def signature_try_from_encodable_def
  u32_try_from_encodable_def u32_as_ref_try_from_encodable_def f32_try_from_encodable_def
  u64_try_from_encodable_def b032_try_from_encodable_def b0255_try_from_encodable_def
  b064k_try_from_encodable_def b016m_try_from_encodable_def

section \<open>The wire format\<close>

text \<open>The specification: the bytes of a field, its marker and what it decodes to.\<close>

fun prim_wire :: "encodable_primitive \<Rightarrow> bytes" where
  "prim_wire (E_U8 v) = to_le_bytes v"
| "prim_wire (E_OwnedU8 v) = to_le_bytes v"
| "prim_wire (E_U16 v) = to_le_bytes v"
| "prim_wire (E_Bool v) = bool_wire v"
| "prim_wire (E_U24 v) = u24_wire v"
| "prim_wire (E_U256 v) = inner_wire U256 v"
| "prim_wire (E_Signature v) = inner_wire Signature v"
| "prim_wire (E_U32 v) = to_le_bytes v"
| "prim_wire (E_U32AsRef v) = inner_wire U32AsRef v"
| "prim_wire (E_F32 v) = to_le_bytes v"
| "prim_wire (E_U64 v) = to_le_bytes v"
| "prim_wire (E_B032 v) = inner_wire B032 v"
| "prim_wire (E_B0255 v) = inner_wire B0255 v"
| "prim_wire (E_B064K v) = inner_wire B064K v"
| "prim_wire (E_B016M v) = inner_wire B016M v"

fun prim_wf :: "encodable_primitive \<Rightarrow> bool" where
  "prim_wf (E_U24 v) = u24_wf v"
| "prim_wf (E_U256 v) = inner_wf U256 v"
| "prim_wf (E_Signature v) = inner_wf Signature v"
| "prim_wf (E_U32AsRef v) = inner_wf U32AsRef v"
| "prim_wf (E_B032 v) = inner_wf B032 v"
| "prim_wf (E_B0255 v) = inner_wf B0255 v"
| "prim_wf (E_B064K v) = inner_wf B064K v"
| "prim_wf (E_B016M v) = inner_wf B016M v"
| "prim_wf _ = True"

fun prim_marker :: "encodable_primitive \<Rightarrow> primitive_marker" where
  "prim_marker (E_U8 v) = M_U8"
| "prim_marker (E_OwnedU8 v) = M_U8"
| "prim_marker (E_U16 v) = M_U16"
| "prim_marker (E_Bool v) = M_Bool"
| "prim_marker (E_U24 v) = M_U24"
| "prim_marker (E_U256 v) = M_U256"
| "prim_marker (E_Signature v) = M_Signature"
| "prim_marker (E_U32 v) = M_U32"
| "prim_marker (E_U32AsRef v) = M_U32AsRef"
| "prim_marker (E_F32 v) = M_F32"
| "prim_marker (E_U64 v) = M_U64"
| "prim_marker (E_B032 v) = M_B032"
| "prim_marker (E_B0255 v) = M_B0255"
| "prim_marker (E_B064K v) = M_B064K"
| "prim_marker (E_B016M v) = M_B016M"

fun prim_decoded :: "encodable_primitive \<Rightarrow> decodable_primitive" where
  "prim_decoded (E_U8 v) = D_U8 v"
| "prim_decoded (E_OwnedU8 v) = D_U8 v"
| "prim_decoded (E_U16 v) = D_U16 v"
| "prim_decoded (E_Bool v) = D_Bool v"
| "prim_decoded (E_U24 v) = D_U24 v"
| "prim_decoded (E_U256 v) = D_U256 (inner_norm v)"
| "prim_decoded (E_Signature v) = D_Signature (inner_norm v)"
| "prim_decoded (E_U32 v) = D_U32 v"
| "prim_decoded (E_U32AsRef v) = D_U32AsRef (inner_norm v)"
| "prim_decoded (E_F32 v) = D_F32 v"
| "prim_decoded (E_U64 v) = D_U64 v"
| "prim_decoded (E_B032 v) = D_B032 (inner_norm v)"
| "prim_decoded (E_B0255 v) = D_B0255 (inner_norm v)"
| "prim_decoded (E_B064K v) = D_B064K (inner_norm v)"
| "prim_decoded (E_B016M v) = D_B016M (inner_norm v)"

fun field_wire :: "encodable_field \<Rightarrow> bytes" where
  "field_wire (EPrimitive p) = prim_wire p"
| "field_wire (EStruct fs) = concat (map field_wire fs)"

fun field_wf :: "encodable_field \<Rightarrow> bool" where
  "field_wf (EPrimitive p) = prim_wf p"
| "field_wf (EStruct fs) = (fs \<noteq> [] \<and> (\<forall>f \<in> set fs. field_wf f))"

fun to_marker :: "encodable_field \<Rightarrow> field_marker" where
  "to_marker (EPrimitive p) = MPrimitive (prim_marker p)"
| "to_marker (EStruct [f]) = to_marker f"
| "to_marker (EStruct fs) = MStruct (map to_marker fs)"

fun to_decoded :: "encodable_field \<Rightarrow> decodable_field" where
  "to_decoded (EPrimitive p) = DPrimitive (prim_decoded p)"
| "to_decoded (EStruct [f]) = to_decoded f"
| "to_decoded (EStruct fs) = DStruct (map to_decoded fs)"

definition fields_of :: "encodable_field \<Rightarrow> encodable_field list" where
  "fields_of f = (case f of EPrimitive p \<Rightarrow> [EPrimitive p] | EStruct fs \<Rightarrow> fs)"

definition markers_of :: "encodable_field \<Rightarrow> field_marker list" where
  "markers_of f = map to_marker (fields_of f)"

definition decoded_of :: "encodable_field \<Rightarrow> decodable_field list" where
  "decoded_of f = map to_decoded (fields_of f)"

section \<open>Primitives\<close>

lemmas type_length_wire =
  u8.length_wire u16.length_wire u32.length_wire u64.length_wire sv2_bool.length_wire
  sv2_u24.length_wire U32AsRef.length_wire U256.length_wire Signature.length_wire
  B032.length_wire B0255.length_wire B064K.length_wire B016M.length_wire

lemmas type_size_hint_wire =
  u8.size_hint_wire u16.size_hint_wire u32.size_hint_wire u64.size_hint_wire
  sv2_bool.size_hint_wire sv2_u24.size_hint_wire U32AsRef.size_hint_wire U256.size_hint_wire
  Signature.size_hint_wire B032.size_hint_wire B0255.size_hint_wire B064K.size_hint_wire
  B016M.size_hint_wire

lemmas type_decode_wire =
  u8.decode_wire u16.decode_wire u32.decode_wire u64.decode_wire sv2_bool.decode_wire
  sv2_u24.decode_wire U32AsRef.decode_wire U256.decode_wire Signature.decode_wire
  B032.decode_wire B0255.decode_wire B064K.decode_wire B016M.decode_wire

lemmas type_to_slice_fits =
  u8.to_slice_fits u16.to_slice_fits u32.to_slice_fits u64.to_slice_fits sv2_bool.to_slice_fits
  sv2_u24.to_slice_fits U32AsRef.to_slice_fits U256.to_slice_fits Signature.to_slice_fits
  B032.to_slice_fits B0255.to_slice_fits B064K.to_slice_fits B016M.to_slice_fits

lemmas type_decode_total =
  u8.decode_total u16.decode_total u32.decode_total u64.decode_total sv2_bool.decode_total
  sv2_u24.decode_total U32AsRef.decode_total U256.decode_total Signature.decode_total
  B032.decode_total B0255.decode_total B064K.decode_total B016M.decode_total

lemmas type_size_hint_local =
  u8.size_hint_local u16.size_hint_local u32.size_hint_local u64.size_hint_local
  sv2_bool.size_hint_local sv2_u24.size_hint_local U32AsRef.size_hint_local U256.size_hint_local
  Signature.size_hint_local B032.size_hint_local B0255.size_hint_local B064K.size_hint_local
  B016M.size_hint_local

lemmas type_size_hint_no_panic =
  u8.size_hint_no_panic u16.size_hint_no_panic u32.size_hint_no_panic u64.size_hint_no_panic
  sv2_bool.size_hint_no_panic sv2_u24.size_hint_no_panic U32AsRef.size_hint_no_panic
  U256.size_hint_no_panic Signature.size_hint_no_panic B032.size_hint_no_panic
  B0255.size_hint_no_panic B064K.size_hint_no_panic B016M.size_hint_no_panic

lemma length_prim_wire: "prim_wf p \<Longrightarrow> length (prim_wire p) = primitive_get_size p"
  by (cases p) (simp_all only: prim_wire.simps prim_wf.simps primitive_get_size.simps type_length_wire)

lemma prim_size_hint:
  "prim_wf p \<Longrightarrow> primitive_size_hint (prim_marker p) (pre @ prim_wire p @ post) (length pre) =
     Ok (primitive_get_size p)"
  by (cases p) (simp_all only: prim_wire.simps prim_wf.simps primitive_get_size.simps
    prim_marker.simps primitive_size_hint.simps type_size_hint_wire)

lemma prim_decode: "prim_wf p \<Longrightarrow> decode_as (prim_marker p) (prim_wire p) = Ok (prim_decoded p)"
  by (cases p) (simp_all only: prim_wire.simps prim_wf.simps prim_decoded.simps prim_marker.simps
    decode_as.simps type_decode_wire map_ok.simps)

lemma prim_encode:
  "prim_wf p \<Longrightarrow> primitive_get_size p \<le> length dst \<Longrightarrow>
   primitive_encode p dst = Ok (prim_wire p @ drop (primitive_get_size p) dst, primitive_get_size p)"
  by (cases p) (simp_all only: prim_wire.simps prim_wf.simps primitive_encode.simps
    primitive_get_size.simps uint_to_slice_def inner_to_slice_def type_to_slice_fits)

lemma prim_encode_short:
  "length dst < primitive_get_size p \<Longrightarrow>
   primitive_encode p dst = Err (WriteError (primitive_get_size p) (length dst))"
  by (cases p) (simp_all add: uint_to_slice_def inner_to_slice_def to_slice_def)

lemma prim_decode_total:
  assumes "primitive_size_hint t data 0 = Ok n" and "n \<le> length data"
  shows "\<exists>p. decode_as t (take n data) = Ok p"
  using assms
  by (cases t) (auto simp: result_simps dest!: type_decode_total)

lemma prim_size_hint_local:
  "primitive_size_hint t data offset = Ok n \<Longrightarrow> offset + n \<le> length data \<Longrightarrow>
   primitive_size_hint t (take n (drop offset data) @ post) 0 = Ok n"
  by (cases t) (simp_all only: primitive_size_hint.simps type_size_hint_local)

lemma prim_size_hint_no_panic: "primitive_size_hint t data offset \<noteq> Panic"
  by (cases t) (simp_all only: primitive_size_hint.simps type_size_hint_no_panic not_False_eq_True)


section \<open>Fields and structures\<close>

lemma length_field_wire: "field_wf f \<Longrightarrow> length (field_wire f) = field_get_size f"
  by (induction f rule: field_wire.induct)
    (auto simp: length_prim_wire length_concat o_def intro!: arg_cong [where f = sum_list])

lemma length_fields_wire:
  "\<forall>f \<in> set fs. field_wf f \<Longrightarrow>
   length (concat (map field_wire fs)) = sum_list (map field_get_size fs)"
  by (induction fs) (simp_all add: length_field_wire)

lemma to_marker_try_from:
  "field_wf f \<Longrightarrow> field_marker_try_from (markers_of f) = Ok (to_marker f)"
  by (cases f rule: to_marker.cases)
    (auto simp: field_marker_try_from_def markers_of_def fields_of_def)

lemma fields_size_hint_pointwise:
  assumes "\<And>f pre post. f \<in> set fs \<Longrightarrow>
      field_size_hint (to_marker f) (pre @ field_wire f @ post) (length pre) = Ok (field_get_size f)"
    and "\<forall>f \<in> set fs. field_wf f"
  shows "fields_size_hint (map to_marker fs) (pre @ concat (map field_wire fs) @ post) (length pre) =
     Ok (sum_list (map field_get_size fs))"
  using assms
proof (induction fs arbitrary: pre)
  case (Cons f fs)
  then have "fields_size_hint (map to_marker fs)
      ((pre @ field_wire f) @ concat (map field_wire fs) @ post) (length (pre @ field_wire f)) =
      Ok (sum_list (map field_get_size fs))"
    by (intro Cons.IH) auto
  with Cons.prems show ?case by (simp add: length_field_wire)
qed simp

lemma field_size_hint_wire:
  "field_wf f \<Longrightarrow> field_size_hint (to_marker f) (pre @ field_wire f @ post) (length pre) =
     Ok (field_get_size f)"
proof (induction f arbitrary: pre post rule: to_marker.induct, goal_cases)
  case (4 f g fs pre post)
  then show ?case
    using fields_size_hint_pointwise [of "f # g # fs" pre post] by (auto simp: prim_size_hint)
qed (simp_all add: prim_size_hint)

lemmas fields_size_hint_wire = fields_size_hint_pointwise [OF field_size_hint_wire]

lemma fields_decode_pointwise:
  assumes "\<And>f. f \<in> set fs \<Longrightarrow> field_decode (to_marker f) (field_wire f) = Ok (to_decoded f)"
    and "\<forall>f \<in> set fs. field_wf f"
  shows "fields_decode (map to_marker fs) (concat (map field_wire fs) @ post) =
     Ok (map to_decoded fs)"
  using assms
proof (induction fs)
  case (Cons f fs)
  then show ?case
    using field_size_hint_wire [of f "[]" "concat (map field_wire fs) @ post"]
    by (simp add: split_at_def length_field_wire)
qed simp

lemma field_decode_wire:
  "field_wf f \<Longrightarrow> field_decode (to_marker f) (field_wire f) = Ok (to_decoded f)"
proof (induction f rule: to_marker.induct, goal_cases)
  case (1 p)
  then show ?case by (simp add: primitive_decode_def slice_from_def prim_decode)
next
  case (4 f g fs)
  then show ?case
    using fields_decode_pointwise [of "f # g # fs" "[]"] by auto
qed simp_all

lemma decode_structure_wire:
  "\<forall>f \<in> set fs. field_wf f \<Longrightarrow>
   decode_structure (map to_marker fs) (concat (map field_wire fs) @ post) =
     Ok (map to_decoded fs)"
proof (induction fs)
  case (Cons f fs)
  then show ?case
    using field_size_hint_wire [of f "[]" "concat (map field_wire fs) @ post"]
    by (simp add: split_at_def length_field_wire field_decode_wire)
qed simp

lemma fields_encode_pointwise:
  assumes "\<And>f dst offset. f \<in> set fs \<Longrightarrow> offset + field_get_size f \<le> length dst \<Longrightarrow>
      field_encode f dst offset =
        Ok (take offset dst @ field_wire f @ drop (offset + field_get_size f) dst, field_get_size f)"
    and "\<forall>f \<in> set fs. field_wf f"
    and "offset + sum_list (map field_get_size fs) \<le> length dst"
  shows "fields_encode fs dst offset =
     Ok (take offset dst @ concat (map field_wire fs) @
           drop (offset + sum_list (map field_get_size fs)) dst,
         sum_list (map field_get_size fs))"
  using assms
proof (induction fs arbitrary: dst offset)
  case (Cons f fs)
  let ?dst = "take offset dst @ field_wire f @ drop (offset + field_get_size f) dst"
  have len: "length (field_wire f) = field_get_size f"
    using Cons.prems(2) by (simp add: length_field_wire)
  have "fields_encode fs ?dst (offset + field_get_size f) =
     Ok (take (offset + field_get_size f) ?dst @ concat (map field_wire fs) @
           drop (offset + field_get_size f + sum_list (map field_get_size fs)) ?dst,
         sum_list (map field_get_size fs))"
    using Cons.prems len by (intro Cons.IH) (auto)
  with Cons.prems len show ?case by (simp add: ac_simps)
qed simp

lemma field_encode_wire:
  "field_wf f \<Longrightarrow> offset + field_get_size f \<le> length dst \<Longrightarrow>
   field_encode f dst offset =
     Ok (take offset dst @ field_wire f @ drop (offset + field_get_size f) dst, field_get_size f)"
proof (induction f arbitrary: dst offset rule: field_wire.induct)
  case (2 fs)
  then show ?case using fields_encode_pointwise [of fs offset dst] by auto
qed (simp add: prim_encode add.commute)

lemma to_bytes_wire:
  "field_wf f \<Longrightarrow> to_bytes (field_get_size f) f = Ok (field_wire f)"
  by (simp add: to_bytes_def field_encode_wire)


section \<open>Decoding never panics, encoding into a short buffer is an error\<close>

lemma prim_size_hint_shift:
  "primitive_size_hint t (pre @ d) (length pre + k) = Ok n \<longleftrightarrow> primitive_size_hint t d k = Ok n"
  by (cases t) (auto simp: inner_size_hint_def fixed_size_hint_def)

lemma field_size_hint_shift:
  "field_size_hint m (pre @ d) (length pre + k) = Ok n \<longleftrightarrow> field_size_hint m d k = Ok n"
  "fields_size_hint ms (pre @ d) (length pre + k) = Ok n \<longleftrightarrow> fields_size_hint ms d k = Ok n"
  by (induction m d k and ms d k arbitrary: n and n rule: field_size_hint_fields_size_hint.induct)
    (auto simp: prim_size_hint_shift result_simps add.assoc)

lemma field_size_hint_local:
  "field_size_hint m data k = Ok n \<Longrightarrow> k + n \<le> length data \<Longrightarrow>
   field_size_hint m (take n (drop k data) @ post) 0 = Ok n"
  "fields_size_hint ms data k = Ok n \<Longrightarrow> k + n \<le> length data \<Longrightarrow>
   fields_size_hint ms (take n (drop k data) @ post) 0 = Ok n"
proof (induction m data k and ms data k arbitrary: n post and n post
    rule: field_size_hint_fields_size_hint.induct)
  case (4 p ps data k)
  then obtain a b where *: "field_size_hint p data k = Ok a"
      "fields_size_hint ps data (k + a) = Ok b" "n = a + b"
    by (auto simp: result_simps)
  then show ?case
    using 4 field_size_hint_shift(2) [of ps "take a (drop k data)" "take b (drop (k + a) data) @ post" 0 b]
    by (simp add: take_add add.commute)
qed (simp_all add: prim_size_hint_local)

lemma field_decode_total:
  "field_size_hint m data k = Ok n \<Longrightarrow> k + n \<le> length data \<Longrightarrow>
   \<exists>d. field_decode m (take n (drop k data)) = Ok d"
  "fields_size_hint ms data k = Ok n \<Longrightarrow> k + n \<le> length data \<Longrightarrow>
   \<exists>ds. fields_decode ms (take n (drop k data)) = Ok ds"
proof (induction m data k and ms data k arbitrary: n and n
    rule: field_size_hint_fields_size_hint.induct)
  case (1 t data k)
  then have "primitive_size_hint t (drop k data) 0 = Ok n"
    using prim_size_hint_shift [of t "take k data" "drop k data" 0 n] by simp
  with 1 show ?case
    by (auto simp: primitive_decode_def slice_from_def result_simps intro: prim_decode_total)
next
  case (4 p ps data k)
  then obtain a b where *: "field_size_hint p data k = Ok a"
      "fields_size_hint ps data (k + a) = Ok b" "n = a + b"
    by (auto simp: result_simps)
  obtain d ds where "field_decode p (take a (drop k data)) = Ok d"
      "fields_decode ps (take b (drop (k + a) data)) = Ok ds"
    using 4 * by fastforce
  then show ?case
    using field_size_hint_local(1) [OF *(1), of "take b (drop (k + a) data)"] * 4(4)
    by (simp add: take_add split_at_def add.commute)
qed (auto simp: result_simps)

lemma field_size_hint_no_panic:
  "field_size_hint m data offset \<noteq> Panic"
  "fields_size_hint ms data offset \<noteq> Panic"
  by (induction m data offset and ms data offset rule: field_size_hint_fields_size_hint.induct)
    (auto simp: prim_size_hint_no_panic result_simps)

lemma field_decode_no_panic:
  "field_size_hint m data 0 = Ok n \<Longrightarrow> n \<le> length data \<Longrightarrow> field_decode m (take n data) \<noteq> Panic"
  using field_decode_total(1) [of m data 0 n] by auto

lemma decode_structure_no_panic: "decode_structure ms data \<noteq> Panic"
  by (induction ms data rule: decode_structure.induct)
    (auto simp: result_simps split_at_def field_size_hint_no_panic field_decode_no_panic
      split: if_splits)

lemma fields_encode_short:
  assumes "\<And>f dst offset. f \<in> set fs \<Longrightarrow> length dst < offset + field_get_size f \<Longrightarrow>
      \<exists>a b. field_encode f dst offset = Err (WriteError a b)"
    and "\<forall>f \<in> set fs. field_wf f" and "offset \<le> length dst"
    and "length dst < offset + sum_list (map field_get_size fs)"
  shows "\<exists>a b. fields_encode fs dst offset = Err (WriteError a b)"
  using assms
proof (induction fs arbitrary: dst offset)
  case (Cons f fs)
  show ?case
  proof (cases "length dst < offset + field_get_size f")
    case True
    then show ?thesis using Cons.prems(1) [of f dst offset] by auto
  next
    case False
    let ?dst = "take offset dst @ field_wire f @ drop (offset + field_get_size f) dst"
    from False Cons.prems have "\<exists>a b. fields_encode fs ?dst (offset + field_get_size f) =
        Err (WriteError a b)"
      by (intro Cons.IH) (auto simp: length_field_wire)
    with False Cons.prems show ?thesis by (auto simp: field_encode_wire)
  qed
qed simp

lemma field_encode_short:
  "field_wf f \<Longrightarrow> length dst < offset + field_get_size f \<Longrightarrow>
   \<exists>a b. field_encode f dst offset = Err (WriteError a b)"
proof (induction f arbitrary: dst offset rule: field_wire.induct)
  case (2 fs)
  then show ?case using fields_encode_short [of fs offset dst] by auto
qed (auto simp: prim_encode_short)

lemma to_bytes_short:
  assumes "field_wf f" and "n < field_get_size f"
  shows "\<exists>a b. to_bytes n f = Err (WriteError a b)"
  using field_encode_short [OF assms(1), of "replicate n 0" 0] assms(2)
  by (auto simp: to_bytes_def)

end
