(* ===== verification/Sequences.thy ===== *)
theory Sequences
  imports Codec
begin

text \<open>
  Sequences and options of \<open>seq_inner.rs\<close> (\<open>Seq0255\<close>, \<open>Seq064K\<close>, \<open>Sv2Option\<close>) and the code the
  derive macros of \<open>derive_codec\<close> generate for message structures. The locale \<open>sv2_message\<close> is
  what a type promises when it derives \<open>Encodable\<close> and \<open>Decodable\<close>, \<open>sv2_field\<close> what a type used
  as a field of such a structure promises; every primitive type is an \<open>sv2_field\<close> through
  \<open>sv2_primitive_type\<close>, and so are sequences and options of primitive types.
\<close>

section \<open>Sequences\<close>

text \<open>
  The three types differ in the size of their header, in how they read it and in the header they
  write. Their values are the vectors they wrap.
\<close>

definition seq0255_HEADERSIZE :: nat where "seq0255_HEADERSIZE = 1"

definition seq064k_HEADERSIZE :: nat where "seq064k_HEADERSIZE = 2"

definition sv2_option_HEADERSIZE :: nat where "sv2_option_HEADERSIZE = 1"

definition seq0255_expected_len :: "bytes \<Rightarrow> nat sv2" where
  "seq0255_expected_len data =
     (if seq0255_HEADERSIZE \<le> length data then Ok (unat (data ! 0))
      else Err (ReadError (length data) seq0255_HEADERSIZE))"

definition seq064k_expected_len :: "bytes \<Rightarrow> nat sv2" where
  "seq064k_expected_len data =
     (if seq064k_HEADERSIZE \<le> length data
      then Ok (unat (from_le_bytes [data ! 0, data ! 1] :: u16))
      else Err (ReadError (length data) seq064k_HEADERSIZE))"

definition sv2_option_expected_len :: "bytes \<Rightarrow> nat sv2" where
  "sv2_option_expected_len data =
     (if sv2_option_HEADERSIZE \<le> length data then
        (if data ! 0 = 0 then Ok 0
         else if data ! 0 = 1 then Ok 1
         else Err (Sv2OptionHaveMoreThenOneElement (data ! 0)))
      else Err (ReadError (length data) sv2_option_HEADERSIZE))"

definition seq0255_new :: "'v list \<Rightarrow> 'v list sv2" where
  "seq0255_new inner = (if length inner \<le> 255 then Ok inner else Err SeqExceedsMaxSize)"

definition seq064k_new :: "'v list \<Rightarrow> 'v list sv2" where
  "seq064k_new inner = (if length inner \<le> 65535 then Ok inner else Err SeqExceedsMaxSize)"

definition sv2_option_new :: "'v option \<Rightarrow> 'v list" where
  "sv2_option_new inner = (case inner of Some x \<Rightarrow> [x] | None \<Rightarrow> [])"

definition sv2_option_into_inner :: "'v list \<Rightarrow> 'v option sv2" where
  "sv2_option_into_inner v =
     (if length v = 0 then Ok None
      else if length v = 1 then Ok (Some (last v))
      else Panic)"

definition seq0255_into_static :: "('v \<Rightarrow> 'v) \<Rightarrow> 'v list \<Rightarrow> 'v list sv2" where
  "seq0255_into_static elem_into_static v = expect (seq0255_new (map elem_into_static v))"

definition seq064k_into_static :: "('v \<Rightarrow> 'v) \<Rightarrow> 'v list \<Rightarrow> 'v list sv2" where
  "seq064k_into_static elem_into_static v = expect (seq064k_new (map elem_into_static v))"

definition sv2_option_into_static :: "('v \<Rightarrow> 'v) \<Rightarrow> 'v list \<Rightarrow> 'v list sv2" where
  "sv2_option_into_static elem_into_static v =
     rbind (sv2_option_into_inner v) (\<lambda>inner. Ok (sv2_option_new (map_option elem_into_static inner)))"

definition seq_get_size :: "nat \<Rightarrow> ('v \<Rightarrow> nat) \<Rightarrow> 'v list \<Rightarrow> nat" where
  "seq_get_size HSIZE elem_get_size v = fold (\<lambda>with_size size. size + elem_get_size with_size) v HSIZE"

section \<open>Decodable for sequences\<close>

text \<open>The macro \<open>impl_codec_for_sequence\<close>, over the header and the element type's methods.\<close>

definition seq_get_structure ::
  "nat \<Rightarrow> (bytes \<Rightarrow> nat sv2) \<Rightarrow> field_marker \<Rightarrow> bytes \<Rightarrow> field_marker list sv2" where
  "seq_get_structure HSIZE expected_len elem_marker data =
     rbind (expected_len data) (\<lambda>len.
       Ok (replicate HSIZE (MPrimitive M_U8) @ replicate len elem_marker))"

fun seq_elements :: "(decodable_field list \<Rightarrow> 'v sv2) \<Rightarrow> decodable_field list \<Rightarrow> 'v list sv2" where
  "seq_elements elem_from_decoded [] = Ok []"
| "seq_elements elem_from_decoded (DPrimitive p # ds) =
     rbind (elem_from_decoded [DPrimitive p]) (\<lambda>v.
       rbind (seq_elements elem_from_decoded ds) (\<lambda>vs. Ok (v # vs)))"
| "seq_elements elem_from_decoded (DStruct ps # ds) = Panic"

definition seq_from_decoded_fields ::
  "nat \<Rightarrow> (decodable_field list \<Rightarrow> 'v sv2) \<Rightarrow> decodable_field list \<Rightarrow> 'v list sv2" where
  "seq_from_decoded_fields HSIZE elem_from_decoded data =
     seq_elements elem_from_decoded (drop HSIZE data)"

fun seq_read_elements ::
  "(bytes \<Rightarrow> nat \<Rightarrow> nat sv2) \<Rightarrow> (bytes \<Rightarrow> 'v sv2) \<Rightarrow> nat \<Rightarrow> bytes \<Rightarrow> 'v list sv2" where
  "seq_read_elements size_hint from_unchecked 0 tail = Ok []"
| "seq_read_elements size_hint from_unchecked (Suc n) tail =
     rbind (size_hint tail 0) (\<lambda>element_size.
       if length tail < element_size then Err OutOfBound
       else rbind (split_at tail element_size) (\<lambda>(head, t).
         rbind (from_unchecked head) (\<lambda>v.
           rbind (seq_read_elements size_hint from_unchecked n t) (\<lambda>vs. Ok (v # vs)))))"

definition seq_from_bytes ::
  "nat \<Rightarrow> (bytes \<Rightarrow> nat sv2) \<Rightarrow> (bytes \<Rightarrow> nat \<Rightarrow> nat sv2) \<Rightarrow> (bytes \<Rightarrow> 'v sv2) \<Rightarrow> bytes \<Rightarrow> 'v list sv2"
where
  "seq_from_bytes HSIZE expected_len size_hint from_unchecked data =
     rbind (expected_len data) (\<lambda>len.
       rbind (slice_from data HSIZE) (seq_read_elements size_hint from_unchecked len))"

fun seq_reader_elements ::
  "(bytes \<Rightarrow> ('v \<times> bytes) sv2) \<Rightarrow> nat \<Rightarrow> bytes \<Rightarrow> ('v list \<times> bytes) sv2" where
  "seq_reader_elements elem_from_reader 0 reader = Ok ([], reader)"
| "seq_reader_elements elem_from_reader (Suc n) reader =
     rbind (elem_from_reader reader) (\<lambda>(v, reader).
       rbind (seq_reader_elements elem_from_reader n reader) (\<lambda>(vs, reader). Ok (v # vs, reader)))"

definition seq_from_reader ::
  "nat \<Rightarrow> (bytes \<Rightarrow> nat sv2) \<Rightarrow> (bytes \<Rightarrow> ('v \<times> bytes) sv2) \<Rightarrow> bytes \<Rightarrow> ('v list \<times> bytes) sv2" where
  "seq_from_reader HSIZE expected_len elem_from_reader reader =
     rbind (read_exact HSIZE reader) (\<lambda>(header, reader).
       rbind (expected_len header) (\<lambda>len. seq_reader_elements elem_from_reader len reader))"

section \<open>Encoding of sequences\<close>

definition owned_u8 :: "u8 \<Rightarrow> encodable_field" where
  "owned_u8 b = EPrimitive (E_OwnedU8 b)"

definition seq064k_into_field :: "('v \<Rightarrow> encodable_field) \<Rightarrow> 'v list \<Rightarrow> encodable_field" where
  "seq064k_into_field elem_into v =
     (let inner_len = (of_nat (length v) :: u16) in
      EStruct (owned_u8 (to_le_bytes inner_len ! 0) # owned_u8 (to_le_bytes inner_len ! 1) #
        map elem_into v))"

definition seq0255_into_field :: "('v \<Rightarrow> encodable_field) \<Rightarrow> 'v list \<Rightarrow> encodable_field" where
  "seq0255_into_field elem_into v =
     (let inner_len = (of_nat (length v) :: u8) in EStruct (owned_u8 inner_len # map elem_into v))"

definition sv2_option_into_field :: "('v \<Rightarrow> encodable_field) \<Rightarrow> 'v list \<Rightarrow> encodable_field" where
  "sv2_option_into_field elem_into v =
     (let inner_len = (of_nat (length v) :: u8) in EStruct (owned_u8 inner_len # map elem_into v))"

section \<open>Derived structures\<close>

text \<open>
  \<open>get_structure\<close> of a derived structure calls the \<open>get_structure\<close> of each field in turn on
  \<open>&data[offset..]\<close>. The slice panics when the size hints of the fields before have moved the
  offset past the end.
\<close>

fun derive_structure ::
  "(bytes \<Rightarrow> field_marker list sv2) list \<Rightarrow> bytes \<Rightarrow> nat \<Rightarrow> field_marker list sv2" where
  "derive_structure [] data offset = Ok []"
| "derive_structure (get_structure # gs) data offset =
     rbind (slice_from data offset) (\<lambda>d.
       rbind (get_structure d) (\<lambda>field.
         rbind (vec_size_hint field data offset) (\<lambda>n.
           rbind (field_marker_try_from field) (\<lambda>m.
             rbind (derive_structure gs data (offset + n)) (\<lambda>ms. Ok (m # ms))))))"

definition derive_get_structure ::
  "(bytes \<Rightarrow> field_marker list sv2) list \<Rightarrow> bytes \<Rightarrow> field_marker list sv2" where
  "derive_get_structure gs data = derive_structure gs data 0"

text \<open>One field of the derived \<open>from_decoded_fields\<close>: the last decoded field, then the rest.\<close>

definition derive_pop ::
  "(decodable_field list \<Rightarrow> 'v sv2) \<Rightarrow> decodable_field list \<Rightarrow> ('v \<times> decodable_field list) sv2" where
  "derive_pop from_decoded data =
     rbind (ok_or NoDecodableFieldPassed (vec_pop data)) (\<lambda>(f, data).
       rbind (from_decoded (vec_from_decodable_field f)) (\<lambda>v. Ok (v, data)))"

definition derive_into_field :: "encodable_field list \<Rightarrow> encodable_field" where
  "derive_into_field fs = EStruct fs"

section \<open>Well-formed sequences\<close>

definition seq0255_wf :: "('v \<Rightarrow> bool) \<Rightarrow> 'v list \<Rightarrow> bool" where
  "seq0255_wf elem_wf vs = (length vs \<le> 255 \<and> list_all elem_wf vs)"

definition seq064k_wf :: "('v \<Rightarrow> bool) \<Rightarrow> 'v list \<Rightarrow> bool" where
  "seq064k_wf elem_wf vs = (length vs \<le> 65535 \<and> list_all elem_wf vs)"

definition sv2_option_wf :: "('v \<Rightarrow> bool) \<Rightarrow> 'v list \<Rightarrow> bool" where
  "sv2_option_wf elem_wf vs = (length vs \<le> 1 \<and> list_all elem_wf vs)"

section \<open>Sizes and headers of sequences\<close>

lemma seq_get_size_sum: "seq_get_size H g vs = H + sum_list (map g vs)"
proof -
  have "fold (\<lambda>x n. n + g x) vs k = k + sum_list (map g vs)" for k
    by (induction vs arbitrary: k) simp_all
  then show ?thesis by (simp add: seq_get_size_def)
qed

lemma to_le_bytes_u8 [bytes_simps]: "to_le_bytes (b :: u8) = [b]"
  using unsigned_less [of b, where ?'a = nat] by (simp add: to_le_bytes_def)

lemma to_le_bytes_u16: "[to_le_bytes (w :: u16) ! 0, to_le_bytes w ! Suc 0] = to_le_bytes w"
  by (simp add: list_eq_iff_nth_eq less_Suc_eq numeral_2_eq_2)

lemma map_to_le_bytes_u16:
  "map f (to_le_bytes (w :: u16)) = [f (to_le_bytes w ! 0), f (to_le_bytes w ! Suc 0)]"
  by (simp flip: arg_cong [OF to_le_bytes_u16, of "map f"])

lemma seq0255_header:
  "length vs \<le> 255 \<Longrightarrow> seq0255_expected_len (of_nat (length vs) # post) = Ok (length vs)"
  by (simp add: seq0255_expected_len_def seq0255_HEADERSIZE_def unat_of_nat_small)

lemma seq064k_header:
  "length vs \<le> 65535 \<Longrightarrow>
   seq064k_expected_len (to_le_bytes (of_nat (length vs) :: u16) @ post) = Ok (length vs)"
  by (simp add: seq064k_expected_len_def seq064k_HEADERSIZE_def nth_append to_le_bytes_u16
    bytes_simps unat_of_nat_small)

lemma sv2_option_header:
  "length vs \<le> 1 \<Longrightarrow> sv2_option_expected_len (of_nat (length vs) # post) = Ok (length vs)"
  by (cases vs) (auto simp: sv2_option_expected_len_def sv2_option_HEADERSIZE_def)

lemma owned_u8_simps [codec_defs]:
  "field_wire (owned_u8 b) = [b]" "field_wf (owned_u8 b)" "field_get_size (owned_u8 b) = 1"
  "to_marker (owned_u8 b) = MPrimitive M_U8" "to_decoded (owned_u8 b) = DPrimitive (D_U8 b)"
  by (simp_all add: owned_u8_def bytes_simps uint_SIZE_def)

section \<open>The structure of a derived message\<close>

lemma vec_size_hint_wire:
  "field_wf f \<Longrightarrow>
   vec_size_hint (markers_of f) (pre @ field_wire f @ post) (length pre) = Ok (field_get_size f)"
  using fields_size_hint_wire [of "fields_of f" pre post]
  by (cases f) (simp_all add: vec_size_hint_def markers_of_def fields_of_def)

definition structure_of :: "(bytes \<Rightarrow> field_marker list sv2) \<Rightarrow> encodable_field \<Rightarrow> bool" where
  "structure_of g f \<longleftrightarrow> field_wf f \<and> (\<forall>post. g (field_wire f @ post) = Ok (markers_of f))"

lemma derive_structure_wire:
  assumes "list_all2 structure_of gs fs"
  shows "derive_structure gs (pre @ concat (map field_wire fs) @ post) (length pre) =
    Ok (map to_marker fs)"
  using assms
proof (induction gs fs arbitrary: pre rule: list_all2_induct)
  case (Cons g gs f fs)
  then show ?case
    using vec_size_hint_wire [of f pre "concat (map field_wire fs) @ post"]
      Cons.IH [of "pre @ field_wire f"]
    by (simp add: slice_from_def structure_of_def to_marker_try_from length_field_wire)
qed simp

lemma derive_get_structure_wire:
  "list_all2 structure_of gs fs \<Longrightarrow>
   derive_get_structure gs (field_wire (EStruct fs) @ post) = Ok (markers_of (EStruct fs))"
  using derive_structure_wire [of gs fs "[]" post]
  by (simp add: derive_get_structure_def markers_of_def fields_of_def)

lemma structure_of_wf: "list_all2 structure_of gs fs \<Longrightarrow> fs \<noteq> [] \<Longrightarrow> field_wf (EStruct fs)"
  by (auto simp: structure_of_def list_all2_conv_all_nth in_set_conv_nth)

text \<open>A truncated message: when the fields before need more bytes than there are, it panics.\<close>

lemma derive_structure_panics:
  assumes "g (drop offset data) = Ok ms" and "ms \<noteq> []" and "offset \<le> length data"
    and "vec_size_hint ms data offset = Ok n" and "length data < offset + n"
  shows "derive_structure (g # g' # gs) data offset = Panic"
proof -
  obtain m where "field_marker_try_from ms = Ok m"
    using assms(2) by (cases ms; cases "tl ms") (simp_all add: field_marker_try_from_def)
  with assms show ?thesis by (simp add: slice_from_def)
qed

section \<open>The contracts\<close>

locale sv2_message =
  fixes get_structure :: "bytes \<Rightarrow> field_marker list sv2"
    and from_decoded_fields :: "decodable_field list \<Rightarrow> 'v sv2"
    and into_field :: "'v \<Rightarrow> encodable_field"
    and get_size :: "'v \<Rightarrow> nat"
    and wf :: "'v \<Rightarrow> bool"
    and norm :: "'v \<Rightarrow> 'v"
  assumes field_ok: "wf v \<Longrightarrow> field_wf (into_field v)"
    and get_size_field: "wf v \<Longrightarrow> get_size v = field_get_size (into_field v)"
    and structure_wire:
      "wf v \<Longrightarrow> get_structure (field_wire (into_field v) @ post) = Ok (markers_of (into_field v))"
    and from_decoded: "wf v \<Longrightarrow> from_decoded_fields (decoded_of (into_field v)) = Ok (norm v)"
begin

lemma length_message_wire: "wf v \<Longrightarrow> length (field_wire (into_field v)) = get_size v"
  by (simp add: length_field_wire field_ok get_size_field)

lemma to_bytes_message: "wf v \<Longrightarrow> to_bytes (get_size v) (into_field v) = Ok (field_wire (into_field v))"
  by (simp add: to_bytes_wire field_ok get_size_field)

lemma from_bytes_message:
  assumes "wf v"
  shows "decodable_from_bytes get_structure from_decoded_fields (field_wire (into_field v) @ post) = Ok (norm v)"
proof -
  have "field_wire (into_field v) = concat (map field_wire (fields_of (into_field v)))"
    by (cases "into_field v") (simp_all add: fields_of_def)
  moreover have "\<forall>f \<in> set (fields_of (into_field v)). field_wf f"
    using field_ok [OF assms] by (cases "into_field v") (auto simp: fields_of_def)
  ultimately have "decode_structure (markers_of (into_field v)) (field_wire (into_field v) @ post) =
      Ok (decoded_of (into_field v))"
    using decode_structure_wire [of "fields_of (into_field v)" post]
    by (simp add: markers_of_def decoded_of_def)
  then show ?thesis
    by (simp add: decodable_from_bytes_def structure_wire [OF assms]
      from_decoded [OF assms])
qed

lemma roundtrip:
  assumes "wf v" and "to_bytes (get_size v) (into_field v) = Ok data"
  shows "decodable_from_bytes get_structure from_decoded_fields (data @ post) = Ok (norm v)"
  using assms to_bytes_message from_bytes_message by auto

lemma from_bytes_panics_only_in_structure:
  assumes "\<And>ds. from_decoded_fields ds \<noteq> Panic"
  shows "decodable_from_bytes get_structure from_decoded_fields data = Panic \<longleftrightarrow>
    get_structure data = Panic"
  by (auto simp: decodable_from_bytes_def result_simps decode_structure_no_panic assms)

end

locale sv2_field = sv2_message +
  assumes from_decoded_nested:
    "wf v \<Longrightarrow> from_decoded_fields (vec_from_decodable_field (to_decoded (into_field v))) = Ok (norm v)"
begin

lemma structure_of_field: "wf v \<Longrightarrow> structure_of get_structure (into_field v)"
  by (simp add: structure_of_def field_ok structure_wire)

lemma derive_pop_field:
  "wf v \<Longrightarrow> data \<noteq> [] \<Longrightarrow> last data = to_decoded (into_field v) \<Longrightarrow>
   derive_pop from_decoded_fields data = Ok (norm v, butlast data)"
  by (simp add: derive_pop_def vec_pop_def from_decoded_nested)

end

text \<open>A primitive type, by its marker and its conversions in \<open>impls.rs\<close>.\<close>

locale sv2_primitive_type =
  fixes marker :: primitive_marker
    and try_from_primitive :: "decodable_primitive \<Rightarrow> 'v sv2"
    and into_primitive :: "'v \<Rightarrow> encodable_primitive"
    and get_size :: "'v \<Rightarrow> nat"
    and wf :: "'v \<Rightarrow> bool"
    and norm :: "'v \<Rightarrow> 'v"
  assumes primitive_marker: "prim_marker (into_primitive v) = marker"
    and primitive_wf: "wf v \<Longrightarrow> prim_wf (into_primitive v)"
    and primitive_size: "primitive_get_size (into_primitive v) = get_size v"
    and primitive_decoded: "try_from_primitive (prim_decoded (into_primitive v)) = Ok (norm v)"
begin

lemma elem_from_decoded:
  "primitive_from_decoded_fields try_from_primitive
     [DPrimitive (prim_decoded (into_primitive v))] = Ok (norm v)"
  by (simp add: primitive_from_decoded_fields_def try_from_field_def primitive_decoded)

lemma seq_elements_wire:
  "seq_elements (primitive_from_decoded_fields try_from_primitive)
     (map (\<lambda>v. DPrimitive (prim_decoded (into_primitive v))) vs) = Ok (map norm vs)"
  by (induction vs) (simp_all add: elem_from_decoded)

text \<open>A sequence of the type, for any header that announces its number of elements.\<close>

lemma sequence_field:
  fixes header :: "'v list \<Rightarrow> u8 list"
  assumes hsize: "\<And>vs. length (header vs) = HSIZE" and "0 < HSIZE"
    and len: "\<And>vs post. seq_wf vs \<Longrightarrow> expected_len (header vs @ post) = Ok (length vs)"
    and elems: "\<And>vs. seq_wf vs \<Longrightarrow> \<forall>v \<in> set vs. wf v"
    and into: "\<And>vs. into_field vs =
      EStruct (map owned_u8 (header vs) @ map (\<lambda>v. EPrimitive (into_primitive v)) vs)"
  shows "sv2_field (seq_get_structure HSIZE expected_len (MPrimitive marker))
    (seq_from_decoded_fields HSIZE (primitive_from_decoded_fields try_from_primitive))
    into_field (seq_get_size HSIZE get_size) seq_wf (map norm)"
proof (unfold_locales, goal_cases)
  case (1 vs)
  then show ?case
    using elems [OF 1] hsize [of vs] \<open>0 < HSIZE\<close>
    by (auto simp: into codec_defs primitive_wf)
next
  case (2 vs)
  then show ?case
    by (simp add: into seq_get_size_sum codec_defs primitive_size o_def hsize sum_list_triv)
next
  case (3 vs post)
  then show ?case
    by (simp add: into seq_get_structure_def len markers_of_def fields_of_def codec_defs
      primitive_marker o_def map_replicate_const hsize)
next
  case (4 vs)
  then show ?case
    by (simp add: into seq_from_decoded_fields_def decoded_of_def fields_of_def hsize o_def
      seq_elements_wire)
next
  case (5 vs)
  have "vec_from_decodable_field (to_decoded (into_field vs)) = decoded_of (into_field vs)"
    using hsize [of vs] \<open>0 < HSIZE\<close>
    by (cases "header vs"; cases "tl (header vs)"; cases vs)
      (auto simp: into decoded_of_def fields_of_def codec_defs)
  with 5 show ?case
    by (simp add: into seq_from_decoded_fields_def decoded_of_def fields_of_def hsize o_def
      seq_elements_wire)
qed

lemma seq0255_field:
  "sv2_field (seq_get_structure seq0255_HEADERSIZE seq0255_expected_len (MPrimitive marker))
    (seq_from_decoded_fields seq0255_HEADERSIZE (primitive_from_decoded_fields try_from_primitive))
    (seq0255_into_field (\<lambda>v. EPrimitive (into_primitive v)))
    (seq_get_size seq0255_HEADERSIZE get_size) (seq0255_wf wf) (map norm)"
  by (rule sequence_field [where header = "\<lambda>vs. [of_nat (length vs)]"])
    (simp_all add: seq0255_HEADERSIZE_def seq0255_wf_def seq0255_header seq0255_into_field_def
      list_all_iff)

lemma seq064k_field:
  "sv2_field (seq_get_structure seq064k_HEADERSIZE seq064k_expected_len (MPrimitive marker))
    (seq_from_decoded_fields seq064k_HEADERSIZE (primitive_from_decoded_fields try_from_primitive))
    (seq064k_into_field (\<lambda>v. EPrimitive (into_primitive v)))
    (seq_get_size seq064k_HEADERSIZE get_size) (seq064k_wf wf) (map norm)"
  by (rule sequence_field [where header = "\<lambda>vs. to_le_bytes (of_nat (length vs) :: u16)"])
    (simp_all add: seq064k_HEADERSIZE_def seq064k_wf_def seq064k_header seq064k_into_field_def
      list_all_iff Let_def map_to_le_bytes_u16)

lemma sv2_option_field:
  "sv2_field (seq_get_structure sv2_option_HEADERSIZE sv2_option_expected_len (MPrimitive marker))
    (seq_from_decoded_fields sv2_option_HEADERSIZE (primitive_from_decoded_fields try_from_primitive))
    (sv2_option_into_field (\<lambda>v. EPrimitive (into_primitive v)))
    (seq_get_size sv2_option_HEADERSIZE get_size) (sv2_option_wf wf) (map norm)"
  by (rule sequence_field [where header = "\<lambda>vs. [of_nat (length vs)]"])
    (simp_all add: sv2_option_HEADERSIZE_def sv2_option_wf_def sv2_option_header
      sv2_option_into_field_def list_all_iff)

end

sublocale sv2_primitive_type \<subseteq> sv2_field "primitive_get_structure marker"
  "primitive_from_decoded_fields try_from_primitive" "\<lambda>v. EPrimitive (into_primitive v)"
  get_size wf norm
  by unfold_locales
    (simp_all add: primitive_wf primitive_size primitive_get_structure_def markers_of_def
      fields_of_def field_marker_from_def primitive_marker decoded_of_def elem_from_decoded)

section \<open>Derived messages\<close>

text \<open>A structure that derives the codec keeps the contract when each of its fields does.\<close>

lemma derived_message:
  assumes struct: "get_structure = derive_get_structure gs"
    and into: "\<And>v. into_field v = derive_into_field (fs v)"
    and fields: "\<And>v. ok v \<Longrightarrow> list_all2 structure_of gs (fs v)"
    and nonempty: "\<And>v. fs v \<noteq> []"
    and sizes: "\<And>v. ok v \<Longrightarrow> get_size v = sum_list (map field_get_size (fs v))"
    and decoded: "\<And>v. ok v \<Longrightarrow> from_decoded_fields (map to_decoded (fs v)) = Ok (norm v)"
  shows "sv2_message get_structure from_decoded_fields into_field get_size ok norm"
proof (unfold_locales, goal_cases)
  case (1 v)
  show ?case using structure_of_wf [OF fields [OF 1] nonempty] by (simp add: into derive_into_field_def)
next
  case (2 v)
  then show ?case by (simp add: into derive_into_field_def sizes)
next
  case (3 v post)
  show ?case using derive_get_structure_wire [OF fields [OF 3], of post]
    by (simp add: into derive_into_field_def struct)
next
  case (4 v)
  then show ?case by (simp add: into derive_into_field_def decoded_of_def fields_of_def decoded)
qed

lemma derive_pop_decoded:
  "derive_pop from_decoded data =
     (if data = [] then Err NoDecodableFieldPassed
      else rbind (from_decoded (vec_from_decodable_field (last data))) (\<lambda>v. Ok (v, butlast data)))"
  by (simp add: derive_pop_def vec_pop_def)

section \<open>The primitive types\<close>

interpretation f_u8: sv2_primitive_type M_U8 u8_try_from_primitive E_U8
  "\<lambda>_. uint_SIZE TYPE(8)" "\<lambda>_. True" "\<lambda>v. v"
  by unfold_locales (simp_all add: codec_defs)

interpretation f_u16: sv2_primitive_type M_U16 u16_try_from_primitive E_U16
  "\<lambda>_. uint_SIZE TYPE(16)" "\<lambda>_. True" "\<lambda>v. v"
  by unfold_locales (simp_all add: codec_defs)

interpretation f_bool: sv2_primitive_type M_Bool bool_try_from_primitive E_Bool
  "\<lambda>_. BOOL_SIZE" "\<lambda>_. True" "\<lambda>v. v"
  by unfold_locales (simp_all add: codec_defs)

interpretation f_u24: sv2_primitive_type M_U24 u24_try_from_primitive E_U24
  "\<lambda>_. U24_SIZE" u24_wf "\<lambda>v. v"
  by unfold_locales (simp_all add: codec_defs)

interpretation f_u256: sv2_primitive_type M_U256 u256_try_from_primitive E_U256
  "inner_get_size U256" "inner_wf U256" inner_norm
  by unfold_locales (simp_all add: codec_defs)

interpretation f_signature: sv2_primitive_type M_Signature signature_try_from_primitive E_Signature
  "inner_get_size Signature" "inner_wf Signature" inner_norm
  by unfold_locales (simp_all add: codec_defs)

interpretation f_u32: sv2_primitive_type M_U32 u32_try_from_primitive E_U32
  "\<lambda>_. uint_SIZE TYPE(32)" "\<lambda>_. True" "\<lambda>v. v"
  by unfold_locales (simp_all add: codec_defs)

interpretation f_u32_as_ref: sv2_primitive_type M_U32AsRef u32_as_ref_try_from_primitive E_U32AsRef
  "inner_get_size U32AsRef" "inner_wf U32AsRef" inner_norm
  by unfold_locales (simp_all add: codec_defs)

interpretation f_f32: sv2_primitive_type M_F32 f32_try_from_primitive E_F32
  "\<lambda>_. uint_SIZE TYPE(32)" "\<lambda>_. True" "\<lambda>v. v"
  by unfold_locales (simp_all add: codec_defs)

interpretation f_u64: sv2_primitive_type M_U64 u64_try_from_primitive E_U64
  "\<lambda>_. uint_SIZE TYPE(64)" "\<lambda>_. True" "\<lambda>v. v"
  by unfold_locales (simp_all add: codec_defs)

interpretation f_b032: sv2_primitive_type M_B032 b032_try_from_primitive E_B032
  "inner_get_size B032" "inner_wf B032" inner_norm
  by unfold_locales (simp_all add: codec_defs)

interpretation f_b0255: sv2_primitive_type M_B0255 b0255_try_from_primitive E_B0255
  "inner_get_size B0255" "inner_wf B0255" inner_norm
  by unfold_locales (simp_all add: codec_defs)

interpretation f_b064k: sv2_primitive_type M_B064K b064k_try_from_primitive E_B064K
  "inner_get_size B064K" "inner_wf B064K" inner_norm
  by unfold_locales (simp_all add: codec_defs)

interpretation f_b016m: sv2_primitive_type M_B016M b016m_try_from_primitive E_B016M
  "inner_get_size B016M" "inner_wf B016M" inner_norm
  by unfold_locales (simp_all add: codec_defs)

section \<open>Sequences decoded on their own\<close>

text \<open>\<open>from_bytes\<close> of a sequence type, which decodes element by element.\<close>

context sv2_datatype
begin

lemma seq_read_elements_wire:
  "list_all wf vs \<Longrightarrow>
   seq_read_elements size_hint from_bytes_unchecked (length vs) (concat (map wire vs) @ post) =
     Ok (map norm vs)"
proof (induction vs)
  case (Cons v vs)
  then show ?case
    using size_hint_wire [of v "[]" "concat (map wire vs) @ post"]
    by (simp add: split_at_def length_wire decode_wire)
qed simp

lemma seq_read_elements_no_panic:
  "seq_read_elements size_hint from_bytes_unchecked n data \<noteq> Panic"
proof (induction n arbitrary: data)
  case (Suc n)
  show ?case
  proof (cases "size_hint data 0")
    case (Ok k)
    then show ?thesis
      using Suc.IH [of "drop k data"] decode_total [OF Ok]
      by (cases "k \<le> length data") (auto simp: split_at_def result_simps)
  qed (simp_all add: size_hint_no_panic)
qed simp

lemma seq_from_bytes_wire:
  assumes "list_all wf vs" and "length header = HSIZE"
    and "\<And>post. expected_len (header @ post) = Ok (length vs)"
  shows "seq_from_bytes HSIZE expected_len size_hint from_bytes_unchecked
    (header @ concat (map wire vs) @ post) = Ok (map norm vs)"
  using assms by (simp add: seq_from_bytes_def slice_from_def seq_read_elements_wire)

end

end
