(* ===== verification/Field_Types.thy ===== *)
theory Field_Types
  imports Sequences
begin

text \<open>
  The types that occur as fields of SV2 messages, each with the methods the derive macros call
  (\<open>get_structure\<close>, \<open>from_decoded_fields\<close>, \<open>into\<close>, \<open>get_size\<close>), and \<open>Protocol\<close> of
  \<open>common-messages/src/setup_connection.rs\<close>, which implements them by hand. Every type is an
  interpretation of \<open>sv2_field\<close>; the bundles at the end are what the message theories use.
\<close>

section \<open>Methods of the field types\<close>

abbreviation u8_structure :: "bytes \<Rightarrow> field_marker list sv2" where
  "u8_structure \<equiv> primitive_get_structure M_U8"

abbreviation u8_from_decoded :: "decodable_field list \<Rightarrow> u8 sv2" where
  "u8_from_decoded \<equiv> primitive_from_decoded_fields u8_try_from_primitive"

abbreviation u8_into :: "u8 \<Rightarrow> encodable_field" where
  "u8_into v \<equiv> EPrimitive (E_U8 v)"

abbreviation u8_size :: "u8 \<Rightarrow> nat" where
  "u8_size v \<equiv> uint_SIZE TYPE(8)"

abbreviation u16_structure :: "bytes \<Rightarrow> field_marker list sv2" where
  "u16_structure \<equiv> primitive_get_structure M_U16"

abbreviation u16_from_decoded :: "decodable_field list \<Rightarrow> u16 sv2" where
  "u16_from_decoded \<equiv> primitive_from_decoded_fields u16_try_from_primitive"

abbreviation u16_into :: "u16 \<Rightarrow> encodable_field" where
  "u16_into v \<equiv> EPrimitive (E_U16 v)"

abbreviation u16_size :: "u16 \<Rightarrow> nat" where
  "u16_size v \<equiv> uint_SIZE TYPE(16)"

abbreviation bool_structure :: "bytes \<Rightarrow> field_marker list sv2" where
  "bool_structure \<equiv> primitive_get_structure M_Bool"

abbreviation bool_from_decoded :: "decodable_field list \<Rightarrow> bool sv2" where
  "bool_from_decoded \<equiv> primitive_from_decoded_fields bool_try_from_primitive"

abbreviation bool_into :: "bool \<Rightarrow> encodable_field" where
  "bool_into v \<equiv> EPrimitive (E_Bool v)"

abbreviation bool_size :: "bool \<Rightarrow> nat" where
  "bool_size v \<equiv> BOOL_SIZE"

abbreviation u32_structure :: "bytes \<Rightarrow> field_marker list sv2" where
  "u32_structure \<equiv> primitive_get_structure M_U32"

abbreviation u32_from_decoded :: "decodable_field list \<Rightarrow> u32 sv2" where
  "u32_from_decoded \<equiv> primitive_from_decoded_fields u32_try_from_primitive"

abbreviation u32_into :: "u32 \<Rightarrow> encodable_field" where
  "u32_into v \<equiv> EPrimitive (E_U32 v)"

abbreviation u32_size :: "u32 \<Rightarrow> nat" where
  "u32_size v \<equiv> uint_SIZE TYPE(32)"

abbreviation f32_structure :: "bytes \<Rightarrow> field_marker list sv2" where
  "f32_structure \<equiv> primitive_get_structure M_F32"

abbreviation f32_from_decoded :: "decodable_field list \<Rightarrow> u32 sv2" where
  "f32_from_decoded \<equiv> primitive_from_decoded_fields f32_try_from_primitive"

abbreviation f32_into :: "u32 \<Rightarrow> encodable_field" where
  "f32_into v \<equiv> EPrimitive (E_F32 v)"

abbreviation f32_size :: "u32 \<Rightarrow> nat" where
  "f32_size v \<equiv> uint_SIZE TYPE(32)"

abbreviation u64_structure :: "bytes \<Rightarrow> field_marker list sv2" where
  "u64_structure \<equiv> primitive_get_structure M_U64"

abbreviation u64_from_decoded :: "decodable_field list \<Rightarrow> u64 sv2" where
  "u64_from_decoded \<equiv> primitive_from_decoded_fields u64_try_from_primitive"

abbreviation u64_into :: "u64 \<Rightarrow> encodable_field" where
  "u64_into v \<equiv> EPrimitive (E_U64 v)"

abbreviation u64_size :: "u64 \<Rightarrow> nat" where
  "u64_size v \<equiv> uint_SIZE TYPE(64)"

abbreviation u24_structure :: "bytes \<Rightarrow> field_marker list sv2" where
  "u24_structure \<equiv> primitive_get_structure M_U24"

abbreviation u24_from_decoded :: "decodable_field list \<Rightarrow> u24 sv2" where
  "u24_from_decoded \<equiv> primitive_from_decoded_fields u24_try_from_primitive"

abbreviation u24_into :: "u24 \<Rightarrow> encodable_field" where
  "u24_into v \<equiv> EPrimitive (E_U24 v)"

abbreviation u24_size :: "u24 \<Rightarrow> nat" where
  "u24_size v \<equiv> U24_SIZE"

abbreviation u256_structure :: "bytes \<Rightarrow> field_marker list sv2" where
  "u256_structure \<equiv> primitive_get_structure M_U256"

abbreviation u256_from_decoded :: "decodable_field list \<Rightarrow> inner sv2" where
  "u256_from_decoded \<equiv> primitive_from_decoded_fields u256_try_from_primitive"

abbreviation u256_into :: "inner \<Rightarrow> encodable_field" where
  "u256_into v \<equiv> EPrimitive (E_U256 v)"

abbreviation u256_size :: "inner \<Rightarrow> nat" where
  "u256_size v \<equiv> inner_get_size U256 v"

abbreviation u32_as_ref_structure :: "bytes \<Rightarrow> field_marker list sv2" where
  "u32_as_ref_structure \<equiv> primitive_get_structure M_U32AsRef"

abbreviation u32_as_ref_from_decoded :: "decodable_field list \<Rightarrow> inner sv2" where
  "u32_as_ref_from_decoded \<equiv> primitive_from_decoded_fields u32_as_ref_try_from_primitive"

abbreviation u32_as_ref_into :: "inner \<Rightarrow> encodable_field" where
  "u32_as_ref_into v \<equiv> EPrimitive (E_U32AsRef v)"

abbreviation u32_as_ref_size :: "inner \<Rightarrow> nat" where
  "u32_as_ref_size v \<equiv> inner_get_size U32AsRef v"

abbreviation b032_structure :: "bytes \<Rightarrow> field_marker list sv2" where
  "b032_structure \<equiv> primitive_get_structure M_B032"

abbreviation b032_from_decoded :: "decodable_field list \<Rightarrow> inner sv2" where
  "b032_from_decoded \<equiv> primitive_from_decoded_fields b032_try_from_primitive"

abbreviation b032_into :: "inner \<Rightarrow> encodable_field" where
  "b032_into v \<equiv> EPrimitive (E_B032 v)"

abbreviation b032_size :: "inner \<Rightarrow> nat" where
  "b032_size v \<equiv> inner_get_size B032 v"

abbreviation b0255_structure :: "bytes \<Rightarrow> field_marker list sv2" where
  "b0255_structure \<equiv> primitive_get_structure M_B0255"

abbreviation b0255_from_decoded :: "decodable_field list \<Rightarrow> inner sv2" where
  "b0255_from_decoded \<equiv> primitive_from_decoded_fields b0255_try_from_primitive"

abbreviation b0255_into :: "inner \<Rightarrow> encodable_field" where
  "b0255_into v \<equiv> EPrimitive (E_B0255 v)"

abbreviation b0255_size :: "inner \<Rightarrow> nat" where
  "b0255_size v \<equiv> inner_get_size B0255 v"

abbreviation b064k_structure :: "bytes \<Rightarrow> field_marker list sv2" where
  "b064k_structure \<equiv> primitive_get_structure M_B064K"

abbreviation b064k_from_decoded :: "decodable_field list \<Rightarrow> inner sv2" where
  "b064k_from_decoded \<equiv> primitive_from_decoded_fields b064k_try_from_primitive"

abbreviation b064k_into :: "inner \<Rightarrow> encodable_field" where
  "b064k_into v \<equiv> EPrimitive (E_B064K v)"

abbreviation b064k_size :: "inner \<Rightarrow> nat" where
  "b064k_size v \<equiv> inner_get_size B064K v"

abbreviation b016m_structure :: "bytes \<Rightarrow> field_marker list sv2" where
  "b016m_structure \<equiv> primitive_get_structure M_B016M"

abbreviation b016m_from_decoded :: "decodable_field list \<Rightarrow> inner sv2" where
  "b016m_from_decoded \<equiv> primitive_from_decoded_fields b016m_try_from_primitive"

abbreviation b016m_into :: "inner \<Rightarrow> encodable_field" where
  "b016m_into v \<equiv> EPrimitive (E_B016M v)"

abbreviation b016m_size :: "inner \<Rightarrow> nat" where
  "b016m_size v \<equiv> inner_get_size B016M v"

definition seq0255_u256_structure :: "bytes \<Rightarrow> field_marker list sv2" where
  "seq0255_u256_structure = seq_get_structure seq0255_HEADERSIZE seq0255_expected_len (get_marker M_U256)"

definition seq0255_u256_from_decoded :: "decodable_field list \<Rightarrow> inner list sv2" where
  "seq0255_u256_from_decoded = seq_from_decoded_fields seq0255_HEADERSIZE u256_from_decoded"

definition seq0255_u256_into :: "inner list \<Rightarrow> encodable_field" where
  "seq0255_u256_into = seq0255_into_field u256_into"

definition seq0255_u256_size :: "inner list \<Rightarrow> nat" where
  "seq0255_u256_size = seq_get_size seq0255_HEADERSIZE u256_size"

definition seq064k_u256_structure :: "bytes \<Rightarrow> field_marker list sv2" where
  "seq064k_u256_structure = seq_get_structure seq064k_HEADERSIZE seq064k_expected_len (get_marker M_U256)"

definition seq064k_u256_from_decoded :: "decodable_field list \<Rightarrow> inner list sv2" where
  "seq064k_u256_from_decoded = seq_from_decoded_fields seq064k_HEADERSIZE u256_from_decoded"

definition seq064k_u256_into :: "inner list \<Rightarrow> encodable_field" where
  "seq064k_u256_into = seq064k_into_field u256_into"

definition seq064k_u256_size :: "inner list \<Rightarrow> nat" where
  "seq064k_u256_size = seq_get_size seq064k_HEADERSIZE u256_size"

definition seq064k_u16_structure :: "bytes \<Rightarrow> field_marker list sv2" where
  "seq064k_u16_structure = seq_get_structure seq064k_HEADERSIZE seq064k_expected_len (get_marker M_U16)"

definition seq064k_u16_from_decoded :: "decodable_field list \<Rightarrow> u16 list sv2" where
  "seq064k_u16_from_decoded = seq_from_decoded_fields seq064k_HEADERSIZE u16_from_decoded"

definition seq064k_u16_into :: "u16 list \<Rightarrow> encodable_field" where
  "seq064k_u16_into = seq064k_into_field u16_into"

definition seq064k_u16_size :: "u16 list \<Rightarrow> nat" where
  "seq064k_u16_size = seq_get_size seq064k_HEADERSIZE u16_size"

definition seq064k_u32_structure :: "bytes \<Rightarrow> field_marker list sv2" where
  "seq064k_u32_structure = seq_get_structure seq064k_HEADERSIZE seq064k_expected_len (get_marker M_U32)"

definition seq064k_u32_from_decoded :: "decodable_field list \<Rightarrow> u32 list sv2" where
  "seq064k_u32_from_decoded = seq_from_decoded_fields seq064k_HEADERSIZE u32_from_decoded"

definition seq064k_u32_into :: "u32 list \<Rightarrow> encodable_field" where
  "seq064k_u32_into = seq064k_into_field u32_into"

definition seq064k_u32_size :: "u32 list \<Rightarrow> nat" where
  "seq064k_u32_size = seq_get_size seq064k_HEADERSIZE u32_size"

definition seq064k_b016m_structure :: "bytes \<Rightarrow> field_marker list sv2" where
  "seq064k_b016m_structure = seq_get_structure seq064k_HEADERSIZE seq064k_expected_len (get_marker M_B016M)"

definition seq064k_b016m_from_decoded :: "decodable_field list \<Rightarrow> inner list sv2" where
  "seq064k_b016m_from_decoded = seq_from_decoded_fields seq064k_HEADERSIZE b016m_from_decoded"

definition seq064k_b016m_into :: "inner list \<Rightarrow> encodable_field" where
  "seq064k_b016m_into = seq064k_into_field b016m_into"

definition seq064k_b016m_size :: "inner list \<Rightarrow> nat" where
  "seq064k_b016m_size = seq_get_size seq064k_HEADERSIZE b016m_size"

definition option_u32_structure :: "bytes \<Rightarrow> field_marker list sv2" where
  "option_u32_structure = seq_get_structure sv2_option_HEADERSIZE sv2_option_expected_len (get_marker M_U32)"

definition option_u32_from_decoded :: "decodable_field list \<Rightarrow> u32 list sv2" where
  "option_u32_from_decoded = seq_from_decoded_fields sv2_option_HEADERSIZE u32_from_decoded"

definition option_u32_into :: "u32 list \<Rightarrow> encodable_field" where
  "option_u32_into = sv2_option_into_field u32_into"

definition option_u32_size :: "u32 list \<Rightarrow> nat" where
  "option_u32_size = seq_get_size sv2_option_HEADERSIZE u32_size"

definition option_b0255_structure :: "bytes \<Rightarrow> field_marker list sv2" where
  "option_b0255_structure = seq_get_structure sv2_option_HEADERSIZE sv2_option_expected_len (get_marker M_B0255)"

definition option_b0255_from_decoded :: "decodable_field list \<Rightarrow> inner list sv2" where
  "option_b0255_from_decoded = seq_from_decoded_fields sv2_option_HEADERSIZE b0255_from_decoded"

definition option_b0255_into :: "inner list \<Rightarrow> encodable_field" where
  "option_b0255_into = sv2_option_into_field b0255_into"

definition option_b0255_size :: "inner list \<Rightarrow> nat" where
  "option_b0255_size = seq_get_size sv2_option_HEADERSIZE b0255_size"

lemmas sequence_type_defs =
  seq0255_u256_structure_def seq0255_u256_from_decoded_def seq0255_u256_into_def
  seq0255_u256_size_def seq064k_u256_structure_def seq064k_u256_from_decoded_def
  seq064k_u256_into_def seq064k_u256_size_def seq064k_u16_structure_def
  seq064k_u16_from_decoded_def seq064k_u16_into_def seq064k_u16_size_def
  seq064k_u32_structure_def seq064k_u32_from_decoded_def seq064k_u32_into_def
  seq064k_u32_size_def seq064k_b016m_structure_def seq064k_b016m_from_decoded_def
  seq064k_b016m_into_def seq064k_b016m_size_def option_u32_structure_def
  option_u32_from_decoded_def option_u32_into_def option_u32_size_def
  option_b0255_structure_def option_b0255_from_decoded_def option_b0255_into_def
  option_b0255_size_def get_marker_def

section \<open>Protocol\<close>

datatype protocol = MiningProtocol | JobDeclarationProtocol | TemplateDistributionProtocol

fun protocol_discriminant :: "protocol \<Rightarrow> u8" where
  "protocol_discriminant MiningProtocol = 0"
| "protocol_discriminant JobDeclarationProtocol = 1"
| "protocol_discriminant TemplateDistributionProtocol = 2"

definition protocol_try_from :: "u8 \<Rightarrow> protocol option" where
  "protocol_try_from value =
     (if value = 0 then Some MiningProtocol
      else if value = 1 then Some JobDeclarationProtocol
      else if value = 2 then Some TemplateDistributionProtocol
      else None)"

definition protocol_into :: "protocol \<Rightarrow> encodable_field" where
  "protocol_into v = u8_into (protocol_discriminant v)"

definition protocol_structure :: "bytes \<Rightarrow> field_marker list sv2" where
  "protocol_structure data = Ok [field_marker_from M_U8]"

definition protocol_from_decoded :: "decodable_field list \<Rightarrow> protocol sv2" where
  "protocol_from_decoded v =
     rbind (ok_or NoDecodableFieldPassed (vec_pop v)) (\<lambda>(f, _).
       rbind (try_from_field u8_try_from_primitive f) (\<lambda>val.
         ok_or (ValueIsNotAValidProtocol val) (protocol_try_from val)))"

definition protocol_size :: "protocol \<Rightarrow> nat" where
  "protocol_size v = 1"

section \<open>Every field type keeps the contract\<close>

interpretation f_protocol: sv2_field protocol_structure protocol_from_decoded protocol_into
  protocol_size "\<lambda>_. True" "\<lambda>v. v"
proof (unfold_locales, goal_cases)
  case (4 v)
  then show ?case
    by (cases v) (simp_all add: protocol_into_def protocol_from_decoded_def decoded_of_def
      fields_of_def try_from_field_def codec_defs protocol_try_from_def)
next
  case (5 v)
  then show ?case
    by (cases v) (simp_all add: protocol_into_def protocol_from_decoded_def
      try_from_field_def codec_defs protocol_try_from_def)
qed (simp_all add: protocol_into_def protocol_size_def uint_SIZE_def protocol_structure_def
    markers_of_def fields_of_def field_marker_from_def)

interpretation f_seq0255_u256: sv2_field seq0255_u256_structure seq0255_u256_from_decoded seq0255_u256_into seq0255_u256_size
  "seq0255_wf (inner_wf U256)" "map inner_norm"
  unfolding sequence_type_defs by (rule f_u256.seq0255_field)

interpretation f_seq064k_u256: sv2_field seq064k_u256_structure seq064k_u256_from_decoded seq064k_u256_into seq064k_u256_size
  "seq064k_wf (inner_wf U256)" "map inner_norm"
  unfolding sequence_type_defs by (rule f_u256.seq064k_field)

interpretation f_seq064k_u16: sv2_field seq064k_u16_structure seq064k_u16_from_decoded seq064k_u16_into seq064k_u16_size
  "seq064k_wf (\<lambda>_. True)" "map (\<lambda>v. v)"
  unfolding sequence_type_defs by (rule f_u16.seq064k_field)

interpretation f_seq064k_u32: sv2_field seq064k_u32_structure seq064k_u32_from_decoded seq064k_u32_into seq064k_u32_size
  "seq064k_wf (\<lambda>_. True)" "map (\<lambda>v. v)"
  unfolding sequence_type_defs by (rule f_u32.seq064k_field)

interpretation f_seq064k_b016m: sv2_field seq064k_b016m_structure seq064k_b016m_from_decoded seq064k_b016m_into seq064k_b016m_size
  "seq064k_wf (inner_wf B016M)" "map inner_norm"
  unfolding sequence_type_defs by (rule f_b016m.seq064k_field)

interpretation f_option_u32: sv2_field option_u32_structure option_u32_from_decoded option_u32_into option_u32_size
  "sv2_option_wf (\<lambda>_. True)" "map (\<lambda>v. v)"
  unfolding sequence_type_defs by (rule f_u32.sv2_option_field)

interpretation f_option_b0255: sv2_field option_b0255_structure option_b0255_from_decoded option_b0255_into option_b0255_size
  "sv2_option_wf (inner_wf B0255)" "map inner_norm"
  unfolding sequence_type_defs by (rule f_b0255.sv2_option_field)

lemmas field_field_oks =
  f_u8.field_ok f_u16.field_ok f_bool.field_ok f_u32.field_ok f_f32.field_ok f_u64.field_ok
  f_u24.field_ok f_u256.field_ok f_u32_as_ref.field_ok f_b032.field_ok f_b0255.field_ok
  f_b064k.field_ok f_b016m.field_ok f_seq0255_u256.field_ok f_seq064k_u256.field_ok
  f_seq064k_u16.field_ok f_seq064k_u32.field_ok f_seq064k_b016m.field_ok f_option_u32.field_ok
  f_option_b0255.field_ok f_protocol.field_ok

lemmas field_get_size_fields =
  f_u8.get_size_field f_u16.get_size_field f_bool.get_size_field f_u32.get_size_field
  f_f32.get_size_field f_u64.get_size_field f_u24.get_size_field f_u256.get_size_field
  f_u32_as_ref.get_size_field f_b032.get_size_field f_b0255.get_size_field
  f_b064k.get_size_field f_b016m.get_size_field f_seq0255_u256.get_size_field
  f_seq064k_u256.get_size_field f_seq064k_u16.get_size_field f_seq064k_u32.get_size_field
  f_seq064k_b016m.get_size_field f_option_u32.get_size_field f_option_b0255.get_size_field
  f_protocol.get_size_field

lemmas field_structure_of_fields =
  f_u8.structure_of_field f_u16.structure_of_field f_bool.structure_of_field
  f_u32.structure_of_field f_f32.structure_of_field f_u64.structure_of_field
  f_u24.structure_of_field f_u256.structure_of_field f_u32_as_ref.structure_of_field
  f_b032.structure_of_field f_b0255.structure_of_field f_b064k.structure_of_field
  f_b016m.structure_of_field f_seq0255_u256.structure_of_field
  f_seq064k_u256.structure_of_field f_seq064k_u16.structure_of_field
  f_seq064k_u32.structure_of_field f_seq064k_b016m.structure_of_field
  f_option_u32.structure_of_field f_option_b0255.structure_of_field
  f_protocol.structure_of_field

lemmas field_from_decoded_nesteds =
  f_u8.from_decoded_nested f_u16.from_decoded_nested f_bool.from_decoded_nested
  f_u32.from_decoded_nested f_f32.from_decoded_nested f_u64.from_decoded_nested
  f_u24.from_decoded_nested f_u256.from_decoded_nested f_u32_as_ref.from_decoded_nested
  f_b032.from_decoded_nested f_b0255.from_decoded_nested f_b064k.from_decoded_nested
  f_b016m.from_decoded_nested f_seq0255_u256.from_decoded_nested
  f_seq064k_u256.from_decoded_nested f_seq064k_u16.from_decoded_nested
  f_seq064k_u32.from_decoded_nested f_seq064k_b016m.from_decoded_nested
  f_option_u32.from_decoded_nested f_option_b0255.from_decoded_nested
  f_protocol.from_decoded_nested

lemmas derived_message_simps =
  derive_pop_decoded field_structure_of_fields field_get_size_fields [symmetric]
  field_from_decoded_nesteds

declare to_decoded.simps [simp del]

end
