(* ===== verification/Mining_Messages.thy ===== *)
theory Mining_Messages
  imports Field_Types
begin

text \<open>
  The messages of the mining subprotocol (\<open>subprotocols/mining/src\<close>): one record per structure
  with the methods its derived codec has, and the round trip of each as an interpretation of
  \<open>sv2_message\<close>. A field keeps its Rust name behind a prefix for the message.
\<close>

section \<open>CloseChannel\<close>

record CloseChannel =
  cc_channel_id :: u32
  cc_reason_code :: inner

definition CloseChannel_get_structure :: "bytes \<Rightarrow> field_marker list sv2" where
  "CloseChannel_get_structure = derive_get_structure
     [u32_structure, b0255_structure]"

definition CloseChannel_from_decoded_fields :: "decodable_field list \<Rightarrow> CloseChannel sv2" where
  "CloseChannel_from_decoded_fields data =
     rbind (derive_pop b0255_from_decoded data) (\<lambda>(reason_code, data).
     rbind (derive_pop u32_from_decoded data) (\<lambda>(channel_id, data).
       Ok \<lparr>cc_channel_id = channel_id, cc_reason_code = reason_code\<rparr>))"

definition CloseChannel_into_field :: "CloseChannel \<Rightarrow> encodable_field" where
  "CloseChannel_into_field v = derive_into_field
     [u32_into (cc_channel_id v), b0255_into (cc_reason_code v)]"

definition CloseChannel_get_size :: "CloseChannel \<Rightarrow> nat" where
  "CloseChannel_get_size v =
     u32_size (cc_channel_id v) + b0255_size (cc_reason_code v)"

definition CloseChannel_wf :: "CloseChannel \<Rightarrow> bool" where
  "CloseChannel_wf v = (inner_wf B0255 (cc_reason_code v))"

definition CloseChannel_norm :: "CloseChannel \<Rightarrow> CloseChannel" where
  "CloseChannel_norm v =
     \<lparr>cc_channel_id = cc_channel_id v, cc_reason_code = inner_norm (cc_reason_code v)\<rparr>"

definition CloseChannel_from_bytes :: "bytes \<Rightarrow> CloseChannel sv2" where
  "CloseChannel_from_bytes = decodable_from_bytes CloseChannel_get_structure CloseChannel_from_decoded_fields"

interpretation m_CloseChannel: sv2_message CloseChannel_get_structure
  CloseChannel_from_decoded_fields CloseChannel_into_field CloseChannel_get_size CloseChannel_wf CloseChannel_norm
  by (rule derived_message [OF CloseChannel_get_structure_def CloseChannel_into_field_def])
    (simp_all add: CloseChannel_wf_def CloseChannel_norm_def CloseChannel_get_size_def CloseChannel_from_decoded_fields_def derived_message_simps)

section \<open>NewMiningJob\<close>

record NewMiningJob =
  nmj_channel_id :: u32
  nmj_job_id :: u32
  nmj_min_ntime :: "u32 list"
  nmj_version :: u32
  nmj_merkle_root :: inner

definition NewMiningJob_get_structure :: "bytes \<Rightarrow> field_marker list sv2" where
  "NewMiningJob_get_structure = derive_get_structure
     [u32_structure, u32_structure, option_u32_structure, u32_structure, u256_structure]"

definition NewMiningJob_from_decoded_fields :: "decodable_field list \<Rightarrow> NewMiningJob sv2" where
  "NewMiningJob_from_decoded_fields data =
     rbind (derive_pop u256_from_decoded data) (\<lambda>(merkle_root, data).
     rbind (derive_pop u32_from_decoded data) (\<lambda>(version, data).
     rbind (derive_pop option_u32_from_decoded data) (\<lambda>(min_ntime, data).
     rbind (derive_pop u32_from_decoded data) (\<lambda>(job_id, data).
     rbind (derive_pop u32_from_decoded data) (\<lambda>(channel_id, data).
       Ok \<lparr>nmj_channel_id = channel_id, nmj_job_id = job_id, nmj_min_ntime = min_ntime,
         nmj_version = version, nmj_merkle_root = merkle_root\<rparr>)))))"

definition NewMiningJob_into_field :: "NewMiningJob \<Rightarrow> encodable_field" where
  "NewMiningJob_into_field v = derive_into_field
     [u32_into (nmj_channel_id v), u32_into (nmj_job_id v),
      option_u32_into (nmj_min_ntime v), u32_into (nmj_version v),
      u256_into (nmj_merkle_root v)]"

definition NewMiningJob_get_size :: "NewMiningJob \<Rightarrow> nat" where
  "NewMiningJob_get_size v =
     u32_size (nmj_channel_id v) + u32_size (nmj_job_id v) +
     option_u32_size (nmj_min_ntime v) + u32_size (nmj_version v) +
     u256_size (nmj_merkle_root v)"

definition NewMiningJob_wf :: "NewMiningJob \<Rightarrow> bool" where
  "NewMiningJob_wf v = (sv2_option_wf (\<lambda>_. True) (nmj_min_ntime v) \<and>
     inner_wf U256 (nmj_merkle_root v))"

definition NewMiningJob_norm :: "NewMiningJob \<Rightarrow> NewMiningJob" where
  "NewMiningJob_norm v =
     \<lparr>nmj_channel_id = nmj_channel_id v, nmj_job_id = nmj_job_id v,
      nmj_min_ntime = nmj_min_ntime v, nmj_version = nmj_version v,
      nmj_merkle_root = inner_norm (nmj_merkle_root v)\<rparr>"

definition NewMiningJob_from_bytes :: "bytes \<Rightarrow> NewMiningJob sv2" where
  "NewMiningJob_from_bytes = decodable_from_bytes NewMiningJob_get_structure NewMiningJob_from_decoded_fields"

interpretation m_NewMiningJob: sv2_message NewMiningJob_get_structure
  NewMiningJob_from_decoded_fields NewMiningJob_into_field NewMiningJob_get_size NewMiningJob_wf NewMiningJob_norm
  by (rule derived_message [OF NewMiningJob_get_structure_def NewMiningJob_into_field_def])
    (simp_all add: NewMiningJob_wf_def NewMiningJob_norm_def NewMiningJob_get_size_def NewMiningJob_from_decoded_fields_def derived_message_simps)

section \<open>NewExtendedMiningJob\<close>

record NewExtendedMiningJob =
  nemj_channel_id :: u32
  nemj_job_id :: u32
  nemj_min_ntime :: "u32 list"
  nemj_version :: u32
  nemj_version_rolling_allowed :: bool
  nemj_merkle_path :: "inner list"
  nemj_coinbase_tx_prefix :: inner
  nemj_coinbase_tx_suffix :: inner

definition NewExtendedMiningJob_get_structure :: "bytes \<Rightarrow> field_marker list sv2" where
  "NewExtendedMiningJob_get_structure = derive_get_structure
     [u32_structure, u32_structure, option_u32_structure, u32_structure, bool_structure,
      seq0255_u256_structure, b064k_structure, b064k_structure]"

definition NewExtendedMiningJob_from_decoded_fields :: "decodable_field list \<Rightarrow> NewExtendedMiningJob sv2" where
  "NewExtendedMiningJob_from_decoded_fields data =
     rbind (derive_pop b064k_from_decoded data) (\<lambda>(coinbase_tx_suffix, data).
     rbind (derive_pop b064k_from_decoded data) (\<lambda>(coinbase_tx_prefix, data).
     rbind (derive_pop seq0255_u256_from_decoded data) (\<lambda>(merkle_path, data).
     rbind (derive_pop bool_from_decoded data) (\<lambda>(version_rolling_allowed, data).
     rbind (derive_pop u32_from_decoded data) (\<lambda>(version, data).
     rbind (derive_pop option_u32_from_decoded data) (\<lambda>(min_ntime, data).
     rbind (derive_pop u32_from_decoded data) (\<lambda>(job_id, data).
     rbind (derive_pop u32_from_decoded data) (\<lambda>(channel_id, data).
       Ok \<lparr>nemj_channel_id = channel_id, nemj_job_id = job_id, nemj_min_ntime = min_ntime,
         nemj_version = version, nemj_version_rolling_allowed = version_rolling_allowed,
         nemj_merkle_path = merkle_path, nemj_coinbase_tx_prefix = coinbase_tx_prefix,
         nemj_coinbase_tx_suffix = coinbase_tx_suffix\<rparr>))))))))"

definition NewExtendedMiningJob_into_field :: "NewExtendedMiningJob \<Rightarrow> encodable_field" where
  "NewExtendedMiningJob_into_field v = derive_into_field
     [u32_into (nemj_channel_id v), u32_into (nemj_job_id v),
      option_u32_into (nemj_min_ntime v), u32_into (nemj_version v),
      bool_into (nemj_version_rolling_allowed v), seq0255_u256_into (nemj_merkle_path v),
      b064k_into (nemj_coinbase_tx_prefix v), b064k_into (nemj_coinbase_tx_suffix v)]"

definition NewExtendedMiningJob_get_size :: "NewExtendedMiningJob \<Rightarrow> nat" where
  "NewExtendedMiningJob_get_size v =
     u32_size (nemj_channel_id v) + u32_size (nemj_job_id v) +
     option_u32_size (nemj_min_ntime v) + u32_size (nemj_version v) +
     bool_size (nemj_version_rolling_allowed v) + seq0255_u256_size (nemj_merkle_path v) +
     b064k_size (nemj_coinbase_tx_prefix v) + b064k_size (nemj_coinbase_tx_suffix v)"

definition NewExtendedMiningJob_wf :: "NewExtendedMiningJob \<Rightarrow> bool" where
  "NewExtendedMiningJob_wf v = (sv2_option_wf (\<lambda>_. True) (nemj_min_ntime v) \<and>
     seq0255_wf (inner_wf U256) (nemj_merkle_path v) \<and>
     inner_wf B064K (nemj_coinbase_tx_prefix v) \<and>
     inner_wf B064K (nemj_coinbase_tx_suffix v))"

definition NewExtendedMiningJob_norm :: "NewExtendedMiningJob \<Rightarrow> NewExtendedMiningJob" where
  "NewExtendedMiningJob_norm v =
     \<lparr>nemj_channel_id = nemj_channel_id v, nemj_job_id = nemj_job_id v,
      nemj_min_ntime = nemj_min_ntime v, nemj_version = nemj_version v,
      nemj_version_rolling_allowed = nemj_version_rolling_allowed v,
      nemj_merkle_path = map inner_norm (nemj_merkle_path v),
      nemj_coinbase_tx_prefix = inner_norm (nemj_coinbase_tx_prefix v),
      nemj_coinbase_tx_suffix = inner_norm (nemj_coinbase_tx_suffix v)\<rparr>"

definition NewExtendedMiningJob_from_bytes :: "bytes \<Rightarrow> NewExtendedMiningJob sv2" where
  "NewExtendedMiningJob_from_bytes = decodable_from_bytes NewExtendedMiningJob_get_structure NewExtendedMiningJob_from_decoded_fields"

interpretation m_NewExtendedMiningJob: sv2_message NewExtendedMiningJob_get_structure
  NewExtendedMiningJob_from_decoded_fields NewExtendedMiningJob_into_field NewExtendedMiningJob_get_size NewExtendedMiningJob_wf NewExtendedMiningJob_norm
  by (rule derived_message [OF NewExtendedMiningJob_get_structure_def NewExtendedMiningJob_into_field_def])
    (simp_all add: NewExtendedMiningJob_wf_def NewExtendedMiningJob_norm_def NewExtendedMiningJob_get_size_def NewExtendedMiningJob_from_decoded_fields_def derived_message_simps)

section \<open>OpenStandardMiningChannel\<close>

record OpenStandardMiningChannel =
  osmc_request_id :: inner
  osmc_user_identity :: inner
  osmc_nominal_hash_rate :: u32
  osmc_max_target :: inner

definition OpenStandardMiningChannel_get_structure :: "bytes \<Rightarrow> field_marker list sv2" where
  "OpenStandardMiningChannel_get_structure = derive_get_structure
     [u32_as_ref_structure, b0255_structure, f32_structure, u256_structure]"

definition OpenStandardMiningChannel_from_decoded_fields :: "decodable_field list \<Rightarrow> OpenStandardMiningChannel sv2" where
  "OpenStandardMiningChannel_from_decoded_fields data =
     rbind (derive_pop u256_from_decoded data) (\<lambda>(max_target, data).
     rbind (derive_pop f32_from_decoded data) (\<lambda>(nominal_hash_rate, data).
     rbind (derive_pop b0255_from_decoded data) (\<lambda>(user_identity, data).
     rbind (derive_pop u32_as_ref_from_decoded data) (\<lambda>(request_id, data).
       Ok \<lparr>osmc_request_id = request_id, osmc_user_identity = user_identity,
         osmc_nominal_hash_rate = nominal_hash_rate, osmc_max_target = max_target\<rparr>))))"

definition OpenStandardMiningChannel_into_field :: "OpenStandardMiningChannel \<Rightarrow> encodable_field" where
  "OpenStandardMiningChannel_into_field v = derive_into_field
     [u32_as_ref_into (osmc_request_id v), b0255_into (osmc_user_identity v),
      f32_into (osmc_nominal_hash_rate v), u256_into (osmc_max_target v)]"

definition OpenStandardMiningChannel_get_size :: "OpenStandardMiningChannel \<Rightarrow> nat" where
  "OpenStandardMiningChannel_get_size v =
     u32_as_ref_size (osmc_request_id v) + b0255_size (osmc_user_identity v) +
     f32_size (osmc_nominal_hash_rate v) + u256_size (osmc_max_target v)"

definition OpenStandardMiningChannel_wf :: "OpenStandardMiningChannel \<Rightarrow> bool" where
  "OpenStandardMiningChannel_wf v = (inner_wf U32AsRef (osmc_request_id v) \<and>
     inner_wf B0255 (osmc_user_identity v) \<and> inner_wf U256 (osmc_max_target v))"

definition OpenStandardMiningChannel_norm :: "OpenStandardMiningChannel \<Rightarrow> OpenStandardMiningChannel" where
  "OpenStandardMiningChannel_norm v =
     \<lparr>osmc_request_id = inner_norm (osmc_request_id v),
      osmc_user_identity = inner_norm (osmc_user_identity v),
      osmc_nominal_hash_rate = osmc_nominal_hash_rate v,
      osmc_max_target = inner_norm (osmc_max_target v)\<rparr>"

definition OpenStandardMiningChannel_from_bytes :: "bytes \<Rightarrow> OpenStandardMiningChannel sv2" where
  "OpenStandardMiningChannel_from_bytes = decodable_from_bytes OpenStandardMiningChannel_get_structure OpenStandardMiningChannel_from_decoded_fields"

interpretation m_OpenStandardMiningChannel: sv2_message OpenStandardMiningChannel_get_structure
  OpenStandardMiningChannel_from_decoded_fields OpenStandardMiningChannel_into_field OpenStandardMiningChannel_get_size OpenStandardMiningChannel_wf OpenStandardMiningChannel_norm
  by (rule derived_message [OF OpenStandardMiningChannel_get_structure_def OpenStandardMiningChannel_into_field_def])
    (simp_all add: OpenStandardMiningChannel_wf_def OpenStandardMiningChannel_norm_def OpenStandardMiningChannel_get_size_def OpenStandardMiningChannel_from_decoded_fields_def derived_message_simps)

section \<open>OpenStandardMiningChannelSuccess\<close>

record OpenStandardMiningChannelSuccess =
  osmcs_request_id :: inner
  osmcs_channel_id :: u32
  osmcs_target :: inner
  osmcs_extranonce_prefix :: inner
  osmcs_group_channel_id :: u32

definition OpenStandardMiningChannelSuccess_get_structure :: "bytes \<Rightarrow> field_marker list sv2" where
  "OpenStandardMiningChannelSuccess_get_structure = derive_get_structure
     [u32_as_ref_structure, u32_structure, u256_structure, b032_structure, u32_structure]"

definition OpenStandardMiningChannelSuccess_from_decoded_fields :: "decodable_field list \<Rightarrow> OpenStandardMiningChannelSuccess sv2" where
  "OpenStandardMiningChannelSuccess_from_decoded_fields data =
     rbind (derive_pop u32_from_decoded data) (\<lambda>(group_channel_id, data).
     rbind (derive_pop b032_from_decoded data) (\<lambda>(extranonce_prefix, data).
     rbind (derive_pop u256_from_decoded data) (\<lambda>(target, data).
     rbind (derive_pop u32_from_decoded data) (\<lambda>(channel_id, data).
     rbind (derive_pop u32_as_ref_from_decoded data) (\<lambda>(request_id, data).
       Ok \<lparr>osmcs_request_id = request_id, osmcs_channel_id = channel_id,
         osmcs_target = target, osmcs_extranonce_prefix = extranonce_prefix,
         osmcs_group_channel_id = group_channel_id\<rparr>)))))"

definition OpenStandardMiningChannelSuccess_into_field :: "OpenStandardMiningChannelSuccess \<Rightarrow> encodable_field" where
  "OpenStandardMiningChannelSuccess_into_field v = derive_into_field
     [u32_as_ref_into (osmcs_request_id v), u32_into (osmcs_channel_id v),
      u256_into (osmcs_target v), b032_into (osmcs_extranonce_prefix v),
      u32_into (osmcs_group_channel_id v)]"

definition OpenStandardMiningChannelSuccess_get_size :: "OpenStandardMiningChannelSuccess \<Rightarrow> nat" where
  "OpenStandardMiningChannelSuccess_get_size v =
     u32_as_ref_size (osmcs_request_id v) + u32_size (osmcs_channel_id v) +
     u256_size (osmcs_target v) + b032_size (osmcs_extranonce_prefix v) +
     u32_size (osmcs_group_channel_id v)"

definition OpenStandardMiningChannelSuccess_wf :: "OpenStandardMiningChannelSuccess \<Rightarrow> bool" where
  "OpenStandardMiningChannelSuccess_wf v = (inner_wf U32AsRef (osmcs_request_id v) \<and> inner_wf U256 (osmcs_target v) \<and>
     inner_wf B032 (osmcs_extranonce_prefix v))"

definition OpenStandardMiningChannelSuccess_norm :: "OpenStandardMiningChannelSuccess \<Rightarrow> OpenStandardMiningChannelSuccess" where
  "OpenStandardMiningChannelSuccess_norm v =
     \<lparr>osmcs_request_id = inner_norm (osmcs_request_id v),
      osmcs_channel_id = osmcs_channel_id v, osmcs_target = inner_norm (osmcs_target v),
      osmcs_extranonce_prefix = inner_norm (osmcs_extranonce_prefix v),
      osmcs_group_channel_id = osmcs_group_channel_id v\<rparr>"

definition OpenStandardMiningChannelSuccess_from_bytes :: "bytes \<Rightarrow> OpenStandardMiningChannelSuccess sv2" where
  "OpenStandardMiningChannelSuccess_from_bytes = decodable_from_bytes OpenStandardMiningChannelSuccess_get_structure OpenStandardMiningChannelSuccess_from_decoded_fields"

interpretation m_OpenStandardMiningChannelSuccess: sv2_message OpenStandardMiningChannelSuccess_get_structure
  OpenStandardMiningChannelSuccess_from_decoded_fields OpenStandardMiningChannelSuccess_into_field OpenStandardMiningChannelSuccess_get_size OpenStandardMiningChannelSuccess_wf OpenStandardMiningChannelSuccess_norm
  by (rule derived_message [OF OpenStandardMiningChannelSuccess_get_structure_def OpenStandardMiningChannelSuccess_into_field_def])
    (simp_all add: OpenStandardMiningChannelSuccess_wf_def OpenStandardMiningChannelSuccess_norm_def OpenStandardMiningChannelSuccess_get_size_def OpenStandardMiningChannelSuccess_from_decoded_fields_def derived_message_simps)

section \<open>OpenExtendedMiningChannel\<close>

record OpenExtendedMiningChannel =
  oemc_request_id :: u32
  oemc_user_identity :: inner
  oemc_nominal_hash_rate :: u32
  oemc_max_target :: inner
  oemc_min_extranonce_size :: u16

definition OpenExtendedMiningChannel_get_structure :: "bytes \<Rightarrow> field_marker list sv2" where
  "OpenExtendedMiningChannel_get_structure = derive_get_structure
     [u32_structure, b0255_structure, f32_structure, u256_structure, u16_structure]"

definition OpenExtendedMiningChannel_from_decoded_fields :: "decodable_field list \<Rightarrow> OpenExtendedMiningChannel sv2" where
  "OpenExtendedMiningChannel_from_decoded_fields data =
     rbind (derive_pop u16_from_decoded data) (\<lambda>(min_extranonce_size, data).
     rbind (derive_pop u256_from_decoded data) (\<lambda>(max_target, data).
     rbind (derive_pop f32_from_decoded data) (\<lambda>(nominal_hash_rate, data).
     rbind (derive_pop b0255_from_decoded data) (\<lambda>(user_identity, data).
     rbind (derive_pop u32_from_decoded data) (\<lambda>(request_id, data).
       Ok \<lparr>oemc_request_id = request_id, oemc_user_identity = user_identity,
         oemc_nominal_hash_rate = nominal_hash_rate, oemc_max_target = max_target,
         oemc_min_extranonce_size = min_extranonce_size\<rparr>)))))"

definition OpenExtendedMiningChannel_into_field :: "OpenExtendedMiningChannel \<Rightarrow> encodable_field" where
  "OpenExtendedMiningChannel_into_field v = derive_into_field
     [u32_into (oemc_request_id v), b0255_into (oemc_user_identity v),
      f32_into (oemc_nominal_hash_rate v), u256_into (oemc_max_target v),
      u16_into (oemc_min_extranonce_size v)]"

definition OpenExtendedMiningChannel_get_size :: "OpenExtendedMiningChannel \<Rightarrow> nat" where
  "OpenExtendedMiningChannel_get_size v =
     u32_size (oemc_request_id v) + b0255_size (oemc_user_identity v) +
     f32_size (oemc_nominal_hash_rate v) + u256_size (oemc_max_target v) +
     u16_size (oemc_min_extranonce_size v)"

definition OpenExtendedMiningChannel_wf :: "OpenExtendedMiningChannel \<Rightarrow> bool" where
  "OpenExtendedMiningChannel_wf v = (inner_wf B0255 (oemc_user_identity v) \<and> inner_wf U256 (oemc_max_target v))"

definition OpenExtendedMiningChannel_norm :: "OpenExtendedMiningChannel \<Rightarrow> OpenExtendedMiningChannel" where
  "OpenExtendedMiningChannel_norm v =
     \<lparr>oemc_request_id = oemc_request_id v,
      oemc_user_identity = inner_norm (oemc_user_identity v),
      oemc_nominal_hash_rate = oemc_nominal_hash_rate v,
      oemc_max_target = inner_norm (oemc_max_target v),
      oemc_min_extranonce_size = oemc_min_extranonce_size v\<rparr>"

definition OpenExtendedMiningChannel_from_bytes :: "bytes \<Rightarrow> OpenExtendedMiningChannel sv2" where
  "OpenExtendedMiningChannel_from_bytes = decodable_from_bytes OpenExtendedMiningChannel_get_structure OpenExtendedMiningChannel_from_decoded_fields"

interpretation m_OpenExtendedMiningChannel: sv2_message OpenExtendedMiningChannel_get_structure
  OpenExtendedMiningChannel_from_decoded_fields OpenExtendedMiningChannel_into_field OpenExtendedMiningChannel_get_size OpenExtendedMiningChannel_wf OpenExtendedMiningChannel_norm
  by (rule derived_message [OF OpenExtendedMiningChannel_get_structure_def OpenExtendedMiningChannel_into_field_def])
    (simp_all add: OpenExtendedMiningChannel_wf_def OpenExtendedMiningChannel_norm_def OpenExtendedMiningChannel_get_size_def OpenExtendedMiningChannel_from_decoded_fields_def derived_message_simps)

section \<open>OpenExtendedMiningChannelSuccess\<close>

record OpenExtendedMiningChannelSuccess =
  oemcs_request_id :: u32
  oemcs_channel_id :: u32
  oemcs_target :: inner
  oemcs_extranonce_size :: u16
  oemcs_extranonce_prefix :: inner

definition OpenExtendedMiningChannelSuccess_get_structure :: "bytes \<Rightarrow> field_marker list sv2" where
  "OpenExtendedMiningChannelSuccess_get_structure = derive_get_structure
     [u32_structure, u32_structure, u256_structure, u16_structure, b032_structure]"

definition OpenExtendedMiningChannelSuccess_from_decoded_fields :: "decodable_field list \<Rightarrow> OpenExtendedMiningChannelSuccess sv2" where
  "OpenExtendedMiningChannelSuccess_from_decoded_fields data =
     rbind (derive_pop b032_from_decoded data) (\<lambda>(extranonce_prefix, data).
     rbind (derive_pop u16_from_decoded data) (\<lambda>(extranonce_size, data).
     rbind (derive_pop u256_from_decoded data) (\<lambda>(target, data).
     rbind (derive_pop u32_from_decoded data) (\<lambda>(channel_id, data).
     rbind (derive_pop u32_from_decoded data) (\<lambda>(request_id, data).
       Ok \<lparr>oemcs_request_id = request_id, oemcs_channel_id = channel_id,
         oemcs_target = target, oemcs_extranonce_size = extranonce_size,
         oemcs_extranonce_prefix = extranonce_prefix\<rparr>)))))"

definition OpenExtendedMiningChannelSuccess_into_field :: "OpenExtendedMiningChannelSuccess \<Rightarrow> encodable_field" where
  "OpenExtendedMiningChannelSuccess_into_field v = derive_into_field
     [u32_into (oemcs_request_id v), u32_into (oemcs_channel_id v),
      u256_into (oemcs_target v), u16_into (oemcs_extranonce_size v),
      b032_into (oemcs_extranonce_prefix v)]"

definition OpenExtendedMiningChannelSuccess_get_size :: "OpenExtendedMiningChannelSuccess \<Rightarrow> nat" where
  "OpenExtendedMiningChannelSuccess_get_size v =
     u32_size (oemcs_request_id v) + u32_size (oemcs_channel_id v) +
     u256_size (oemcs_target v) + u16_size (oemcs_extranonce_size v) +
     b032_size (oemcs_extranonce_prefix v)"

definition OpenExtendedMiningChannelSuccess_wf :: "OpenExtendedMiningChannelSuccess \<Rightarrow> bool" where
  "OpenExtendedMiningChannelSuccess_wf v = (inner_wf U256 (oemcs_target v) \<and> inner_wf B032 (oemcs_extranonce_prefix v))"

definition OpenExtendedMiningChannelSuccess_norm :: "OpenExtendedMiningChannelSuccess \<Rightarrow> OpenExtendedMiningChannelSuccess" where
  "OpenExtendedMiningChannelSuccess_norm v =
     \<lparr>oemcs_request_id = oemcs_request_id v, oemcs_channel_id = oemcs_channel_id v,
      oemcs_target = inner_norm (oemcs_target v),
      oemcs_extranonce_size = oemcs_extranonce_size v,
      oemcs_extranonce_prefix = inner_norm (oemcs_extranonce_prefix v)\<rparr>"

definition OpenExtendedMiningChannelSuccess_from_bytes :: "bytes \<Rightarrow> OpenExtendedMiningChannelSuccess sv2" where
  "OpenExtendedMiningChannelSuccess_from_bytes = decodable_from_bytes OpenExtendedMiningChannelSuccess_get_structure OpenExtendedMiningChannelSuccess_from_decoded_fields"

interpretation m_OpenExtendedMiningChannelSuccess: sv2_message OpenExtendedMiningChannelSuccess_get_structure
  OpenExtendedMiningChannelSuccess_from_decoded_fields OpenExtendedMiningChannelSuccess_into_field OpenExtendedMiningChannelSuccess_get_size OpenExtendedMiningChannelSuccess_wf OpenExtendedMiningChannelSuccess_norm
  by (rule derived_message [OF OpenExtendedMiningChannelSuccess_get_structure_def OpenExtendedMiningChannelSuccess_into_field_def])
    (simp_all add: OpenExtendedMiningChannelSuccess_wf_def OpenExtendedMiningChannelSuccess_norm_def OpenExtendedMiningChannelSuccess_get_size_def OpenExtendedMiningChannelSuccess_from_decoded_fields_def derived_message_simps)

section \<open>OpenMiningChannelError\<close>

record OpenMiningChannelError =
  omce_request_id :: u32
  omce_error_code :: inner

definition OpenMiningChannelError_get_structure :: "bytes \<Rightarrow> field_marker list sv2" where
  "OpenMiningChannelError_get_structure = derive_get_structure
     [u32_structure, b0255_structure]"

definition OpenMiningChannelError_from_decoded_fields :: "decodable_field list \<Rightarrow> OpenMiningChannelError sv2" where
  "OpenMiningChannelError_from_decoded_fields data =
     rbind (derive_pop b0255_from_decoded data) (\<lambda>(error_code, data).
     rbind (derive_pop u32_from_decoded data) (\<lambda>(request_id, data).
       Ok \<lparr>omce_request_id = request_id, omce_error_code = error_code\<rparr>))"

definition OpenMiningChannelError_into_field :: "OpenMiningChannelError \<Rightarrow> encodable_field" where
  "OpenMiningChannelError_into_field v = derive_into_field
     [u32_into (omce_request_id v), b0255_into (omce_error_code v)]"

definition OpenMiningChannelError_get_size :: "OpenMiningChannelError \<Rightarrow> nat" where
  "OpenMiningChannelError_get_size v =
     u32_size (omce_request_id v) + b0255_size (omce_error_code v)"

definition OpenMiningChannelError_wf :: "OpenMiningChannelError \<Rightarrow> bool" where
  "OpenMiningChannelError_wf v = (inner_wf B0255 (omce_error_code v))"

definition OpenMiningChannelError_norm :: "OpenMiningChannelError \<Rightarrow> OpenMiningChannelError" where
  "OpenMiningChannelError_norm v =
     \<lparr>omce_request_id = omce_request_id v, omce_error_code = inner_norm (omce_error_code v)\<rparr>"

definition OpenMiningChannelError_from_bytes :: "bytes \<Rightarrow> OpenMiningChannelError sv2" where
  "OpenMiningChannelError_from_bytes = decodable_from_bytes OpenMiningChannelError_get_structure OpenMiningChannelError_from_decoded_fields"

interpretation m_OpenMiningChannelError: sv2_message OpenMiningChannelError_get_structure
  OpenMiningChannelError_from_decoded_fields OpenMiningChannelError_into_field OpenMiningChannelError_get_size OpenMiningChannelError_wf OpenMiningChannelError_norm
  by (rule derived_message [OF OpenMiningChannelError_get_structure_def OpenMiningChannelError_into_field_def])
    (simp_all add: OpenMiningChannelError_wf_def OpenMiningChannelError_norm_def OpenMiningChannelError_get_size_def OpenMiningChannelError_from_decoded_fields_def derived_message_simps)

section \<open>SetCustomMiningJob\<close>

record SetCustomMiningJob =
  scmj_channel_id :: u32
  scmj_request_id :: u32
  scmj_token :: inner
  scmj_version :: u32
  scmj_prev_hash :: inner
  scmj_min_ntime :: u32
  scmj_nbits :: u32
  scmj_coinbase_tx_version :: u32
  scmj_coinbase_prefix :: inner
  scmj_coinbase_tx_input_n_sequence :: u32
  scmj_coinbase_tx_outputs :: inner
  scmj_coinbase_tx_locktime :: u32
  scmj_merkle_path :: "inner list"

definition SetCustomMiningJob_get_structure :: "bytes \<Rightarrow> field_marker list sv2" where
  "SetCustomMiningJob_get_structure = derive_get_structure
     [u32_structure, u32_structure, b0255_structure, u32_structure, u256_structure,
      u32_structure, u32_structure, u32_structure, b0255_structure, u32_structure,
      b064k_structure, u32_structure, seq0255_u256_structure]"

definition SetCustomMiningJob_from_decoded_fields :: "decodable_field list \<Rightarrow> SetCustomMiningJob sv2" where
  "SetCustomMiningJob_from_decoded_fields data =
     rbind (derive_pop seq0255_u256_from_decoded data) (\<lambda>(merkle_path, data).
     rbind (derive_pop u32_from_decoded data) (\<lambda>(coinbase_tx_locktime, data).
     rbind (derive_pop b064k_from_decoded data) (\<lambda>(coinbase_tx_outputs, data).
     rbind (derive_pop u32_from_decoded data) (\<lambda>(coinbase_tx_input_n_sequence, data).
     rbind (derive_pop b0255_from_decoded data) (\<lambda>(coinbase_prefix, data).
     rbind (derive_pop u32_from_decoded data) (\<lambda>(coinbase_tx_version, data).
     rbind (derive_pop u32_from_decoded data) (\<lambda>(nbits, data).
     rbind (derive_pop u32_from_decoded data) (\<lambda>(min_ntime, data).
     rbind (derive_pop u256_from_decoded data) (\<lambda>(prev_hash, data).
     rbind (derive_pop u32_from_decoded data) (\<lambda>(version, data).
     rbind (derive_pop b0255_from_decoded data) (\<lambda>(token, data).
     rbind (derive_pop u32_from_decoded data) (\<lambda>(request_id, data).
     rbind (derive_pop u32_from_decoded data) (\<lambda>(channel_id, data).
       Ok \<lparr>scmj_channel_id = channel_id, scmj_request_id = request_id, scmj_token = token,
         scmj_version = version, scmj_prev_hash = prev_hash, scmj_min_ntime = min_ntime,
         scmj_nbits = nbits, scmj_coinbase_tx_version = coinbase_tx_version,
         scmj_coinbase_prefix = coinbase_prefix,
         scmj_coinbase_tx_input_n_sequence = coinbase_tx_input_n_sequence,
         scmj_coinbase_tx_outputs = coinbase_tx_outputs,
         scmj_coinbase_tx_locktime = coinbase_tx_locktime, scmj_merkle_path = merkle_path\<rparr>)))))))))))))"

definition SetCustomMiningJob_into_field :: "SetCustomMiningJob \<Rightarrow> encodable_field" where
  "SetCustomMiningJob_into_field v = derive_into_field
     [u32_into (scmj_channel_id v), u32_into (scmj_request_id v),
      b0255_into (scmj_token v), u32_into (scmj_version v), u256_into (scmj_prev_hash v),
      u32_into (scmj_min_ntime v), u32_into (scmj_nbits v),
      u32_into (scmj_coinbase_tx_version v), b0255_into (scmj_coinbase_prefix v),
      u32_into (scmj_coinbase_tx_input_n_sequence v),
      b064k_into (scmj_coinbase_tx_outputs v), u32_into (scmj_coinbase_tx_locktime v),
      seq0255_u256_into (scmj_merkle_path v)]"

definition SetCustomMiningJob_get_size :: "SetCustomMiningJob \<Rightarrow> nat" where
  "SetCustomMiningJob_get_size v =
     u32_size (scmj_channel_id v) + u32_size (scmj_request_id v) +
     b0255_size (scmj_token v) + u32_size (scmj_version v) + u256_size (scmj_prev_hash v) +
     u32_size (scmj_min_ntime v) + u32_size (scmj_nbits v) +
     u32_size (scmj_coinbase_tx_version v) + b0255_size (scmj_coinbase_prefix v) +
     u32_size (scmj_coinbase_tx_input_n_sequence v) +
     b064k_size (scmj_coinbase_tx_outputs v) + u32_size (scmj_coinbase_tx_locktime v) +
     seq0255_u256_size (scmj_merkle_path v)"

definition SetCustomMiningJob_wf :: "SetCustomMiningJob \<Rightarrow> bool" where
  "SetCustomMiningJob_wf v = (inner_wf B0255 (scmj_token v) \<and> inner_wf U256 (scmj_prev_hash v) \<and>
     inner_wf B0255 (scmj_coinbase_prefix v) \<and>
     inner_wf B064K (scmj_coinbase_tx_outputs v) \<and>
     seq0255_wf (inner_wf U256) (scmj_merkle_path v))"

definition SetCustomMiningJob_norm :: "SetCustomMiningJob \<Rightarrow> SetCustomMiningJob" where
  "SetCustomMiningJob_norm v =
     \<lparr>scmj_channel_id = scmj_channel_id v, scmj_request_id = scmj_request_id v,
      scmj_token = inner_norm (scmj_token v), scmj_version = scmj_version v,
      scmj_prev_hash = inner_norm (scmj_prev_hash v), scmj_min_ntime = scmj_min_ntime v,
      scmj_nbits = scmj_nbits v, scmj_coinbase_tx_version = scmj_coinbase_tx_version v,
      scmj_coinbase_prefix = inner_norm (scmj_coinbase_prefix v),
      scmj_coinbase_tx_input_n_sequence = scmj_coinbase_tx_input_n_sequence v,
      scmj_coinbase_tx_outputs = inner_norm (scmj_coinbase_tx_outputs v),
      scmj_coinbase_tx_locktime = scmj_coinbase_tx_locktime v,
      scmj_merkle_path = map inner_norm (scmj_merkle_path v)\<rparr>"

definition SetCustomMiningJob_from_bytes :: "bytes \<Rightarrow> SetCustomMiningJob sv2" where
  "SetCustomMiningJob_from_bytes = decodable_from_bytes SetCustomMiningJob_get_structure SetCustomMiningJob_from_decoded_fields"

interpretation m_SetCustomMiningJob: sv2_message SetCustomMiningJob_get_structure
  SetCustomMiningJob_from_decoded_fields SetCustomMiningJob_into_field SetCustomMiningJob_get_size SetCustomMiningJob_wf SetCustomMiningJob_norm
  by (rule derived_message [OF SetCustomMiningJob_get_structure_def SetCustomMiningJob_into_field_def])
    (simp_all add: SetCustomMiningJob_wf_def SetCustomMiningJob_norm_def SetCustomMiningJob_get_size_def SetCustomMiningJob_from_decoded_fields_def derived_message_simps)

section \<open>SetCustomMiningJobSuccess\<close>

record SetCustomMiningJobSuccess =
  scmjs_channel_id :: u32
  scmjs_request_id :: u32
  scmjs_job_id :: u32

definition SetCustomMiningJobSuccess_get_structure :: "bytes \<Rightarrow> field_marker list sv2" where
  "SetCustomMiningJobSuccess_get_structure = derive_get_structure
     [u32_structure, u32_structure, u32_structure]"

definition SetCustomMiningJobSuccess_from_decoded_fields :: "decodable_field list \<Rightarrow> SetCustomMiningJobSuccess sv2" where
  "SetCustomMiningJobSuccess_from_decoded_fields data =
     rbind (derive_pop u32_from_decoded data) (\<lambda>(job_id, data).
     rbind (derive_pop u32_from_decoded data) (\<lambda>(request_id, data).
     rbind (derive_pop u32_from_decoded data) (\<lambda>(channel_id, data).
       Ok \<lparr>scmjs_channel_id = channel_id, scmjs_request_id = request_id,
         scmjs_job_id = job_id\<rparr>)))"

definition SetCustomMiningJobSuccess_into_field :: "SetCustomMiningJobSuccess \<Rightarrow> encodable_field" where
  "SetCustomMiningJobSuccess_into_field v = derive_into_field
     [u32_into (scmjs_channel_id v), u32_into (scmjs_request_id v),
      u32_into (scmjs_job_id v)]"

definition SetCustomMiningJobSuccess_get_size :: "SetCustomMiningJobSuccess \<Rightarrow> nat" where
  "SetCustomMiningJobSuccess_get_size v =
     u32_size (scmjs_channel_id v) + u32_size (scmjs_request_id v) +
     u32_size (scmjs_job_id v)"

definition SetCustomMiningJobSuccess_wf :: "SetCustomMiningJobSuccess \<Rightarrow> bool" where
  "SetCustomMiningJobSuccess_wf v = True"

definition SetCustomMiningJobSuccess_norm :: "SetCustomMiningJobSuccess \<Rightarrow> SetCustomMiningJobSuccess" where
  "SetCustomMiningJobSuccess_norm v =
     \<lparr>scmjs_channel_id = scmjs_channel_id v, scmjs_request_id = scmjs_request_id v,
      scmjs_job_id = scmjs_job_id v\<rparr>"

definition SetCustomMiningJobSuccess_from_bytes :: "bytes \<Rightarrow> SetCustomMiningJobSuccess sv2" where
  "SetCustomMiningJobSuccess_from_bytes = decodable_from_bytes SetCustomMiningJobSuccess_get_structure SetCustomMiningJobSuccess_from_decoded_fields"

interpretation m_SetCustomMiningJobSuccess: sv2_message SetCustomMiningJobSuccess_get_structure
  SetCustomMiningJobSuccess_from_decoded_fields SetCustomMiningJobSuccess_into_field SetCustomMiningJobSuccess_get_size SetCustomMiningJobSuccess_wf SetCustomMiningJobSuccess_norm
  by (rule derived_message [OF SetCustomMiningJobSuccess_get_structure_def SetCustomMiningJobSuccess_into_field_def])
    (simp_all add: SetCustomMiningJobSuccess_wf_def SetCustomMiningJobSuccess_norm_def SetCustomMiningJobSuccess_get_size_def SetCustomMiningJobSuccess_from_decoded_fields_def derived_message_simps)

section \<open>SetCustomMiningJobError\<close>

record SetCustomMiningJobError =
  scmje_channel_id :: u32
  scmje_request_id :: u32
  scmje_error_code :: inner

definition SetCustomMiningJobError_get_structure :: "bytes \<Rightarrow> field_marker list sv2" where
  "SetCustomMiningJobError_get_structure = derive_get_structure
     [u32_structure, u32_structure, b0255_structure]"

definition SetCustomMiningJobError_from_decoded_fields :: "decodable_field list \<Rightarrow> SetCustomMiningJobError sv2" where
  "SetCustomMiningJobError_from_decoded_fields data =
     rbind (derive_pop b0255_from_decoded data) (\<lambda>(error_code, data).
     rbind (derive_pop u32_from_decoded data) (\<lambda>(request_id, data).
     rbind (derive_pop u32_from_decoded data) (\<lambda>(channel_id, data).
       Ok \<lparr>scmje_channel_id = channel_id, scmje_request_id = request_id,
         scmje_error_code = error_code\<rparr>)))"

definition SetCustomMiningJobError_into_field :: "SetCustomMiningJobError \<Rightarrow> encodable_field" where
  "SetCustomMiningJobError_into_field v = derive_into_field
     [u32_into (scmje_channel_id v), u32_into (scmje_request_id v),
      b0255_into (scmje_error_code v)]"

definition SetCustomMiningJobError_get_size :: "SetCustomMiningJobError \<Rightarrow> nat" where
  "SetCustomMiningJobError_get_size v =
     u32_size (scmje_channel_id v) + u32_size (scmje_request_id v) +
     b0255_size (scmje_error_code v)"

definition SetCustomMiningJobError_wf :: "SetCustomMiningJobError \<Rightarrow> bool" where
  "SetCustomMiningJobError_wf v = (inner_wf B0255 (scmje_error_code v))"

definition SetCustomMiningJobError_norm :: "SetCustomMiningJobError \<Rightarrow> SetCustomMiningJobError" where
  "SetCustomMiningJobError_norm v =
     \<lparr>scmje_channel_id = scmje_channel_id v, scmje_request_id = scmje_request_id v,
      scmje_error_code = inner_norm (scmje_error_code v)\<rparr>"

definition SetCustomMiningJobError_from_bytes :: "bytes \<Rightarrow> SetCustomMiningJobError sv2" where
  "SetCustomMiningJobError_from_bytes = decodable_from_bytes SetCustomMiningJobError_get_structure SetCustomMiningJobError_from_decoded_fields"

interpretation m_SetCustomMiningJobError: sv2_message SetCustomMiningJobError_get_structure
  SetCustomMiningJobError_from_decoded_fields SetCustomMiningJobError_into_field SetCustomMiningJobError_get_size SetCustomMiningJobError_wf SetCustomMiningJobError_norm
  by (rule derived_message [OF SetCustomMiningJobError_get_structure_def SetCustomMiningJobError_into_field_def])
    (simp_all add: SetCustomMiningJobError_wf_def SetCustomMiningJobError_norm_def SetCustomMiningJobError_get_size_def SetCustomMiningJobError_from_decoded_fields_def derived_message_simps)

section \<open>SetExtranoncePrefix\<close>

record SetExtranoncePrefix =
  sep_channel_id :: u32
  sep_extranonce_prefix :: inner

definition SetExtranoncePrefix_get_structure :: "bytes \<Rightarrow> field_marker list sv2" where
  "SetExtranoncePrefix_get_structure = derive_get_structure
     [u32_structure, b032_structure]"

definition SetExtranoncePrefix_from_decoded_fields :: "decodable_field list \<Rightarrow> SetExtranoncePrefix sv2" where
  "SetExtranoncePrefix_from_decoded_fields data =
     rbind (derive_pop b032_from_decoded data) (\<lambda>(extranonce_prefix, data).
     rbind (derive_pop u32_from_decoded data) (\<lambda>(channel_id, data).
       Ok \<lparr>sep_channel_id = channel_id, sep_extranonce_prefix = extranonce_prefix\<rparr>))"

definition SetExtranoncePrefix_into_field :: "SetExtranoncePrefix \<Rightarrow> encodable_field" where
  "SetExtranoncePrefix_into_field v = derive_into_field
     [u32_into (sep_channel_id v), b032_into (sep_extranonce_prefix v)]"

definition SetExtranoncePrefix_get_size :: "SetExtranoncePrefix \<Rightarrow> nat" where
  "SetExtranoncePrefix_get_size v =
     u32_size (sep_channel_id v) + b032_size (sep_extranonce_prefix v)"

definition SetExtranoncePrefix_wf :: "SetExtranoncePrefix \<Rightarrow> bool" where
  "SetExtranoncePrefix_wf v = (inner_wf B032 (sep_extranonce_prefix v))"

definition SetExtranoncePrefix_norm :: "SetExtranoncePrefix \<Rightarrow> SetExtranoncePrefix" where
  "SetExtranoncePrefix_norm v =
     \<lparr>sep_channel_id = sep_channel_id v,
      sep_extranonce_prefix = inner_norm (sep_extranonce_prefix v)\<rparr>"

definition SetExtranoncePrefix_from_bytes :: "bytes \<Rightarrow> SetExtranoncePrefix sv2" where
  "SetExtranoncePrefix_from_bytes = decodable_from_bytes SetExtranoncePrefix_get_structure SetExtranoncePrefix_from_decoded_fields"

interpretation m_SetExtranoncePrefix: sv2_message SetExtranoncePrefix_get_structure
  SetExtranoncePrefix_from_decoded_fields SetExtranoncePrefix_into_field SetExtranoncePrefix_get_size SetExtranoncePrefix_wf SetExtranoncePrefix_norm
  by (rule derived_message [OF SetExtranoncePrefix_get_structure_def SetExtranoncePrefix_into_field_def])
    (simp_all add: SetExtranoncePrefix_wf_def SetExtranoncePrefix_norm_def SetExtranoncePrefix_get_size_def SetExtranoncePrefix_from_decoded_fields_def derived_message_simps)

section \<open>SetGroupChannel\<close>

record SetGroupChannel =
  sgc_group_channel_id :: u32
  sgc_channel_ids :: "u32 list"

definition SetGroupChannel_get_structure :: "bytes \<Rightarrow> field_marker list sv2" where
  "SetGroupChannel_get_structure = derive_get_structure
     [u32_structure, seq064k_u32_structure]"

definition SetGroupChannel_from_decoded_fields :: "decodable_field list \<Rightarrow> SetGroupChannel sv2" where
  "SetGroupChannel_from_decoded_fields data =
     rbind (derive_pop seq064k_u32_from_decoded data) (\<lambda>(channel_ids, data).
     rbind (derive_pop u32_from_decoded data) (\<lambda>(group_channel_id, data).
       Ok \<lparr>sgc_group_channel_id = group_channel_id, sgc_channel_ids = channel_ids\<rparr>))"

definition SetGroupChannel_into_field :: "SetGroupChannel \<Rightarrow> encodable_field" where
  "SetGroupChannel_into_field v = derive_into_field
     [u32_into (sgc_group_channel_id v), seq064k_u32_into (sgc_channel_ids v)]"

definition SetGroupChannel_get_size :: "SetGroupChannel \<Rightarrow> nat" where
  "SetGroupChannel_get_size v =
     u32_size (sgc_group_channel_id v) + seq064k_u32_size (sgc_channel_ids v)"

definition SetGroupChannel_wf :: "SetGroupChannel \<Rightarrow> bool" where
  "SetGroupChannel_wf v = (seq064k_wf (\<lambda>_. True) (sgc_channel_ids v))"

definition SetGroupChannel_norm :: "SetGroupChannel \<Rightarrow> SetGroupChannel" where
  "SetGroupChannel_norm v =
     \<lparr>sgc_group_channel_id = sgc_group_channel_id v, sgc_channel_ids = sgc_channel_ids v\<rparr>"

definition SetGroupChannel_from_bytes :: "bytes \<Rightarrow> SetGroupChannel sv2" where
  "SetGroupChannel_from_bytes = decodable_from_bytes SetGroupChannel_get_structure SetGroupChannel_from_decoded_fields"

interpretation m_SetGroupChannel: sv2_message SetGroupChannel_get_structure
  SetGroupChannel_from_decoded_fields SetGroupChannel_into_field SetGroupChannel_get_size SetGroupChannel_wf SetGroupChannel_norm
  by (rule derived_message [OF SetGroupChannel_get_structure_def SetGroupChannel_into_field_def])
    (simp_all add: SetGroupChannel_wf_def SetGroupChannel_norm_def SetGroupChannel_get_size_def SetGroupChannel_from_decoded_fields_def derived_message_simps)

section \<open>SetNewPrevHash\<close>

record MiningSetNewPrevHash =
  mnph_channel_id :: u32
  mnph_job_id :: u32
  mnph_prev_hash :: inner
  mnph_min_ntime :: u32
  mnph_nbits :: u32

definition MiningSetNewPrevHash_get_structure :: "bytes \<Rightarrow> field_marker list sv2" where
  "MiningSetNewPrevHash_get_structure = derive_get_structure
     [u32_structure, u32_structure, u256_structure, u32_structure, u32_structure]"

definition MiningSetNewPrevHash_from_decoded_fields :: "decodable_field list \<Rightarrow> MiningSetNewPrevHash sv2" where
  "MiningSetNewPrevHash_from_decoded_fields data =
     rbind (derive_pop u32_from_decoded data) (\<lambda>(nbits, data).
     rbind (derive_pop u32_from_decoded data) (\<lambda>(min_ntime, data).
     rbind (derive_pop u256_from_decoded data) (\<lambda>(prev_hash, data).
     rbind (derive_pop u32_from_decoded data) (\<lambda>(job_id, data).
     rbind (derive_pop u32_from_decoded data) (\<lambda>(channel_id, data).
       Ok \<lparr>mnph_channel_id = channel_id, mnph_job_id = job_id, mnph_prev_hash = prev_hash,
         mnph_min_ntime = min_ntime, mnph_nbits = nbits\<rparr>)))))"

definition MiningSetNewPrevHash_into_field :: "MiningSetNewPrevHash \<Rightarrow> encodable_field" where
  "MiningSetNewPrevHash_into_field v = derive_into_field
     [u32_into (mnph_channel_id v), u32_into (mnph_job_id v), u256_into (mnph_prev_hash v),
      u32_into (mnph_min_ntime v), u32_into (mnph_nbits v)]"

definition MiningSetNewPrevHash_get_size :: "MiningSetNewPrevHash \<Rightarrow> nat" where
  "MiningSetNewPrevHash_get_size v =
     u32_size (mnph_channel_id v) + u32_size (mnph_job_id v) +
     u256_size (mnph_prev_hash v) + u32_size (mnph_min_ntime v) + u32_size (mnph_nbits v)"

definition MiningSetNewPrevHash_wf :: "MiningSetNewPrevHash \<Rightarrow> bool" where
  "MiningSetNewPrevHash_wf v = (inner_wf U256 (mnph_prev_hash v))"

definition MiningSetNewPrevHash_norm :: "MiningSetNewPrevHash \<Rightarrow> MiningSetNewPrevHash" where
  "MiningSetNewPrevHash_norm v =
     \<lparr>mnph_channel_id = mnph_channel_id v, mnph_job_id = mnph_job_id v,
      mnph_prev_hash = inner_norm (mnph_prev_hash v), mnph_min_ntime = mnph_min_ntime v,
      mnph_nbits = mnph_nbits v\<rparr>"

definition MiningSetNewPrevHash_from_bytes :: "bytes \<Rightarrow> MiningSetNewPrevHash sv2" where
  "MiningSetNewPrevHash_from_bytes = decodable_from_bytes MiningSetNewPrevHash_get_structure MiningSetNewPrevHash_from_decoded_fields"

interpretation m_MiningSetNewPrevHash: sv2_message MiningSetNewPrevHash_get_structure
  MiningSetNewPrevHash_from_decoded_fields MiningSetNewPrevHash_into_field MiningSetNewPrevHash_get_size MiningSetNewPrevHash_wf MiningSetNewPrevHash_norm
  by (rule derived_message [OF MiningSetNewPrevHash_get_structure_def MiningSetNewPrevHash_into_field_def])
    (simp_all add: MiningSetNewPrevHash_wf_def MiningSetNewPrevHash_norm_def MiningSetNewPrevHash_get_size_def MiningSetNewPrevHash_from_decoded_fields_def derived_message_simps)

section \<open>SetTarget\<close>

record SetTarget =
  st_channel_id :: u32
  st_maximum_target :: inner

definition SetTarget_get_structure :: "bytes \<Rightarrow> field_marker list sv2" where
  "SetTarget_get_structure = derive_get_structure
     [u32_structure, u256_structure]"

definition SetTarget_from_decoded_fields :: "decodable_field list \<Rightarrow> SetTarget sv2" where
  "SetTarget_from_decoded_fields data =
     rbind (derive_pop u256_from_decoded data) (\<lambda>(maximum_target, data).
     rbind (derive_pop u32_from_decoded data) (\<lambda>(channel_id, data).
       Ok \<lparr>st_channel_id = channel_id, st_maximum_target = maximum_target\<rparr>))"

definition SetTarget_into_field :: "SetTarget \<Rightarrow> encodable_field" where
  "SetTarget_into_field v = derive_into_field
     [u32_into (st_channel_id v), u256_into (st_maximum_target v)]"

definition SetTarget_get_size :: "SetTarget \<Rightarrow> nat" where
  "SetTarget_get_size v =
     u32_size (st_channel_id v) + u256_size (st_maximum_target v)"

definition SetTarget_wf :: "SetTarget \<Rightarrow> bool" where
  "SetTarget_wf v = (inner_wf U256 (st_maximum_target v))"

definition SetTarget_norm :: "SetTarget \<Rightarrow> SetTarget" where
  "SetTarget_norm v =
     \<lparr>st_channel_id = st_channel_id v, st_maximum_target = inner_norm (st_maximum_target v)\<rparr>"

definition SetTarget_from_bytes :: "bytes \<Rightarrow> SetTarget sv2" where
  "SetTarget_from_bytes = decodable_from_bytes SetTarget_get_structure SetTarget_from_decoded_fields"

interpretation m_SetTarget: sv2_message SetTarget_get_structure
  SetTarget_from_decoded_fields SetTarget_into_field SetTarget_get_size SetTarget_wf SetTarget_norm
  by (rule derived_message [OF SetTarget_get_structure_def SetTarget_into_field_def])
    (simp_all add: SetTarget_wf_def SetTarget_norm_def SetTarget_get_size_def SetTarget_from_decoded_fields_def derived_message_simps)

section \<open>SubmitSharesStandard\<close>

record SubmitSharesStandard =
  sss_channel_id :: u32
  sss_sequence_number :: u32
  sss_job_id :: u32
  sss_nonce :: u32
  sss_ntime :: u32
  sss_version :: u32

definition SubmitSharesStandard_get_structure :: "bytes \<Rightarrow> field_marker list sv2" where
  "SubmitSharesStandard_get_structure = derive_get_structure
     [u32_structure, u32_structure, u32_structure, u32_structure, u32_structure,
      u32_structure]"

definition SubmitSharesStandard_from_decoded_fields :: "decodable_field list \<Rightarrow> SubmitSharesStandard sv2" where
  "SubmitSharesStandard_from_decoded_fields data =
     rbind (derive_pop u32_from_decoded data) (\<lambda>(version, data).
     rbind (derive_pop u32_from_decoded data) (\<lambda>(ntime, data).
     rbind (derive_pop u32_from_decoded data) (\<lambda>(nonce, data).
     rbind (derive_pop u32_from_decoded data) (\<lambda>(job_id, data).
     rbind (derive_pop u32_from_decoded data) (\<lambda>(sequence_number, data).
     rbind (derive_pop u32_from_decoded data) (\<lambda>(channel_id, data).
       Ok \<lparr>sss_channel_id = channel_id, sss_sequence_number = sequence_number,
         sss_job_id = job_id, sss_nonce = nonce, sss_ntime = ntime, sss_version = version\<rparr>))))))"

definition SubmitSharesStandard_into_field :: "SubmitSharesStandard \<Rightarrow> encodable_field" where
  "SubmitSharesStandard_into_field v = derive_into_field
     [u32_into (sss_channel_id v), u32_into (sss_sequence_number v),
      u32_into (sss_job_id v), u32_into (sss_nonce v), u32_into (sss_ntime v),
      u32_into (sss_version v)]"

definition SubmitSharesStandard_get_size :: "SubmitSharesStandard \<Rightarrow> nat" where
  "SubmitSharesStandard_get_size v =
     u32_size (sss_channel_id v) + u32_size (sss_sequence_number v) +
     u32_size (sss_job_id v) + u32_size (sss_nonce v) + u32_size (sss_ntime v) +
     u32_size (sss_version v)"

definition SubmitSharesStandard_wf :: "SubmitSharesStandard \<Rightarrow> bool" where
  "SubmitSharesStandard_wf v = True"

definition SubmitSharesStandard_norm :: "SubmitSharesStandard \<Rightarrow> SubmitSharesStandard" where
  "SubmitSharesStandard_norm v =
     \<lparr>sss_channel_id = sss_channel_id v, sss_sequence_number = sss_sequence_number v,
      sss_job_id = sss_job_id v, sss_nonce = sss_nonce v, sss_ntime = sss_ntime v,
      sss_version = sss_version v\<rparr>"

definition SubmitSharesStandard_from_bytes :: "bytes \<Rightarrow> SubmitSharesStandard sv2" where
  "SubmitSharesStandard_from_bytes = decodable_from_bytes SubmitSharesStandard_get_structure SubmitSharesStandard_from_decoded_fields"

interpretation m_SubmitSharesStandard: sv2_message SubmitSharesStandard_get_structure
  SubmitSharesStandard_from_decoded_fields SubmitSharesStandard_into_field SubmitSharesStandard_get_size SubmitSharesStandard_wf SubmitSharesStandard_norm
  by (rule derived_message [OF SubmitSharesStandard_get_structure_def SubmitSharesStandard_into_field_def])
    (simp_all add: SubmitSharesStandard_wf_def SubmitSharesStandard_norm_def SubmitSharesStandard_get_size_def SubmitSharesStandard_from_decoded_fields_def derived_message_simps)

section \<open>SubmitSharesExtended\<close>

record SubmitSharesExtended =
  sse_channel_id :: u32
  sse_sequence_number :: u32
  sse_job_id :: u32
  sse_nonce :: u32
  sse_ntime :: u32
  sse_version :: u32
  sse_extranonce :: inner

definition SubmitSharesExtended_get_structure :: "bytes \<Rightarrow> field_marker list sv2" where
  "SubmitSharesExtended_get_structure = derive_get_structure
     [u32_structure, u32_structure, u32_structure, u32_structure, u32_structure,
      u32_structure, b032_structure]"

definition SubmitSharesExtended_from_decoded_fields :: "decodable_field list \<Rightarrow> SubmitSharesExtended sv2" where
  "SubmitSharesExtended_from_decoded_fields data =
     rbind (derive_pop b032_from_decoded data) (\<lambda>(extranonce, data).
     rbind (derive_pop u32_from_decoded data) (\<lambda>(version, data).
     rbind (derive_pop u32_from_decoded data) (\<lambda>(ntime, data).
     rbind (derive_pop u32_from_decoded data) (\<lambda>(nonce, data).
     rbind (derive_pop u32_from_decoded data) (\<lambda>(job_id, data).
     rbind (derive_pop u32_from_decoded data) (\<lambda>(sequence_number, data).
     rbind (derive_pop u32_from_decoded data) (\<lambda>(channel_id, data).
       Ok \<lparr>sse_channel_id = channel_id, sse_sequence_number = sequence_number,
         sse_job_id = job_id, sse_nonce = nonce, sse_ntime = ntime, sse_version = version,
         sse_extranonce = extranonce\<rparr>)))))))"

definition SubmitSharesExtended_into_field :: "SubmitSharesExtended \<Rightarrow> encodable_field" where
  "SubmitSharesExtended_into_field v = derive_into_field
     [u32_into (sse_channel_id v), u32_into (sse_sequence_number v),
      u32_into (sse_job_id v), u32_into (sse_nonce v), u32_into (sse_ntime v),
      u32_into (sse_version v), b032_into (sse_extranonce v)]"

definition SubmitSharesExtended_get_size :: "SubmitSharesExtended \<Rightarrow> nat" where
  "SubmitSharesExtended_get_size v =
     u32_size (sse_channel_id v) + u32_size (sse_sequence_number v) +
     u32_size (sse_job_id v) + u32_size (sse_nonce v) + u32_size (sse_ntime v) +
     u32_size (sse_version v) + b032_size (sse_extranonce v)"

definition SubmitSharesExtended_wf :: "SubmitSharesExtended \<Rightarrow> bool" where
  "SubmitSharesExtended_wf v = (inner_wf B032 (sse_extranonce v))"

definition SubmitSharesExtended_norm :: "SubmitSharesExtended \<Rightarrow> SubmitSharesExtended" where
  "SubmitSharesExtended_norm v =
     \<lparr>sse_channel_id = sse_channel_id v, sse_sequence_number = sse_sequence_number v,
      sse_job_id = sse_job_id v, sse_nonce = sse_nonce v, sse_ntime = sse_ntime v,
      sse_version = sse_version v, sse_extranonce = inner_norm (sse_extranonce v)\<rparr>"

definition SubmitSharesExtended_from_bytes :: "bytes \<Rightarrow> SubmitSharesExtended sv2" where
  "SubmitSharesExtended_from_bytes = decodable_from_bytes SubmitSharesExtended_get_structure SubmitSharesExtended_from_decoded_fields"

interpretation m_SubmitSharesExtended: sv2_message SubmitSharesExtended_get_structure
  SubmitSharesExtended_from_decoded_fields SubmitSharesExtended_into_field SubmitSharesExtended_get_size SubmitSharesExtended_wf SubmitSharesExtended_norm
  by (rule derived_message [OF SubmitSharesExtended_get_structure_def SubmitSharesExtended_into_field_def])
    (simp_all add: SubmitSharesExtended_wf_def SubmitSharesExtended_norm_def SubmitSharesExtended_get_size_def SubmitSharesExtended_from_decoded_fields_def derived_message_simps)

section \<open>SubmitSharesSuccess\<close>

record SubmitSharesSuccess =
  ssok_channel_id :: u32
  ssok_last_sequence_number :: u32
  ssok_new_submits_accepted_count :: u32
  ssok_new_shares_sum :: u64

definition SubmitSharesSuccess_get_structure :: "bytes \<Rightarrow> field_marker list sv2" where
  "SubmitSharesSuccess_get_structure = derive_get_structure
     [u32_structure, u32_structure, u32_structure, u64_structure]"

definition SubmitSharesSuccess_from_decoded_fields :: "decodable_field list \<Rightarrow> SubmitSharesSuccess sv2" where
  "SubmitSharesSuccess_from_decoded_fields data =
     rbind (derive_pop u64_from_decoded data) (\<lambda>(new_shares_sum, data).
     rbind (derive_pop u32_from_decoded data) (\<lambda>(new_submits_accepted_count, data).
     rbind (derive_pop u32_from_decoded data) (\<lambda>(last_sequence_number, data).
     rbind (derive_pop u32_from_decoded data) (\<lambda>(channel_id, data).
       Ok \<lparr>ssok_channel_id = channel_id, ssok_last_sequence_number = last_sequence_number,
         ssok_new_submits_accepted_count = new_submits_accepted_count,
         ssok_new_shares_sum = new_shares_sum\<rparr>))))"

definition SubmitSharesSuccess_into_field :: "SubmitSharesSuccess \<Rightarrow> encodable_field" where
  "SubmitSharesSuccess_into_field v = derive_into_field
     [u32_into (ssok_channel_id v), u32_into (ssok_last_sequence_number v),
      u32_into (ssok_new_submits_accepted_count v), u64_into (ssok_new_shares_sum v)]"

definition SubmitSharesSuccess_get_size :: "SubmitSharesSuccess \<Rightarrow> nat" where
  "SubmitSharesSuccess_get_size v =
     u32_size (ssok_channel_id v) + u32_size (ssok_last_sequence_number v) +
     u32_size (ssok_new_submits_accepted_count v) + u64_size (ssok_new_shares_sum v)"

definition SubmitSharesSuccess_wf :: "SubmitSharesSuccess \<Rightarrow> bool" where
  "SubmitSharesSuccess_wf v = True"

definition SubmitSharesSuccess_norm :: "SubmitSharesSuccess \<Rightarrow> SubmitSharesSuccess" where
  "SubmitSharesSuccess_norm v =
     \<lparr>ssok_channel_id = ssok_channel_id v,
      ssok_last_sequence_number = ssok_last_sequence_number v,
      ssok_new_submits_accepted_count = ssok_new_submits_accepted_count v,
      ssok_new_shares_sum = ssok_new_shares_sum v\<rparr>"

definition SubmitSharesSuccess_from_bytes :: "bytes \<Rightarrow> SubmitSharesSuccess sv2" where
  "SubmitSharesSuccess_from_bytes = decodable_from_bytes SubmitSharesSuccess_get_structure SubmitSharesSuccess_from_decoded_fields"

interpretation m_SubmitSharesSuccess: sv2_message SubmitSharesSuccess_get_structure
  SubmitSharesSuccess_from_decoded_fields SubmitSharesSuccess_into_field SubmitSharesSuccess_get_size SubmitSharesSuccess_wf SubmitSharesSuccess_norm
  by (rule derived_message [OF SubmitSharesSuccess_get_structure_def SubmitSharesSuccess_into_field_def])
    (simp_all add: SubmitSharesSuccess_wf_def SubmitSharesSuccess_norm_def SubmitSharesSuccess_get_size_def SubmitSharesSuccess_from_decoded_fields_def derived_message_simps)

section \<open>SubmitSharesError\<close>

record SubmitSharesError =
  sserr_channel_id :: u32
  sserr_sequence_number :: u32
  sserr_error_code :: inner

definition SubmitSharesError_get_structure :: "bytes \<Rightarrow> field_marker list sv2" where
  "SubmitSharesError_get_structure = derive_get_structure
     [u32_structure, u32_structure, b0255_structure]"

definition SubmitSharesError_from_decoded_fields :: "decodable_field list \<Rightarrow> SubmitSharesError sv2" where
  "SubmitSharesError_from_decoded_fields data =
     rbind (derive_pop b0255_from_decoded data) (\<lambda>(error_code, data).
     rbind (derive_pop u32_from_decoded data) (\<lambda>(sequence_number, data).
     rbind (derive_pop u32_from_decoded data) (\<lambda>(channel_id, data).
       Ok \<lparr>sserr_channel_id = channel_id, sserr_sequence_number = sequence_number,
         sserr_error_code = error_code\<rparr>)))"

definition SubmitSharesError_into_field :: "SubmitSharesError \<Rightarrow> encodable_field" where
  "SubmitSharesError_into_field v = derive_into_field
     [u32_into (sserr_channel_id v), u32_into (sserr_sequence_number v),
      b0255_into (sserr_error_code v)]"

definition SubmitSharesError_get_size :: "SubmitSharesError \<Rightarrow> nat" where
  "SubmitSharesError_get_size v =
     u32_size (sserr_channel_id v) + u32_size (sserr_sequence_number v) +
     b0255_size (sserr_error_code v)"

definition SubmitSharesError_wf :: "SubmitSharesError \<Rightarrow> bool" where
  "SubmitSharesError_wf v = (inner_wf B0255 (sserr_error_code v))"

definition SubmitSharesError_norm :: "SubmitSharesError \<Rightarrow> SubmitSharesError" where
  "SubmitSharesError_norm v =
     \<lparr>sserr_channel_id = sserr_channel_id v,
      sserr_sequence_number = sserr_sequence_number v,
      sserr_error_code = inner_norm (sserr_error_code v)\<rparr>"

definition SubmitSharesError_from_bytes :: "bytes \<Rightarrow> SubmitSharesError sv2" where
  "SubmitSharesError_from_bytes = decodable_from_bytes SubmitSharesError_get_structure SubmitSharesError_from_decoded_fields"

interpretation m_SubmitSharesError: sv2_message SubmitSharesError_get_structure
  SubmitSharesError_from_decoded_fields SubmitSharesError_into_field SubmitSharesError_get_size SubmitSharesError_wf SubmitSharesError_norm
  by (rule derived_message [OF SubmitSharesError_get_structure_def SubmitSharesError_into_field_def])
    (simp_all add: SubmitSharesError_wf_def SubmitSharesError_norm_def SubmitSharesError_get_size_def SubmitSharesError_from_decoded_fields_def derived_message_simps)

section \<open>UpdateChannel\<close>

record UpdateChannel =
  uc_channel_id :: u32
  uc_nominal_hash_rate :: u32
  uc_maximum_target :: inner

definition UpdateChannel_get_structure :: "bytes \<Rightarrow> field_marker list sv2" where
  "UpdateChannel_get_structure = derive_get_structure
     [u32_structure, f32_structure, u256_structure]"

definition UpdateChannel_from_decoded_fields :: "decodable_field list \<Rightarrow> UpdateChannel sv2" where
  "UpdateChannel_from_decoded_fields data =
     rbind (derive_pop u256_from_decoded data) (\<lambda>(maximum_target, data).
     rbind (derive_pop f32_from_decoded data) (\<lambda>(nominal_hash_rate, data).
     rbind (derive_pop u32_from_decoded data) (\<lambda>(channel_id, data).
       Ok \<lparr>uc_channel_id = channel_id, uc_nominal_hash_rate = nominal_hash_rate,
         uc_maximum_target = maximum_target\<rparr>)))"

definition UpdateChannel_into_field :: "UpdateChannel \<Rightarrow> encodable_field" where
  "UpdateChannel_into_field v = derive_into_field
     [u32_into (uc_channel_id v), f32_into (uc_nominal_hash_rate v),
      u256_into (uc_maximum_target v)]"

definition UpdateChannel_get_size :: "UpdateChannel \<Rightarrow> nat" where
  "UpdateChannel_get_size v =
     u32_size (uc_channel_id v) + f32_size (uc_nominal_hash_rate v) +
     u256_size (uc_maximum_target v)"

definition UpdateChannel_wf :: "UpdateChannel \<Rightarrow> bool" where
  "UpdateChannel_wf v = (inner_wf U256 (uc_maximum_target v))"

definition UpdateChannel_norm :: "UpdateChannel \<Rightarrow> UpdateChannel" where
  "UpdateChannel_norm v =
     \<lparr>uc_channel_id = uc_channel_id v, uc_nominal_hash_rate = uc_nominal_hash_rate v,
      uc_maximum_target = inner_norm (uc_maximum_target v)\<rparr>"

definition UpdateChannel_from_bytes :: "bytes \<Rightarrow> UpdateChannel sv2" where
  "UpdateChannel_from_bytes = decodable_from_bytes UpdateChannel_get_structure UpdateChannel_from_decoded_fields"

interpretation m_UpdateChannel: sv2_message UpdateChannel_get_structure
  UpdateChannel_from_decoded_fields UpdateChannel_into_field UpdateChannel_get_size UpdateChannel_wf UpdateChannel_norm
  by (rule derived_message [OF UpdateChannel_get_structure_def UpdateChannel_into_field_def])
    (simp_all add: UpdateChannel_wf_def UpdateChannel_norm_def UpdateChannel_get_size_def UpdateChannel_from_decoded_fields_def derived_message_simps)

section \<open>UpdateChannelError\<close>

record UpdateChannelError =
  uce_channel_id :: u32
  uce_error_code :: inner

definition UpdateChannelError_get_structure :: "bytes \<Rightarrow> field_marker list sv2" where
  "UpdateChannelError_get_structure = derive_get_structure
     [u32_structure, b0255_structure]"

definition UpdateChannelError_from_decoded_fields :: "decodable_field list \<Rightarrow> UpdateChannelError sv2" where
  "UpdateChannelError_from_decoded_fields data =
     rbind (derive_pop b0255_from_decoded data) (\<lambda>(error_code, data).
     rbind (derive_pop u32_from_decoded data) (\<lambda>(channel_id, data).
       Ok \<lparr>uce_channel_id = channel_id, uce_error_code = error_code\<rparr>))"

definition UpdateChannelError_into_field :: "UpdateChannelError \<Rightarrow> encodable_field" where
  "UpdateChannelError_into_field v = derive_into_field
     [u32_into (uce_channel_id v), b0255_into (uce_error_code v)]"

definition UpdateChannelError_get_size :: "UpdateChannelError \<Rightarrow> nat" where
  "UpdateChannelError_get_size v =
     u32_size (uce_channel_id v) + b0255_size (uce_error_code v)"

definition UpdateChannelError_wf :: "UpdateChannelError \<Rightarrow> bool" where
  "UpdateChannelError_wf v = (inner_wf B0255 (uce_error_code v))"

definition UpdateChannelError_norm :: "UpdateChannelError \<Rightarrow> UpdateChannelError" where
  "UpdateChannelError_norm v =
     \<lparr>uce_channel_id = uce_channel_id v, uce_error_code = inner_norm (uce_error_code v)\<rparr>"

definition UpdateChannelError_from_bytes :: "bytes \<Rightarrow> UpdateChannelError sv2" where
  "UpdateChannelError_from_bytes = decodable_from_bytes UpdateChannelError_get_structure UpdateChannelError_from_decoded_fields"

interpretation m_UpdateChannelError: sv2_message UpdateChannelError_get_structure
  UpdateChannelError_from_decoded_fields UpdateChannelError_into_field UpdateChannelError_get_size UpdateChannelError_wf UpdateChannelError_norm
  by (rule derived_message [OF UpdateChannelError_get_structure_def UpdateChannelError_into_field_def])
    (simp_all add: UpdateChannelError_wf_def UpdateChannelError_norm_def UpdateChannelError_get_size_def UpdateChannelError_from_decoded_fields_def derived_message_simps)

section \<open>MintQuoteNotification\<close>

record MintQuoteNotification =
  mqn_channel_id :: u32
  mqn_quote_id :: inner
  mqn_amount :: u64

definition MintQuoteNotification_get_structure :: "bytes \<Rightarrow> field_marker list sv2" where
  "MintQuoteNotification_get_structure = derive_get_structure
     [u32_structure, b0255_structure, u64_structure]"

definition MintQuoteNotification_from_decoded_fields :: "decodable_field list \<Rightarrow> MintQuoteNotification sv2" where
  "MintQuoteNotification_from_decoded_fields data =
     rbind (derive_pop u64_from_decoded data) (\<lambda>(amount, data).
     rbind (derive_pop b0255_from_decoded data) (\<lambda>(quote_id, data).
     rbind (derive_pop u32_from_decoded data) (\<lambda>(channel_id, data).
       Ok \<lparr>mqn_channel_id = channel_id, mqn_quote_id = quote_id, mqn_amount = amount\<rparr>)))"

definition MintQuoteNotification_into_field :: "MintQuoteNotification \<Rightarrow> encodable_field" where
  "MintQuoteNotification_into_field v = derive_into_field
     [u32_into (mqn_channel_id v), b0255_into (mqn_quote_id v), u64_into (mqn_amount v)]"

definition MintQuoteNotification_get_size :: "MintQuoteNotification \<Rightarrow> nat" where
  "MintQuoteNotification_get_size v =
     u32_size (mqn_channel_id v) + b0255_size (mqn_quote_id v) + u64_size (mqn_amount v)"

definition MintQuoteNotification_wf :: "MintQuoteNotification \<Rightarrow> bool" where
  "MintQuoteNotification_wf v = (inner_wf B0255 (mqn_quote_id v))"

definition MintQuoteNotification_norm :: "MintQuoteNotification \<Rightarrow> MintQuoteNotification" where
  "MintQuoteNotification_norm v =
     \<lparr>mqn_channel_id = mqn_channel_id v, mqn_quote_id = inner_norm (mqn_quote_id v),
      mqn_amount = mqn_amount v\<rparr>"

definition MintQuoteNotification_from_bytes :: "bytes \<Rightarrow> MintQuoteNotification sv2" where
  "MintQuoteNotification_from_bytes = decodable_from_bytes MintQuoteNotification_get_structure MintQuoteNotification_from_decoded_fields"

interpretation m_MintQuoteNotification: sv2_message MintQuoteNotification_get_structure
  MintQuoteNotification_from_decoded_fields MintQuoteNotification_into_field MintQuoteNotification_get_size MintQuoteNotification_wf MintQuoteNotification_norm
  by (rule derived_message [OF MintQuoteNotification_get_structure_def MintQuoteNotification_into_field_def])
    (simp_all add: MintQuoteNotification_wf_def MintQuoteNotification_norm_def MintQuoteNotification_get_size_def MintQuoteNotification_from_decoded_fields_def derived_message_simps)

section \<open>MintQuoteFailure\<close>

record MintQuoteFailure =
  mqf_channel_id :: u32
  mqf_quote_id :: inner
  mqf_error_code :: u32
  mqf_error_message :: inner

definition MintQuoteFailure_get_structure :: "bytes \<Rightarrow> field_marker list sv2" where
  "MintQuoteFailure_get_structure = derive_get_structure
     [u32_structure, b0255_structure, u32_structure, b0255_structure]"

definition MintQuoteFailure_from_decoded_fields :: "decodable_field list \<Rightarrow> MintQuoteFailure sv2" where
  "MintQuoteFailure_from_decoded_fields data =
     rbind (derive_pop b0255_from_decoded data) (\<lambda>(error_message, data).
     rbind (derive_pop u32_from_decoded data) (\<lambda>(error_code, data).
     rbind (derive_pop b0255_from_decoded data) (\<lambda>(quote_id, data).
     rbind (derive_pop u32_from_decoded data) (\<lambda>(channel_id, data).
       Ok \<lparr>mqf_channel_id = channel_id, mqf_quote_id = quote_id, mqf_error_code = error_code,
         mqf_error_message = error_message\<rparr>))))"

definition MintQuoteFailure_into_field :: "MintQuoteFailure \<Rightarrow> encodable_field" where
  "MintQuoteFailure_into_field v = derive_into_field
     [u32_into (mqf_channel_id v), b0255_into (mqf_quote_id v),
      u32_into (mqf_error_code v), b0255_into (mqf_error_message v)]"

definition MintQuoteFailure_get_size :: "MintQuoteFailure \<Rightarrow> nat" where
  "MintQuoteFailure_get_size v =
     u32_size (mqf_channel_id v) + b0255_size (mqf_quote_id v) +
     u32_size (mqf_error_code v) + b0255_size (mqf_error_message v)"

definition MintQuoteFailure_wf :: "MintQuoteFailure \<Rightarrow> bool" where
  "MintQuoteFailure_wf v = (inner_wf B0255 (mqf_quote_id v) \<and> inner_wf B0255 (mqf_error_message v))"

definition MintQuoteFailure_norm :: "MintQuoteFailure \<Rightarrow> MintQuoteFailure" where
  "MintQuoteFailure_norm v =
     \<lparr>mqf_channel_id = mqf_channel_id v, mqf_quote_id = inner_norm (mqf_quote_id v),
      mqf_error_code = mqf_error_code v,
      mqf_error_message = inner_norm (mqf_error_message v)\<rparr>"

definition MintQuoteFailure_from_bytes :: "bytes \<Rightarrow> MintQuoteFailure sv2" where
  "MintQuoteFailure_from_bytes = decodable_from_bytes MintQuoteFailure_get_structure MintQuoteFailure_from_decoded_fields"

interpretation m_MintQuoteFailure: sv2_message MintQuoteFailure_get_structure
  MintQuoteFailure_from_decoded_fields MintQuoteFailure_into_field MintQuoteFailure_get_size MintQuoteFailure_wf MintQuoteFailure_norm
  by (rule derived_message [OF MintQuoteFailure_get_structure_def MintQuoteFailure_into_field_def])
    (simp_all add: MintQuoteFailure_wf_def MintQuoteFailure_norm_def MintQuoteFailure_get_size_def MintQuoteFailure_from_decoded_fields_def derived_message_simps)

lemmas mining_messages_to_bytes =
  m_CloseChannel.to_bytes_message m_NewMiningJob.to_bytes_message
  m_NewExtendedMiningJob.to_bytes_message m_OpenStandardMiningChannel.to_bytes_message
  m_OpenStandardMiningChannelSuccess.to_bytes_message
  m_OpenExtendedMiningChannel.to_bytes_message
  m_OpenExtendedMiningChannelSuccess.to_bytes_message m_OpenMiningChannelError.to_bytes_message
  m_SetCustomMiningJob.to_bytes_message m_SetCustomMiningJobSuccess.to_bytes_message
  m_SetCustomMiningJobError.to_bytes_message m_SetExtranoncePrefix.to_bytes_message
  m_SetGroupChannel.to_bytes_message m_MiningSetNewPrevHash.to_bytes_message
  m_SetTarget.to_bytes_message m_SubmitSharesStandard.to_bytes_message
  m_SubmitSharesExtended.to_bytes_message m_SubmitSharesSuccess.to_bytes_message
  m_SubmitSharesError.to_bytes_message m_UpdateChannel.to_bytes_message
  m_UpdateChannelError.to_bytes_message m_MintQuoteNotification.to_bytes_message
  m_MintQuoteFailure.to_bytes_message

lemmas mining_messages_from_bytes =
  m_CloseChannel.from_bytes_message [folded CloseChannel_from_bytes_def]
  m_NewMiningJob.from_bytes_message [folded NewMiningJob_from_bytes_def]
  m_NewExtendedMiningJob.from_bytes_message [folded NewExtendedMiningJob_from_bytes_def]
  m_OpenStandardMiningChannel.from_bytes_message [folded
  OpenStandardMiningChannel_from_bytes_def]
  m_OpenStandardMiningChannelSuccess.from_bytes_message [folded
  OpenStandardMiningChannelSuccess_from_bytes_def]
  m_OpenExtendedMiningChannel.from_bytes_message [folded
  OpenExtendedMiningChannel_from_bytes_def]
  m_OpenExtendedMiningChannelSuccess.from_bytes_message [folded
  OpenExtendedMiningChannelSuccess_from_bytes_def] m_OpenMiningChannelError.from_bytes_message
  [folded OpenMiningChannelError_from_bytes_def] m_SetCustomMiningJob.from_bytes_message
  [folded SetCustomMiningJob_from_bytes_def] m_SetCustomMiningJobSuccess.from_bytes_message
  [folded SetCustomMiningJobSuccess_from_bytes_def]
  m_SetCustomMiningJobError.from_bytes_message [folded SetCustomMiningJobError_from_bytes_def]
  m_SetExtranoncePrefix.from_bytes_message [folded SetExtranoncePrefix_from_bytes_def]
  m_SetGroupChannel.from_bytes_message [folded SetGroupChannel_from_bytes_def]
  m_MiningSetNewPrevHash.from_bytes_message [folded MiningSetNewPrevHash_from_bytes_def]
  m_SetTarget.from_bytes_message [folded SetTarget_from_bytes_def]
  m_SubmitSharesStandard.from_bytes_message [folded SubmitSharesStandard_from_bytes_def]
  m_SubmitSharesExtended.from_bytes_message [folded SubmitSharesExtended_from_bytes_def]
  m_SubmitSharesSuccess.from_bytes_message [folded SubmitSharesSuccess_from_bytes_def]
  m_SubmitSharesError.from_bytes_message [folded SubmitSharesError_from_bytes_def]
  m_UpdateChannel.from_bytes_message [folded UpdateChannel_from_bytes_def]
  m_UpdateChannelError.from_bytes_message [folded UpdateChannelError_from_bytes_def]
  m_MintQuoteNotification.from_bytes_message [folded MintQuoteNotification_from_bytes_def]
  m_MintQuoteFailure.from_bytes_message [folded MintQuoteFailure_from_bytes_def]

lemmas mining_messages_field_ok =
  m_CloseChannel.field_ok m_NewMiningJob.field_ok m_NewExtendedMiningJob.field_ok
  m_OpenStandardMiningChannel.field_ok m_OpenStandardMiningChannelSuccess.field_ok
  m_OpenExtendedMiningChannel.field_ok m_OpenExtendedMiningChannelSuccess.field_ok
  m_OpenMiningChannelError.field_ok m_SetCustomMiningJob.field_ok
  m_SetCustomMiningJobSuccess.field_ok m_SetCustomMiningJobError.field_ok
  m_SetExtranoncePrefix.field_ok m_SetGroupChannel.field_ok m_MiningSetNewPrevHash.field_ok
  m_SetTarget.field_ok m_SubmitSharesStandard.field_ok m_SubmitSharesExtended.field_ok
  m_SubmitSharesSuccess.field_ok m_SubmitSharesError.field_ok m_UpdateChannel.field_ok
  m_UpdateChannelError.field_ok m_MintQuoteNotification.field_ok m_MintQuoteFailure.field_ok

lemmas mining_messages_get_size =
  m_CloseChannel.get_size_field m_NewMiningJob.get_size_field
  m_NewExtendedMiningJob.get_size_field m_OpenStandardMiningChannel.get_size_field
  m_OpenStandardMiningChannelSuccess.get_size_field m_OpenExtendedMiningChannel.get_size_field
  m_OpenExtendedMiningChannelSuccess.get_size_field m_OpenMiningChannelError.get_size_field
  m_SetCustomMiningJob.get_size_field m_SetCustomMiningJobSuccess.get_size_field
  m_SetCustomMiningJobError.get_size_field m_SetExtranoncePrefix.get_size_field
  m_SetGroupChannel.get_size_field m_MiningSetNewPrevHash.get_size_field
  m_SetTarget.get_size_field m_SubmitSharesStandard.get_size_field
  m_SubmitSharesExtended.get_size_field m_SubmitSharesSuccess.get_size_field
  m_SubmitSharesError.get_size_field m_UpdateChannel.get_size_field
  m_UpdateChannelError.get_size_field m_MintQuoteNotification.get_size_field
  m_MintQuoteFailure.get_size_field

end
