(* ===== verification/Protocol_Messages.thy ===== *)
theory Protocol_Messages
  imports Field_Types
begin

text \<open>
  The messages of the common, template distribution, job declaration and mint quote
  subprotocols, in the same form as those of \<open>Mining_Messages\<close>.
\<close>

section \<open>ChannelEndpointChanged\<close>

record ChannelEndpointChanged =
  cec_channel_id :: u32

definition ChannelEndpointChanged_get_structure :: "bytes \<Rightarrow> field_marker list sv2" where
  "ChannelEndpointChanged_get_structure = derive_get_structure
     [u32_structure]"

definition ChannelEndpointChanged_from_decoded_fields :: "decodable_field list \<Rightarrow> ChannelEndpointChanged sv2" where
  "ChannelEndpointChanged_from_decoded_fields data =
     rbind (derive_pop u32_from_decoded data) (\<lambda>(channel_id, data).
       Ok \<lparr>cec_channel_id = channel_id\<rparr>)"

definition ChannelEndpointChanged_into_field :: "ChannelEndpointChanged \<Rightarrow> encodable_field" where
  "ChannelEndpointChanged_into_field v = derive_into_field
     [u32_into (cec_channel_id v)]"

definition ChannelEndpointChanged_get_size :: "ChannelEndpointChanged \<Rightarrow> nat" where
  "ChannelEndpointChanged_get_size v =
     u32_size (cec_channel_id v)"

definition ChannelEndpointChanged_wf :: "ChannelEndpointChanged \<Rightarrow> bool" where
  "ChannelEndpointChanged_wf v = True"

definition ChannelEndpointChanged_norm :: "ChannelEndpointChanged \<Rightarrow> ChannelEndpointChanged" where
  "ChannelEndpointChanged_norm v =
     \<lparr>cec_channel_id = cec_channel_id v\<rparr>"

definition ChannelEndpointChanged_from_bytes :: "bytes \<Rightarrow> ChannelEndpointChanged sv2" where
  "ChannelEndpointChanged_from_bytes = decodable_from_bytes ChannelEndpointChanged_get_structure ChannelEndpointChanged_from_decoded_fields"

interpretation m_ChannelEndpointChanged: sv2_message ChannelEndpointChanged_get_structure
  ChannelEndpointChanged_from_decoded_fields ChannelEndpointChanged_into_field ChannelEndpointChanged_get_size ChannelEndpointChanged_wf ChannelEndpointChanged_norm
  by (rule derived_message [OF ChannelEndpointChanged_get_structure_def ChannelEndpointChanged_into_field_def])
    (simp_all add: ChannelEndpointChanged_wf_def ChannelEndpointChanged_norm_def ChannelEndpointChanged_get_size_def ChannelEndpointChanged_from_decoded_fields_def derived_message_simps)

section \<open>Reconnect\<close>

record Reconnect =
  rc_new_host :: inner
  rc_new_port :: u16

definition Reconnect_get_structure :: "bytes \<Rightarrow> field_marker list sv2" where
  "Reconnect_get_structure = derive_get_structure
     [b0255_structure, u16_structure]"

definition Reconnect_from_decoded_fields :: "decodable_field list \<Rightarrow> Reconnect sv2" where
  "Reconnect_from_decoded_fields data =
     rbind (derive_pop u16_from_decoded data) (\<lambda>(new_port, data).
     rbind (derive_pop b0255_from_decoded data) (\<lambda>(new_host, data).
       Ok \<lparr>rc_new_host = new_host, rc_new_port = new_port\<rparr>))"

definition Reconnect_into_field :: "Reconnect \<Rightarrow> encodable_field" where
  "Reconnect_into_field v = derive_into_field
     [b0255_into (rc_new_host v), u16_into (rc_new_port v)]"

definition Reconnect_get_size :: "Reconnect \<Rightarrow> nat" where
  "Reconnect_get_size v =
     b0255_size (rc_new_host v) + u16_size (rc_new_port v)"

definition Reconnect_wf :: "Reconnect \<Rightarrow> bool" where
  "Reconnect_wf v = (inner_wf B0255 (rc_new_host v))"

definition Reconnect_norm :: "Reconnect \<Rightarrow> Reconnect" where
  "Reconnect_norm v =
     \<lparr>rc_new_host = inner_norm (rc_new_host v), rc_new_port = rc_new_port v\<rparr>"

definition Reconnect_from_bytes :: "bytes \<Rightarrow> Reconnect sv2" where
  "Reconnect_from_bytes = decodable_from_bytes Reconnect_get_structure Reconnect_from_decoded_fields"

interpretation m_Reconnect: sv2_message Reconnect_get_structure
  Reconnect_from_decoded_fields Reconnect_into_field Reconnect_get_size Reconnect_wf Reconnect_norm
  by (rule derived_message [OF Reconnect_get_structure_def Reconnect_into_field_def])
    (simp_all add: Reconnect_wf_def Reconnect_norm_def Reconnect_get_size_def Reconnect_from_decoded_fields_def derived_message_simps)

section \<open>SetupConnection\<close>

record SetupConnection =
  sc_protocol :: protocol
  sc_min_version :: u16
  sc_max_version :: u16
  sc_flags :: u32
  sc_endpoint_host :: inner
  sc_endpoint_port :: u16
  sc_vendor :: inner
  sc_hardware_version :: inner
  sc_firmware :: inner
  sc_device_id :: inner

definition SetupConnection_get_structure :: "bytes \<Rightarrow> field_marker list sv2" where
  "SetupConnection_get_structure = derive_get_structure
     [protocol_structure, u16_structure, u16_structure, u32_structure, b0255_structure,
      u16_structure, b0255_structure, b0255_structure, b0255_structure, b0255_structure]"

definition SetupConnection_from_decoded_fields :: "decodable_field list \<Rightarrow> SetupConnection sv2" where
  "SetupConnection_from_decoded_fields data =
     rbind (derive_pop b0255_from_decoded data) (\<lambda>(device_id, data).
     rbind (derive_pop b0255_from_decoded data) (\<lambda>(firmware, data).
     rbind (derive_pop b0255_from_decoded data) (\<lambda>(hardware_version, data).
     rbind (derive_pop b0255_from_decoded data) (\<lambda>(vendor, data).
     rbind (derive_pop u16_from_decoded data) (\<lambda>(endpoint_port, data).
     rbind (derive_pop b0255_from_decoded data) (\<lambda>(endpoint_host, data).
     rbind (derive_pop u32_from_decoded data) (\<lambda>(flags, data).
     rbind (derive_pop u16_from_decoded data) (\<lambda>(max_version, data).
     rbind (derive_pop u16_from_decoded data) (\<lambda>(min_version, data).
     rbind (derive_pop protocol_from_decoded data) (\<lambda>(protocol, data).
       Ok \<lparr>sc_protocol = protocol, sc_min_version = min_version,
         sc_max_version = max_version, sc_flags = flags, sc_endpoint_host = endpoint_host,
         sc_endpoint_port = endpoint_port, sc_vendor = vendor,
         sc_hardware_version = hardware_version, sc_firmware = firmware,
         sc_device_id = device_id\<rparr>))))))))))"

definition SetupConnection_into_field :: "SetupConnection \<Rightarrow> encodable_field" where
  "SetupConnection_into_field v = derive_into_field
     [protocol_into (sc_protocol v), u16_into (sc_min_version v),
      u16_into (sc_max_version v), u32_into (sc_flags v), b0255_into (sc_endpoint_host v),
      u16_into (sc_endpoint_port v), b0255_into (sc_vendor v),
      b0255_into (sc_hardware_version v), b0255_into (sc_firmware v),
      b0255_into (sc_device_id v)]"

definition SetupConnection_get_size :: "SetupConnection \<Rightarrow> nat" where
  "SetupConnection_get_size v =
     protocol_size (sc_protocol v) + u16_size (sc_min_version v) +
     u16_size (sc_max_version v) + u32_size (sc_flags v) +
     b0255_size (sc_endpoint_host v) + u16_size (sc_endpoint_port v) +
     b0255_size (sc_vendor v) + b0255_size (sc_hardware_version v) +
     b0255_size (sc_firmware v) + b0255_size (sc_device_id v)"

definition SetupConnection_wf :: "SetupConnection \<Rightarrow> bool" where
  "SetupConnection_wf v = (inner_wf B0255 (sc_endpoint_host v) \<and> inner_wf B0255 (sc_vendor v) \<and>
     inner_wf B0255 (sc_hardware_version v) \<and> inner_wf B0255 (sc_firmware v) \<and>
     inner_wf B0255 (sc_device_id v))"

definition SetupConnection_norm :: "SetupConnection \<Rightarrow> SetupConnection" where
  "SetupConnection_norm v =
     \<lparr>sc_protocol = sc_protocol v, sc_min_version = sc_min_version v,
      sc_max_version = sc_max_version v, sc_flags = sc_flags v,
      sc_endpoint_host = inner_norm (sc_endpoint_host v),
      sc_endpoint_port = sc_endpoint_port v, sc_vendor = inner_norm (sc_vendor v),
      sc_hardware_version = inner_norm (sc_hardware_version v),
      sc_firmware = inner_norm (sc_firmware v), sc_device_id = inner_norm (sc_device_id v)\<rparr>"

definition SetupConnection_from_bytes :: "bytes \<Rightarrow> SetupConnection sv2" where
  "SetupConnection_from_bytes = decodable_from_bytes SetupConnection_get_structure SetupConnection_from_decoded_fields"

interpretation m_SetupConnection: sv2_message SetupConnection_get_structure
  SetupConnection_from_decoded_fields SetupConnection_into_field SetupConnection_get_size SetupConnection_wf SetupConnection_norm
  by (rule derived_message [OF SetupConnection_get_structure_def SetupConnection_into_field_def])
    (simp_all add: SetupConnection_wf_def SetupConnection_norm_def SetupConnection_get_size_def SetupConnection_from_decoded_fields_def derived_message_simps)

section \<open>SetupConnectionSuccess\<close>

record SetupConnectionSuccess =
  scok_used_version :: u16
  scok_flags :: u32

definition SetupConnectionSuccess_get_structure :: "bytes \<Rightarrow> field_marker list sv2" where
  "SetupConnectionSuccess_get_structure = derive_get_structure
     [u16_structure, u32_structure]"

definition SetupConnectionSuccess_from_decoded_fields :: "decodable_field list \<Rightarrow> SetupConnectionSuccess sv2" where
  "SetupConnectionSuccess_from_decoded_fields data =
     rbind (derive_pop u32_from_decoded data) (\<lambda>(flags, data).
     rbind (derive_pop u16_from_decoded data) (\<lambda>(used_version, data).
       Ok \<lparr>scok_used_version = used_version, scok_flags = flags\<rparr>))"

definition SetupConnectionSuccess_into_field :: "SetupConnectionSuccess \<Rightarrow> encodable_field" where
  "SetupConnectionSuccess_into_field v = derive_into_field
     [u16_into (scok_used_version v), u32_into (scok_flags v)]"

definition SetupConnectionSuccess_get_size :: "SetupConnectionSuccess \<Rightarrow> nat" where
  "SetupConnectionSuccess_get_size v =
     u16_size (scok_used_version v) + u32_size (scok_flags v)"

definition SetupConnectionSuccess_wf :: "SetupConnectionSuccess \<Rightarrow> bool" where
  "SetupConnectionSuccess_wf v = True"

definition SetupConnectionSuccess_norm :: "SetupConnectionSuccess \<Rightarrow> SetupConnectionSuccess" where
  "SetupConnectionSuccess_norm v =
     \<lparr>scok_used_version = scok_used_version v, scok_flags = scok_flags v\<rparr>"

definition SetupConnectionSuccess_from_bytes :: "bytes \<Rightarrow> SetupConnectionSuccess sv2" where
  "SetupConnectionSuccess_from_bytes = decodable_from_bytes SetupConnectionSuccess_get_structure SetupConnectionSuccess_from_decoded_fields"

interpretation m_SetupConnectionSuccess: sv2_message SetupConnectionSuccess_get_structure
  SetupConnectionSuccess_from_decoded_fields SetupConnectionSuccess_into_field SetupConnectionSuccess_get_size SetupConnectionSuccess_wf SetupConnectionSuccess_norm
  by (rule derived_message [OF SetupConnectionSuccess_get_structure_def SetupConnectionSuccess_into_field_def])
    (simp_all add: SetupConnectionSuccess_wf_def SetupConnectionSuccess_norm_def SetupConnectionSuccess_get_size_def SetupConnectionSuccess_from_decoded_fields_def derived_message_simps)

section \<open>SetupConnectionError\<close>

record SetupConnectionError =
  scerr_flags :: u32
  scerr_error_code :: inner

definition SetupConnectionError_get_structure :: "bytes \<Rightarrow> field_marker list sv2" where
  "SetupConnectionError_get_structure = derive_get_structure
     [u32_structure, b0255_structure]"

definition SetupConnectionError_from_decoded_fields :: "decodable_field list \<Rightarrow> SetupConnectionError sv2" where
  "SetupConnectionError_from_decoded_fields data =
     rbind (derive_pop b0255_from_decoded data) (\<lambda>(error_code, data).
     rbind (derive_pop u32_from_decoded data) (\<lambda>(flags, data).
       Ok \<lparr>scerr_flags = flags, scerr_error_code = error_code\<rparr>))"

definition SetupConnectionError_into_field :: "SetupConnectionError \<Rightarrow> encodable_field" where
  "SetupConnectionError_into_field v = derive_into_field
     [u32_into (scerr_flags v), b0255_into (scerr_error_code v)]"

definition SetupConnectionError_get_size :: "SetupConnectionError \<Rightarrow> nat" where
  "SetupConnectionError_get_size v =
     u32_size (scerr_flags v) + b0255_size (scerr_error_code v)"

definition SetupConnectionError_wf :: "SetupConnectionError \<Rightarrow> bool" where
  "SetupConnectionError_wf v = (inner_wf B0255 (scerr_error_code v))"

definition SetupConnectionError_norm :: "SetupConnectionError \<Rightarrow> SetupConnectionError" where
  "SetupConnectionError_norm v =
     \<lparr>scerr_flags = scerr_flags v, scerr_error_code = inner_norm (scerr_error_code v)\<rparr>"

definition SetupConnectionError_from_bytes :: "bytes \<Rightarrow> SetupConnectionError sv2" where
  "SetupConnectionError_from_bytes = decodable_from_bytes SetupConnectionError_get_structure SetupConnectionError_from_decoded_fields"

interpretation m_SetupConnectionError: sv2_message SetupConnectionError_get_structure
  SetupConnectionError_from_decoded_fields SetupConnectionError_into_field SetupConnectionError_get_size SetupConnectionError_wf SetupConnectionError_norm
  by (rule derived_message [OF SetupConnectionError_get_structure_def SetupConnectionError_into_field_def])
    (simp_all add: SetupConnectionError_wf_def SetupConnectionError_norm_def SetupConnectionError_get_size_def SetupConnectionError_from_decoded_fields_def derived_message_simps)

section \<open>CoinbaseOutputConstraints\<close>

record CoinbaseOutputConstraints =
  coc_coinbase_output_max_additional_size :: u32
  coc_coinbase_output_max_additional_sigops :: u16

definition CoinbaseOutputConstraints_get_structure :: "bytes \<Rightarrow> field_marker list sv2" where
  "CoinbaseOutputConstraints_get_structure = derive_get_structure
     [u32_structure, u16_structure]"

definition CoinbaseOutputConstraints_from_decoded_fields :: "decodable_field list \<Rightarrow> CoinbaseOutputConstraints sv2" where
  "CoinbaseOutputConstraints_from_decoded_fields data =
     rbind (derive_pop u16_from_decoded data) (\<lambda>(coinbase_output_max_additional_sigops, data).
     rbind (derive_pop u32_from_decoded data) (\<lambda>(coinbase_output_max_additional_size, data).
       Ok \<lparr>coc_coinbase_output_max_additional_size = coinbase_output_max_additional_size,
         coc_coinbase_output_max_additional_sigops = coinbase_output_max_additional_sigops\<rparr>))"

definition CoinbaseOutputConstraints_into_field :: "CoinbaseOutputConstraints \<Rightarrow> encodable_field" where
  "CoinbaseOutputConstraints_into_field v = derive_into_field
     [u32_into (coc_coinbase_output_max_additional_size v),
      u16_into (coc_coinbase_output_max_additional_sigops v)]"

definition CoinbaseOutputConstraints_get_size :: "CoinbaseOutputConstraints \<Rightarrow> nat" where
  "CoinbaseOutputConstraints_get_size v =
     u32_size (coc_coinbase_output_max_additional_size v) +
     u16_size (coc_coinbase_output_max_additional_sigops v)"

definition CoinbaseOutputConstraints_wf :: "CoinbaseOutputConstraints \<Rightarrow> bool" where
  "CoinbaseOutputConstraints_wf v = True"

definition CoinbaseOutputConstraints_norm :: "CoinbaseOutputConstraints \<Rightarrow> CoinbaseOutputConstraints" where
  "CoinbaseOutputConstraints_norm v =
     \<lparr>coc_coinbase_output_max_additional_size = coc_coinbase_output_max_additional_size v,
      coc_coinbase_output_max_additional_sigops = coc_coinbase_output_max_additional_sigops v\<rparr>"

definition CoinbaseOutputConstraints_from_bytes :: "bytes \<Rightarrow> CoinbaseOutputConstraints sv2" where
  "CoinbaseOutputConstraints_from_bytes = decodable_from_bytes CoinbaseOutputConstraints_get_structure CoinbaseOutputConstraints_from_decoded_fields"

interpretation m_CoinbaseOutputConstraints: sv2_message CoinbaseOutputConstraints_get_structure
  CoinbaseOutputConstraints_from_decoded_fields CoinbaseOutputConstraints_into_field CoinbaseOutputConstraints_get_size CoinbaseOutputConstraints_wf CoinbaseOutputConstraints_norm
  by (rule derived_message [OF CoinbaseOutputConstraints_get_structure_def CoinbaseOutputConstraints_into_field_def])
    (simp_all add: CoinbaseOutputConstraints_wf_def CoinbaseOutputConstraints_norm_def CoinbaseOutputConstraints_get_size_def CoinbaseOutputConstraints_from_decoded_fields_def derived_message_simps)

section \<open>NewTemplate\<close>

record NewTemplate =
  nt_template_id :: u64
  nt_future_template :: bool
  nt_version :: u32
  nt_coinbase_tx_version :: u32
  nt_coinbase_prefix :: inner
  nt_coinbase_tx_input_sequence :: u32
  nt_coinbase_tx_value_remaining :: u64
  nt_coinbase_tx_outputs_count :: u32
  nt_coinbase_tx_outputs :: inner
  nt_coinbase_tx_locktime :: u32
  nt_merkle_path :: "inner list"

definition NewTemplate_get_structure :: "bytes \<Rightarrow> field_marker list sv2" where
  "NewTemplate_get_structure = derive_get_structure
     [u64_structure, bool_structure, u32_structure, u32_structure, b0255_structure,
      u32_structure, u64_structure, u32_structure, b064k_structure, u32_structure,
      seq0255_u256_structure]"

definition NewTemplate_from_decoded_fields :: "decodable_field list \<Rightarrow> NewTemplate sv2" where
  "NewTemplate_from_decoded_fields data =
     rbind (derive_pop seq0255_u256_from_decoded data) (\<lambda>(merkle_path, data).
     rbind (derive_pop u32_from_decoded data) (\<lambda>(coinbase_tx_locktime, data).
     rbind (derive_pop b064k_from_decoded data) (\<lambda>(coinbase_tx_outputs, data).
     rbind (derive_pop u32_from_decoded data) (\<lambda>(coinbase_tx_outputs_count, data).
     rbind (derive_pop u64_from_decoded data) (\<lambda>(coinbase_tx_value_remaining, data).
     rbind (derive_pop u32_from_decoded data) (\<lambda>(coinbase_tx_input_sequence, data).
     rbind (derive_pop b0255_from_decoded data) (\<lambda>(coinbase_prefix, data).
     rbind (derive_pop u32_from_decoded data) (\<lambda>(coinbase_tx_version, data).
     rbind (derive_pop u32_from_decoded data) (\<lambda>(version, data).
     rbind (derive_pop bool_from_decoded data) (\<lambda>(future_template, data).
     rbind (derive_pop u64_from_decoded data) (\<lambda>(template_id, data).
       Ok \<lparr>nt_template_id = template_id, nt_future_template = future_template,
         nt_version = version, nt_coinbase_tx_version = coinbase_tx_version,
         nt_coinbase_prefix = coinbase_prefix,
         nt_coinbase_tx_input_sequence = coinbase_tx_input_sequence,
         nt_coinbase_tx_value_remaining = coinbase_tx_value_remaining,
         nt_coinbase_tx_outputs_count = coinbase_tx_outputs_count,
         nt_coinbase_tx_outputs = coinbase_tx_outputs,
         nt_coinbase_tx_locktime = coinbase_tx_locktime, nt_merkle_path = merkle_path\<rparr>)))))))))))"

definition NewTemplate_into_field :: "NewTemplate \<Rightarrow> encodable_field" where
  "NewTemplate_into_field v = derive_into_field
     [u64_into (nt_template_id v), bool_into (nt_future_template v),
      u32_into (nt_version v), u32_into (nt_coinbase_tx_version v),
      b0255_into (nt_coinbase_prefix v), u32_into (nt_coinbase_tx_input_sequence v),
      u64_into (nt_coinbase_tx_value_remaining v),
      u32_into (nt_coinbase_tx_outputs_count v), b064k_into (nt_coinbase_tx_outputs v),
      u32_into (nt_coinbase_tx_locktime v), seq0255_u256_into (nt_merkle_path v)]"

definition NewTemplate_get_size :: "NewTemplate \<Rightarrow> nat" where
  "NewTemplate_get_size v =
     u64_size (nt_template_id v) + bool_size (nt_future_template v) +
     u32_size (nt_version v) + u32_size (nt_coinbase_tx_version v) +
     b0255_size (nt_coinbase_prefix v) + u32_size (nt_coinbase_tx_input_sequence v) +
     u64_size (nt_coinbase_tx_value_remaining v) +
     u32_size (nt_coinbase_tx_outputs_count v) + b064k_size (nt_coinbase_tx_outputs v) +
     u32_size (nt_coinbase_tx_locktime v) + seq0255_u256_size (nt_merkle_path v)"

definition NewTemplate_wf :: "NewTemplate \<Rightarrow> bool" where
  "NewTemplate_wf v = (inner_wf B0255 (nt_coinbase_prefix v) \<and>
     inner_wf B064K (nt_coinbase_tx_outputs v) \<and>
     seq0255_wf (inner_wf U256) (nt_merkle_path v))"

definition NewTemplate_norm :: "NewTemplate \<Rightarrow> NewTemplate" where
  "NewTemplate_norm v =
     \<lparr>nt_template_id = nt_template_id v, nt_future_template = nt_future_template v,
      nt_version = nt_version v, nt_coinbase_tx_version = nt_coinbase_tx_version v,
      nt_coinbase_prefix = inner_norm (nt_coinbase_prefix v),
      nt_coinbase_tx_input_sequence = nt_coinbase_tx_input_sequence v,
      nt_coinbase_tx_value_remaining = nt_coinbase_tx_value_remaining v,
      nt_coinbase_tx_outputs_count = nt_coinbase_tx_outputs_count v,
      nt_coinbase_tx_outputs = inner_norm (nt_coinbase_tx_outputs v),
      nt_coinbase_tx_locktime = nt_coinbase_tx_locktime v,
      nt_merkle_path = map inner_norm (nt_merkle_path v)\<rparr>"

definition NewTemplate_from_bytes :: "bytes \<Rightarrow> NewTemplate sv2" where
  "NewTemplate_from_bytes = decodable_from_bytes NewTemplate_get_structure NewTemplate_from_decoded_fields"

interpretation m_NewTemplate: sv2_message NewTemplate_get_structure
  NewTemplate_from_decoded_fields NewTemplate_into_field NewTemplate_get_size NewTemplate_wf NewTemplate_norm
  by (rule derived_message [OF NewTemplate_get_structure_def NewTemplate_into_field_def])
    (simp_all add: NewTemplate_wf_def NewTemplate_norm_def NewTemplate_get_size_def NewTemplate_from_decoded_fields_def derived_message_simps)

section \<open>RequestTransactionData\<close>

record RequestTransactionData =
  rtd_template_id :: u64

definition RequestTransactionData_get_structure :: "bytes \<Rightarrow> field_marker list sv2" where
  "RequestTransactionData_get_structure = derive_get_structure
     [u64_structure]"

definition RequestTransactionData_from_decoded_fields :: "decodable_field list \<Rightarrow> RequestTransactionData sv2" where
  "RequestTransactionData_from_decoded_fields data =
     rbind (derive_pop u64_from_decoded data) (\<lambda>(template_id, data).
       Ok \<lparr>rtd_template_id = template_id\<rparr>)"

definition RequestTransactionData_into_field :: "RequestTransactionData \<Rightarrow> encodable_field" where
  "RequestTransactionData_into_field v = derive_into_field
     [u64_into (rtd_template_id v)]"

definition RequestTransactionData_get_size :: "RequestTransactionData \<Rightarrow> nat" where
  "RequestTransactionData_get_size v =
     u64_size (rtd_template_id v)"

definition RequestTransactionData_wf :: "RequestTransactionData \<Rightarrow> bool" where
  "RequestTransactionData_wf v = True"

definition RequestTransactionData_norm :: "RequestTransactionData \<Rightarrow> RequestTransactionData" where
  "RequestTransactionData_norm v =
     \<lparr>rtd_template_id = rtd_template_id v\<rparr>"

definition RequestTransactionData_from_bytes :: "bytes \<Rightarrow> RequestTransactionData sv2" where
  "RequestTransactionData_from_bytes = decodable_from_bytes RequestTransactionData_get_structure RequestTransactionData_from_decoded_fields"

interpretation m_RequestTransactionData: sv2_message RequestTransactionData_get_structure
  RequestTransactionData_from_decoded_fields RequestTransactionData_into_field RequestTransactionData_get_size RequestTransactionData_wf RequestTransactionData_norm
  by (rule derived_message [OF RequestTransactionData_get_structure_def RequestTransactionData_into_field_def])
    (simp_all add: RequestTransactionData_wf_def RequestTransactionData_norm_def RequestTransactionData_get_size_def RequestTransactionData_from_decoded_fields_def derived_message_simps)

section \<open>RequestTransactionDataSuccess\<close>

record RequestTransactionDataSuccess =
  rtds_template_id :: u64
  rtds_excess_data :: inner
  rtds_transaction_list :: "inner list"

definition RequestTransactionDataSuccess_get_structure :: "bytes \<Rightarrow> field_marker list sv2" where
  "RequestTransactionDataSuccess_get_structure = derive_get_structure
     [u64_structure, b064k_structure, seq064k_b016m_structure]"

definition RequestTransactionDataSuccess_from_decoded_fields :: "decodable_field list \<Rightarrow> RequestTransactionDataSuccess sv2" where
  "RequestTransactionDataSuccess_from_decoded_fields data =
     rbind (derive_pop seq064k_b016m_from_decoded data) (\<lambda>(transaction_list, data).
     rbind (derive_pop b064k_from_decoded data) (\<lambda>(excess_data, data).
     rbind (derive_pop u64_from_decoded data) (\<lambda>(template_id, data).
       Ok \<lparr>rtds_template_id = template_id, rtds_excess_data = excess_data,
         rtds_transaction_list = transaction_list\<rparr>)))"

definition RequestTransactionDataSuccess_into_field :: "RequestTransactionDataSuccess \<Rightarrow> encodable_field" where
  "RequestTransactionDataSuccess_into_field v = derive_into_field
     [u64_into (rtds_template_id v), b064k_into (rtds_excess_data v),
      seq064k_b016m_into (rtds_transaction_list v)]"

definition RequestTransactionDataSuccess_get_size :: "RequestTransactionDataSuccess \<Rightarrow> nat" where
  "RequestTransactionDataSuccess_get_size v =
     u64_size (rtds_template_id v) + b064k_size (rtds_excess_data v) +
     seq064k_b016m_size (rtds_transaction_list v)"

definition RequestTransactionDataSuccess_wf :: "RequestTransactionDataSuccess \<Rightarrow> bool" where
  "RequestTransactionDataSuccess_wf v = (inner_wf B064K (rtds_excess_data v) \<and>
     seq064k_wf (inner_wf B016M) (rtds_transaction_list v))"

definition RequestTransactionDataSuccess_norm :: "RequestTransactionDataSuccess \<Rightarrow> RequestTransactionDataSuccess" where
  "RequestTransactionDataSuccess_norm v =
     \<lparr>rtds_template_id = rtds_template_id v,
      rtds_excess_data = inner_norm (rtds_excess_data v),
      rtds_transaction_list = map inner_norm (rtds_transaction_list v)\<rparr>"

definition RequestTransactionDataSuccess_from_bytes :: "bytes \<Rightarrow> RequestTransactionDataSuccess sv2" where
  "RequestTransactionDataSuccess_from_bytes = decodable_from_bytes RequestTransactionDataSuccess_get_structure RequestTransactionDataSuccess_from_decoded_fields"

interpretation m_RequestTransactionDataSuccess: sv2_message RequestTransactionDataSuccess_get_structure
  RequestTransactionDataSuccess_from_decoded_fields RequestTransactionDataSuccess_into_field RequestTransactionDataSuccess_get_size RequestTransactionDataSuccess_wf RequestTransactionDataSuccess_norm
  by (rule derived_message [OF RequestTransactionDataSuccess_get_structure_def RequestTransactionDataSuccess_into_field_def])
    (simp_all add: RequestTransactionDataSuccess_wf_def RequestTransactionDataSuccess_norm_def RequestTransactionDataSuccess_get_size_def RequestTransactionDataSuccess_from_decoded_fields_def derived_message_simps)

section \<open>RequestTransactionDataError\<close>

record RequestTransactionDataError =
  rtde_template_id :: u64
  rtde_error_code :: inner

definition RequestTransactionDataError_get_structure :: "bytes \<Rightarrow> field_marker list sv2" where
  "RequestTransactionDataError_get_structure = derive_get_structure
     [u64_structure, b0255_structure]"

definition RequestTransactionDataError_from_decoded_fields :: "decodable_field list \<Rightarrow> RequestTransactionDataError sv2" where
  "RequestTransactionDataError_from_decoded_fields data =
     rbind (derive_pop b0255_from_decoded data) (\<lambda>(error_code, data).
     rbind (derive_pop u64_from_decoded data) (\<lambda>(template_id, data).
       Ok \<lparr>rtde_template_id = template_id, rtde_error_code = error_code\<rparr>))"

definition RequestTransactionDataError_into_field :: "RequestTransactionDataError \<Rightarrow> encodable_field" where
  "RequestTransactionDataError_into_field v = derive_into_field
     [u64_into (rtde_template_id v), b0255_into (rtde_error_code v)]"

definition RequestTransactionDataError_get_size :: "RequestTransactionDataError \<Rightarrow> nat" where
  "RequestTransactionDataError_get_size v =
     u64_size (rtde_template_id v) + b0255_size (rtde_error_code v)"

definition RequestTransactionDataError_wf :: "RequestTransactionDataError \<Rightarrow> bool" where
  "RequestTransactionDataError_wf v = (inner_wf B0255 (rtde_error_code v))"

definition RequestTransactionDataError_norm :: "RequestTransactionDataError \<Rightarrow> RequestTransactionDataError" where
  "RequestTransactionDataError_norm v =
     \<lparr>rtde_template_id = rtde_template_id v,
      rtde_error_code = inner_norm (rtde_error_code v)\<rparr>"

definition RequestTransactionDataError_from_bytes :: "bytes \<Rightarrow> RequestTransactionDataError sv2" where
  "RequestTransactionDataError_from_bytes = decodable_from_bytes RequestTransactionDataError_get_structure RequestTransactionDataError_from_decoded_fields"

interpretation m_RequestTransactionDataError: sv2_message RequestTransactionDataError_get_structure
  RequestTransactionDataError_from_decoded_fields RequestTransactionDataError_into_field RequestTransactionDataError_get_size RequestTransactionDataError_wf RequestTransactionDataError_norm
  by (rule derived_message [OF RequestTransactionDataError_get_structure_def RequestTransactionDataError_into_field_def])
    (simp_all add: RequestTransactionDataError_wf_def RequestTransactionDataError_norm_def RequestTransactionDataError_get_size_def RequestTransactionDataError_from_decoded_fields_def derived_message_simps)

section \<open>SetNewPrevHash\<close>

record SetNewPrevHash =
  tnph_template_id :: u64
  tnph_prev_hash :: inner
  tnph_header_timestamp :: u32
  tnph_n_bits :: u32
  tnph_target :: inner

definition SetNewPrevHash_get_structure :: "bytes \<Rightarrow> field_marker list sv2" where
  "SetNewPrevHash_get_structure = derive_get_structure
     [u64_structure, u256_structure, u32_structure, u32_structure, u256_structure]"

definition SetNewPrevHash_from_decoded_fields :: "decodable_field list \<Rightarrow> SetNewPrevHash sv2" where
  "SetNewPrevHash_from_decoded_fields data =
     rbind (derive_pop u256_from_decoded data) (\<lambda>(target, data).
     rbind (derive_pop u32_from_decoded data) (\<lambda>(n_bits, data).
     rbind (derive_pop u32_from_decoded data) (\<lambda>(header_timestamp, data).
     rbind (derive_pop u256_from_decoded data) (\<lambda>(prev_hash, data).
     rbind (derive_pop u64_from_decoded data) (\<lambda>(template_id, data).
       Ok \<lparr>tnph_template_id = template_id, tnph_prev_hash = prev_hash,
         tnph_header_timestamp = header_timestamp, tnph_n_bits = n_bits,
         tnph_target = target\<rparr>)))))"

definition SetNewPrevHash_into_field :: "SetNewPrevHash \<Rightarrow> encodable_field" where
  "SetNewPrevHash_into_field v = derive_into_field
     [u64_into (tnph_template_id v), u256_into (tnph_prev_hash v),
      u32_into (tnph_header_timestamp v), u32_into (tnph_n_bits v),
      u256_into (tnph_target v)]"

definition SetNewPrevHash_get_size :: "SetNewPrevHash \<Rightarrow> nat" where
  "SetNewPrevHash_get_size v =
     u64_size (tnph_template_id v) + u256_size (tnph_prev_hash v) +
     u32_size (tnph_header_timestamp v) + u32_size (tnph_n_bits v) +
     u256_size (tnph_target v)"

definition SetNewPrevHash_wf :: "SetNewPrevHash \<Rightarrow> bool" where
  "SetNewPrevHash_wf v = (inner_wf U256 (tnph_prev_hash v) \<and> inner_wf U256 (tnph_target v))"

definition SetNewPrevHash_norm :: "SetNewPrevHash \<Rightarrow> SetNewPrevHash" where
  "SetNewPrevHash_norm v =
     \<lparr>tnph_template_id = tnph_template_id v,
      tnph_prev_hash = inner_norm (tnph_prev_hash v),
      tnph_header_timestamp = tnph_header_timestamp v, tnph_n_bits = tnph_n_bits v,
      tnph_target = inner_norm (tnph_target v)\<rparr>"

definition SetNewPrevHash_from_bytes :: "bytes \<Rightarrow> SetNewPrevHash sv2" where
  "SetNewPrevHash_from_bytes = decodable_from_bytes SetNewPrevHash_get_structure SetNewPrevHash_from_decoded_fields"

interpretation m_SetNewPrevHash: sv2_message SetNewPrevHash_get_structure
  SetNewPrevHash_from_decoded_fields SetNewPrevHash_into_field SetNewPrevHash_get_size SetNewPrevHash_wf SetNewPrevHash_norm
  by (rule derived_message [OF SetNewPrevHash_get_structure_def SetNewPrevHash_into_field_def])
    (simp_all add: SetNewPrevHash_wf_def SetNewPrevHash_norm_def SetNewPrevHash_get_size_def SetNewPrevHash_from_decoded_fields_def derived_message_simps)

section \<open>SubmitSolution\<close>

record SubmitSolution =
  sol_template_id :: u64
  sol_version :: u32
  sol_header_timestamp :: u32
  sol_header_nonce :: u32
  sol_coinbase_tx :: inner

definition SubmitSolution_get_structure :: "bytes \<Rightarrow> field_marker list sv2" where
  "SubmitSolution_get_structure = derive_get_structure
     [u64_structure, u32_structure, u32_structure, u32_structure, b064k_structure]"

definition SubmitSolution_from_decoded_fields :: "decodable_field list \<Rightarrow> SubmitSolution sv2" where
  "SubmitSolution_from_decoded_fields data =
     rbind (derive_pop b064k_from_decoded data) (\<lambda>(coinbase_tx, data).
     rbind (derive_pop u32_from_decoded data) (\<lambda>(header_nonce, data).
     rbind (derive_pop u32_from_decoded data) (\<lambda>(header_timestamp, data).
     rbind (derive_pop u32_from_decoded data) (\<lambda>(version, data).
     rbind (derive_pop u64_from_decoded data) (\<lambda>(template_id, data).
       Ok \<lparr>sol_template_id = template_id, sol_version = version,
         sol_header_timestamp = header_timestamp, sol_header_nonce = header_nonce,
         sol_coinbase_tx = coinbase_tx\<rparr>)))))"

definition SubmitSolution_into_field :: "SubmitSolution \<Rightarrow> encodable_field" where
  "SubmitSolution_into_field v = derive_into_field
     [u64_into (sol_template_id v), u32_into (sol_version v),
      u32_into (sol_header_timestamp v), u32_into (sol_header_nonce v),
      b064k_into (sol_coinbase_tx v)]"

definition SubmitSolution_get_size :: "SubmitSolution \<Rightarrow> nat" where
  "SubmitSolution_get_size v =
     u64_size (sol_template_id v) + u32_size (sol_version v) +
     u32_size (sol_header_timestamp v) + u32_size (sol_header_nonce v) +
     b064k_size (sol_coinbase_tx v)"

definition SubmitSolution_wf :: "SubmitSolution \<Rightarrow> bool" where
  "SubmitSolution_wf v = (inner_wf B064K (sol_coinbase_tx v))"

definition SubmitSolution_norm :: "SubmitSolution \<Rightarrow> SubmitSolution" where
  "SubmitSolution_norm v =
     \<lparr>sol_template_id = sol_template_id v, sol_version = sol_version v,
      sol_header_timestamp = sol_header_timestamp v, sol_header_nonce = sol_header_nonce v,
      sol_coinbase_tx = inner_norm (sol_coinbase_tx v)\<rparr>"

definition SubmitSolution_from_bytes :: "bytes \<Rightarrow> SubmitSolution sv2" where
  "SubmitSolution_from_bytes = decodable_from_bytes SubmitSolution_get_structure SubmitSolution_from_decoded_fields"

interpretation m_SubmitSolution: sv2_message SubmitSolution_get_structure
  SubmitSolution_from_decoded_fields SubmitSolution_into_field SubmitSolution_get_size SubmitSolution_wf SubmitSolution_norm
  by (rule derived_message [OF SubmitSolution_get_structure_def SubmitSolution_into_field_def])
    (simp_all add: SubmitSolution_wf_def SubmitSolution_norm_def SubmitSolution_get_size_def SubmitSolution_from_decoded_fields_def derived_message_simps)

section \<open>AllocateMiningJobToken\<close>

record AllocateMiningJobToken =
  amjt_user_identifier :: inner
  amjt_request_id :: u32

definition AllocateMiningJobToken_get_structure :: "bytes \<Rightarrow> field_marker list sv2" where
  "AllocateMiningJobToken_get_structure = derive_get_structure
     [b0255_structure, u32_structure]"

definition AllocateMiningJobToken_from_decoded_fields :: "decodable_field list \<Rightarrow> AllocateMiningJobToken sv2" where
  "AllocateMiningJobToken_from_decoded_fields data =
     rbind (derive_pop u32_from_decoded data) (\<lambda>(request_id, data).
     rbind (derive_pop b0255_from_decoded data) (\<lambda>(user_identifier, data).
       Ok \<lparr>amjt_user_identifier = user_identifier, amjt_request_id = request_id\<rparr>))"

definition AllocateMiningJobToken_into_field :: "AllocateMiningJobToken \<Rightarrow> encodable_field" where
  "AllocateMiningJobToken_into_field v = derive_into_field
     [b0255_into (amjt_user_identifier v), u32_into (amjt_request_id v)]"

definition AllocateMiningJobToken_get_size :: "AllocateMiningJobToken \<Rightarrow> nat" where
  "AllocateMiningJobToken_get_size v =
     b0255_size (amjt_user_identifier v) + u32_size (amjt_request_id v)"

definition AllocateMiningJobToken_wf :: "AllocateMiningJobToken \<Rightarrow> bool" where
  "AllocateMiningJobToken_wf v = (inner_wf B0255 (amjt_user_identifier v))"

definition AllocateMiningJobToken_norm :: "AllocateMiningJobToken \<Rightarrow> AllocateMiningJobToken" where
  "AllocateMiningJobToken_norm v =
     \<lparr>amjt_user_identifier = inner_norm (amjt_user_identifier v),
      amjt_request_id = amjt_request_id v\<rparr>"

definition AllocateMiningJobToken_from_bytes :: "bytes \<Rightarrow> AllocateMiningJobToken sv2" where
  "AllocateMiningJobToken_from_bytes = decodable_from_bytes AllocateMiningJobToken_get_structure AllocateMiningJobToken_from_decoded_fields"

interpretation m_AllocateMiningJobToken: sv2_message AllocateMiningJobToken_get_structure
  AllocateMiningJobToken_from_decoded_fields AllocateMiningJobToken_into_field AllocateMiningJobToken_get_size AllocateMiningJobToken_wf AllocateMiningJobToken_norm
  by (rule derived_message [OF AllocateMiningJobToken_get_structure_def AllocateMiningJobToken_into_field_def])
    (simp_all add: AllocateMiningJobToken_wf_def AllocateMiningJobToken_norm_def AllocateMiningJobToken_get_size_def AllocateMiningJobToken_from_decoded_fields_def derived_message_simps)

section \<open>AllocateMiningJobTokenSuccess\<close>

record AllocateMiningJobTokenSuccess =
  amjts_request_id :: u32
  amjts_mining_job_token :: inner
  amjts_coinbase_outputs :: inner

definition AllocateMiningJobTokenSuccess_get_structure :: "bytes \<Rightarrow> field_marker list sv2" where
  "AllocateMiningJobTokenSuccess_get_structure = derive_get_structure
     [u32_structure, b0255_structure, b064k_structure]"

definition AllocateMiningJobTokenSuccess_from_decoded_fields :: "decodable_field list \<Rightarrow> AllocateMiningJobTokenSuccess sv2" where
  "AllocateMiningJobTokenSuccess_from_decoded_fields data =
     rbind (derive_pop b064k_from_decoded data) (\<lambda>(coinbase_outputs, data).
     rbind (derive_pop b0255_from_decoded data) (\<lambda>(mining_job_token, data).
     rbind (derive_pop u32_from_decoded data) (\<lambda>(request_id, data).
       Ok \<lparr>amjts_request_id = request_id, amjts_mining_job_token = mining_job_token,
         amjts_coinbase_outputs = coinbase_outputs\<rparr>)))"

definition AllocateMiningJobTokenSuccess_into_field :: "AllocateMiningJobTokenSuccess \<Rightarrow> encodable_field" where
  "AllocateMiningJobTokenSuccess_into_field v = derive_into_field
     [u32_into (amjts_request_id v), b0255_into (amjts_mining_job_token v),
      b064k_into (amjts_coinbase_outputs v)]"

definition AllocateMiningJobTokenSuccess_get_size :: "AllocateMiningJobTokenSuccess \<Rightarrow> nat" where
  "AllocateMiningJobTokenSuccess_get_size v =
     u32_size (amjts_request_id v) + b0255_size (amjts_mining_job_token v) +
     b064k_size (amjts_coinbase_outputs v)"

definition AllocateMiningJobTokenSuccess_wf :: "AllocateMiningJobTokenSuccess \<Rightarrow> bool" where
  "AllocateMiningJobTokenSuccess_wf v = (inner_wf B0255 (amjts_mining_job_token v) \<and>
     inner_wf B064K (amjts_coinbase_outputs v))"

definition AllocateMiningJobTokenSuccess_norm :: "AllocateMiningJobTokenSuccess \<Rightarrow> AllocateMiningJobTokenSuccess" where
  "AllocateMiningJobTokenSuccess_norm v =
     \<lparr>amjts_request_id = amjts_request_id v,
      amjts_mining_job_token = inner_norm (amjts_mining_job_token v),
      amjts_coinbase_outputs = inner_norm (amjts_coinbase_outputs v)\<rparr>"

definition AllocateMiningJobTokenSuccess_from_bytes :: "bytes \<Rightarrow> AllocateMiningJobTokenSuccess sv2" where
  "AllocateMiningJobTokenSuccess_from_bytes = decodable_from_bytes AllocateMiningJobTokenSuccess_get_structure AllocateMiningJobTokenSuccess_from_decoded_fields"

interpretation m_AllocateMiningJobTokenSuccess: sv2_message AllocateMiningJobTokenSuccess_get_structure
  AllocateMiningJobTokenSuccess_from_decoded_fields AllocateMiningJobTokenSuccess_into_field AllocateMiningJobTokenSuccess_get_size AllocateMiningJobTokenSuccess_wf AllocateMiningJobTokenSuccess_norm
  by (rule derived_message [OF AllocateMiningJobTokenSuccess_get_structure_def AllocateMiningJobTokenSuccess_into_field_def])
    (simp_all add: AllocateMiningJobTokenSuccess_wf_def AllocateMiningJobTokenSuccess_norm_def AllocateMiningJobTokenSuccess_get_size_def AllocateMiningJobTokenSuccess_from_decoded_fields_def derived_message_simps)

section \<open>DeclareMiningJob\<close>

record DeclareMiningJob =
  dmj_request_id :: u32
  dmj_mining_job_token :: inner
  dmj_version :: u32
  dmj_coinbase_tx_prefix :: inner
  dmj_coinbase_tx_suffix :: inner
  dmj_tx_ids_list :: "inner list"
  dmj_excess_data :: inner

definition DeclareMiningJob_get_structure :: "bytes \<Rightarrow> field_marker list sv2" where
  "DeclareMiningJob_get_structure = derive_get_structure
     [u32_structure, b0255_structure, u32_structure, b064k_structure, b064k_structure,
      seq064k_u256_structure, b064k_structure]"

definition DeclareMiningJob_from_decoded_fields :: "decodable_field list \<Rightarrow> DeclareMiningJob sv2" where
  "DeclareMiningJob_from_decoded_fields data =
     rbind (derive_pop b064k_from_decoded data) (\<lambda>(excess_data, data).
     rbind (derive_pop seq064k_u256_from_decoded data) (\<lambda>(tx_ids_list, data).
     rbind (derive_pop b064k_from_decoded data) (\<lambda>(coinbase_tx_suffix, data).
     rbind (derive_pop b064k_from_decoded data) (\<lambda>(coinbase_tx_prefix, data).
     rbind (derive_pop u32_from_decoded data) (\<lambda>(version, data).
     rbind (derive_pop b0255_from_decoded data) (\<lambda>(mining_job_token, data).
     rbind (derive_pop u32_from_decoded data) (\<lambda>(request_id, data).
       Ok \<lparr>dmj_request_id = request_id, dmj_mining_job_token = mining_job_token,
         dmj_version = version, dmj_coinbase_tx_prefix = coinbase_tx_prefix,
         dmj_coinbase_tx_suffix = coinbase_tx_suffix, dmj_tx_ids_list = tx_ids_list,
         dmj_excess_data = excess_data\<rparr>)))))))"

definition DeclareMiningJob_into_field :: "DeclareMiningJob \<Rightarrow> encodable_field" where
  "DeclareMiningJob_into_field v = derive_into_field
     [u32_into (dmj_request_id v), b0255_into (dmj_mining_job_token v),
      u32_into (dmj_version v), b064k_into (dmj_coinbase_tx_prefix v),
      b064k_into (dmj_coinbase_tx_suffix v), seq064k_u256_into (dmj_tx_ids_list v),
      b064k_into (dmj_excess_data v)]"

definition DeclareMiningJob_get_size :: "DeclareMiningJob \<Rightarrow> nat" where
  "DeclareMiningJob_get_size v =
     u32_size (dmj_request_id v) + b0255_size (dmj_mining_job_token v) +
     u32_size (dmj_version v) + b064k_size (dmj_coinbase_tx_prefix v) +
     b064k_size (dmj_coinbase_tx_suffix v) + seq064k_u256_size (dmj_tx_ids_list v) +
     b064k_size (dmj_excess_data v)"

definition DeclareMiningJob_wf :: "DeclareMiningJob \<Rightarrow> bool" where
  "DeclareMiningJob_wf v = (inner_wf B0255 (dmj_mining_job_token v) \<and>
     inner_wf B064K (dmj_coinbase_tx_prefix v) \<and>
     inner_wf B064K (dmj_coinbase_tx_suffix v) \<and>
     seq064k_wf (inner_wf U256) (dmj_tx_ids_list v) \<and>
     inner_wf B064K (dmj_excess_data v))"

definition DeclareMiningJob_norm :: "DeclareMiningJob \<Rightarrow> DeclareMiningJob" where
  "DeclareMiningJob_norm v =
     \<lparr>dmj_request_id = dmj_request_id v,
      dmj_mining_job_token = inner_norm (dmj_mining_job_token v),
      dmj_version = dmj_version v,
      dmj_coinbase_tx_prefix = inner_norm (dmj_coinbase_tx_prefix v),
      dmj_coinbase_tx_suffix = inner_norm (dmj_coinbase_tx_suffix v),
      dmj_tx_ids_list = map inner_norm (dmj_tx_ids_list v),
      dmj_excess_data = inner_norm (dmj_excess_data v)\<rparr>"

definition DeclareMiningJob_from_bytes :: "bytes \<Rightarrow> DeclareMiningJob sv2" where
  "DeclareMiningJob_from_bytes = decodable_from_bytes DeclareMiningJob_get_structure DeclareMiningJob_from_decoded_fields"

interpretation m_DeclareMiningJob: sv2_message DeclareMiningJob_get_structure
  DeclareMiningJob_from_decoded_fields DeclareMiningJob_into_field DeclareMiningJob_get_size DeclareMiningJob_wf DeclareMiningJob_norm
  by (rule derived_message [OF DeclareMiningJob_get_structure_def DeclareMiningJob_into_field_def])
    (simp_all add: DeclareMiningJob_wf_def DeclareMiningJob_norm_def DeclareMiningJob_get_size_def DeclareMiningJob_from_decoded_fields_def derived_message_simps)

section \<open>DeclareMiningJobSuccess\<close>

record DeclareMiningJobSuccess =
  dmjs_request_id :: u32
  dmjs_new_mining_job_token :: inner

definition DeclareMiningJobSuccess_get_structure :: "bytes \<Rightarrow> field_marker list sv2" where
  "DeclareMiningJobSuccess_get_structure = derive_get_structure
     [u32_structure, b0255_structure]"

definition DeclareMiningJobSuccess_from_decoded_fields :: "decodable_field list \<Rightarrow> DeclareMiningJobSuccess sv2" where
  "DeclareMiningJobSuccess_from_decoded_fields data =
     rbind (derive_pop b0255_from_decoded data) (\<lambda>(new_mining_job_token, data).
     rbind (derive_pop u32_from_decoded data) (\<lambda>(request_id, data).
       Ok \<lparr>dmjs_request_id = request_id, dmjs_new_mining_job_token = new_mining_job_token\<rparr>))"

definition DeclareMiningJobSuccess_into_field :: "DeclareMiningJobSuccess \<Rightarrow> encodable_field" where
  "DeclareMiningJobSuccess_into_field v = derive_into_field
     [u32_into (dmjs_request_id v), b0255_into (dmjs_new_mining_job_token v)]"

definition DeclareMiningJobSuccess_get_size :: "DeclareMiningJobSuccess \<Rightarrow> nat" where
  "DeclareMiningJobSuccess_get_size v =
     u32_size (dmjs_request_id v) + b0255_size (dmjs_new_mining_job_token v)"

definition DeclareMiningJobSuccess_wf :: "DeclareMiningJobSuccess \<Rightarrow> bool" where
  "DeclareMiningJobSuccess_wf v = (inner_wf B0255 (dmjs_new_mining_job_token v))"

definition DeclareMiningJobSuccess_norm :: "DeclareMiningJobSuccess \<Rightarrow> DeclareMiningJobSuccess" where
  "DeclareMiningJobSuccess_norm v =
     \<lparr>dmjs_request_id = dmjs_request_id v,
      dmjs_new_mining_job_token = inner_norm (dmjs_new_mining_job_token v)\<rparr>"

definition DeclareMiningJobSuccess_from_bytes :: "bytes \<Rightarrow> DeclareMiningJobSuccess sv2" where
  "DeclareMiningJobSuccess_from_bytes = decodable_from_bytes DeclareMiningJobSuccess_get_structure DeclareMiningJobSuccess_from_decoded_fields"

interpretation m_DeclareMiningJobSuccess: sv2_message DeclareMiningJobSuccess_get_structure
  DeclareMiningJobSuccess_from_decoded_fields DeclareMiningJobSuccess_into_field DeclareMiningJobSuccess_get_size DeclareMiningJobSuccess_wf DeclareMiningJobSuccess_norm
  by (rule derived_message [OF DeclareMiningJobSuccess_get_structure_def DeclareMiningJobSuccess_into_field_def])
    (simp_all add: DeclareMiningJobSuccess_wf_def DeclareMiningJobSuccess_norm_def DeclareMiningJobSuccess_get_size_def DeclareMiningJobSuccess_from_decoded_fields_def derived_message_simps)

section \<open>DeclareMiningJobError\<close>

record DeclareMiningJobError =
  dmje_request_id :: u32
  dmje_error_code :: inner
  dmje_error_details :: inner

definition DeclareMiningJobError_get_structure :: "bytes \<Rightarrow> field_marker list sv2" where
  "DeclareMiningJobError_get_structure = derive_get_structure
     [u32_structure, b0255_structure, b064k_structure]"

definition DeclareMiningJobError_from_decoded_fields :: "decodable_field list \<Rightarrow> DeclareMiningJobError sv2" where
  "DeclareMiningJobError_from_decoded_fields data =
     rbind (derive_pop b064k_from_decoded data) (\<lambda>(error_details, data).
     rbind (derive_pop b0255_from_decoded data) (\<lambda>(error_code, data).
     rbind (derive_pop u32_from_decoded data) (\<lambda>(request_id, data).
       Ok \<lparr>dmje_request_id = request_id, dmje_error_code = error_code,
         dmje_error_details = error_details\<rparr>)))"

definition DeclareMiningJobError_into_field :: "DeclareMiningJobError \<Rightarrow> encodable_field" where
  "DeclareMiningJobError_into_field v = derive_into_field
     [u32_into (dmje_request_id v), b0255_into (dmje_error_code v),
      b064k_into (dmje_error_details v)]"

definition DeclareMiningJobError_get_size :: "DeclareMiningJobError \<Rightarrow> nat" where
  "DeclareMiningJobError_get_size v =
     u32_size (dmje_request_id v) + b0255_size (dmje_error_code v) +
     b064k_size (dmje_error_details v)"

definition DeclareMiningJobError_wf :: "DeclareMiningJobError \<Rightarrow> bool" where
  "DeclareMiningJobError_wf v = (inner_wf B0255 (dmje_error_code v) \<and> inner_wf B064K (dmje_error_details v))"

definition DeclareMiningJobError_norm :: "DeclareMiningJobError \<Rightarrow> DeclareMiningJobError" where
  "DeclareMiningJobError_norm v =
     \<lparr>dmje_request_id = dmje_request_id v,
      dmje_error_code = inner_norm (dmje_error_code v),
      dmje_error_details = inner_norm (dmje_error_details v)\<rparr>"

definition DeclareMiningJobError_from_bytes :: "bytes \<Rightarrow> DeclareMiningJobError sv2" where
  "DeclareMiningJobError_from_bytes = decodable_from_bytes DeclareMiningJobError_get_structure DeclareMiningJobError_from_decoded_fields"

interpretation m_DeclareMiningJobError: sv2_message DeclareMiningJobError_get_structure
  DeclareMiningJobError_from_decoded_fields DeclareMiningJobError_into_field DeclareMiningJobError_get_size DeclareMiningJobError_wf DeclareMiningJobError_norm
  by (rule derived_message [OF DeclareMiningJobError_get_structure_def DeclareMiningJobError_into_field_def])
    (simp_all add: DeclareMiningJobError_wf_def DeclareMiningJobError_norm_def DeclareMiningJobError_get_size_def DeclareMiningJobError_from_decoded_fields_def derived_message_simps)

section \<open>ProvideMissingTransactions\<close>

record ProvideMissingTransactions =
  pmt_request_id :: u32
  pmt_unknown_tx_position_list :: "u16 list"

definition ProvideMissingTransactions_get_structure :: "bytes \<Rightarrow> field_marker list sv2" where
  "ProvideMissingTransactions_get_structure = derive_get_structure
     [u32_structure, seq064k_u16_structure]"

definition ProvideMissingTransactions_from_decoded_fields :: "decodable_field list \<Rightarrow> ProvideMissingTransactions sv2" where
  "ProvideMissingTransactions_from_decoded_fields data =
     rbind (derive_pop seq064k_u16_from_decoded data) (\<lambda>(unknown_tx_position_list, data).
     rbind (derive_pop u32_from_decoded data) (\<lambda>(request_id, data).
       Ok \<lparr>pmt_request_id = request_id,
         pmt_unknown_tx_position_list = unknown_tx_position_list\<rparr>))"

definition ProvideMissingTransactions_into_field :: "ProvideMissingTransactions \<Rightarrow> encodable_field" where
  "ProvideMissingTransactions_into_field v = derive_into_field
     [u32_into (pmt_request_id v), seq064k_u16_into (pmt_unknown_tx_position_list v)]"

definition ProvideMissingTransactions_get_size :: "ProvideMissingTransactions \<Rightarrow> nat" where
  "ProvideMissingTransactions_get_size v =
     u32_size (pmt_request_id v) + seq064k_u16_size (pmt_unknown_tx_position_list v)"

definition ProvideMissingTransactions_wf :: "ProvideMissingTransactions \<Rightarrow> bool" where
  "ProvideMissingTransactions_wf v = (seq064k_wf (\<lambda>_. True) (pmt_unknown_tx_position_list v))"

definition ProvideMissingTransactions_norm :: "ProvideMissingTransactions \<Rightarrow> ProvideMissingTransactions" where
  "ProvideMissingTransactions_norm v =
     \<lparr>pmt_request_id = pmt_request_id v,
      pmt_unknown_tx_position_list = pmt_unknown_tx_position_list v\<rparr>"

definition ProvideMissingTransactions_from_bytes :: "bytes \<Rightarrow> ProvideMissingTransactions sv2" where
  "ProvideMissingTransactions_from_bytes = decodable_from_bytes ProvideMissingTransactions_get_structure ProvideMissingTransactions_from_decoded_fields"

interpretation m_ProvideMissingTransactions: sv2_message ProvideMissingTransactions_get_structure
  ProvideMissingTransactions_from_decoded_fields ProvideMissingTransactions_into_field ProvideMissingTransactions_get_size ProvideMissingTransactions_wf ProvideMissingTransactions_norm
  by (rule derived_message [OF ProvideMissingTransactions_get_structure_def ProvideMissingTransactions_into_field_def])
    (simp_all add: ProvideMissingTransactions_wf_def ProvideMissingTransactions_norm_def ProvideMissingTransactions_get_size_def ProvideMissingTransactions_from_decoded_fields_def derived_message_simps)

section \<open>ProvideMissingTransactionsSuccess\<close>

record ProvideMissingTransactionsSuccess =
  pmts_request_id :: u32
  pmts_transaction_list :: "inner list"

definition ProvideMissingTransactionsSuccess_get_structure :: "bytes \<Rightarrow> field_marker list sv2" where
  "ProvideMissingTransactionsSuccess_get_structure = derive_get_structure
     [u32_structure, seq064k_b016m_structure]"

definition ProvideMissingTransactionsSuccess_from_decoded_fields :: "decodable_field list \<Rightarrow> ProvideMissingTransactionsSuccess sv2" where
  "ProvideMissingTransactionsSuccess_from_decoded_fields data =
     rbind (derive_pop seq064k_b016m_from_decoded data) (\<lambda>(transaction_list, data).
     rbind (derive_pop u32_from_decoded data) (\<lambda>(request_id, data).
       Ok \<lparr>pmts_request_id = request_id, pmts_transaction_list = transaction_list\<rparr>))"

definition ProvideMissingTransactionsSuccess_into_field :: "ProvideMissingTransactionsSuccess \<Rightarrow> encodable_field" where
  "ProvideMissingTransactionsSuccess_into_field v = derive_into_field
     [u32_into (pmts_request_id v), seq064k_b016m_into (pmts_transaction_list v)]"

definition ProvideMissingTransactionsSuccess_get_size :: "ProvideMissingTransactionsSuccess \<Rightarrow> nat" where
  "ProvideMissingTransactionsSuccess_get_size v =
     u32_size (pmts_request_id v) + seq064k_b016m_size (pmts_transaction_list v)"

definition ProvideMissingTransactionsSuccess_wf :: "ProvideMissingTransactionsSuccess \<Rightarrow> bool" where
  "ProvideMissingTransactionsSuccess_wf v = (seq064k_wf (inner_wf B016M) (pmts_transaction_list v))"

definition ProvideMissingTransactionsSuccess_norm :: "ProvideMissingTransactionsSuccess \<Rightarrow> ProvideMissingTransactionsSuccess" where
  "ProvideMissingTransactionsSuccess_norm v =
     \<lparr>pmts_request_id = pmts_request_id v,
      pmts_transaction_list = map inner_norm (pmts_transaction_list v)\<rparr>"

definition ProvideMissingTransactionsSuccess_from_bytes :: "bytes \<Rightarrow> ProvideMissingTransactionsSuccess sv2" where
  "ProvideMissingTransactionsSuccess_from_bytes = decodable_from_bytes ProvideMissingTransactionsSuccess_get_structure ProvideMissingTransactionsSuccess_from_decoded_fields"

interpretation m_ProvideMissingTransactionsSuccess: sv2_message ProvideMissingTransactionsSuccess_get_structure
  ProvideMissingTransactionsSuccess_from_decoded_fields ProvideMissingTransactionsSuccess_into_field ProvideMissingTransactionsSuccess_get_size ProvideMissingTransactionsSuccess_wf ProvideMissingTransactionsSuccess_norm
  by (rule derived_message [OF ProvideMissingTransactionsSuccess_get_structure_def ProvideMissingTransactionsSuccess_into_field_def])
    (simp_all add: ProvideMissingTransactionsSuccess_wf_def ProvideMissingTransactionsSuccess_norm_def ProvideMissingTransactionsSuccess_get_size_def ProvideMissingTransactionsSuccess_from_decoded_fields_def derived_message_simps)

section \<open>PushSolution\<close>

record PushSolution =
  ps_extranonce :: inner
  ps_prev_hash :: inner
  ps_ntime :: u32
  ps_nonce :: u32
  ps_nbits :: u32
  ps_version :: u32

definition PushSolution_get_structure :: "bytes \<Rightarrow> field_marker list sv2" where
  "PushSolution_get_structure = derive_get_structure
     [b032_structure, u256_structure, u32_structure, u32_structure, u32_structure,
      u32_structure]"

definition PushSolution_from_decoded_fields :: "decodable_field list \<Rightarrow> PushSolution sv2" where
  "PushSolution_from_decoded_fields data =
     rbind (derive_pop u32_from_decoded data) (\<lambda>(version, data).
     rbind (derive_pop u32_from_decoded data) (\<lambda>(nbits, data).
     rbind (derive_pop u32_from_decoded data) (\<lambda>(nonce, data).
     rbind (derive_pop u32_from_decoded data) (\<lambda>(ntime, data).
     rbind (derive_pop u256_from_decoded data) (\<lambda>(prev_hash, data).
     rbind (derive_pop b032_from_decoded data) (\<lambda>(extranonce, data).
       Ok \<lparr>ps_extranonce = extranonce, ps_prev_hash = prev_hash, ps_ntime = ntime,
         ps_nonce = nonce, ps_nbits = nbits, ps_version = version\<rparr>))))))"

definition PushSolution_into_field :: "PushSolution \<Rightarrow> encodable_field" where
  "PushSolution_into_field v = derive_into_field
     [b032_into (ps_extranonce v), u256_into (ps_prev_hash v), u32_into (ps_ntime v),
      u32_into (ps_nonce v), u32_into (ps_nbits v), u32_into (ps_version v)]"

definition PushSolution_get_size :: "PushSolution \<Rightarrow> nat" where
  "PushSolution_get_size v =
     b032_size (ps_extranonce v) + u256_size (ps_prev_hash v) + u32_size (ps_ntime v) +
     u32_size (ps_nonce v) + u32_size (ps_nbits v) + u32_size (ps_version v)"

definition PushSolution_wf :: "PushSolution \<Rightarrow> bool" where
  "PushSolution_wf v = (inner_wf B032 (ps_extranonce v) \<and> inner_wf U256 (ps_prev_hash v))"

definition PushSolution_norm :: "PushSolution \<Rightarrow> PushSolution" where
  "PushSolution_norm v =
     \<lparr>ps_extranonce = inner_norm (ps_extranonce v),
      ps_prev_hash = inner_norm (ps_prev_hash v), ps_ntime = ps_ntime v,
      ps_nonce = ps_nonce v, ps_nbits = ps_nbits v, ps_version = ps_version v\<rparr>"

definition PushSolution_from_bytes :: "bytes \<Rightarrow> PushSolution sv2" where
  "PushSolution_from_bytes = decodable_from_bytes PushSolution_get_structure PushSolution_from_decoded_fields"

interpretation m_PushSolution: sv2_message PushSolution_get_structure
  PushSolution_from_decoded_fields PushSolution_into_field PushSolution_get_size PushSolution_wf PushSolution_norm
  by (rule derived_message [OF PushSolution_get_structure_def PushSolution_into_field_def])
    (simp_all add: PushSolution_wf_def PushSolution_norm_def PushSolution_get_size_def PushSolution_from_decoded_fields_def derived_message_simps)

section \<open>MintQuoteRequest\<close>

record MintQuoteRequest =
  mqr_amount :: u64
  mqr_unit :: inner
  mqr_header_hash :: inner
  mqr_description :: "inner list"
  mqr_locking_key :: inner

definition MintQuoteRequest_get_structure :: "bytes \<Rightarrow> field_marker list sv2" where
  "MintQuoteRequest_get_structure = derive_get_structure
     [u64_structure, b0255_structure, u256_structure, option_b0255_structure,
      b0255_structure]"

definition MintQuoteRequest_from_decoded_fields :: "decodable_field list \<Rightarrow> MintQuoteRequest sv2" where
  "MintQuoteRequest_from_decoded_fields data =
     rbind (derive_pop b0255_from_decoded data) (\<lambda>(locking_key, data).
     rbind (derive_pop option_b0255_from_decoded data) (\<lambda>(description, data).
     rbind (derive_pop u256_from_decoded data) (\<lambda>(header_hash, data).
     rbind (derive_pop b0255_from_decoded data) (\<lambda>(unit, data).
     rbind (derive_pop u64_from_decoded data) (\<lambda>(amount, data).
       Ok \<lparr>mqr_amount = amount, mqr_unit = unit, mqr_header_hash = header_hash,
         mqr_description = description, mqr_locking_key = locking_key\<rparr>)))))"

definition MintQuoteRequest_into_field :: "MintQuoteRequest \<Rightarrow> encodable_field" where
  "MintQuoteRequest_into_field v = derive_into_field
     [u64_into (mqr_amount v), b0255_into (mqr_unit v), u256_into (mqr_header_hash v),
      option_b0255_into (mqr_description v), b0255_into (mqr_locking_key v)]"

definition MintQuoteRequest_get_size :: "MintQuoteRequest \<Rightarrow> nat" where
  "MintQuoteRequest_get_size v =
     u64_size (mqr_amount v) + b0255_size (mqr_unit v) + u256_size (mqr_header_hash v) +
     option_b0255_size (mqr_description v) + b0255_size (mqr_locking_key v)"

definition MintQuoteRequest_wf :: "MintQuoteRequest \<Rightarrow> bool" where
  "MintQuoteRequest_wf v = (inner_wf B0255 (mqr_unit v) \<and> inner_wf U256 (mqr_header_hash v) \<and>
     sv2_option_wf (inner_wf B0255) (mqr_description v) \<and>
     inner_wf B0255 (mqr_locking_key v))"

definition MintQuoteRequest_norm :: "MintQuoteRequest \<Rightarrow> MintQuoteRequest" where
  "MintQuoteRequest_norm v =
     \<lparr>mqr_amount = mqr_amount v, mqr_unit = inner_norm (mqr_unit v),
      mqr_header_hash = inner_norm (mqr_header_hash v),
      mqr_description = map inner_norm (mqr_description v),
      mqr_locking_key = inner_norm (mqr_locking_key v)\<rparr>"

definition MintQuoteRequest_from_bytes :: "bytes \<Rightarrow> MintQuoteRequest sv2" where
  "MintQuoteRequest_from_bytes = decodable_from_bytes MintQuoteRequest_get_structure MintQuoteRequest_from_decoded_fields"

interpretation m_MintQuoteRequest: sv2_message MintQuoteRequest_get_structure
  MintQuoteRequest_from_decoded_fields MintQuoteRequest_into_field MintQuoteRequest_get_size MintQuoteRequest_wf MintQuoteRequest_norm
  by (rule derived_message [OF MintQuoteRequest_get_structure_def MintQuoteRequest_into_field_def])
    (simp_all add: MintQuoteRequest_wf_def MintQuoteRequest_norm_def MintQuoteRequest_get_size_def MintQuoteRequest_from_decoded_fields_def derived_message_simps)

section \<open>MintQuoteResponse\<close>

record MintQuoteResponse =
  mqresp_quote_id :: inner
  mqresp_header_hash :: inner

definition MintQuoteResponse_get_structure :: "bytes \<Rightarrow> field_marker list sv2" where
  "MintQuoteResponse_get_structure = derive_get_structure
     [b0255_structure, u256_structure]"

definition MintQuoteResponse_from_decoded_fields :: "decodable_field list \<Rightarrow> MintQuoteResponse sv2" where
  "MintQuoteResponse_from_decoded_fields data =
     rbind (derive_pop u256_from_decoded data) (\<lambda>(header_hash, data).
     rbind (derive_pop b0255_from_decoded data) (\<lambda>(quote_id, data).
       Ok \<lparr>mqresp_quote_id = quote_id, mqresp_header_hash = header_hash\<rparr>))"

definition MintQuoteResponse_into_field :: "MintQuoteResponse \<Rightarrow> encodable_field" where
  "MintQuoteResponse_into_field v = derive_into_field
     [b0255_into (mqresp_quote_id v), u256_into (mqresp_header_hash v)]"

definition MintQuoteResponse_get_size :: "MintQuoteResponse \<Rightarrow> nat" where
  "MintQuoteResponse_get_size v =
     b0255_size (mqresp_quote_id v) + u256_size (mqresp_header_hash v)"

definition MintQuoteResponse_wf :: "MintQuoteResponse \<Rightarrow> bool" where
  "MintQuoteResponse_wf v = (inner_wf B0255 (mqresp_quote_id v) \<and> inner_wf U256 (mqresp_header_hash v))"

definition MintQuoteResponse_norm :: "MintQuoteResponse \<Rightarrow> MintQuoteResponse" where
  "MintQuoteResponse_norm v =
     \<lparr>mqresp_quote_id = inner_norm (mqresp_quote_id v),
      mqresp_header_hash = inner_norm (mqresp_header_hash v)\<rparr>"

definition MintQuoteResponse_from_bytes :: "bytes \<Rightarrow> MintQuoteResponse sv2" where
  "MintQuoteResponse_from_bytes = decodable_from_bytes MintQuoteResponse_get_structure MintQuoteResponse_from_decoded_fields"

interpretation m_MintQuoteResponse: sv2_message MintQuoteResponse_get_structure
  MintQuoteResponse_from_decoded_fields MintQuoteResponse_into_field MintQuoteResponse_get_size MintQuoteResponse_wf MintQuoteResponse_norm
  by (rule derived_message [OF MintQuoteResponse_get_structure_def MintQuoteResponse_into_field_def])
    (simp_all add: MintQuoteResponse_wf_def MintQuoteResponse_norm_def MintQuoteResponse_get_size_def MintQuoteResponse_from_decoded_fields_def derived_message_simps)

section \<open>MintQuoteError\<close>

record MintQuoteError =
  mqe_error_code :: u32
  mqe_error_message :: inner

definition MintQuoteError_get_structure :: "bytes \<Rightarrow> field_marker list sv2" where
  "MintQuoteError_get_structure = derive_get_structure
     [u32_structure, b0255_structure]"

definition MintQuoteError_from_decoded_fields :: "decodable_field list \<Rightarrow> MintQuoteError sv2" where
  "MintQuoteError_from_decoded_fields data =
     rbind (derive_pop b0255_from_decoded data) (\<lambda>(error_message, data).
     rbind (derive_pop u32_from_decoded data) (\<lambda>(error_code, data).
       Ok \<lparr>mqe_error_code = error_code, mqe_error_message = error_message\<rparr>))"

definition MintQuoteError_into_field :: "MintQuoteError \<Rightarrow> encodable_field" where
  "MintQuoteError_into_field v = derive_into_field
     [u32_into (mqe_error_code v), b0255_into (mqe_error_message v)]"

definition MintQuoteError_get_size :: "MintQuoteError \<Rightarrow> nat" where
  "MintQuoteError_get_size v =
     u32_size (mqe_error_code v) + b0255_size (mqe_error_message v)"

definition MintQuoteError_wf :: "MintQuoteError \<Rightarrow> bool" where
  "MintQuoteError_wf v = (inner_wf B0255 (mqe_error_message v))"

definition MintQuoteError_norm :: "MintQuoteError \<Rightarrow> MintQuoteError" where
  "MintQuoteError_norm v =
     \<lparr>mqe_error_code = mqe_error_code v,
      mqe_error_message = inner_norm (mqe_error_message v)\<rparr>"

definition MintQuoteError_from_bytes :: "bytes \<Rightarrow> MintQuoteError sv2" where
  "MintQuoteError_from_bytes = decodable_from_bytes MintQuoteError_get_structure MintQuoteError_from_decoded_fields"

interpretation m_MintQuoteError: sv2_message MintQuoteError_get_structure
  MintQuoteError_from_decoded_fields MintQuoteError_into_field MintQuoteError_get_size MintQuoteError_wf MintQuoteError_norm
  by (rule derived_message [OF MintQuoteError_get_structure_def MintQuoteError_into_field_def])
    (simp_all add: MintQuoteError_wf_def MintQuoteError_norm_def MintQuoteError_get_size_def MintQuoteError_from_decoded_fields_def derived_message_simps)

lemmas protocol_messages_to_bytes =
  m_ChannelEndpointChanged.to_bytes_message m_Reconnect.to_bytes_message
  m_SetupConnection.to_bytes_message m_SetupConnectionSuccess.to_bytes_message
  m_SetupConnectionError.to_bytes_message m_CoinbaseOutputConstraints.to_bytes_message
  m_NewTemplate.to_bytes_message m_RequestTransactionData.to_bytes_message
  m_RequestTransactionDataSuccess.to_bytes_message
  m_RequestTransactionDataError.to_bytes_message m_SetNewPrevHash.to_bytes_message
  m_SubmitSolution.to_bytes_message m_AllocateMiningJobToken.to_bytes_message
  m_AllocateMiningJobTokenSuccess.to_bytes_message m_DeclareMiningJob.to_bytes_message
  m_DeclareMiningJobSuccess.to_bytes_message m_DeclareMiningJobError.to_bytes_message
  m_ProvideMissingTransactions.to_bytes_message
  m_ProvideMissingTransactionsSuccess.to_bytes_message m_PushSolution.to_bytes_message
  m_MintQuoteRequest.to_bytes_message m_MintQuoteResponse.to_bytes_message
  m_MintQuoteError.to_bytes_message

lemmas protocol_messages_from_bytes =
  m_ChannelEndpointChanged.from_bytes_message [folded ChannelEndpointChanged_from_bytes_def]
  m_Reconnect.from_bytes_message [folded Reconnect_from_bytes_def]
  m_SetupConnection.from_bytes_message [folded SetupConnection_from_bytes_def]
  m_SetupConnectionSuccess.from_bytes_message [folded SetupConnectionSuccess_from_bytes_def]
  m_SetupConnectionError.from_bytes_message [folded SetupConnectionError_from_bytes_def]
  m_CoinbaseOutputConstraints.from_bytes_message [folded
  CoinbaseOutputConstraints_from_bytes_def] m_NewTemplate.from_bytes_message [folded
  NewTemplate_from_bytes_def] m_RequestTransactionData.from_bytes_message [folded
  RequestTransactionData_from_bytes_def] m_RequestTransactionDataSuccess.from_bytes_message
  [folded RequestTransactionDataSuccess_from_bytes_def]
  m_RequestTransactionDataError.from_bytes_message [folded
  RequestTransactionDataError_from_bytes_def] m_SetNewPrevHash.from_bytes_message [folded
  SetNewPrevHash_from_bytes_def] m_SubmitSolution.from_bytes_message [folded
  SubmitSolution_from_bytes_def] m_AllocateMiningJobToken.from_bytes_message [folded
  AllocateMiningJobToken_from_bytes_def] m_AllocateMiningJobTokenSuccess.from_bytes_message
  [folded AllocateMiningJobTokenSuccess_from_bytes_def] m_DeclareMiningJob.from_bytes_message
  [folded DeclareMiningJob_from_bytes_def] m_DeclareMiningJobSuccess.from_bytes_message [folded
  DeclareMiningJobSuccess_from_bytes_def] m_DeclareMiningJobError.from_bytes_message [folded
  DeclareMiningJobError_from_bytes_def] m_ProvideMissingTransactions.from_bytes_message [folded
  ProvideMissingTransactions_from_bytes_def]
  m_ProvideMissingTransactionsSuccess.from_bytes_message [folded
  ProvideMissingTransactionsSuccess_from_bytes_def] m_PushSolution.from_bytes_message [folded
  PushSolution_from_bytes_def] m_MintQuoteRequest.from_bytes_message [folded
  MintQuoteRequest_from_bytes_def] m_MintQuoteResponse.from_bytes_message [folded
  MintQuoteResponse_from_bytes_def] m_MintQuoteError.from_bytes_message [folded
  MintQuoteError_from_bytes_def]

lemmas protocol_messages_field_ok =
  m_ChannelEndpointChanged.field_ok m_Reconnect.field_ok m_SetupConnection.field_ok
  m_SetupConnectionSuccess.field_ok m_SetupConnectionError.field_ok
  m_CoinbaseOutputConstraints.field_ok m_NewTemplate.field_ok m_RequestTransactionData.field_ok
  m_RequestTransactionDataSuccess.field_ok m_RequestTransactionDataError.field_ok
  m_SetNewPrevHash.field_ok m_SubmitSolution.field_ok m_AllocateMiningJobToken.field_ok
  m_AllocateMiningJobTokenSuccess.field_ok m_DeclareMiningJob.field_ok
  m_DeclareMiningJobSuccess.field_ok m_DeclareMiningJobError.field_ok
  m_ProvideMissingTransactions.field_ok m_ProvideMissingTransactionsSuccess.field_ok
  m_PushSolution.field_ok m_MintQuoteRequest.field_ok m_MintQuoteResponse.field_ok
  m_MintQuoteError.field_ok

lemmas protocol_messages_get_size =
  m_ChannelEndpointChanged.get_size_field m_Reconnect.get_size_field
  m_SetupConnection.get_size_field m_SetupConnectionSuccess.get_size_field
  m_SetupConnectionError.get_size_field m_CoinbaseOutputConstraints.get_size_field
  m_NewTemplate.get_size_field m_RequestTransactionData.get_size_field
  m_RequestTransactionDataSuccess.get_size_field m_RequestTransactionDataError.get_size_field
  m_SetNewPrevHash.get_size_field m_SubmitSolution.get_size_field
  m_AllocateMiningJobToken.get_size_field m_AllocateMiningJobTokenSuccess.get_size_field
  m_DeclareMiningJob.get_size_field m_DeclareMiningJobSuccess.get_size_field
  m_DeclareMiningJobError.get_size_field m_ProvideMissingTransactions.get_size_field
  m_ProvideMissingTransactionsSuccess.get_size_field m_PushSolution.get_size_field
  m_MintQuoteRequest.get_size_field m_MintQuoteResponse.get_size_field
  m_MintQuoteError.get_size_field

end
