(* ===== verification/Coinbase.thy ===== *)
theory Coinbase
  imports Channel_Target Mining_Messages Protocol_Messages
begin

text \<open>Coinbase transactions and block headers as the channel code uses them: merkle roots
  (\<open>channels-sv2/src/merkle_root.rs\<close>), stripping of the witness data (\<open>bip141.rs\<close>), template outputs
  (\<open>template.rs\<close>) and the chain tip (\<open>chain_tip.rs\<close>). The functions of the \<open>bitcoin\<close> crate that
  this code calls are the fields of the record \<open>bitcoin\<close>, an argument of every definition that
  uses them.\<close>

section \<open>Transactions and the bitcoin crate\<close>

record OutPoint =
  txid :: bytes
  vout :: u32

record TxIn =
  previous_output :: OutPoint
  script_sig :: bytes
  sequence :: u32
  witness :: "bytes list"

record TxOut =
  out_value :: u64
  script_pubkey :: bytes

record Transaction =
  tx_version :: u32
  lock_time :: u32
  tx_input :: "TxIn list"
  tx_output :: "TxOut list"

record block_header =
  hdr_version :: u32
  prev_blockhash :: bytes
  hdr_merkle_root :: bytes
  hdr_time :: u32
  hdr_bits :: u32
  hdr_nonce :: u32

text \<open>The crate: the null outpoint, consensus encoding of transactions and output lists, decoding of
  a transaction and of its parts from a cursor, transaction ids, double SHA-256, the hash of a
  block header, and whether a hash meets the target given in compact form.\<close>

record bitcoin =
  outpoint_null :: OutPoint
  serialize :: "Transaction \<Rightarrow> bytes"
  serialize_outputs :: "TxOut list \<Rightarrow> bytes"
  deserialize :: "bytes \<Rightarrow> Transaction option"
  decode_version :: "bytes \<Rightarrow> (u32 \<times> bytes) option"
  decode_inputs :: "bytes \<Rightarrow> (TxIn list \<times> bytes) option"
  decode_output :: "bytes \<Rightarrow> (TxOut \<times> bytes) option"
  decode_outputs :: "bytes \<Rightarrow> (TxOut list \<times> bytes) option"
  decode_lock_time :: "bytes \<Rightarrow> (u32 \<times> bytes) option"
  compute_txid :: "Transaction \<Rightarrow> bytes"
  compute_wtxid :: "Transaction \<Rightarrow> bytes"
  sha256d :: "bytes \<Rightarrow> bytes"
  block_hash :: "block_header \<Rightarrow> bytes"
  is_met_by :: "u32 \<Rightarrow> bytes \<Rightarrow> bool"

section \<open>Merkle root\<close>

definition reduce_path :: "bitcoin \<Rightarrow> bytes \<Rightarrow> bytes list \<Rightarrow> bytes" where
  "reduce_path btc coinbase_id path = foldl (\<lambda>root node. sha256d btc (root @ node)) coinbase_id path"

definition merkle_root_from_path_id :: "bitcoin \<Rightarrow> bytes \<Rightarrow> bytes list \<Rightarrow> bytes" where
  "merkle_root_from_path_id btc coinbase_id path =
     (if length path = 0 then coinbase_id else reduce_path btc coinbase_id path)"

definition merkle_root_from_path ::
    "bitcoin \<Rightarrow> bytes \<Rightarrow> bytes \<Rightarrow> bytes \<Rightarrow> bytes list \<Rightarrow> bytes option" where
  "merkle_root_from_path btc coinbase_tx_prefix coinbase_tx_suffix full_extranonce path =
     (case deserialize btc (coinbase_tx_prefix @ full_extranonce @ coinbase_tx_suffix) of
        None \<Rightarrow> None
      | Some coinbase \<Rightarrow> Some (merkle_root_from_path_id btc (compute_txid btc coinbase) path))"

section \<open>Stripping witness data\<close>

datatype StripBip141Error =
    FailedToDeserializeCoinbaseVersion
  | FailedToDeserializeCoinbaseInputs
  | FailedToDeserializeCoinbaseOutputs
  | FailedToDeserializeCoinbaseLockTime

definition MARKER_FLAG_OFFSET :: nat where "MARKER_FLAG_OFFSET = 4"
definition MARKER_FLAG_LEN :: nat where "MARKER_FLAG_LEN = 2"
definition WITNESS_COUNT_LEN :: nat where "WITNESS_COUNT_LEN = 1"
definition WITNESS_LEN_LEN :: nat where "WITNESS_LEN_LEN = 1"
definition WITNESS_DATA_LEN :: nat where "WITNESS_DATA_LEN = 32"
definition LOCKTIME_LEN :: nat where "LOCKTIME_LEN = 4"

definition decode_coinbase_parts :: "bitcoin \<Rightarrow> bytes \<Rightarrow> (Transaction, StripBip141Error) result" where
  "decode_coinbase_parts btc encoded =
     rbind (ok_or FailedToDeserializeCoinbaseVersion (decode_version btc encoded)) (\<lambda>(v, r).
     rbind (ok_or FailedToDeserializeCoinbaseInputs (decode_inputs btc r)) (\<lambda>(ins, r).
     rbind (ok_or FailedToDeserializeCoinbaseOutputs (decode_outputs btc r)) (\<lambda>(outs, r).
     rbind (ok_or FailedToDeserializeCoinbaseLockTime (decode_lock_time btc r)) (\<lambda>(l, r).
       Ok \<lparr>tx_version = v, lock_time = l, tx_input = ins, tx_output = outs\<rparr>))))"

definition try_strip_bip141 ::
    "bitcoin \<Rightarrow> bytes \<Rightarrow> bytes \<Rightarrow> ((bytes \<times> bytes) option, StripBip141Error) result" where
  "try_strip_bip141 btc coinbase_tx_prefix coinbase_tx_suffix =
     rbind (decode_coinbase_parts btc
              (coinbase_tx_prefix @ replicate MAX_EXTRANONCE_LEN 0 @ coinbase_tx_suffix)) (\<lambda>coinbase.
       if compute_txid btc coinbase = compute_wtxid btc coinbase then Ok None
       else if length coinbase_tx_prefix < MARKER_FLAG_OFFSET + MARKER_FLAG_LEN then Panic
       else if length coinbase_tx_suffix <
         LOCKTIME_LEN + WITNESS_COUNT_LEN + WITNESS_LEN_LEN + WITNESS_DATA_LEN then Panic
       else
         let locktime_position = length coinbase_tx_suffix - LOCKTIME_LEN in
         Ok (Some
           (take MARKER_FLAG_OFFSET coinbase_tx_prefix @
              drop (MARKER_FLAG_OFFSET + MARKER_FLAG_LEN) coinbase_tx_prefix,
            take (locktime_position - WITNESS_COUNT_LEN - WITNESS_LEN_LEN - WITNESS_DATA_LEN)
              coinbase_tx_suffix @ drop locktime_position coinbase_tx_suffix)))"

section \<open>Template outputs\<close>

fun decode_outputs_n :: "bitcoin \<Rightarrow> nat \<Rightarrow> bytes \<Rightarrow> (TxOut list, unit) result" where
  "decode_outputs_n btc 0 cursor = Ok []"
| "decode_outputs_n btc (Suc n) cursor =
     rbind (ok_or () (decode_output btc cursor)) (\<lambda>(out, cursor).
     rbind (decode_outputs_n btc n cursor) (\<lambda>outs. Ok (out # outs)))"

definition deserialize_template_outputs :: "bitcoin \<Rightarrow> bytes \<Rightarrow> u32 \<Rightarrow> (TxOut list, unit) result" where
  "deserialize_template_outputs btc serialized_outputs count =
     decode_outputs_n btc (unat count) serialized_outputs"

section \<open>Chain tip\<close>

record ChainTip =
  ct_prev_hash :: inner
  ct_nbits :: u32
  ct_min_ntime :: u32

definition chain_tip_new :: "inner \<Rightarrow> u32 \<Rightarrow> u32 \<Rightarrow> ChainTip" where
  "chain_tip_new prev_hash nbits min_ntime =
     \<lparr>ct_prev_hash = prev_hash, ct_nbits = nbits, ct_min_ntime = min_ntime\<rparr>"

definition chain_tip_from_tdp :: "SetNewPrevHash \<Rightarrow> ChainTip" where
  "chain_tip_from_tdp m =
     chain_tip_new (into_static (tnph_prev_hash m)) (tnph_n_bits m) (tnph_header_timestamp m)"

definition chain_tip_from_mp :: "MiningSetNewPrevHash \<Rightarrow> ChainTip" where
  "chain_tip_from_mp m =
     chain_tip_new (into_static (mnph_prev_hash m)) (mnph_nbits m) (mnph_min_ntime m)"

definition u256_to_block_hash :: "inner \<Rightarrow> (bytes, 'e) result" where
  "u256_to_block_hash v = (if length (inner_as_ref v) = 32 then Ok (inner_as_ref v) else Panic)"

section \<open>Facts\<close>

lemma merkle_root_from_path_id_fold:
  "merkle_root_from_path_id btc coinbase_id path = reduce_path btc coinbase_id path"
  by (simp add: merkle_root_from_path_id_def reduce_path_def)

lemma reduce_path_append:
  "reduce_path btc c (p @ q) = reduce_path btc (reduce_path btc c p) q"
  by (simp add: reduce_path_def)

lemma length_reduce_path:
  assumes "\<And>b. length (sha256d btc b) = 32" and "length c = 32"
  shows "length (reduce_path btc c p) = 32"
  unfolding reduce_path_def using assms by (induction p arbitrary: c) simp_all

lemma length_merkle_root:
  assumes "\<And>b. length (sha256d btc b) = 32" and "\<And>t. length (compute_txid btc t) = 32"
    and "merkle_root_from_path btc p s e path = Some r"
  shows "length r = 32"
  using assms length_reduce_path [of btc]
  by (auto simp: merkle_root_from_path_def merkle_root_from_path_id_fold split: option.splits)

lemma decode_outputs_n_length: "decode_outputs_n btc n bs = Ok outs \<Longrightarrow> length outs = n"
  by (induction btc n bs arbitrary: outs rule: decode_outputs_n.induct) (auto simp: result_simps)

lemma decode_outputs_n_no_panic: "decode_outputs_n btc n bs \<noteq> Panic"
  by (induction btc n bs rule: decode_outputs_n.induct) (auto simp: result_simps split: prod.splits)

end
