(* ===== verification/Job_Store.thy ===== *)
theory Job_Store
  imports Prelude "HOL-Library.Mapping" "HOL-Library.AList_Mapping"
begin

text \<open>The job store of a server-side channel (\<open>channels-sv2/src/server/jobs/job_store.rs\<close>). The
  \<open>Job\<close> trait (\<open>jobs/mod.rs\<close>) is the locale \<open>job_trait\<close>: the two operations the store calls and the law
  it relies on, that activating a job keeps its id. Every job is in at most one stage of its life
  (future, active, past, stale), and the lemmas show how each operation moves jobs between
  stages.\<close>

section \<open>State and operations\<close>

record 'j DefaultJobStore =
  future_template_to_job_id :: "(u64, u32) mapping"
  future_jobs :: "(u32, 'j) mapping"
  active_job :: "'j option"
  past_jobs :: "(u32, 'j) mapping"
  stale_jobs :: "(u32, 'j) mapping"

definition job_store_new :: "'j DefaultJobStore" where
  "job_store_new =
     \<lparr>future_template_to_job_id = Mapping.empty, future_jobs = Mapping.empty, active_job = None,
      past_jobs = Mapping.empty, stale_jobs = Mapping.empty\<rparr>"

definition add_future_job ::
    "('j \<Rightarrow> u32) \<Rightarrow> u64 \<Rightarrow> 'j \<Rightarrow> 'j DefaultJobStore \<Rightarrow> u32 \<times> 'j DefaultJobStore" where
  "add_future_job get_job_id template_id new_job st =
     (let new_job_id = get_job_id new_job in
      (new_job_id,
       st\<lparr>future_jobs := Mapping.update new_job_id new_job (future_jobs st),
          future_template_to_job_id :=
            Mapping.update template_id new_job_id (future_template_to_job_id st)\<rparr>))"

definition retire_active_job :: "('j \<Rightarrow> u32) \<Rightarrow> 'j DefaultJobStore \<Rightarrow> 'j DefaultJobStore" where
  "retire_active_job get_job_id st =
     (case active_job st of
        None \<Rightarrow> st
      | Some j \<Rightarrow> st\<lparr>active_job := None, past_jobs := Mapping.update (get_job_id j) j (past_jobs st)\<rparr>)"

definition add_active_job ::
    "('j \<Rightarrow> u32) \<Rightarrow> 'j \<Rightarrow> 'j DefaultJobStore \<Rightarrow> 'j DefaultJobStore" where
  "add_active_job get_job_id j st = (retire_active_job get_job_id st)\<lparr>active_job := Some j\<rparr>"

definition mark_past_jobs_as_stale :: "'j DefaultJobStore \<Rightarrow> 'j DefaultJobStore" where
  "mark_past_jobs_as_stale st = st\<lparr>stale_jobs := past_jobs st, past_jobs := Mapping.empty\<rparr>"

definition activate_future_job ::
    "('j \<Rightarrow> u32) \<Rightarrow> (u32 \<Rightarrow> 'j \<Rightarrow> 'j) \<Rightarrow> u64 \<Rightarrow> u32 \<Rightarrow> 'j DefaultJobStore \<Rightarrow>
     bool \<times> 'j DefaultJobStore" where
  "activate_future_job get_job_id activate template_id timestamp st =
     (case Mapping.lookup (future_template_to_job_id st) template_id of
        None \<Rightarrow> (False, st)
      | Some job_id \<Rightarrow>
          let st = st\<lparr>future_template_to_job_id :=
                        Mapping.delete template_id (future_template_to_job_id st)\<rparr> in
          case Mapping.lookup (future_jobs st) job_id of
            None \<Rightarrow> (False, st)
          | Some future_job \<Rightarrow>
              let st = retire_active_job get_job_id
                         (st\<lparr>future_jobs := Mapping.delete job_id (future_jobs st)\<rparr>) in
              (True, mark_past_jobs_as_stale
                 (st\<lparr>active_job := Some (activate timestamp future_job),
                     future_jobs := Mapping.empty,
                     future_template_to_job_id := Mapping.empty\<rparr>)))"

section \<open>The life of a job\<close>

datatype job_status = Future | Active | Past | StaleJob | Unknown

text \<open>The stage of a job id. A share is looked up in this order: stale first, then active, then
  past; a future job is not yet known to share validation.\<close>

definition status :: "('j \<Rightarrow> u32) \<Rightarrow> 'j DefaultJobStore \<Rightarrow> u32 \<Rightarrow> job_status" where
  "status get_job_id st i =
     (if i \<in> Mapping.keys (stale_jobs st) then StaleJob
      else if map_option get_job_id (active_job st) = Some i then Active
      else if i \<in> Mapping.keys (past_jobs st) then Past
      else if i \<in> Mapping.keys (future_jobs st) then Future
      else Unknown)"

definition known_ids :: "('j \<Rightarrow> u32) \<Rightarrow> 'j DefaultJobStore \<Rightarrow> u32 set" where
  "known_ids get_job_id st =
     Mapping.keys (future_jobs st) \<union> Mapping.keys (past_jobs st) \<union> Mapping.keys (stale_jobs st) \<union>
     set_option (map_option get_job_id (active_job st))"

definition keyed :: "('j \<Rightarrow> u32) \<Rightarrow> (u32, 'j) mapping \<Rightarrow> bool" where
  "keyed get_job_id m \<longleftrightarrow> (\<forall>i j. Mapping.lookup m i = Some j \<longrightarrow> get_job_id j = i)"

text \<open>All jobs the store holds.\<close>

definition store_jobs :: "'j DefaultJobStore \<Rightarrow> 'j set" where
  "store_jobs st =
     {j. active_job st = Some j \<or> (\<exists>i. Mapping.lookup (future_jobs st) i = Some j \<or>
        Mapping.lookup (past_jobs st) i = Some j \<or> Mapping.lookup (stale_jobs st) i = Some j)}"

text \<open>The invariant: every collection is indexed by the job's own id, no id is in two collections,
  and every template id on record leads to a future job.\<close>

definition store_ok :: "('j \<Rightarrow> u32) \<Rightarrow> 'j DefaultJobStore \<Rightarrow> bool" where
  "store_ok get_job_id st \<longleftrightarrow>
     keyed get_job_id (future_jobs st) \<and> keyed get_job_id (past_jobs st) \<and>
     keyed get_job_id (stale_jobs st) \<and>
     Mapping.keys (future_jobs st) \<inter> Mapping.keys (past_jobs st) = {} \<and>
     Mapping.keys (future_jobs st) \<inter> Mapping.keys (stale_jobs st) = {} \<and>
     Mapping.keys (past_jobs st) \<inter> Mapping.keys (stale_jobs st) = {} \<and>
     (\<forall>j. active_job st = Some j \<longrightarrow>
        get_job_id j \<notin> Mapping.keys (future_jobs st) \<union> Mapping.keys (past_jobs st) \<union>
          Mapping.keys (stale_jobs st)) \<and>
     (\<forall>t i. Mapping.lookup (future_template_to_job_id st) t = Some i \<longrightarrow>
        i \<in> Mapping.keys (future_jobs st))"

text \<open>The moves between stages that one operation may cause.\<close>

inductive ages :: "job_status \<Rightarrow> job_status \<Rightarrow> bool" where
  keep: "ages s s"
| publish: "ages Unknown Future"
| start: "ages Unknown Active"
| activate: "ages Future Active"
| drop: "ages Future Unknown"
| retire: "ages Active Past"
| supersede: "ages Active StaleJob"
| expire: "ages Past StaleJob"
| forget: "ages StaleJob Unknown"

inductive_cases ages_StaleJob_elim: "ages StaleJob s"

lemma ages_StaleJob [simp]: "ages StaleJob s \<longleftrightarrow> s = StaleJob \<or> s = Unknown"
  by (auto elim: ages_StaleJob_elim intro: ages.intros)

lemmas job_store_defs =
  job_store_new_def add_future_job_def add_active_job_def retire_active_job_def
  mark_past_jobs_as_stale_def activate_future_job_def Let_def

lemma keys_simps [simp]:
  "Mapping.keys (Mapping.update k v m) = insert k (Mapping.keys m)"
  "Mapping.keys (Mapping.delete k m) = Mapping.keys m - {k}"
  by (simp_all add: Mapping.keys_update Mapping.keys_delete)

lemma in_keys_iff: "k \<in> Mapping.keys m \<longleftrightarrow> (\<exists>v. Mapping.lookup m k = Some v)"
  by (simp add: Mapping.keys_is_none_rep Option.is_none_def)

lemma lookup_delete_cases [simp]:
  "Mapping.lookup (Mapping.delete k m) i = (if i = k then None else Mapping.lookup m i)"
  by (simp add: lookup_delete lookup_delete_neq)

lemma keyed_simps [simp]:
  "keyed g Mapping.empty"
  "keyed g m \<Longrightarrow> keyed g (Mapping.update (g j) j m)"
  "keyed g m \<Longrightarrow> keyed g (Mapping.delete k m)"
  by (auto simp: keyed_def lookup_update' split: if_splits)

lemma store_ok_new [simp]: "store_ok g job_store_new"
  by (simp add: store_ok_def job_store_new_def)

lemma known_ids_new [simp]: "known_ids g job_store_new = {}"
  by (simp add: known_ids_def job_store_new_def)

lemma store_jobs_new [simp]: "store_jobs job_store_new = {}"
  by (simp add: store_jobs_def job_store_new_def)

section \<open>The Job interface\<close>

locale job_trait =
  fixes get_job_id :: "'j \<Rightarrow> u32" and activate_job :: "u32 \<Rightarrow> 'j \<Rightarrow> 'j"
  assumes activate_keeps_id: "get_job_id (activate_job t j) = get_job_id j"
begin

lemma store_ok_add_future:
  assumes "store_ok get_job_id st" and "get_job_id j \<notin> known_ids get_job_id st"
  shows "store_ok get_job_id (snd (add_future_job get_job_id t j st))"
  using assms by (auto simp: store_ok_def known_ids_def job_store_defs lookup_update' split: if_splits)

lemma store_ok_retire:
  assumes "store_ok get_job_id st"
  shows "store_ok get_job_id (retire_active_job get_job_id st)"
  using assms by (auto simp: store_ok_def job_store_defs split: option.splits)

lemma store_ok_add_active:
  assumes "store_ok get_job_id st" and "get_job_id j \<notin> known_ids get_job_id st"
  shows "store_ok get_job_id (add_active_job get_job_id j st)"
  using store_ok_retire [OF assms(1)] assms(2)
  by (auto simp: store_ok_def known_ids_def job_store_defs split: option.splits)

lemma store_ok_mark_stale:
  "store_ok get_job_id st \<Longrightarrow> store_ok get_job_id (mark_past_jobs_as_stale st)"
  by (auto simp: store_ok_def job_store_defs)

lemma activate_found:
  assumes "store_ok get_job_id st"
    and "Mapping.lookup (future_template_to_job_id st) t = Some i"
  obtains j where "Mapping.lookup (future_jobs st) i = Some j" and "get_job_id j = i"
proof -
  have "i \<in> Mapping.keys (future_jobs st)" and k: "keyed get_job_id (future_jobs st)"
    using assms unfolding store_ok_def by blast+
  then obtain j where "Mapping.lookup (future_jobs st) i = Some j"
    by (auto simp: in_keys_iff)
  with k that show ?thesis unfolding keyed_def by blast
qed

lemma activate_unknown_template:
  "Mapping.lookup (future_template_to_job_id st) t = None \<Longrightarrow>
   activate_future_job get_job_id activate_job t ts st = (False, st)"
  by (simp add: activate_future_job_def)

lemma activate_known_template:
  assumes "store_ok get_job_id st"
    and "Mapping.lookup (future_template_to_job_id st) t = Some i"
    and "Mapping.lookup (future_jobs st) i = Some j"
  shows "activate_future_job get_job_id activate_job t ts st =
    (True, \<lparr>future_template_to_job_id = Mapping.empty, future_jobs = Mapping.empty,
       active_job = Some (activate_job ts j), past_jobs = Mapping.empty,
       stale_jobs = past_jobs (retire_active_job get_job_id st)\<rparr>)"
  using assms by (auto simp: job_store_defs split: option.splits)

lemma store_ok_activate:
  assumes "store_ok get_job_id st"
  shows "store_ok get_job_id (snd (activate_future_job get_job_id activate_job t ts st))"
proof (cases "Mapping.lookup (future_template_to_job_id st) t")
  case None
  then show ?thesis using assms by (simp add: activate_unknown_template)
next
  case (Some i)
  obtain j where j: "Mapping.lookup (future_jobs st) i = Some j" "get_job_id j = i"
    using activate_found [OF assms Some] .
  have "i \<in> Mapping.keys (future_jobs st)" using j(1) by (auto simp: in_keys_iff)
  moreover have "store_ok get_job_id (retire_active_job get_job_id st)"
    by (rule store_ok_retire [OF assms])
  moreover have "future_jobs (retire_active_job get_job_id st) = future_jobs st"
    by (simp add: retire_active_job_def split: option.split)
  ultimately show ?thesis
    using j(2) activate_keeps_id [of ts j]
    by (auto simp: activate_known_template [OF assms Some j(1)] store_ok_def)
qed

lemma activate_makes_stale:
  assumes "store_ok get_job_id st" and "activate_future_job get_job_id activate_job t ts st = (True, st')"
    and "map_option get_job_id (active_job st) = Some i \<or> i \<in> Mapping.keys (past_jobs st)"
  shows "i \<in> Mapping.keys (stale_jobs st')"
proof -
  obtain k where k: "Mapping.lookup (future_template_to_job_id st) t = Some k"
    using assms(2) activate_unknown_template [of st t ts]
    by (cases "Mapping.lookup (future_template_to_job_id st) t") auto
  obtain j where "Mapping.lookup (future_jobs st) k = Some j"
    by (rule activate_found [OF assms(1) k])
  from activate_known_template [OF assms(1) k this] assms(2,3) show ?thesis
    by (auto simp: retire_active_job_def split: option.splits)
qed

text \<open>Which ids and which jobs an operation can bring into the store.\<close>

lemma known_ids_add_future:
  "known_ids get_job_id (snd (add_future_job get_job_id t j st)) \<subseteq>
     insert (get_job_id j) (known_ids get_job_id st)"
  by (auto simp: known_ids_def job_store_defs)

lemma known_ids_add_active:
  "known_ids get_job_id (add_active_job get_job_id j st) \<subseteq>
     insert (get_job_id j) (known_ids get_job_id st)"
  by (auto simp: known_ids_def job_store_defs split: option.splits)

lemma known_ids_mark_stale:
  "known_ids get_job_id (mark_past_jobs_as_stale st) \<subseteq> known_ids get_job_id st"
  by (auto simp: known_ids_def job_store_defs)

lemma known_ids_activate:
  assumes "store_ok get_job_id st"
  shows "known_ids get_job_id (snd (activate_future_job get_job_id activate_job t ts st)) \<subseteq>
    known_ids get_job_id st"
proof (cases "Mapping.lookup (future_template_to_job_id st) t")
  case (Some k)
  obtain j where j: "Mapping.lookup (future_jobs st) k = Some j" "get_job_id j = k"
    using activate_found [OF assms Some] .
  have "k \<in> Mapping.keys (future_jobs st)" using j(1) by (auto simp: in_keys_iff)
  then show ?thesis
    using j(2) activate_keeps_id [of ts j]
    by (cases "active_job st")
      (auto simp: activate_known_template [OF assms Some j(1)] known_ids_def retire_active_job_def)
qed (simp add: activate_unknown_template)

lemma store_jobs_add_future:
  "store_jobs (snd (add_future_job get_job_id t j st)) \<subseteq> insert j (store_jobs st)"
  by (auto simp: store_jobs_def job_store_defs lookup_update' split: if_splits)

lemma store_jobs_add_active:
  "store_jobs (add_active_job get_job_id j st) \<subseteq> insert j (store_jobs st)"
  by (auto simp: store_jobs_def job_store_defs lookup_update' split: if_splits option.splits)

lemma store_jobs_mark_stale: "store_jobs (mark_past_jobs_as_stale st) \<subseteq> store_jobs st"
  by (auto simp: store_jobs_def job_store_defs)

lemma store_jobs_activate:
  "store_jobs (snd (activate_future_job get_job_id activate_job t ts st)) \<subseteq>
     store_jobs st \<union> activate_job ts ` store_jobs st"
  by (auto simp: store_jobs_def job_store_defs lookup_update' split: if_splits option.splits)

lemma active_or_past_add_future:
  "active_job (snd (add_future_job get_job_id t j st)) = active_job st"
  "past_jobs (snd (add_future_job get_job_id t j st)) = past_jobs st"
  by (simp_all add: job_store_defs)

lemma ages_add_future:
  assumes "store_ok get_job_id st" and "get_job_id j \<notin> known_ids get_job_id st"
  shows "ages (status get_job_id st i) (status get_job_id (snd (add_future_job get_job_id t j st)) i)"
  using assms by (auto simp: status_def known_ids_def job_store_defs intro: ages.intros)

lemma ages_add_active:
  assumes "store_ok get_job_id st" and "get_job_id j \<notin> known_ids get_job_id st"
  shows "ages (status get_job_id st i) (status get_job_id (add_active_job get_job_id j st) i)"
  using assms by (auto simp: status_def known_ids_def job_store_defs intro: ages.intros split: option.splits)

lemma ages_mark_stale:
  assumes "store_ok get_job_id st"
  shows "ages (status get_job_id st i) (status get_job_id (mark_past_jobs_as_stale st) i)"
  using assms by (auto simp: status_def store_ok_def job_store_defs intro: ages.intros)

lemma ages_activate:
  assumes "store_ok get_job_id st"
  shows "ages (status get_job_id st i)
    (status get_job_id (snd (activate_future_job get_job_id activate_job t ts st)) i)"
proof (cases "Mapping.lookup (future_template_to_job_id st) t")
  case None
  then show ?thesis by (simp add: activate_unknown_template ages.intros)
next
  case (Some k)
  obtain j where j: "Mapping.lookup (future_jobs st) k = Some j" "get_job_id j = k"
    using activate_found [OF assms Some] .
  have "k \<in> Mapping.keys (future_jobs st)" using j(1) by (auto simp: in_keys_iff)
  then show ?thesis
    using assms j(2) activate_keeps_id [of ts j]
    by (cases "active_job st")
       (auto simp: activate_known_template [OF assms Some j(1)] status_def store_ok_def
          retire_active_job_def intro: ages.intros)
qed

end

end
