(* ===== verification/Jobs.thy ===== *)
theory Jobs
  imports Coinbase Job_Store
begin

text \<open>Jobs of server-side channels and the factory that builds them
  (\<open>channels-sv2/src/server/jobs/{mod,extended,standard,factory,error}.rs\<close>). The factory is passed
  as state: a call that fails after an id was drawn has still advanced the counter. Strings are
  their UTF-8 bytes.\<close>

section \<open>Extended and standard jobs\<close>

datatype JobOrigin = FromNewTemplate NewTemplate | FromSetCustomMiningJob SetCustomMiningJob

datatype ExtendedJobError =
    FailedToDeserializeCoinbase
  | FailedToDeserializeCoinbaseOutputs
  | CoinbaseInputCountMismatch
  | FailedToSerializeCoinbaseOutputs
  | FailedToSerializeCoinbasePrefix
  | FailedToConvertToStandardJob
  | FailedToCalculateMerkleRoot
  | FutureJobNotAllowed
  | InvalidMinNTime

datatype StandardJobError = FailedToDeserializeCoinbaseOutputs

record ExtendedJob =
  ej_origin :: JobOrigin
  ej_extranonce_prefix :: bytes
  ej_coinbase_outputs :: "TxOut list"
  ej_coinbase_tx_prefix_with_bip141 :: bytes
  ej_coinbase_tx_suffix_with_bip141 :: bytes
  ej_job_message :: NewExtendedMiningJob

record StandardJob =
  sj_template :: NewTemplate
  sj_extranonce_prefix :: bytes
  sj_coinbase_outputs :: "TxOut list"
  sj_job_message :: NewMiningJob

definition extended_job_id :: "ExtendedJob \<Rightarrow> u32" where
  "extended_job_id j = nemj_job_id (ej_job_message j)"

definition extended_job_activate :: "u32 \<Rightarrow> ExtendedJob \<Rightarrow> ExtendedJob" where
  "extended_job_activate min_ntime j =
     j\<lparr>ej_job_message := (ej_job_message j)\<lparr>nemj_min_ntime := sv2_option_new (Some min_ntime)\<rparr>\<rparr>"

definition standard_job_id :: "StandardJob \<Rightarrow> u32" where
  "standard_job_id j = nmj_job_id (sj_job_message j)"

definition standard_job_activate :: "u32 \<Rightarrow> StandardJob \<Rightarrow> StandardJob" where
  "standard_job_activate min_ntime j =
     j\<lparr>sj_job_message := (sj_job_message j)\<lparr>nmj_min_ntime := sv2_option_new (Some min_ntime)\<rparr>\<rparr>"

definition standard_job_is_future :: "StandardJob \<Rightarrow> bool sv2" where
  "standard_job_is_future j =
     map_ok (\<lambda>t. t = None) (sv2_option_into_inner (nmj_min_ntime (sj_job_message j)))"

definition extended_job_from_template ::
    "bitcoin \<Rightarrow> NewTemplate \<Rightarrow> bytes \<Rightarrow> TxOut list \<Rightarrow> bytes \<Rightarrow> bytes \<Rightarrow> NewExtendedMiningJob \<Rightarrow>
     (ExtendedJob, ExtendedJobError) result" where
  "extended_job_from_template btc template extranonce_prefix additional prefix suffix job_message =
     rbind (map_err (\<lambda>_. ExtendedJobError.FailedToDeserializeCoinbaseOutputs)
       (deserialize_template_outputs btc (inner_as_ref (nt_coinbase_tx_outputs template))
          (nt_coinbase_tx_outputs_count template))) (\<lambda>template_outputs.
     Ok \<lparr>ej_origin = FromNewTemplate template, ej_extranonce_prefix = extranonce_prefix,
         ej_coinbase_outputs = additional @ template_outputs,
         ej_coinbase_tx_prefix_with_bip141 = prefix, ej_coinbase_tx_suffix_with_bip141 = suffix,
         ej_job_message = job_message\<rparr>)"

definition extended_job_from_custom_job ::
    "SetCustomMiningJob \<Rightarrow> bytes \<Rightarrow> TxOut list \<Rightarrow> bytes \<Rightarrow> bytes \<Rightarrow> NewExtendedMiningJob \<Rightarrow> ExtendedJob" where
  "extended_job_from_custom_job custom_job extranonce_prefix outputs prefix suffix job_message =
     \<lparr>ej_origin = FromSetCustomMiningJob custom_job, ej_extranonce_prefix = extranonce_prefix,
      ej_coinbase_outputs = outputs, ej_coinbase_tx_prefix_with_bip141 = prefix,
      ej_coinbase_tx_suffix_with_bip141 = suffix, ej_job_message = job_message\<rparr>"

definition standard_job_from_template ::
    "bitcoin \<Rightarrow> NewTemplate \<Rightarrow> bytes \<Rightarrow> TxOut list \<Rightarrow> NewMiningJob \<Rightarrow>
     (StandardJob, StandardJobError) result" where
  "standard_job_from_template btc template extranonce_prefix additional job_message =
     rbind (map_err (\<lambda>_. StandardJobError.FailedToDeserializeCoinbaseOutputs)
       (deserialize_template_outputs btc (inner_as_ref (nt_coinbase_tx_outputs template))
          (nt_coinbase_tx_outputs_count template))) (\<lambda>template_outputs.
     Ok \<lparr>sj_template = template, sj_extranonce_prefix = extranonce_prefix,
         sj_coinbase_outputs = additional @ template_outputs, sj_job_message = job_message\<rparr>)"

definition into_standard_job ::
    "bitcoin \<Rightarrow> ExtendedJob \<Rightarrow> u32 \<Rightarrow> bytes \<Rightarrow> (StandardJob, ExtendedJobError) result" where
  "into_standard_job btc self channel_id extranonce_prefix =
     (case ej_origin self of
        FromSetCustomMiningJob _ \<Rightarrow> Err FailedToConvertToStandardJob
      | FromNewTemplate template \<Rightarrow>
          rbind (ok_or FailedToCalculateMerkleRoot
            (merkle_root_from_path btc
               (inner_as_ref (nemj_coinbase_tx_prefix (ej_job_message self)))
               (inner_as_ref (nemj_coinbase_tx_suffix (ej_job_message self)))
               extranonce_prefix
               (map inner_as_ref (nemj_merkle_path (ej_job_message self))))) (\<lambda>root.
          rbind (map_err (\<lambda>_. FailedToCalculateMerkleRoot) (inner_try_from_vec U256 root))
            (\<lambda>merkle_root.
          map_err (\<lambda>_. FailedToConvertToStandardJob)
            (standard_job_from_template btc template extranonce_prefix (ej_coinbase_outputs self)
               \<lparr>nmj_channel_id = channel_id, nmj_job_id = extended_job_id self,
                nmj_min_ntime = nemj_min_ntime (ej_job_message self),
                nmj_version = nemj_version (ej_job_message self),
                nmj_merkle_root = merkle_root\<rparr>))))"

interpretation ext_job: job_trait extended_job_id extended_job_activate
  by unfold_locales (simp add: extended_job_id_def extended_job_activate_def)

interpretation std_job: job_trait standard_job_id standard_job_activate
  by unfold_locales (simp add: standard_job_id_def standard_job_activate_def)

section \<open>The factory\<close>

datatype JobFactoryError =
    FailedToStripBip141
  | FailedToSerializeCoinbaseOutputs
  | FailedToSerializeCoinbasePrefix
  | InvalidTemplate string
  | DeserializeCoinbaseOutputsError
  | CoinbaseTxPrefixError
  | CoinbaseTxSuffixError
  | CoinbaseOutputsSumOverflow
  | InvalidCoinbaseOutputsSum
  | ChainTipRequired

record JobFactory =
  job_id_state :: u32
  jf_version_rolling_allowed :: bool
  pool_tag_string :: "bytes option"
  miner_tag_string :: "bytes option"

definition job_factory_new :: "bool \<Rightarrow> bytes option \<Rightarrow> bytes option \<Rightarrow> JobFactory" where
  "job_factory_new version_rolling pool_tag miner_tag =
     \<lparr>job_id_state = 0, jf_version_rolling_allowed = version_rolling,
      pool_tag_string = pool_tag, miner_tag_string = miner_tag\<rparr>"

definition job_id_next :: "JobFactory \<Rightarrow> u32 \<times> JobFactory" where
  "job_id_next f = (job_id_state f + 1, f\<lparr>job_id_state := job_id_state f + 1\<rparr>)"

definition tag_bytes :: "bytes option \<Rightarrow> bytes" where
  "tag_bytes t = (case t of None \<Rightarrow> [] | Some s \<Rightarrow> s)"

definition op_pushbytes_pool_miner_tag :: "JobFactory \<Rightarrow> (bytes, JobFactoryError) result" where
  "op_pushbytes_pool_miner_tag f =
     (let tag = [0x2F] @ tag_bytes (pool_tag_string f) @ [0x2F] @ tag_bytes (miner_tag_string f) @ [0x2F] in
      if 1 \<le> length tag \<and> length tag \<le> 61 then Ok (of_nat (length tag) # tag)
      else Err CoinbaseTxPrefixError)"

text \<open>\<open>Amount::checked_add\<close> over the reward outputs.\<close>

fun checked_sum :: "u64 \<Rightarrow> TxOut list \<Rightarrow> (u64, JobFactoryError) result" where
  "checked_sum acc [] = Ok acc"
| "checked_sum acc (out # outs) =
     (if unat acc + unat (out_value out) < 2 ^ 64 then checked_sum (acc + out_value out) outs
      else Err CoinbaseOutputsSumOverflow)"

definition outputs_sum :: "TxOut list \<Rightarrow> u64" where
  "outputs_sum outs = sum_list (map out_value outs)"

definition coinbase ::
    "bitcoin \<Rightarrow> JobFactory \<Rightarrow> NewTemplate \<Rightarrow> TxOut list \<Rightarrow> (Transaction, JobFactoryError) result" where
  "coinbase btc f template rewards =
     rbind (checked_sum 0 rewards) (\<lambda>total.
       if nt_coinbase_tx_value_remaining template < total then Err InvalidCoinbaseOutputsSum
       else
       rbind (map_err (\<lambda>_. DeserializeCoinbaseOutputsError)
         (deserialize_template_outputs btc (inner_as_ref (nt_coinbase_tx_outputs template))
            (nt_coinbase_tx_outputs_count template))) (\<lambda>template_outputs.
       rbind (op_pushbytes_pool_miner_tag f) (\<lambda>tag.
         Ok \<lparr>tx_version = nt_coinbase_tx_version template,
             lock_time = nt_coinbase_tx_locktime template,
             tx_input = [\<lparr>previous_output = outpoint_null btc,
                          script_sig = inner_as_ref (nt_coinbase_prefix template) @ tag @
                            [of_nat MAX_EXTRANONCE_LEN] @ replicate MAX_EXTRANONCE_LEN 0,
                          sequence = nt_coinbase_tx_input_sequence template,
                          witness = [replicate 32 0]\<rparr>],
             tx_output = rewards @ template_outputs\<rparr>)))"

definition coinbase_split_index :: "JobFactory \<Rightarrow> NewTemplate \<Rightarrow> nat" where
  "coinbase_split_index f template =
     4 + 2 + 1 + 32 + 4 + 1 + length (inner_as_ref (nt_coinbase_prefix template)) +
     (1 + 3 + length (tag_bytes (pool_tag_string f)) + length (tag_bytes (miner_tag_string f))) + 1"

definition coinbase_tx_prefix ::
    "bitcoin \<Rightarrow> JobFactory \<Rightarrow> NewTemplate \<Rightarrow> TxOut list \<Rightarrow> (bytes, JobFactoryError) result" where
  "coinbase_tx_prefix btc f template rewards =
     rbind (coinbase btc f template rewards) (\<lambda>tx.
       let bs = serialize btc tx; index = coinbase_split_index f template in
       if length bs < index then Panic else Ok (take index bs))"

definition coinbase_tx_suffix ::
    "bitcoin \<Rightarrow> JobFactory \<Rightarrow> NewTemplate \<Rightarrow> TxOut list \<Rightarrow> (bytes, JobFactoryError) result" where
  "coinbase_tx_suffix btc f template rewards =
     rbind (coinbase btc f template rewards) (\<lambda>tx.
       let bs = serialize btc tx; index = coinbase_split_index f template + MAX_EXTRANONCE_LEN in
       if length bs < index then Panic else Ok (drop index bs))"

definition strip_for_job ::
    "bitcoin \<Rightarrow> bytes \<Rightarrow> bytes \<Rightarrow> (bytes \<times> bytes, JobFactoryError) result" where
  "strip_for_job btc prefix suffix =
     rbind (map_err (\<lambda>_. FailedToStripBip141) (try_strip_bip141 btc prefix suffix))
       (ok_or FailedToStripBip141)"

definition job_min_ntime ::
    "NewTemplate \<Rightarrow> ChainTip option \<Rightarrow> (u32 list, JobFactoryError) result" where
  "job_min_ntime template chain_tip =
     (if nt_future_template template then Ok (sv2_option_new None)
      else case chain_tip of
             Some tip \<Rightarrow> Ok (sv2_option_new (Some (ct_min_ntime tip)))
           | None \<Rightarrow> Err ChainTipRequired)"

definition new_extended_job ::
    "bitcoin \<Rightarrow> u32 \<Rightarrow> ChainTip option \<Rightarrow> bytes \<Rightarrow> NewTemplate \<Rightarrow> TxOut list \<Rightarrow> JobFactory \<Rightarrow>
     (ExtendedJob, JobFactoryError) result \<times> JobFactory" where
  "new_extended_job btc channel_id chain_tip extranonce_prefix template rewards f =
     (if outputs_sum rewards \<noteq> nt_coinbase_tx_value_remaining template
      then (Err InvalidCoinbaseOutputsSum, f)
      else case job_id_next f of (job_id, f) \<Rightarrow>
        (rbind (coinbase_tx_prefix btc f template rewards) (\<lambda>prefix.
         rbind (coinbase_tx_suffix btc f template rewards) (\<lambda>suffix.
         rbind (strip_for_job btc prefix suffix) (\<lambda>(prefix_stripped, suffix_stripped).
         rbind (job_min_ntime template chain_tip) (\<lambda>min_ntime.
         rbind (map_err (\<lambda>_. CoinbaseTxPrefixError) (inner_try_from_vec B064K prefix_stripped)) (\<lambda>p.
         rbind (map_err (\<lambda>_. CoinbaseTxSuffixError) (inner_try_from_vec B064K suffix_stripped)) (\<lambda>s.
           map_err (\<lambda>_. DeserializeCoinbaseOutputsError)
             (extended_job_from_template btc template extranonce_prefix rewards prefix suffix
                \<lparr>nemj_channel_id = channel_id, nemj_job_id = job_id, nemj_min_ntime = min_ntime,
                 nemj_version = nt_version template,
                 nemj_version_rolling_allowed = jf_version_rolling_allowed f,
                 nemj_merkle_path = nt_merkle_path template,
                 nemj_coinbase_tx_prefix = p, nemj_coinbase_tx_suffix = s\<rparr>))))))),
         f))"

definition new_standard_job ::
    "bitcoin \<Rightarrow> u32 \<Rightarrow> ChainTip option \<Rightarrow> bytes \<Rightarrow> NewTemplate \<Rightarrow> TxOut list \<Rightarrow> JobFactory \<Rightarrow>
     (StandardJob, JobFactoryError) result \<times> JobFactory" where
  "new_standard_job btc channel_id chain_tip extranonce_prefix template rewards f =
     (if outputs_sum rewards \<noteq> nt_coinbase_tx_value_remaining template
      then (Err InvalidCoinbaseOutputsSum, f)
      else case job_id_next f of (job_id, f) \<Rightarrow>
        (rbind (coinbase_tx_prefix btc f template rewards) (\<lambda>prefix.
         rbind (coinbase_tx_suffix btc f template rewards) (\<lambda>suffix.
         rbind (expect (ok_or () (merkle_root_from_path btc prefix suffix extranonce_prefix
                  (map inner_as_ref (nt_merkle_path template))))) (\<lambda>root.
         rbind (expect (inner_try_from_vec U256 root)) (\<lambda>merkle_root.
         rbind (job_min_ntime template chain_tip) (\<lambda>min_ntime.
           map_err (\<lambda>_. DeserializeCoinbaseOutputsError)
             (standard_job_from_template btc template extranonce_prefix rewards
                \<lparr>nmj_channel_id = channel_id, nmj_job_id = job_id, nmj_min_ntime = min_ntime,
                 nmj_version = nt_version template, nmj_merkle_root = merkle_root\<rparr>)))))),
         f))"

definition new_coinbase_tx_prefix_and_suffix ::
    "bitcoin \<Rightarrow> JobFactory \<Rightarrow> NewTemplate \<Rightarrow> TxOut list \<Rightarrow> (bytes \<times> bytes, JobFactoryError) result" where
  "new_coinbase_tx_prefix_and_suffix btc f template rewards =
     (if outputs_sum rewards \<noteq> nt_coinbase_tx_value_remaining template
      then Err InvalidCoinbaseOutputsSum
      else rbind (coinbase_tx_prefix btc f template rewards) (\<lambda>prefix.
           rbind (coinbase_tx_suffix btc f template rewards) (\<lambda>suffix. Ok (prefix, suffix))))"

section \<open>Custom jobs\<close>

definition new_custom_job ::
    "bitcoin \<Rightarrow> JobFactory \<Rightarrow> u32 \<Rightarrow> u32 \<Rightarrow> inner \<Rightarrow> ChainTip \<Rightarrow> NewTemplate \<Rightarrow> TxOut list \<Rightarrow>
     (SetCustomMiningJob, JobFactoryError) result" where
  "new_custom_job btc f channel_id request_id token chain_tip template rewards =
     (if outputs_sum rewards \<noteq> nt_coinbase_tx_value_remaining template
      then Err InvalidCoinbaseOutputsSum
      else
        rbind (map_err (\<lambda>_. DeserializeCoinbaseOutputsError)
          (deserialize_template_outputs btc (inner_as_ref (nt_coinbase_tx_outputs template))
             (nt_coinbase_tx_outputs_count template))) (\<lambda>template_outputs.
        rbind (op_pushbytes_pool_miner_tag f) (\<lambda>tag.
        rbind (map_err (\<lambda>_. JobFactoryError.FailedToSerializeCoinbasePrefix)
          (inner_try_from_vec B0255
             (inner_as_ref (nt_coinbase_prefix template) @ tag @ [of_nat MAX_EXTRANONCE_LEN])))
          (\<lambda>coinbase_prefix.
        rbind (map_err (\<lambda>_. JobFactoryError.FailedToSerializeCoinbaseOutputs)
          (inner_try_from_vec B064K (serialize_outputs btc (rewards @ template_outputs)))) (\<lambda>outputs.
          Ok \<lparr>scmj_channel_id = channel_id, scmj_request_id = request_id, scmj_token = token,
              scmj_version = nt_version template, scmj_prev_hash = ct_prev_hash chain_tip,
              scmj_min_ntime = ct_min_ntime chain_tip, scmj_nbits = ct_nbits chain_tip,
              scmj_coinbase_tx_version = nt_coinbase_tx_version template,
              scmj_coinbase_prefix = coinbase_prefix,
              scmj_coinbase_tx_input_n_sequence = nt_coinbase_tx_input_sequence template,
              scmj_coinbase_tx_outputs = outputs,
              scmj_coinbase_tx_locktime = nt_coinbase_tx_locktime template,
              scmj_merkle_path = nt_merkle_path template\<rparr>)))))"

definition decode_custom_outputs :: "bitcoin \<Rightarrow> SetCustomMiningJob \<Rightarrow> (TxOut list, JobFactoryError) result" where
  "decode_custom_outputs btc m =
     map_ok fst (ok_or DeserializeCoinbaseOutputsError
       (decode_outputs btc (inner_as_ref (scmj_coinbase_tx_outputs m))))"

definition custom_coinbase ::
    "bitcoin \<Rightarrow> SetCustomMiningJob \<Rightarrow> (Transaction, JobFactoryError) result" where
  "custom_coinbase btc m =
     rbind (decode_custom_outputs btc m) (\<lambda>outputs.
       Ok \<lparr>tx_version = scmj_coinbase_tx_version m, lock_time = scmj_coinbase_tx_locktime m,
           tx_input = [\<lparr>previous_output = outpoint_null btc,
                        script_sig = inner_as_ref (scmj_coinbase_prefix m) @
                          replicate MAX_EXTRANONCE_LEN 0,
                        sequence = scmj_coinbase_tx_input_n_sequence m,
                        witness = [replicate 32 0]\<rparr>],
           tx_output = outputs\<rparr>)"

definition custom_split_index :: "SetCustomMiningJob \<Rightarrow> nat" where
  "custom_split_index m = 4 + 2 + 1 + 32 + 4 + 1 + length (inner_as_ref (scmj_coinbase_prefix m))"

definition custom_coinbase_tx_prefix ::
    "bitcoin \<Rightarrow> SetCustomMiningJob \<Rightarrow> (bytes, JobFactoryError) result" where
  "custom_coinbase_tx_prefix btc m =
     rbind (custom_coinbase btc m) (\<lambda>tx.
       let bs = serialize btc tx; index = custom_split_index m in
       if length bs < index then Panic else Ok (take index bs))"

definition custom_coinbase_tx_suffix ::
    "bitcoin \<Rightarrow> SetCustomMiningJob \<Rightarrow> (bytes, JobFactoryError) result" where
  "custom_coinbase_tx_suffix btc m =
     rbind (custom_coinbase btc m) (\<lambda>tx.
       let bs = serialize btc tx; index = custom_split_index m + MAX_EXTRANONCE_LEN in
       if length bs < index then Panic else Ok (drop index bs))"

definition new_extended_job_from_custom_job ::
    "bitcoin \<Rightarrow> SetCustomMiningJob \<Rightarrow> bytes \<Rightarrow> JobFactory \<Rightarrow>
     (ExtendedJob, JobFactoryError) result \<times> JobFactory" where
  "new_extended_job_from_custom_job btc m extranonce_prefix f =
     (case decode_custom_outputs btc m of
        Err e \<Rightarrow> (Err e, f)
      | Panic \<Rightarrow> (Panic, f)
      | Ok coinbase_outputs \<Rightarrow>
          (case job_id_next f of (job_id, f) \<Rightarrow>
            (rbind (custom_coinbase_tx_prefix btc m) (\<lambda>prefix.
             rbind (custom_coinbase_tx_suffix btc m) (\<lambda>suffix.
             rbind (strip_for_job btc prefix suffix) (\<lambda>(prefix_stripped, suffix_stripped).
             rbind (expect (seq0255_into_static into_static (scmj_merkle_path m))) (\<lambda>merkle_path.
             rbind (map_err (\<lambda>_. CoinbaseTxPrefixError) (inner_try_from_vec B064K prefix_stripped)) (\<lambda>p.
             rbind (map_err (\<lambda>_. CoinbaseTxSuffixError) (inner_try_from_vec B064K suffix_stripped)) (\<lambda>s.
               Ok (extended_job_from_custom_job m extranonce_prefix coinbase_outputs prefix suffix
                 \<lparr>nemj_channel_id = scmj_channel_id m, nemj_job_id = job_id,
                  nemj_min_ntime = sv2_option_new (Some (scmj_min_ntime m)),
                  nemj_version = scmj_version m,
                  nemj_version_rolling_allowed = jf_version_rolling_allowed f,
                  nemj_merkle_path = merkle_path,
                  nemj_coinbase_tx_prefix = p, nemj_coinbase_tx_suffix = s\<rparr>))))))),
             f)))"

section \<open>Facts\<close>

lemma op_pushbytes_length:
  "op_pushbytes_pool_miner_tag f = Ok tag \<Longrightarrow>
   length tag = 1 + 3 + length (tag_bytes (pool_tag_string f)) + length (tag_bytes (miner_tag_string f))"
  by (auto simp: op_pushbytes_pool_miner_tag_def Let_def split: if_splits)

lemma checked_sum_Ok:
  "checked_sum acc outs = Ok t \<Longrightarrow>
   unat t = unat acc + sum_list (map (unat \<circ> out_value) outs)"
proof (induction acc outs rule: checked_sum.induct)
  case (2 acc out outs)
  then have lt: "unat acc + unat (out_value out) < 2 ^ 64" by (auto split: if_splits)
  then have "unat (acc + out_value out) = unat acc + unat (out_value out)"
    by (simp add: unat_word_ariths)
  with 2 lt show ?case by (simp add: split: if_splits)
qed simp

lemma checked_sum_no_panic: "checked_sum acc outs \<noteq> Panic"
  by (induction acc outs rule: checked_sum.induct) simp_all

lemma outputs_sum_unat:
  "outputs_sum outs = of_nat (sum_list (map (unat \<circ> out_value) outs))"
  by (induction outs) (simp_all add: outputs_sum_def)

lemma deserialize_template_outputs_no_panic: "deserialize_template_outputs btc bs n \<noteq> Panic"
  by (simp add: deserialize_template_outputs_def decode_outputs_n_no_panic)

lemma op_pushbytes_no_panic: "op_pushbytes_pool_miner_tag f \<noteq> Panic"
  by (simp add: op_pushbytes_pool_miner_tag_def Let_def)

lemma coinbase_no_panic: "coinbase btc f template rewards \<noteq> Panic"
  using checked_sum_no_panic deserialize_template_outputs_no_panic op_pushbytes_no_panic
  by (auto simp: coinbase_def result_simps split: if_splits)

lemma coinbase_Ok:
  assumes "coinbase btc f template rewards = Ok tx"
  obtains template_outputs tag where
    "deserialize_template_outputs btc (inner_as_ref (nt_coinbase_tx_outputs template))
       (nt_coinbase_tx_outputs_count template) = Ok template_outputs"
    "op_pushbytes_pool_miner_tag f = Ok tag"
    "sum_list (map (unat \<circ> out_value) rewards) \<le> unat (nt_coinbase_tx_value_remaining template)"
    "tx_output tx = rewards @ template_outputs"
    "tx_input tx = [\<lparr>previous_output = outpoint_null btc,
       script_sig = inner_as_ref (nt_coinbase_prefix template) @ tag @
         [of_nat MAX_EXTRANONCE_LEN] @ replicate MAX_EXTRANONCE_LEN 0,
       sequence = nt_coinbase_tx_input_sequence template, witness = [replicate 32 0]\<rparr>]"
proof -
  from assms obtain total where t: "checked_sum 0 rewards = Ok total"
    by (cases "checked_sum 0 rewards") (auto simp: coinbase_def)
  with assms have le: "\<not> nt_coinbase_tx_value_remaining template < total"
    by (auto simp: coinbase_def split: if_splits)
  from assms t le that checked_sum_Ok [OF t] show ?thesis
    by (auto simp: coinbase_def result_simps word_less_nat_alt)
qed

lemma coinbase_outputs_value:
  assumes "coinbase btc f template rewards = Ok tx"
    and "outputs_sum rewards = nt_coinbase_tx_value_remaining template"
  shows "sum_list (map (unat \<circ> out_value) rewards) = unat (nt_coinbase_tx_value_remaining template)"
proof -
  let ?n = "sum_list (map (unat \<circ> out_value) rewards)"
  have "?n \<le> unat (nt_coinbase_tx_value_remaining template)"
    by (rule coinbase_Ok [OF assms(1)])
  moreover have "unat (nt_coinbase_tx_value_remaining template) < 2 ^ 64"
    using unsigned_less [of "nt_coinbase_tx_value_remaining template", where ?'a = nat] by simp
  ultimately have "unat (of_nat ?n :: u64) = ?n" by (intro unat_of_nat_small) simp
  then show ?thesis using assms(2) by (simp add: outputs_sum_unat flip: assms(2))
qed

lemma strip_for_job_Ok:
  assumes "strip_for_job btc p s = Ok (ps, ss)"
  shows "6 \<le> length p \<and> 38 \<le> length s \<and> ps = take 4 p @ drop 6 p \<and>
    ss = take (length s - 38) s @ drop (length s - 4) s"
  using assms
  by (auto simp: strip_for_job_def try_strip_bip141_def result_simps ok_or_iff Let_def
      MARKER_FLAG_OFFSET_def MARKER_FLAG_LEN_def LOCKTIME_LEN_def WITNESS_COUNT_LEN_def
      WITNESS_LEN_LEN_def WITNESS_DATA_LEN_def split: if_splits)

text \<open>The consensus encoding the factory relies on: a transaction with one input that has a witness
  of 32 zero bytes is the version, marker and flag, the input up to its script, the script with a
  one-byte length, everything up to the witness, the witness and the lock time; without marker, flag
  and witness it decodes to a transaction with the same id.\<close>

definition segwit_encoding :: "bitcoin \<Rightarrow> bool" where
  "segwit_encoding btc \<longleftrightarrow>
     (\<forall>tx i. tx_input tx = [i] \<and> witness i = [replicate 32 0] \<longrightarrow>
        (\<exists>v pre post l. length v = 4 \<and> length pre = 37 \<and> length l = 4 \<and>
          (\<forall>s. length s < 253 \<longrightarrow>
             serialize btc (tx\<lparr>tx_input := [i\<lparr>script_sig := s\<rparr>]\<rparr>) =
               v @ [0, 1] @ pre @ [of_nat (length s)] @ s @ post @ [1, 32] @ replicate 32 0 @ l \<and>
             (\<exists>t. deserialize btc (v @ pre @ [of_nat (length s)] @ s @ post @ l) = Some t \<and>
                compute_txid btc t = compute_txid btc (tx\<lparr>tx_input := [i\<lparr>script_sig := s\<rparr>]\<rparr>)))))"

text \<open>What the crate makes of the same bytes without marker, flag and witness: they decode part by part
  into a transaction without witnesses, whose two ids agree.\<close>

definition legacy_decoding :: "bitcoin \<Rightarrow> bool" where
  "legacy_decoding btc \<longleftrightarrow>
     (\<forall>tx i v body l. tx_input tx = [i] \<and> witness i = [replicate 32 0] \<and> length v = 4 \<and> length l = 4 \<and>
        serialize btc tx = v @ [0, 1] @ body @ [1, 32] @ replicate 32 0 @ l \<longrightarrow>
        (\<exists>t. decode_coinbase_parts btc (v @ body @ l) = Ok t \<and> compute_txid btc t = compute_wtxid btc t))"

text \<open>The coinbase with the given 32 bytes in place of the zero extranonce.\<close>

definition with_extranonce :: "bytes \<Rightarrow> Transaction \<Rightarrow> Transaction" where
  "with_extranonce e tx =
     tx\<lparr>tx_input := map (\<lambda>i. i\<lparr>script_sig :=
       take (length (script_sig i) - MAX_EXTRANONCE_LEN) (script_sig i) @ e\<rparr>) (tx_input tx)\<rparr>"


lemma segwit_encodingD:
  assumes "segwit_encoding btc" and "tx_input tx = [i]" and "witness i = [replicate 32 0]"
  obtains v pre post l where "length v = 4" "length pre = 37" "length l = 4"
    "\<And>s. length s < 253 \<Longrightarrow> serialize btc (tx\<lparr>tx_input := [i\<lparr>script_sig := s\<rparr>]\<rparr>) =
       v @ [0, 1] @ pre @ [of_nat (length s)] @ s @ post @ [1, 32] @ replicate 32 0 @ l"
    "\<And>s. length s < 253 \<Longrightarrow>
       \<exists>t. deserialize btc (v @ pre @ [of_nat (length s)] @ s @ post @ l) = Some t \<and>
         compute_txid btc t = compute_txid btc (tx\<lparr>tx_input := [i\<lparr>script_sig := s\<rparr>]\<rparr>)"
  using assms(1) [unfolded segwit_encoding_def, rule_format, OF conjI, OF assms(2,3)] that by blast

lemma with_extranonce_script:
  assumes "tx_input tx = [i]" and "script_sig i = b @ replicate 32 0"
  shows "with_extranonce e tx = tx\<lparr>tx_input := [i\<lparr>script_sig := b @ e\<rparr>]\<rparr>"
  using assms by (simp add: with_extranonce_def MAX_EXTRANONCE_LEN_def)

lemma with_zero_extranonce:
  assumes "tx_input tx = [i]" and "script_sig i = b @ replicate 32 0"
  shows "with_extranonce (replicate 32 0) tx = tx"
proof -
  have "i\<lparr>script_sig := b @ replicate 32 0\<rparr> = i" using assms(2) by (cases i) simp
  then show ?thesis using assms by (cases tx) (simp add: with_extranonce_script)
qed

lemma split_at_extranonce:
  assumes "segwit_encoding btc" and inp: "tx_input tx = [i]" and wit: "witness i = [replicate 32 0]"
    and scr: "script_sig i = b @ replicate 32 0" and b: "length b + 32 < 253"
  obtains v body post l where "length v = 4" "length l = 4" "length body = 38 + length b"
    "\<And>e. length e = 32 \<Longrightarrow>
       serialize btc (with_extranonce e tx) = v @ [0, 1] @ body @ e @ post @ [1, 32] @ replicate 32 0 @ l"
    "\<And>e. length e = 32 \<Longrightarrow> \<exists>t. deserialize btc (v @ body @ e @ post @ l) = Some t \<and>
       compute_txid btc t = compute_txid btc (with_extranonce e tx)"
proof -
  obtain v pre post l where lens: "length v = 4" "length pre = 37" "length l = 4"
    and ser: "\<And>s. length s < 253 \<Longrightarrow> serialize btc (tx\<lparr>tx_input := [i\<lparr>script_sig := s\<rparr>]\<rparr>) =
       v @ [0, 1] @ pre @ [of_nat (length s)] @ s @ post @ [1, 32] @ replicate 32 0 @ l"
    and des: "\<And>s. length s < 253 \<Longrightarrow>
       \<exists>t. deserialize btc (v @ pre @ [of_nat (length s)] @ s @ post @ l) = Some t \<and>
         compute_txid btc t = compute_txid btc (tx\<lparr>tx_input := [i\<lparr>script_sig := s\<rparr>]\<rparr>)"
    by (rule segwit_encodingD [OF assms(1) inp wit]) blast
  show ?thesis
  proof (rule that [of v l "pre @ [of_nat (length b + 32)] @ b" post])
    fix e :: bytes assume "length e = 32"
    then show "serialize btc (with_extranonce e tx) = v @ [0, 1] @
        (pre @ [of_nat (length b + 32)] @ b) @ e @ post @ [1, 32] @ replicate 32 0 @ l"
      "\<exists>t. deserialize btc (v @ (pre @ [of_nat (length b + 32)] @ b) @ e @ post @ l) = Some t \<and>
         compute_txid btc t = compute_txid btc (with_extranonce e tx)"
      using ser [of "b @ e"] des [of "b @ e"] b by (simp_all add: with_extranonce_script [OF inp scr])
  qed (use lens in simp_all)
qed

lemma take_drop_around:
  "length p = n \<Longrightarrow> take n (p @ m @ r) = p \<and> (length m = k \<longrightarrow> drop (n + k) (p @ m @ r) = r)"
  by auto

lemma halves_shape:
  assumes "segwit_encoding btc" and inp: "tx_input tx = [i]" and wit: "witness i = [replicate 32 0]"
    and scr: "script_sig i = b @ replicate 32 0" and b: "length b + 32 < 253"
  obtains v body post l where "length v = 4" "length l = 4"
    "take (44 + length b) (serialize btc tx) = v @ [0, 1] @ body"
    "drop (44 + length b + 32) (serialize btc tx) = post @ [1, 32] @ replicate 32 0 @ l"
    "\<And>e. length e = 32 \<Longrightarrow> serialize btc (with_extranonce e tx) =
       take (44 + length b) (serialize btc tx) @ e @ drop (44 + length b + 32) (serialize btc tx)"
    "\<And>e. length e = 32 \<Longrightarrow> \<exists>t. deserialize btc (v @ body @ e @ post @ l) = Some t \<and>
       compute_txid btc t = compute_txid btc (with_extranonce e tx)"
proof -
  obtain v body post l where lens: "length v = 4" "length l = 4" "length body = 38 + length b"
    and ser: "\<And>e. length e = 32 \<Longrightarrow> serialize btc (with_extranonce e tx) =
       v @ [0, 1] @ body @ e @ post @ [1, 32] @ replicate 32 0 @ l"
    and des: "\<And>e. length e = 32 \<Longrightarrow> \<exists>t. deserialize btc (v @ body @ e @ post @ l) = Some t \<and>
       compute_txid btc t = compute_txid btc (with_extranonce e tx)"
    by (rule split_at_extranonce [OF assms(1-5)]) blast
  define p where "p = v @ [0, 1] @ body"
  define r where "r = post @ [1, 32] @ replicate 32 0 @ l"
  have "serialize btc tx = p @ replicate 32 0 @ r"
    using ser [of "replicate 32 0"] by (simp add: with_zero_extranonce [OF inp scr] p_def r_def)
  moreover have "length p = 44 + length b" using lens by (simp add: p_def)
  ultimately have halves: "take (44 + length b) (serialize btc tx) = p"
      "drop (44 + length b + 32) (serialize btc tx) = r"
    using take_drop_around [of p "44 + length b" "replicate 32 0" r 32] by simp_all
  have "serialize btc (with_extranonce e tx) =
      take (44 + length b) (serialize btc tx) @ e @ drop (44 + length b + 32) (serialize btc tx)"
    if "length e = 32" for e
    unfolding halves using ser [OF that] by (simp add: p_def r_def)
  from that [OF lens(1,2) halves [unfolded p_def r_def] this des] show ?thesis .
qed

lemma halves_commit:
  assumes "segwit_encoding btc" and "tx_input tx = [i]" and "witness i = [replicate 32 0]"
    and "script_sig i = b @ replicate 32 0" and "length b + 32 < 253"
    and strip: "strip_for_job btc (take (44 + length b) (serialize btc tx))
      (drop (44 + length b + 32) (serialize btc tx)) = Ok (ps, ss)"
    and e: "length e = 32"
  shows "serialize btc (with_extranonce e tx) =
      take (44 + length b) (serialize btc tx) @ e @ drop (44 + length b + 32) (serialize btc tx) \<and>
    merkle_root_from_path btc ps ss e path =
      Some (reduce_path btc (compute_txid btc (with_extranonce e tx)) path)"
proof (rule halves_shape [OF assms(1-5)])
  fix v body post l
  assume lens: "length v = (4 :: nat)" "length l = (4 :: nat)"
    and h: "take (44 + length b) (serialize btc tx) = v @ [0, 1] @ body"
      "drop (44 + length b + 32) (serialize btc tx) = post @ [1, 32] @ replicate 32 0 @ l"
    and ser: "\<And>e. length e = 32 \<Longrightarrow> serialize btc (with_extranonce e tx) =
       take (44 + length b) (serialize btc tx) @ e @ drop (44 + length b + 32) (serialize btc tx)"
    and des: "\<And>e. length e = 32 \<Longrightarrow> \<exists>t. deserialize btc (v @ body @ e @ post @ l) = Some t \<and>
       compute_txid btc t = compute_txid btc (with_extranonce e tx)"
  have "ps = v @ body" and "ss = post @ l"
    using strip_for_job_Ok [OF strip [unfolded h]] lens by auto
  then show ?thesis
    using ser [OF e] des [OF e] by (auto simp: merkle_root_from_path_def merkle_root_from_path_id_fold)
qed

lemma halves_stripped_once:
  assumes "segwit_encoding btc" and leg: "legacy_decoding btc"
    and tx: "tx_input tx = [i]" "witness i = [replicate 32 0]"
    and "script_sig i = b @ replicate 32 0" and "length b + 32 < 253"
    and strip: "strip_for_job btc (take (44 + length b) (serialize btc tx))
      (drop (44 + length b + 32) (serialize btc tx)) = Ok (ps, ss)"
  shows "try_strip_bip141 btc ps ss = Ok None"
proof (rule halves_shape [OF assms(1) tx assms(5,6)])
  fix v body post l
  assume lens: "length v = (4 :: nat)" "length l = (4 :: nat)"
    and h: "take (44 + length b) (serialize btc tx) = v @ [0, 1] @ body"
      "drop (44 + length b + 32) (serialize btc tx) = post @ [1, 32] @ replicate 32 0 @ l"
    and ser: "\<And>e. length e = 32 \<Longrightarrow> serialize btc (with_extranonce e tx) =
       take (44 + length b) (serialize btc tx) @ e @ drop (44 + length b + 32) (serialize btc tx)"
  have s: "ps = v @ body" "ss = post @ l" using strip_for_job_Ok [OF strip [unfolded h]] lens by auto
  have "serialize btc tx = v @ [0, 1] @ (body @ replicate 32 0 @ post) @ [1, 32] @ replicate 32 0 @ l"
    using ser [of "replicate 32 0", unfolded h] with_zero_extranonce [OF tx(1) assms(5)] by simp
  with leg tx lens obtain t where "decode_coinbase_parts btc (v @ (body @ replicate 32 0 @ post) @ l) = Ok t"
      "compute_txid btc t = compute_wtxid btc t"
    unfolding legacy_decoding_def by blast
  then show ?thesis by (simp add: try_strip_bip141_def s MAX_EXTRANONCE_LEN_def)
qed

lemma halves_serialize:
  assumes "segwit_encoding btc" and "tx_input tx = [i]" and "witness i = [replicate 32 0]"
    and "script_sig i = b @ replicate 32 0" and "length b + 32 < 253" and e: "length e = 32"
  shows "serialize btc (with_extranonce e tx) =
      take (44 + length b) (serialize btc tx) @ e @ drop (44 + length b + 32) (serialize btc tx)"
  by (rule halves_shape [OF assms(1-5)]) (use e in blast)

lemma new_extended_job_Ok:
  assumes "new_extended_job btc channel_id tip ep template rewards f = (Ok j, f')"
  obtains prefix suffix ps ss T where
    "outputs_sum rewards = nt_coinbase_tx_value_remaining template"
    "f' = f\<lparr>job_id_state := job_id_state f + 1\<rparr>"
    "coinbase_tx_prefix btc f' template rewards = Ok prefix"
    "coinbase_tx_suffix btc f' template rewards = Ok suffix"
    "strip_for_job btc prefix suffix = Ok (ps, ss)"
    "deserialize_template_outputs btc (inner_as_ref (nt_coinbase_tx_outputs template))
       (nt_coinbase_tx_outputs_count template) = Ok T"
    "nt_future_template template \<or> tip \<noteq> None"
    "j = \<lparr>ej_origin = FromNewTemplate template, ej_extranonce_prefix = ep,
          ej_coinbase_outputs = rewards @ T, ej_coinbase_tx_prefix_with_bip141 = prefix,
          ej_coinbase_tx_suffix_with_bip141 = suffix,
          ej_job_message = \<lparr>nemj_channel_id = channel_id, nemj_job_id = job_id_state f',
            nemj_min_ntime = (if nt_future_template template then [] else [ct_min_ntime (the tip)]),
            nemj_version = nt_version template,
            nemj_version_rolling_allowed = jf_version_rolling_allowed f,
            nemj_merkle_path = nt_merkle_path template,
            nemj_coinbase_tx_prefix = Owned ps, nemj_coinbase_tx_suffix = Owned ss\<rparr>\<rparr>"
proof -
  have sum: "outputs_sum rewards = nt_coinbase_tx_value_remaining template"
    using assms by (auto simp: new_extended_job_def split: if_splits)
  have f': "f' = f\<lparr>job_id_state := job_id_state f + 1\<rparr>"
    using assms sum by (simp add: new_extended_job_def job_id_next_def)
  have nt: "job_min_ntime template tip = Ok m \<Longrightarrow>
      (nt_future_template template \<or> tip \<noteq> None) \<and>
      m = (if nt_future_template template then [] else [ct_min_ntime (the tip)])" for m
    by (auto simp: job_min_ntime_def sv2_option_new_def split: if_splits option.splits)
  have tv: "inner_try_from_vec B064K x = Ok y \<Longrightarrow> y = Owned x" for x y
    by (auto simp: inner_try_from_vec_def split: if_splits)
  show ?thesis
    using assms sum f' nt tv
    by (auto simp: new_extended_job_def job_id_next_def result_simps extended_job_from_template_def
        intro!: that)
qed

section \<open>A concrete encoding\<close>

text \<open>An instance of the crate's functions, for evaluating the model on concrete inputs: transactions
  are laid out as the consensus rules say, with constant ids, the marker of a witness decodes as an
  empty list of inputs, the hash of a header is its nonce, and only the zero hash meets the network
  target.\<close>

definition demo_bitcoin :: bitcoin where
  "demo_bitcoin =
     \<lparr>outpoint_null = \<lparr>txid = replicate 32 0, vout = - 1\<rparr>,
      serialize = (\<lambda>tx. replicate 4 0 @ [0, 1] @ replicate 37 0 @
        [of_nat (length (script_sig (hd (tx_input tx))))] @ script_sig (hd (tx_input tx)) @
        [1, 32] @ replicate 32 0 @ replicate 4 0),
      serialize_outputs = (\<lambda>_. []),
      deserialize = (\<lambda>_. Some \<lparr>tx_version = 0, lock_time = 0, tx_input = [], tx_output = []\<rparr>),
      decode_version = (\<lambda>bs. Some (0, drop 4 bs)),
      decode_inputs = (\<lambda>bs. Some (if take 2 bs = [0, 1] then []
        else [\<lparr>previous_output = \<lparr>txid = replicate 32 0, vout = - 1\<rparr>, script_sig = [], sequence = 0,
                witness = []\<rparr>], bs)),
      decode_output = (\<lambda>bs. Some (\<lparr>out_value = 0, script_pubkey = []\<rparr>, bs)),
      decode_outputs = (\<lambda>bs. Some ([], bs)),
      decode_lock_time = (\<lambda>bs. Some (0, bs)),
      compute_txid = (\<lambda>_. replicate 32 0),
      compute_wtxid = (\<lambda>tx. replicate 32 (if tx_input tx = [] then 1 else 0)),
      sha256d = (\<lambda>_. replicate 32 7),
      block_hash = (\<lambda>h. to_le_bytes (hdr_nonce h) @ replicate 28 0),
      is_met_by = (\<lambda>_ h. h = replicate 32 0)\<rparr>"

lemma demo_segwit_encoding: "segwit_encoding demo_bitcoin"
  unfolding segwit_encoding_def
proof (intro allI impI)
  fix tx :: Transaction and i :: TxIn
  show "\<exists>v pre post l. length v = 4 \<and> length pre = 37 \<and> length l = 4 \<and>
          (\<forall>s. length s < 253 \<longrightarrow>
             serialize demo_bitcoin (tx\<lparr>tx_input := [i\<lparr>script_sig := s\<rparr>]\<rparr>) =
               v @ [0, 1] @ pre @ [of_nat (length s)] @ s @ post @ [1, 32] @ replicate 32 0 @ l \<and>
             (\<exists>t. deserialize demo_bitcoin (v @ pre @ [of_nat (length s)] @ s @ post @ l) = Some t \<and>
                compute_txid demo_bitcoin t =
                  compute_txid demo_bitcoin (tx\<lparr>tx_input := [i\<lparr>script_sig := s\<rparr>]\<rparr>)))"
    by (rule exI [of _ "replicate 4 0"], rule exI [of _ "replicate 37 0"], rule exI [of _ "[]"],
        rule exI [of _ "replicate 4 0"]) (simp add: demo_bitcoin_def)
qed

lemma demo_legacy_decoding: "legacy_decoding demo_bitcoin"
  unfolding legacy_decoding_def
proof (intro allI impI, elim conjE)
  fix tx :: Transaction and i :: TxIn and v body l :: bytes
  assume v: "length v = 4" and l: "length l = 4"
    and "serialize demo_bitcoin tx = v @ [0, 1] @ body @ [1, 32] @ replicate 32 0 @ l"
  then have r: "body @ [1, 32] @ replicate 32 0 @ l = replicate 37 0 @ of_nat (length (script_sig (hd (tx_input tx)))) #
      script_sig (hd (tx_input tx)) @ [1, 32] @ replicate 32 0 @ replicate 4 0"
    using append_eq_append_conv [of v "replicate 4 0"] by (simp add: demo_bitcoin_def) metis
  have "2 \<le> length body" using l arg_cong [OF r, of length] by simp
  then have "take 2 (body @ l) = take 2 (body @ [1, 32] @ replicate 32 0 @ l)" by simp
  also have "\<dots> = [0, 0]" unfolding r by (simp add: numeral_eq_Suc)
  finally show "\<exists>t. decode_coinbase_parts demo_bitcoin (v @ body @ l) = Ok t \<and>
      compute_txid demo_bitcoin t = compute_wtxid demo_bitcoin t"
    using v by (simp add: decode_coinbase_parts_def demo_bitcoin_def)
qed

definition demo_template :: NewTemplate where
  "demo_template =
     \<lparr>nt_template_id = 1, nt_future_template = True, nt_version = 2, nt_coinbase_tx_version = 2,
      nt_coinbase_prefix = Owned [3, 1, 2, 3], nt_coinbase_tx_input_sequence = 0,
      nt_coinbase_tx_value_remaining = 5, nt_coinbase_tx_outputs_count = 1,
      nt_coinbase_tx_outputs = Owned [], nt_coinbase_tx_locktime = 0, nt_merkle_path = []\<rparr>"

definition demo_factory :: JobFactory where
  "demo_factory = job_factory_new True (Some [0x41]) None"

definition demo_rewards :: "TxOut list" where
  "demo_rewards = [\<lparr>out_value = 5, script_pubkey = [0x51]\<rparr>]"

lemmas demo_defs = demo_bitcoin_def demo_template_def demo_factory_def demo_rewards_def job_factory_new_def

lemma coinbase_halves_Ok:
  assumes "coinbase_tx_prefix btc f template rewards = Ok p"
    and "coinbase_tx_suffix btc f template rewards = Ok s"
  obtains tx where "coinbase btc f template rewards = Ok tx"
    "p = take (coinbase_split_index f template) (serialize btc tx)"
    "s = drop (coinbase_split_index f template + 32) (serialize btc tx)"
  using assms
  by (auto simp: coinbase_tx_prefix_def coinbase_tx_suffix_def result_simps Let_def
      MAX_EXTRANONCE_LEN_def split: if_splits)

lemma custom_coinbase_halves_Ok:
  assumes "custom_coinbase_tx_prefix btc m = Ok p" and "custom_coinbase_tx_suffix btc m = Ok s"
  obtains tx where "custom_coinbase btc m = Ok tx"
    "p = take (custom_split_index m) (serialize btc tx)"
    "s = drop (custom_split_index m + 32) (serialize btc tx)"
  using assms
  by (auto simp: custom_coinbase_tx_prefix_def custom_coinbase_tx_suffix_def result_simps Let_def
      MAX_EXTRANONCE_LEN_def split: if_splits)

text \<open>A transaction that the halves of a job and its merkle root stand for, given the extranonce.\<close>

definition commits :: "bitcoin \<Rightarrow> ExtendedJob \<Rightarrow> bytes \<Rightarrow> Transaction \<Rightarrow> bool" where
  "commits btc j e tx \<longleftrightarrow>
     serialize btc tx = ej_coinbase_tx_prefix_with_bip141 j @ e @ ej_coinbase_tx_suffix_with_bip141 j \<and>
     tx_output tx = ej_coinbase_outputs j \<and>
     merkle_root_from_path btc (inner_as_ref (nemj_coinbase_tx_prefix (ej_job_message j)))
       (inner_as_ref (nemj_coinbase_tx_suffix (ej_job_message j))) e
       (map inner_as_ref (nemj_merkle_path (ej_job_message j))) =
     Some (reduce_path btc (compute_txid btc tx)
       (map inner_as_ref (nemj_merkle_path (ej_job_message j))))"

definition coinbase_ok :: "bitcoin \<Rightarrow> ExtendedJob \<Rightarrow> bool" where
  "coinbase_ok btc j \<longleftrightarrow> (\<forall>e. length e = 32 \<longrightarrow> (\<exists>tx. commits btc j e tx))"

lemma coinbase_ok_activate [simp]: "coinbase_ok btc (extended_job_activate t j) = coinbase_ok btc j"
  by (simp add: coinbase_ok_def commits_def extended_job_activate_def)

lemma template_job_shape:
  assumes "new_extended_job btc channel_id tip ep template rewards f = (Ok j, f')"
    and "length (inner_as_ref (nt_coinbase_prefix template)) \<le> 157"
  obtains tx i b s ps ss where "tx_input tx = [i]" "witness i = [replicate 32 0]"
    "b = inner_as_ref (nt_coinbase_prefix template) @ s" "script_sig i = b @ replicate 32 0"
    "length b + 32 < 253" "tx_output tx = ej_coinbase_outputs j"
    "ej_coinbase_tx_prefix_with_bip141 j = take (44 + length b) (serialize btc tx)"
    "ej_coinbase_tx_suffix_with_bip141 j = drop (44 + length b + 32) (serialize btc tx)"
    "strip_for_job btc (take (44 + length b) (serialize btc tx)) (drop (44 + length b + 32) (serialize btc tx)) =
       Ok (ps, ss)"
    "nemj_coinbase_tx_prefix (ej_job_message j) = Owned ps"
    "nemj_coinbase_tx_suffix (ej_job_message j) = Owned ss"
proof -
  obtain prefix suffix ps ss T where J:
    "coinbase_tx_prefix btc f' template rewards = Ok prefix"
    "coinbase_tx_suffix btc f' template rewards = Ok suffix"
    "strip_for_job btc prefix suffix = Ok (ps, ss)"
    "deserialize_template_outputs btc (inner_as_ref (nt_coinbase_tx_outputs template))
       (nt_coinbase_tx_outputs_count template) = Ok T"
    and j: "ej_coinbase_tx_prefix_with_bip141 j = prefix" "ej_coinbase_tx_suffix_with_bip141 j = suffix"
      "ej_coinbase_outputs j = rewards @ T" "nemj_coinbase_tx_prefix (ej_job_message j) = Owned ps"
      "nemj_coinbase_tx_suffix (ej_job_message j) = Owned ss"
    by (rule new_extended_job_Ok [OF assms(1)]) simp
  obtain tx where cb: "coinbase btc f' template rewards = Ok tx"
    and ps: "prefix = take (coinbase_split_index f' template) (serialize btc tx)"
      "suffix = drop (coinbase_split_index f' template + 32) (serialize btc tx)"
    by (rule coinbase_halves_Ok [OF J(1,2)])
  obtain tag where outs: "tx_output tx = rewards @ T" and tag: "op_pushbytes_pool_miner_tag f' = Ok tag"
    and inp: "tx_input tx = [\<lparr>previous_output = outpoint_null btc,
       script_sig = (inner_as_ref (nt_coinbase_prefix template) @ tag @ [32]) @ replicate 32 0,
       sequence = nt_coinbase_tx_input_sequence template, witness = [replicate 32 0]\<rparr>]"
    by (rule coinbase_Ok [OF cb]) (use J(4) in \<open>simp add: MAX_EXTRANONCE_LEN_def\<close>)
  define b where "b = inner_as_ref (nt_coinbase_prefix template) @ tag @ [32]"
  have "length tag \<le> 62"
    using tag by (auto simp: op_pushbytes_pool_miner_tag_def Let_def split: if_splits)
  then have "length b + 32 < 253" using assms(2) by (simp add: b_def)
  moreover have idx: "coinbase_split_index f' template = 44 + length b"
    using op_pushbytes_length [OF tag] by (simp add: coinbase_split_index_def b_def)
  ultimately show ?thesis
    using J(3) j outs by (intro that [OF inp _ b_def]) (simp_all add: ps idx b_def)
qed

lemma template_job_commits:
  assumes "segwit_encoding btc"
    and "new_extended_job btc channel_id tip ep template rewards f = (Ok j, f')"
    and "length (inner_as_ref (nt_coinbase_prefix template)) \<le> 157"
    and "length e = 32"
  shows "\<exists>tx i s. commits btc j e tx \<and> tx_input tx = [i] \<and>
    script_sig i = inner_as_ref (nt_coinbase_prefix template) @ s @ e"
proof (rule template_job_shape [OF assms(2,3)])
  fix tx i b s ps ss
  assume tx: "tx_input tx = [i]" "witness i = [replicate 32 0]"
    and b: "b = inner_as_ref (nt_coinbase_prefix template) @ s" "script_sig i = b @ replicate 32 0"
      "length b + 32 < 253"
    and j: "tx_output tx = ej_coinbase_outputs j"
      "ej_coinbase_tx_prefix_with_bip141 j = take (44 + length b) (serialize btc tx)"
      "ej_coinbase_tx_suffix_with_bip141 j = drop (44 + length b + 32) (serialize btc tx)"
    and strip: "strip_for_job btc (take (44 + length b) (serialize btc tx))
      (drop (44 + length b + 32) (serialize btc tx)) = Ok (ps, ss)"
    and m: "nemj_coinbase_tx_prefix (ej_job_message j) = Owned ps"
      "nemj_coinbase_tx_suffix (ej_job_message j) = Owned ss"
  note c = halves_commit [OF assms(1) tx b(2,3) strip assms(4)]
  have "tx_output (with_extranonce e tx) = ej_coinbase_outputs j"
    using j(1) by (simp add: with_extranonce_def)
  then have "commits btc j e (with_extranonce e tx)" using c by (simp add: commits_def j m)
  moreover have "\<exists>i s. tx_input (with_extranonce e tx) = [i] \<and>
      script_sig i = inner_as_ref (nt_coinbase_prefix template) @ s @ e"
    using tx b by (auto simp: with_extranonce_script [OF tx(1) b(2)])
  ultimately show ?thesis by blast
qed

lemma template_job_stripped:
  assumes "segwit_encoding btc" and "legacy_decoding btc"
    and "new_extended_job btc channel_id tip ep template rewards f = (Ok j, f')"
    and "length (inner_as_ref (nt_coinbase_prefix template)) \<le> 157"
  shows "try_strip_bip141 btc (inner_as_ref (nemj_coinbase_tx_prefix (ej_job_message j)))
    (inner_as_ref (nemj_coinbase_tx_suffix (ej_job_message j))) = Ok None"
  by (rule template_job_shape [OF assms(3,4)]) (simp add: halves_stripped_once [OF assms(1,2)])

lemma new_extended_job_from_custom_job_Ok:
  assumes "new_extended_job_from_custom_job btc m ep f = (Ok j, f')"
  obtains prefix suffix ps ss outs path where
    "f' = f\<lparr>job_id_state := job_id_state f + 1\<rparr>"
    "decode_custom_outputs btc m = Ok outs"
    "custom_coinbase_tx_prefix btc m = Ok prefix"
    "custom_coinbase_tx_suffix btc m = Ok suffix"
    "strip_for_job btc prefix suffix = Ok (ps, ss)"
    "seq0255_into_static into_static (scmj_merkle_path m) = Ok path"
    "j = extended_job_from_custom_job m ep outs prefix suffix
       \<lparr>nemj_channel_id = scmj_channel_id m, nemj_job_id = job_id_state f',
        nemj_min_ntime = sv2_option_new (Some (scmj_min_ntime m)), nemj_version = scmj_version m,
        nemj_version_rolling_allowed = jf_version_rolling_allowed f, nemj_merkle_path = path,
        nemj_coinbase_tx_prefix = Owned ps, nemj_coinbase_tx_suffix = Owned ss\<rparr>"
proof -
  obtain outs where o: "decode_custom_outputs btc m = Ok outs"
    using assms by (auto simp: new_extended_job_from_custom_job_def split: result.splits)
  have tv: "inner_try_from_vec B064K x = Ok y \<Longrightarrow> y = Owned x" for x y
    by (auto simp: inner_try_from_vec_def split: if_splits)
  show ?thesis
    using assms o tv
    by (auto simp: new_extended_job_from_custom_job_def job_id_next_def result_simps intro!: that)
qed

lemma custom_job_commits:
  assumes "segwit_encoding btc"
    and "new_extended_job_from_custom_job btc m ep f = (Ok j, f')"
    and "length (inner_as_ref (scmj_coinbase_prefix m)) \<le> 220"
    and "length e = 32"
  shows "\<exists>tx i. commits btc j e tx \<and> tx_input tx = [i] \<and>
    script_sig i = inner_as_ref (scmj_coinbase_prefix m) @ e"
proof -
  obtain prefix suffix ps ss outs where J:
    "custom_coinbase_tx_prefix btc m = Ok prefix"
    "custom_coinbase_tx_suffix btc m = Ok suffix"
    "strip_for_job btc prefix suffix = Ok (ps, ss)"
    "decode_custom_outputs btc m = Ok outs"
    and j: "ej_coinbase_tx_prefix_with_bip141 j = prefix" "ej_coinbase_tx_suffix_with_bip141 j = suffix"
      "ej_coinbase_outputs j = outs" "nemj_coinbase_tx_prefix (ej_job_message j) = Owned ps"
      "nemj_coinbase_tx_suffix (ej_job_message j) = Owned ss"
    by (rule new_extended_job_from_custom_job_Ok [OF assms(2)]) (simp add: extended_job_from_custom_job_def)
  obtain tx where cb: "custom_coinbase btc m = Ok tx"
    and ps: "prefix = take (custom_split_index m) (serialize btc tx)"
      "suffix = drop (custom_split_index m + 32) (serialize btc tx)"
    by (rule custom_coinbase_halves_Ok [OF J(1,2)])
  let ?b = "inner_as_ref (scmj_coinbase_prefix m)"
  have outs: "tx_output tx = outs" and inp: "tx_input tx = [\<lparr>previous_output = outpoint_null btc,
       script_sig = ?b @ replicate 32 0,
       sequence = scmj_coinbase_tx_input_n_sequence m, witness = [replicate 32 0]\<rparr>]"
    using cb J(4) by (auto simp: custom_coinbase_def MAX_EXTRANONCE_LEN_def)
  have idx: "custom_split_index m = 44 + length ?b" by (simp add: custom_split_index_def)
  note c = halves_commit [OF assms(1) inp _ _ _ J(3) [unfolded ps idx] assms(4)]
  have "commits btc j e (with_extranonce e tx)"
    using c outs assms(3) by (simp add: commits_def j ps idx with_extranonce_def [of _ tx])
  moreover have "\<exists>i. tx_input (with_extranonce e tx) = [i] \<and> script_sig i = ?b @ e"
    using inp by (auto simp: with_extranonce_def MAX_EXTRANONCE_LEN_def)
  ultimately show ?thesis by blast
qed

text \<open>C5: for every 32-byte extranonce, the two halves of an extended job spell the coinbase
  transaction that the job's merkle root commits to: the halves kept with witness data are the
  serialization of one transaction whose script starts with the template's coinbase prefix and ends
  with the extranonce, whose outputs are the job's outputs, and whose id is the leaf of the root
  computed from the stripped halves sent to the miner; the reward outputs pay exactly the
  template's remaining value.\<close>

theorem coinbase_commitment:
  assumes "segwit_encoding btc"
    and "new_extended_job btc channel_id tip ep template rewards f = (Ok j, f')"
    and "length (inner_as_ref (nt_coinbase_prefix template)) \<le> 157"
    and "length e = 32"
  shows "sum_list (map (unat \<circ> out_value) rewards) = unat (nt_coinbase_tx_value_remaining template) \<and>
    (\<exists>tx i s. serialize btc tx =
         ej_coinbase_tx_prefix_with_bip141 j @ e @ ej_coinbase_tx_suffix_with_bip141 j \<and>
       tx_input tx = [i] \<and> script_sig i = inner_as_ref (nt_coinbase_prefix template) @ s @ e \<and>
       tx_output tx = ej_coinbase_outputs j \<and>
       merkle_root_from_path btc (inner_as_ref (nemj_coinbase_tx_prefix (ej_job_message j)))
         (inner_as_ref (nemj_coinbase_tx_suffix (ej_job_message j))) e
         (map inner_as_ref (nemj_merkle_path (ej_job_message j))) =
       Some (reduce_path btc (compute_txid btc tx) (map inner_as_ref (nt_merkle_path template))))"
proof -
  obtain prefix suffix where sum: "outputs_sum rewards = nt_coinbase_tx_value_remaining template"
    and p: "coinbase_tx_prefix btc f' template rewards = Ok prefix"
      "coinbase_tx_suffix btc f' template rewards = Ok suffix"
    and path: "nemj_merkle_path (ej_job_message j) = nt_merkle_path template"
    by (rule new_extended_job_Ok [OF assms(2)]) simp
  obtain tx where "coinbase btc f' template rewards = Ok tx" by (rule coinbase_halves_Ok [OF p])
  from coinbase_outputs_value [OF this sum] template_job_commits [OF assms] show ?thesis
    by (auto simp: commits_def path)
qed

text \<open>The demonstration job, whatever the channel, chain tip and extranonce prefix are.\<close>

definition demo_job :: "u32 \<Rightarrow> u32 \<Rightarrow> bytes \<Rightarrow> ExtendedJob" where
  "demo_job channel_id job_id ep =
     \<lparr>ej_origin = FromNewTemplate demo_template, ej_extranonce_prefix = ep,
      ej_coinbase_outputs = demo_rewards @ [\<lparr>out_value = 0, script_pubkey = []\<rparr>],
      ej_coinbase_tx_prefix_with_bip141 = replicate 4 0 @ [0, 1] @ replicate 37 0 @
        [42, 3, 1, 2, 3, 4, 0x2F, 0x41, 0x2F, 0x2F, 32],
      ej_coinbase_tx_suffix_with_bip141 = [1, 32] @ replicate 32 0 @ replicate 4 0,
      ej_job_message = \<lparr>nemj_channel_id = channel_id, nemj_job_id = job_id, nemj_min_ntime = [],
        nemj_version = 2, nemj_version_rolling_allowed = True, nemj_merkle_path = [],
        nemj_coinbase_tx_prefix = Owned (replicate 4 0 @ replicate 37 0 @
          [42, 3, 1, 2, 3, 4, 0x2F, 0x41, 0x2F, 0x2F, 32]),
        nemj_coinbase_tx_suffix = Owned (replicate 4 0)\<rparr>\<rparr>"

lemma demo_coinbase:
  "coinbase demo_bitcoin (demo_factory\<lparr>job_id_state := n\<rparr>) demo_template demo_rewards =
     Ok \<lparr>tx_version = 2, lock_time = 0,
         tx_input = [\<lparr>previous_output = outpoint_null demo_bitcoin,
           script_sig = [3, 1, 2, 3, 4, 0x2F, 0x41, 0x2F, 0x2F, 32] @ replicate 32 0, sequence = 0,
           witness = [replicate 32 0]\<rparr>],
         tx_output = demo_rewards @ [\<lparr>out_value = 0, script_pubkey = []\<rparr>]\<rparr>"
  by (simp add: coinbase_def demo_defs deserialize_template_outputs_def op_pushbytes_pool_miner_tag_def
      tag_bytes_def MAX_EXTRANONCE_LEN_def)

lemma demo_coinbase_halves:
  "coinbase_tx_prefix demo_bitcoin (demo_factory\<lparr>job_id_state := n\<rparr>) demo_template demo_rewards =
     Ok (ej_coinbase_tx_prefix_with_bip141 (demo_job c i ep))"
  "coinbase_tx_suffix demo_bitcoin (demo_factory\<lparr>job_id_state := n\<rparr>) demo_template demo_rewards =
     Ok (ej_coinbase_tx_suffix_with_bip141 (demo_job c i ep))"
  unfolding coinbase_tx_prefix_def coinbase_tx_suffix_def demo_coinbase
  by (simp_all add: demo_job_def demo_defs coinbase_split_index_def tag_bytes_def MAX_EXTRANONCE_LEN_def)

lemma demo_new_extended_job:
  "new_extended_job demo_bitcoin c tip ep demo_template demo_rewards (demo_factory\<lparr>job_id_state := n\<rparr>) =
     (Ok (demo_job c (n + 1) ep), demo_factory\<lparr>job_id_state := n + 1\<rparr>)"
proof -
  have "strip_for_job demo_bitcoin (ej_coinbase_tx_prefix_with_bip141 (demo_job c (n + 1) ep))
      (ej_coinbase_tx_suffix_with_bip141 (demo_job c (n + 1) ep)) =
    Ok (inner_as_ref (nemj_coinbase_tx_prefix (ej_job_message (demo_job c (n + 1) ep))),
        inner_as_ref (nemj_coinbase_tx_suffix (ej_job_message (demo_job c (n + 1) ep))))"
    by (simp add: strip_for_job_def try_strip_bip141_def decode_coinbase_parts_def demo_job_def
        demo_bitcoin_def MARKER_FLAG_OFFSET_def MARKER_FLAG_LEN_def LOCKTIME_LEN_def
        WITNESS_COUNT_LEN_def WITNESS_LEN_LEN_def WITNESS_DATA_LEN_def replicate_eq_replicate)
  moreover have "outputs_sum demo_rewards = nt_coinbase_tx_value_remaining demo_template"
    by (simp add: outputs_sum_def demo_defs)
  ultimately show ?thesis
    by (simp add: new_extended_job_def demo_coinbase_halves [of _ c "n + 1" ep] job_id_next_def)
      (simp add: demo_job_def job_min_ntime_def sv2_option_new_def inner_try_from_vec_def
        extended_job_from_template_def deserialize_template_outputs_def demo_defs B064K_def)
qed

lemma demo_factory_zero: "demo_factory = demo_factory\<lparr>job_id_state := 0\<rparr>"
  by (simp add: demo_factory_def job_factory_new_def)

theorem coinbase_commitment_witness:
  "\<exists>tx i s. serialize demo_bitcoin tx =
       ej_coinbase_tx_prefix_with_bip141 (demo_job 7 1 []) @ replicate 32 5 @
         ej_coinbase_tx_suffix_with_bip141 (demo_job 7 1 []) \<and>
     tx_input tx = [i] \<and> script_sig i = [3, 1, 2, 3] @ s @ replicate 32 5 \<and>
     tx_output tx = ej_coinbase_outputs (demo_job 7 1 [])"
  using coinbase_commitment [OF demo_segwit_encoding
      demo_new_extended_job [of 7 None "[]" 0, simplified], of "replicate 32 5"]
  by (auto simp: demo_template_def)

lemma group_job_outputs:
  assumes "new_extended_job btc group_id tip ep template rewards f = (Ok j, f')"
    and "into_standard_job btc j channel_id extranonce_prefix = Ok sj"
  shows "\<exists>template_outputs. length template_outputs = unat (nt_coinbase_tx_outputs_count template) \<and>
    ej_coinbase_outputs j = rewards @ template_outputs \<and>
    sj_coinbase_outputs sj = rewards @ template_outputs @ template_outputs"
  using assms(2)
  by (rule_tac new_extended_job_Ok [OF assms(1)])
    (auto simp: into_standard_job_def standard_job_from_template_def result_simps
      deserialize_template_outputs_def dest: decode_outputs_n_length)

lemma demo_into_standard_job:
  "\<exists>sj. into_standard_job demo_bitcoin (demo_job c n []) 8 (replicate 32 5) = Ok sj"
  by (simp add: into_standard_job_def demo_job_def demo_defs merkle_root_from_path_def
      merkle_root_from_path_id_def inner_try_from_vec_def standard_job_from_template_def
      deserialize_template_outputs_def U256_def)

lemma new_standard_job_Ok:
  assumes "new_standard_job btc channel_id tip ep template rewards f = (Ok j, f')"
  obtains prefix suffix root T where
    "f' = f\<lparr>job_id_state := job_id_state f + 1\<rparr>"
    "coinbase_tx_prefix btc f' template rewards = Ok prefix"
    "coinbase_tx_suffix btc f' template rewards = Ok suffix"
    "merkle_root_from_path btc prefix suffix ep (map inner_as_ref (nt_merkle_path template)) = Some root"
    "deserialize_template_outputs btc (inner_as_ref (nt_coinbase_tx_outputs template))
       (nt_coinbase_tx_outputs_count template) = Ok T"
    "sj_template j = template" "sj_extranonce_prefix j = ep" "sj_coinbase_outputs j = rewards @ T"
    "nmj_merkle_root (sj_job_message j) = Owned root"
proof -
  have tv: "inner_try_from_vec U256 x = Ok y \<Longrightarrow> y = Owned x" for x y
    by (auto simp: inner_try_from_vec_def split: if_splits)
  show ?thesis
    using assms that tv
    by (auto simp: new_standard_job_def job_id_next_def result_simps standard_job_from_template_def
        split: if_splits)
qed

text \<open>Encoding a transaction and decoding it again keeps its id.\<close>

definition txid_stable :: "bitcoin \<Rightarrow> bool" where
  "txid_stable btc \<longleftrightarrow> (\<forall>tx. \<exists>t. deserialize btc (serialize btc tx) = Some t \<and>
     compute_txid btc t = compute_txid btc tx)"

lemma demo_txid_stable: "txid_stable demo_bitcoin"
  by (simp add: txid_stable_def demo_bitcoin_def)

end
