(* ===== verification/Job_Lifecycle.thy ===== *)
theory Job_Lifecycle
  imports Jobs
begin

text \<open>
  An abstract specification of the job store (channels-sv2/src/server/jobs/job\_store.rs) and the proof
  that the store implements it.  The specification knows no collections of jobs: it maps every job id
  to the stage of its life and every announced template to the id of its job.
\<close>

section \<open>The specification\<close>

record life =
  stage :: "u32 \<Rightarrow> job_status"
  promised :: "u64 \<rightharpoonup> u32"

datatype 'j job_op =
    AddFuture u64 'j
  | AddActive 'j
  | MarkStale
  | Activate u64 u32

definition life_new :: life where
  "life_new = \<lparr>stage = (\<lambda>_. Unknown), promised = Map.empty\<rparr>"

text \<open>A chain tip retires everything that was mined on and forgets what was stale or still in the future.\<close>

fun life_step :: "('j \<Rightarrow> u32) \<Rightarrow> 'j job_op \<Rightarrow> life \<Rightarrow> life" where
  "life_step get_job_id (AddFuture t j) a =
     \<lparr>stage = (stage a)(get_job_id j := Future), promised = (promised a)(t \<mapsto> get_job_id j)\<rparr>"
| "life_step get_job_id (AddActive j) a =
     a\<lparr>stage := (\<lambda>k. if k = get_job_id j then Active else if stage a k = Active then Past else stage a k)\<rparr>"
| "life_step get_job_id MarkStale a =
     a\<lparr>stage := (\<lambda>k. if stage a k = Past then StaleJob else if stage a k = StaleJob then Unknown else stage a k)\<rparr>"
| "life_step get_job_id (Activate t ts) a =
     (case promised a t of
        None \<Rightarrow> a
      | Some i \<Rightarrow>
          \<lparr>stage = (\<lambda>k. if k = i then Active
             else if stage a k = Active \<or> stage a k = Past then StaleJob else Unknown),
           promised = Map.empty\<rparr>)"

text \<open>New jobs come with an id that is in no stage yet.\<close>

fun life_ok :: "('j \<Rightarrow> u32) \<Rightarrow> 'j job_op list \<Rightarrow> life \<Rightarrow> bool" where
  "life_ok get_job_id [] a \<longleftrightarrow> True"
| "life_ok get_job_id (op # ops) a \<longleftrightarrow>
     (case op of AddFuture t j \<Rightarrow> stage a (get_job_id j) = Unknown
               | AddActive j \<Rightarrow> stage a (get_job_id j) = Unknown | _ \<Rightarrow> True) \<and>
     life_ok get_job_id ops (life_step get_job_id op a)"

section \<open>The store implements it\<close>

fun store_apply ::
  "('j \<Rightarrow> u32) \<Rightarrow> (u32 \<Rightarrow> 'j \<Rightarrow> 'j) \<Rightarrow> 'j job_op \<Rightarrow> 'j DefaultJobStore \<Rightarrow> 'j DefaultJobStore" where
  "store_apply get_job_id activate (AddFuture t j) st = snd (add_future_job get_job_id t j st)"
| "store_apply get_job_id activate (AddActive j) st = add_active_job get_job_id j st"
| "store_apply get_job_id activate MarkStale st = mark_past_jobs_as_stale st"
| "store_apply get_job_id activate (Activate t ts) st =
     snd (activate_future_job get_job_id activate t ts st)"

definition life_of :: "('j \<Rightarrow> u32) \<Rightarrow> 'j DefaultJobStore \<Rightarrow> life" where
  "life_of get_job_id st =
     \<lparr>stage = status get_job_id st, promised = Mapping.lookup (future_template_to_job_id st)\<rparr>"

lemma status_Unknown_iff: "status g st i = Unknown \<longleftrightarrow> i \<notin> known_ids g st"
  by (auto simp: status_def known_ids_def)

context job_trait
begin

lemma status_cases:
  assumes "store_ok get_job_id st"
  shows "status get_job_id st i = StaleJob \<longleftrightarrow> i \<in> Mapping.keys (stale_jobs st)"
    and "status get_job_id st i = Active \<longleftrightarrow> map_option get_job_id (active_job st) = Some i"
    and "status get_job_id st i = Past \<longleftrightarrow> i \<in> Mapping.keys (past_jobs st)"
    and "status get_job_id st i = Future \<longleftrightarrow> i \<in> Mapping.keys (future_jobs st)"
  using assms by (auto simp: status_def store_ok_def)

lemma life_of_add_future:
  assumes "store_ok get_job_id st" and "get_job_id j \<notin> known_ids get_job_id st"
  shows "life_of get_job_id (snd (add_future_job get_job_id t j st)) =
    life_step get_job_id (AddFuture t j) (life_of get_job_id st)"
  using assms by (auto simp: life_of_def job_store_defs status_def known_ids_def fun_eq_iff lookup_update')

lemma life_of_add_active:
  assumes "store_ok get_job_id st" and "get_job_id j \<notin> known_ids get_job_id st"
  shows "life_of get_job_id (add_active_job get_job_id j st) =
    life_step get_job_id (AddActive j) (life_of get_job_id st)"
  using assms
  by (auto simp: life_of_def job_store_defs status_def known_ids_def store_ok_def fun_eq_iff
    split: option.splits)

lemma life_of_mark_stale:
  assumes "store_ok get_job_id st"
  shows "life_of get_job_id (mark_past_jobs_as_stale st) = life_step get_job_id MarkStale (life_of get_job_id st)"
  using assms by (auto simp: life_of_def job_store_defs status_def store_ok_def fun_eq_iff)

lemma life_of_activate:
  assumes "store_ok get_job_id st"
  shows "life_of get_job_id (snd (activate_future_job get_job_id activate_job t ts st)) =
    life_step get_job_id (Activate t ts) (life_of get_job_id st)"
proof (cases "Mapping.lookup (future_template_to_job_id st) t")
  case None
  then show ?thesis by (simp add: activate_unknown_template life_of_def)
next
  case (Some i)
  obtain j where j: "Mapping.lookup (future_jobs st) i = Some j" "get_job_id j = i"
    using activate_found [OF assms Some] .
  then have "i \<in> Mapping.keys (future_jobs st)" by (auto simp: in_keys_iff)
  then have "i \<notin> Mapping.keys (past_jobs st)" "i \<notin> Mapping.keys (stale_jobs st)"
    "map_option get_job_id (active_job st) \<noteq> Some i"
    using assms by (auto simp: store_ok_def)
  then show ?thesis
    using assms Some j(2)
    by (auto simp: life_of_def activate_known_template [OF assms Some j(1)] status_def store_ok_def
      fun_eq_iff retire_active_job_def activate_keeps_id split: option.splits)
qed

lemma store_apply_refines:
  assumes "store_ok get_job_id st" and "life_ok get_job_id [op] (life_of get_job_id st)"
  shows "life_of get_job_id (store_apply get_job_id activate_job op st) = life_step get_job_id op (life_of get_job_id st)"
    and "store_ok get_job_id (store_apply get_job_id activate_job op st)"
proof -
  have fresh: "op = AddFuture t j \<Longrightarrow> get_job_id j \<notin> known_ids get_job_id st"
      "op = AddActive j \<Longrightarrow> get_job_id j \<notin> known_ids get_job_id st" for t j
    using assms(2) by (auto simp: life_of_def status_Unknown_iff)
  show "life_of get_job_id (store_apply get_job_id activate_job op st) = life_step get_job_id op (life_of get_job_id st)"
    by (cases op) (simp_all only: store_apply.simps life_of_add_future [OF assms(1) fresh(1)]
      life_of_add_active [OF assms(1) fresh(2)] life_of_mark_stale [OF assms(1)] life_of_activate [OF assms(1)])
  show "store_ok get_job_id (store_apply get_job_id activate_job op st)"
    using assms(1) fresh
    by (cases op) (simp_all add: store_ok_add_future store_ok_add_active store_ok_mark_stale store_ok_activate)
qed

lemma store_run_refines:
  assumes "store_ok get_job_id st" and "life_ok get_job_id ops (life_of get_job_id st)"
  shows "life_of get_job_id (fold (store_apply get_job_id activate_job) ops st) =
    fold (life_step get_job_id) ops (life_of get_job_id st)"
  using assms
proof (induction ops arbitrary: st)
  case (Cons op ops)
  have "life_ok get_job_id [op] (life_of get_job_id st)" using Cons.prems(2) by simp
  note step = store_apply_refines [OF Cons.prems(1) this]
  show ?case using Cons.IH [OF step(2)] Cons.prems(2) step(1) by simp
qed simp

end

lemma life_of_new: "life_of g job_store_new = life_new"
  by (simp add: life_of_def life_new_def job_store_new_def status_def fun_eq_iff)

text \<open>C9: The job store of an extended channel refines the abstract life of its jobs: after any sequence of
  calls that introduce jobs under new ids, the stage of every id and the job announced for every
  template are those of the specification, and likewise for the job store of a standard channel.\<close>

theorem job_store_refines_life:
  "(life_ok extended_job_id ops life_new \<longrightarrow>
     life_of extended_job_id (fold (store_apply extended_job_id extended_job_activate) ops job_store_new) =
       fold (life_step extended_job_id) ops life_new) \<and>
   (life_ok standard_job_id ops' life_new \<longrightarrow>
     life_of standard_job_id (fold (store_apply standard_job_id standard_job_activate) ops' job_store_new) =
       fold (life_step standard_job_id) ops' life_new)"
  using ext_job.store_run_refines [OF store_ok_new, of ops]
    std_job.store_run_refines [OF store_ok_new, of ops']
  by (simp add: life_of_new)

theorem job_store_refines_life_witness:
  "stage (life_of extended_job_id (fold (store_apply extended_job_id extended_job_activate)
     [AddFuture 9 (demo_job 3 1 []), MarkStale, Activate 9 7] job_store_new)) (extended_job_id (demo_job 3 1 [])) = Active"
  using job_store_refines_life [of "[AddFuture 9 (demo_job 3 1 []), MarkStale, Activate 9 7]" "[]"]
  by (simp add: life_new_def)

end
