(* ===== verification/Share_Accounting.thy ===== *)
theory Share_Accounting
  imports Floats
begin

text \<open>Share bookkeeping of a server-side channel (\<open>channels-sv2/src/server/share_accounting.rs\<close>):
  the outcome types of share validation, the counters of accepted shares, the set of hashes seen
  under the current chain tip and the batching of acknowledgements. A share hash is its 32 bytes
  in internal order.\<close>

section \<open>Outcomes of share validation\<close>

record AcceptedShare =
  hash :: bytes

definition header_hash_bytes :: "AcceptedShare \<Rightarrow> bytes" where
  "header_hash_bytes s = rev (hash s)"

datatype ShareValidationResult =
    Valid AcceptedShare
  | ValidWithAcknowledgement AcceptedShare u32 u32 u64
  | BlockFound AcceptedShare "u64 option" bytes

datatype ShareValidationError =
    Invalid
  | Stale
  | InvalidJobId
  | DoesNotMeetTarget
  | VersionRollingNotAllowed
  | DuplicateShare
  | InvalidCoinbase
  | NoChainTip

section \<open>Accounting state\<close>

record ShareAccounting =
  last_share_sequence_number :: u32
  shares_accepted :: u32
  share_work_sum :: u64
  share_batch_size :: nat
  seen_shares :: "bytes set"
  best_diff :: f64

definition share_accounting_new :: "nat \<Rightarrow> ShareAccounting" where
  "share_accounting_new batch =
     \<lparr>last_share_sequence_number = 0, shares_accepted = 0, share_work_sum = 0,
      share_batch_size = batch, seen_shares = {}, best_diff = f64_zero\<rparr>"

definition update_share_accounting ::
    "u64 \<Rightarrow> u32 \<Rightarrow> bytes \<Rightarrow> ShareAccounting \<Rightarrow> ShareAccounting" where
  "update_share_accounting work seq h a =
     a\<lparr>last_share_sequence_number := seq,
       shares_accepted := shares_accepted a + 1,
       share_work_sum := share_work_sum a + work,
       seen_shares := insert h (seen_shares a)\<rparr>"

definition flush_seen_shares :: "ShareAccounting \<Rightarrow> ShareAccounting" where
  "flush_seen_shares a = a\<lparr>seen_shares := {}\<rparr>"

definition should_acknowledge :: "ShareAccounting \<Rightarrow> (bool, ShareValidationError) result" where
  "should_acknowledge a =
     (let batch = of_nat (share_batch_size a) :: u32 in
      if batch = 0 then Panic else Ok (shares_accepted a mod batch = 0))"

definition is_share_seen :: "bytes \<Rightarrow> ShareAccounting \<Rightarrow> bool" where
  "is_share_seen h a = (h \<in> seen_shares a)"

definition update_best_diff :: "f64 \<Rightarrow> ShareAccounting \<Rightarrow> ShareAccounting" where
  "update_best_diff d a = (if f64_less (best_diff a) d then a\<lparr>best_diff := d\<rparr> else a)"

section \<open>A run of accepted shares\<close>

text \<open>The accounting after a sequence of accepted shares, each given by its work, its sequence
  number and its hash, and the number of acknowledgements that were due on the way.\<close>

fun account_all :: "(u64 \<times> u32 \<times> bytes) list \<Rightarrow> ShareAccounting \<Rightarrow> ShareAccounting" where
  "account_all [] a = a"
| "account_all ((w, s, h) # xs) a = account_all xs (update_share_accounting w s h a)"

fun acknowledgements :: "(u64 \<times> u32 \<times> bytes) list \<Rightarrow> ShareAccounting \<Rightarrow> nat" where
  "acknowledgements [] a = 0"
| "acknowledgements ((w, s, h) # xs) a =
     (let b = update_share_accounting w s h a in
      (if should_acknowledge b = Ok True then 1 else 0) + acknowledgements xs b)"

lemma update_share_accounting_simps [simp]:
  "last_share_sequence_number (update_share_accounting w s h a) = s"
  "shares_accepted (update_share_accounting w s h a) = shares_accepted a + 1"
  "share_work_sum (update_share_accounting w s h a) = share_work_sum a + w"
  "share_batch_size (update_share_accounting w s h a) = share_batch_size a"
  "seen_shares (update_share_accounting w s h a) = insert h (seen_shares a)"
  by (simp_all add: update_share_accounting_def)

lemma update_best_diff_simps [simp]:
  "last_share_sequence_number (update_best_diff d a) = last_share_sequence_number a"
  "shares_accepted (update_best_diff d a) = shares_accepted a"
  "share_work_sum (update_best_diff d a) = share_work_sum a"
  "share_batch_size (update_best_diff d a) = share_batch_size a"
  "seen_shares (update_best_diff d a) = seen_shares a"
  by (simp_all add: update_best_diff_def)

lemma flush_seen_shares_simps [simp]:
  "seen_shares (flush_seen_shares a) = {}"
  "shares_accepted (flush_seen_shares a) = shares_accepted a"
  "share_batch_size (flush_seen_shares a) = share_batch_size a"
  by (simp_all add: flush_seen_shares_def)

lemma should_acknowledge_nat:
  assumes "0 < share_batch_size a" and "share_batch_size a < 2 ^ 32"
  shows "should_acknowledge a = Ok (share_batch_size a dvd unat (shares_accepted a))"
proof -
  have b: "unat (of_nat (share_batch_size a) :: u32) = share_batch_size a"
    using assms(2) by (simp add: unat_of_nat_small)
  then have "(of_nat (share_batch_size a) :: u32) \<noteq> 0"
    using assms(1) by (simp flip: unat_eq_zero)
  moreover have "shares_accepted a mod (of_nat (share_batch_size a) :: u32) = 0 \<longleftrightarrow>
      unat (shares_accepted a) mod share_batch_size a = 0"
    by (simp add: b unat_mod_distrib flip: unat_eq_zero)
  ultimately show ?thesis
    by (simp add: should_acknowledge_def Let_def mod_eq_0_iff_dvd)
qed

lemma account_all_counts:
  "shares_accepted (account_all xs a) = shares_accepted a + of_nat (length xs) \<and>
   share_work_sum (account_all xs a) = share_work_sum a + sum_list (map fst xs) \<and>
   seen_shares (account_all xs a) = seen_shares a \<union> (snd \<circ> snd) ` set xs \<and>
   last_share_sequence_number (account_all xs a) =
     (if xs = [] then last_share_sequence_number a else fst (snd (last xs)))"
  by (induction xs a rule: account_all.induct) auto

lemma div_Suc_step:
  "0 < b \<Longrightarrow> Suc n div b = n div b + (if b dvd Suc n then 1 else (0::nat))"
  by (simp add: div_Suc dvd_eq_mod_eq_0)

lemma acknowledgements_count:
  assumes "0 < share_batch_size a" and "share_batch_size a < 2 ^ 32"
    and "unat (shares_accepted a) + length xs < 2 ^ 32"
  shows "acknowledgements xs a =
    (unat (shares_accepted a) + length xs) div share_batch_size a -
    unat (shares_accepted a) div share_batch_size a"
  using assms
proof (induction xs a rule: acknowledgements.induct)
  case (2 w s h xs a)
  let ?b = "update_share_accounting w s h a"
  have n: "unat (shares_accepted ?b) = Suc (unat (shares_accepted a))"
    using "2.prems"(3) unat_plus_one [of "shares_accepted a"] by simp
  have "acknowledgements xs ?b =
      (unat (shares_accepted ?b) + length xs) div share_batch_size a -
      unat (shares_accepted ?b) div share_batch_size a"
    using "2.IH" [OF refl] "2.prems" n by simp
  moreover have "should_acknowledge ?b = Ok (share_batch_size a dvd Suc (unat (shares_accepted a)))"
    using should_acknowledge_nat [of ?b] "2.prems" n by simp
  moreover have "Suc (unat (shares_accepted a)) div share_batch_size a \<le>
      (Suc (unat (shares_accepted a)) + length xs) div share_batch_size a"
    by (intro div_le_mono) simp
  moreover note div_Suc_step [OF "2.prems"(1), of "unat (shares_accepted a)"]
  ultimately show ?case
    using n by (simp add: Let_def split: if_splits)
qed simp

section \<open>Properties\<close>

text \<open>C17: After any run of accepted shares on a fresh channel the counters are exact: the number of
  shares and the work sum modulo their widths, the last sequence number, the set of hashes; and
  an acknowledgement was due exactly once per full batch.\<close>

theorem accounting_exact:
  assumes "0 < batch" and "batch < 2 ^ 32" and "length xs < 2 ^ 32" and "xs \<noteq> []"
  shows "unat (shares_accepted (account_all xs (share_accounting_new batch))) = length xs \<and>
    share_work_sum (account_all xs (share_accounting_new batch)) = sum_list (map fst xs) \<and>
    last_share_sequence_number (account_all xs (share_accounting_new batch)) = fst (snd (last xs)) \<and>
    (\<forall>h. is_share_seen h (account_all xs (share_accounting_new batch)) \<longleftrightarrow> h \<in> (snd \<circ> snd) ` set xs) \<and>
    acknowledgements xs (share_accounting_new batch) = length xs div batch"
  using assms account_all_counts [of xs "share_accounting_new batch"]
    acknowledgements_count [of "share_accounting_new batch" xs]
  by (simp add: share_accounting_new_def is_share_seen_def unat_of_nat_small)

theorem accounting_exact_witness:
  "acknowledgements [(3, 0, [1]), (3, 1, [2]), (3, 2, [3])] (share_accounting_new 2) = 1"
  using accounting_exact [of 2 "[(3, 0, [1]), (3, 1, [2]), (3, 2, [3])]"] by simp

end
