(* ===== verification/Share_Validation.thy ===== *)
theory Share_Validation
  imports Jobs Share_Accounting
begin

text \<open>What the two kinds of server channels share when they judge a share
  (\<open>validate_share\<close> of \<open>channels-sv2/src/server/extended.rs\<close> and \<open>standard.rs\<close>, which repeat this code):
  choosing the job a share refers to, and comparing the hash with the channel's target, with the
  duplicate check, the accounting and the acknowledgement. The lemmas say which jobs can be chosen
  and which outcomes are possible; the predicates \<open>ids_up_to\<close> and \<open>tip_known\<close> are the parts of the
  channel invariants that speak of job ids and of the chain tip.\<close>

section \<open>Judging a share\<close>

definition select_job ::
    "('j \<Rightarrow> u32) \<Rightarrow> 'j DefaultJobStore \<Rightarrow> u32 \<Rightarrow> ('j, ShareValidationError) result" where
  "select_job get_job_id st job_id =
     (let is_active_job = (case active_job st of None \<Rightarrow> False | Some j \<Rightarrow> get_job_id j = job_id);
          is_past_job = (Mapping.lookup (past_jobs st) job_id \<noteq> None);
          is_stale_job = (Mapping.lookup (stale_jobs st) job_id \<noteq> None) in
      if is_stale_job then Err Stale
      else if \<not> is_active_job \<and> \<not> is_past_job \<and> \<not> is_stale_job then Err InvalidJobId
      else if is_active_job then expect (ok_or () (active_job st))
      else if is_past_job then expect (ok_or () (Mapping.lookup (past_jobs st) job_id))
      else expect (ok_or () (Mapping.lookup (stale_jobs st) job_id)))"

definition share_work :: "Target \<Rightarrow> u64" where
  "share_work target = f64_as_u64 (target_to_difficulty target)"

definition check_target ::
    "Target \<Rightarrow> u32 \<Rightarrow> bytes \<Rightarrow> Target \<Rightarrow> ShareAccounting \<Rightarrow>
     (ShareValidationResult, ShareValidationError) result \<times> ShareAccounting" where
  "check_target target sequence_number share_hash hash_as_target acc =
     (if hash_as_target \<le> target then
        if is_share_seen share_hash acc then (Err DuplicateShare, acc)
        else
          let acc = update_share_accounting (share_work target) sequence_number share_hash acc;
              acc = update_best_diff (target_to_difficulty hash_as_target) acc in
          (map_ok (\<lambda>acknowledge.
             if acknowledge
             then ValidWithAcknowledgement \<lparr>hash = share_hash\<rparr> (last_share_sequence_number acc)
               (shares_accepted acc) (share_work_sum acc)
             else Valid \<lparr>hash = share_hash\<rparr>) (should_acknowledge acc), acc)
      else (Err DoesNotMeetTarget, acc))"

text \<open>The hash of a share that was accepted without being a block.\<close>

definition accepted_hash :: "(ShareValidationResult, ShareValidationError) result \<Rightarrow> bytes list" where
  "accepted_hash r =
     (case r of
        Ok (Valid s) \<Rightarrow> [hash s]
      | Ok (ValidWithAcknowledgement s _ _ _) \<Rightarrow> [hash s]
      | _ \<Rightarrow> [])"

text \<open>The hashes of the bitcoin crate have 32 bytes.\<close>

definition hash_lengths :: "bitcoin \<Rightarrow> bool" where
  "hash_lengths btc \<longleftrightarrow> (\<forall>b. length (sha256d btc b) = 32) \<and> (\<forall>t. length (compute_txid btc t) = 32) \<and>
     (\<forall>h. length (block_hash btc h) = 32)"

lemma demo_hash_lengths: "hash_lengths demo_bitcoin"
  by (simp add: hash_lengths_def demo_bitcoin_def)

section \<open>Invariants of job ids and chain tip\<close>

text \<open>Job ids are drawn from a counter; as long as it has not wrapped, every id is at most its value.\<close>

definition ids_up_to :: "('j \<Rightarrow> u32) \<Rightarrow> u32 \<Rightarrow> 'j DefaultJobStore \<Rightarrow> bool" where
  "ids_up_to get_job_id n st \<longleftrightarrow> (\<forall>i \<in> known_ids get_job_id st. i \<le> n)"

text \<open>A channel with an active or a past job knows its chain tip, and the hash of the tip has 32
  bytes.\<close>

definition tip_known :: "'j DefaultJobStore \<Rightarrow> ChainTip option \<Rightarrow> bool" where
  "tip_known st tip \<longleftrightarrow>
     (active_job st = None \<and> past_jobs st = Mapping.empty \<or> tip \<noteq> None) \<and>
     (\<forall>t. tip = Some t \<longrightarrow> length (inner_as_ref (ct_prev_hash t)) = 32)"

lemma word_less_succ: "(n :: u32) \<noteq> - 1 \<Longrightarrow> n < n + 1"
  using inc_less_eq_triv_imp [of n] by (auto simp: not_le [symmetric])

lemma ids_up_to_fresh: "ids_up_to g n st \<Longrightarrow> n \<noteq> - 1 \<Longrightarrow> n + 1 \<notin> known_ids g st"
  using word_less_succ [of n] by (auto simp: ids_up_to_def)

lemma ids_up_to_succ: "ids_up_to g n st \<Longrightarrow> n \<noteq> - 1 \<Longrightarrow> ids_up_to g (n + 1) st"
  using word_less_succ [of n] by (auto simp: ids_up_to_def)

lemma ids_up_to_insert:
  "ids_up_to g n st \<Longrightarrow> n \<noteq> - 1 \<Longrightarrow> known_ids g st' \<subseteq> insert (n + 1) (known_ids g st) \<Longrightarrow> ids_up_to g (n + 1) st'"
  using ids_up_to_succ [of g n st] by (auto simp: ids_up_to_def)

section \<open>Choosing the job\<close>

lemma select_job_Ok:
  assumes "store_ok g st" and "select_job g st i = Ok j"
  shows "g j = i \<and> j \<in> store_jobs st \<and> (active_job st = Some j \<or> Mapping.lookup (past_jobs st) i = Some j) \<and>
    Mapping.lookup (stale_jobs st) i = None"
  using assms
  by (auto simp: select_job_def store_jobs_def store_ok_def keyed_def Let_def result_simps
      split: if_splits option.splits)

lemma select_job_no_panic: "select_job g st i \<noteq> Panic"
  by (auto simp: select_job_def Let_def result_simps split: if_splits option.splits)

lemma select_job_status:
  assumes "store_ok g st"
  shows "select_job g st i = Err Stale \<longleftrightarrow> status g st i = StaleJob"
    and "select_job g st i = Err InvalidJobId \<longleftrightarrow> status g st i \<in> {Future, Unknown}"
    and "is_ok (select_job g st i) \<longleftrightarrow> status g st i \<in> {Active, Past}"
  by (auto simp: select_job_def status_def Let_def in_keys_iff result_simps split: if_splits option.splits)

lemma select_job_errors: "select_job g st i = Err e \<Longrightarrow> e \<in> {Stale, InvalidJobId}"
  by (auto simp: select_job_def Let_def result_simps split: if_splits option.splits)

lemma select_job_active_or_past:
  assumes "store_ok g st" and "select_job g st i = Ok j"
  shows "map_option g (active_job st) = Some i \<or> i \<in> Mapping.keys (past_jobs st)"
  using select_job_Ok [OF assms] by (auto simp: in_keys_iff)

lemma select_job_stale: "i \<in> Mapping.keys (stale_jobs st) \<Longrightarrow> select_job g st i = Err Stale"
  by (auto simp: select_job_def in_keys_iff Let_def)

lemma select_job_tip:
  assumes "tip_known st tip" and "store_ok g st" and "select_job g st i = Ok j"
  obtains t where "tip = Some t" "length (inner_as_ref (ct_prev_hash t)) = 32"
  using select_job_Ok [OF assms(2,3)] assms(1) that by (auto simp: tip_known_def)

lemma select_active:
  assumes "active_job st = Some j" and "g j \<notin> Mapping.keys (stale_jobs st)"
  shows "select_job g st (g j) = Ok j"
  using assms by (simp add: select_job_def Let_def in_keys_iff)

lemma select_job_add_future: "select_job g (snd (add_future_job h t j st)) i = select_job g st i"
  by (simp add: select_job_def add_future_job_def Let_def)

section \<open>Comparing with the target\<close>

lemma check_target_cases:
  assumes "check_target target seq h t acc = (r, acc')"
  shows "seen_shares acc \<subseteq> seen_shares acc' \<and> share_batch_size acc' = share_batch_size acc \<and>
    (is_ok r \<longrightarrow> t \<le> target \<and> h \<notin> seen_shares acc \<and> h \<in> seen_shares acc' \<and>
       (r = Ok (Valid \<lparr>hash = h\<rparr>) \<or> (\<exists>a b c. r = Ok (ValidWithAcknowledgement \<lparr>hash = h\<rparr> a b c)))) \<and>
    (r = Err e \<longrightarrow> acc' = acc \<and> e \<in> {DoesNotMeetTarget, DuplicateShare})"
  using assms
  by (auto simp: check_target_def is_share_seen_def Let_def should_acknowledge_def split: if_splits)

lemma check_target_seen:
  "seen_shares acc \<subseteq> seen_shares (snd (check_target target seq h t acc))"
  using check_target_cases [of target seq h t acc] by (metis prod.collapse)

lemma check_target_accepted:
  "set (accepted_hash (fst (check_target target seq h t acc))) \<subseteq>
     seen_shares (snd (check_target target seq h t acc)) - seen_shares acc"
  by (auto simp: check_target_def accepted_hash_def is_share_seen_def Let_def should_acknowledge_def)

lemma check_target_errors:
  "(of_nat (share_batch_size acc) :: u32) \<noteq> 0 \<Longrightarrow> fst (check_target target seq h t acc) \<noteq> Panic"
  "fst (check_target target seq h t acc) = Err e \<Longrightarrow> e \<in> {DoesNotMeetTarget, DuplicateShare} \<and>
     snd (check_target target seq h t acc) = acc"
  by (auto simp: check_target_def Let_def should_acknowledge_def split: if_splits)

lemma check_target_fresh:
  assumes "t \<le> target" and "h \<notin> seen_shares acc" and "(of_nat (share_batch_size acc) :: u32) \<noteq> 0"
  shows "accepted_hash (fst (check_target target seq h t acc)) = [h]"
  using assms by (simp add: check_target_def is_share_seen_def Let_def should_acknowledge_def accepted_hash_def)

lemma check_target_not_block: "fst (check_target target seq h t acc) \<noteq> Ok (BlockFound a b c)"
  by (simp add: check_target_def Let_def should_acknowledge_def)

lemma target_from_bytes_value:
  assumes "target_from_bytes bs = Ok t" and len: "length bs = 32"
  shows "target_nat t = nat_of_le bs"
proof -
  have t: "t = Target (from_le_bytes (take 16 bs)) (from_le_bytes (drop 16 bs))"
    using assms by (auto simp: target_from_bytes_def split: if_splits)
  have "to_le_bytes (head t) @ to_le_bytes (tail t) = bs"
    using len by (simp add: t to_from_le_bytes)
  then show ?thesis using target_bytes_value [of t] len by simp
qed

lemma target_le_iff: "s \<le> t \<longleftrightarrow> target_nat s \<le> target_nat t" for s t :: Target
  using target_less_iff [of t s] by (auto simp: not_less [symmetric])

lemma target_nat_bound: "target_nat t < 2 ^ 256"
proof -
  have "unat (head t) < 2 ^ 128" "unat (tail t) < 2 ^ 128"
    using unsigned_less [of "head t", where ?'a = nat] unsigned_less [of "tail t", where ?'a = nat] by simp_all
  then show ?thesis by (simp add: target_nat_def)
qed

lemma target_nat_max: "target_nat (Target (- 1) (- 1)) = 2 ^ 256 - 1"
  by (simp add: target_nat_def unsigned_minus_1_eq_mask mask_eq_exp_minus_1)

lemma hash_rate_to_target_length:
  "hash_rate_to_target h s = Ok u \<Longrightarrow> length (inner_as_ref u) = 32"
  using hash_rate_to_target_value [of s h] by (auto simp: hash_rate_to_target_def split: if_splits)

lemma hash_rate_to_target_no_panic: "hash_rate_to_target h s \<noteq> Panic"
  using hash_rate_to_target_value [of s h] by (auto simp: hash_rate_to_target_def)

section \<open>What the factory draws\<close>

lemma new_extended_job_factory:
  assumes "new_extended_job btc c tip ep t r f = (out, f')"
  shows "f' = f \<or> f' = f\<lparr>job_id_state := job_id_state f + 1\<rparr>"
  using assms by (auto simp: new_extended_job_def job_id_next_def split: if_splits)

lemma new_extended_job_new_id:
  assumes "new_extended_job btc c tip ep t r f = (Ok j, f')"
  shows "f' = f\<lparr>job_id_state := job_id_state f + 1\<rparr> \<and> extended_job_id j = job_id_state f + 1 \<and>
    nemj_version_rolling_allowed (ej_job_message j) = jf_version_rolling_allowed f \<and> ej_extranonce_prefix j = ep"
  by (rule new_extended_job_Ok [OF assms]) (simp add: extended_job_id_def)

lemma custom_job_factory:
  assumes "new_extended_job_from_custom_job btc m ep f = (out, f')"
  shows "f' = f \<or> f' = f\<lparr>job_id_state := job_id_state f + 1\<rparr>"
  using assms by (auto simp: new_extended_job_from_custom_job_def job_id_next_def split: result.splits)

lemma custom_job_new_id:
  assumes "new_extended_job_from_custom_job btc m ep f = (Ok j, f')"
  shows "f' = f\<lparr>job_id_state := job_id_state f + 1\<rparr> \<and> extended_job_id j = job_id_state f + 1 \<and>
    nemj_version_rolling_allowed (ej_job_message j) = jf_version_rolling_allowed f \<and> ej_extranonce_prefix j = ep"
  by (rule new_extended_job_from_custom_job_Ok [OF assms])
    (simp add: extended_job_id_def extended_job_from_custom_job_def)

section \<open>A concrete chain tip\<close>

definition demo_prev_hash :: SetNewPrevHash where
  "demo_prev_hash =
     \<lparr>tnph_template_id = 1, tnph_prev_hash = Owned (replicate 32 9), tnph_header_timestamp = 5,
      tnph_n_bits = 0x1d00ffff, tnph_target = Owned (replicate 32 0)\<rparr>"

lemma demo_f32: "f64_from_f32 0x41200000 = Finite False 10" "f64_from_f32 0x42700000 = Finite False 60"
  by (simp_all add: f64_from_f32_def Let_def unsigned_take_bit_eq unsigned_drop_bit_eq take_bit_eq_mod
      drop_bit_eq_div bit_iff_odd power_int_def power_divide)

end
