(* ===== verification/Extended_Channel.thy ===== *)
theory Extended_Channel
  imports Share_Validation
begin

text \<open>Extended channels of a mining server (\<open>channels-sv2/src/server/extended.rs\<close>): the channel as a
  record, one definition per method, and the methods as the steps of a state machine
  (\<open>ext_reachable\<close>). \<open>ext_ok\<close> is the invariant: the job store is well formed, job ids come from the
  counter, a job that can be mined on has a chain tip, and every job commits to the coinbase its
  halves spell. The pool creates channels with version rolling enabled; the model keeps the flag.
  Byte strings stand for \<open>String\<close>, and the logging of \<open>update_channel\<close> and \<open>validate_share\<close> is left
  out.\<close>

section \<open>State and methods\<close>

datatype ExtendedChannelError =
    JobFactoryError JobFactoryError
  | InvalidNominalHashrate
  | RequestedMaxTargetOutOfRange
  | ChainTipNotSet
  | TemplateIdNotFound
  | JobIdNotFound
  | RequestedMinExtranonceSizeTooLarge
  | NewExtranoncePrefixTooLarge

record ExtendedChannel =
  ec_channel_id :: u32
  ec_user_identity :: bytes
  ec_extranonce_prefix :: bytes
  ec_rollable_extranonce_size :: u16
  ec_requested_max_target :: Target
  ec_target :: Target
  ec_nominal_hashrate :: u32
  ec_job_store :: "ExtendedJob DefaultJobStore"
  ec_job_factory :: JobFactory
  ec_share_accounting :: ShareAccounting
  ec_expected_share_per_minute :: u32
  ec_chain_tip :: "ChainTip option"

text \<open>The subtraction is done in \<open>usize\<close> or in \<open>u16\<close>; truncated to 16 bits both wrap to the same
  value.\<close>

definition rollable_size :: "bytes \<Rightarrow> u16" where
  "rollable_size extranonce_prefix = of_nat MAX_EXTRANONCE_LEN - of_nat (length extranonce_prefix)"

definition extended_channel_new ::
    "u32 \<Rightarrow> bytes \<Rightarrow> bytes \<Rightarrow> Target \<Rightarrow> u32 \<Rightarrow> bool \<Rightarrow> u16 \<Rightarrow> nat \<Rightarrow> u32 \<Rightarrow>
     ExtendedJob DefaultJobStore \<Rightarrow> bytes option \<Rightarrow> bytes option \<Rightarrow>
     (ExtendedChannel, ExtendedChannelError) result" where
  "extended_channel_new channel_id user_identity extranonce_prefix max_target nominal_hashrate
     version_rolling_allowed requested_min_rollable_extranonce_size batch
     expected_share_per_minute job_store pool_tag miner_tag =
     rbind (map_err (\<lambda>_. InvalidNominalHashrate)
       (hash_rate_to_target (f64_from_f32 nominal_hashrate) (f64_from_f32 expected_share_per_minute)))
       (\<lambda>target_u256.
     rbind (target_from_u256 target_u256) (\<lambda>target.
       if max_target < target then Err RequestedMaxTargetOutOfRange
       else if rollable_size extranonce_prefix < requested_min_rollable_extranonce_size
       then Err RequestedMinExtranonceSizeTooLarge
       else Ok \<lparr>ec_channel_id = channel_id, ec_user_identity = user_identity,
                ec_extranonce_prefix = extranonce_prefix,
                ec_rollable_extranonce_size = rollable_size extranonce_prefix,
                ec_requested_max_target = max_target, ec_target = target,
                ec_nominal_hashrate = nominal_hashrate, ec_job_store = job_store,
                ec_job_factory = job_factory_new version_rolling_allowed pool_tag miner_tag,
                ec_share_accounting = share_accounting_new batch,
                ec_expected_share_per_minute = expected_share_per_minute,
                ec_chain_tip = None\<rparr>))"

definition ext_new_for_pool ::
    "u32 \<Rightarrow> bytes \<Rightarrow> bytes \<Rightarrow> Target \<Rightarrow> u32 \<Rightarrow> bool \<Rightarrow> u16 \<Rightarrow> nat \<Rightarrow> u32 \<Rightarrow>
     ExtendedJob DefaultJobStore \<Rightarrow> bytes \<Rightarrow> (ExtendedChannel, ExtendedChannelError) result" where
  "ext_new_for_pool channel_id user_identity extranonce_prefix max_target nominal_hashrate
     version_rolling_allowed min_rollable_size batch shares_per_minute job_store pool_tag =
     extended_channel_new channel_id user_identity extranonce_prefix max_target nominal_hashrate
       version_rolling_allowed min_rollable_size batch shares_per_minute job_store (Some pool_tag) None"

definition ext_new_for_job_declaration_client ::
    "u32 \<Rightarrow> bytes \<Rightarrow> bytes \<Rightarrow> Target \<Rightarrow> u32 \<Rightarrow> bool \<Rightarrow> u16 \<Rightarrow> nat \<Rightarrow> u32 \<Rightarrow>
     ExtendedJob DefaultJobStore \<Rightarrow> bytes option \<Rightarrow> bytes \<Rightarrow>
     (ExtendedChannel, ExtendedChannelError) result" where
  "ext_new_for_job_declaration_client channel_id user_identity extranonce_prefix max_target
     nominal_hashrate version_rolling_allowed min_rollable_size batch shares_per_minute job_store
     pool_tag miner_tag =
     extended_channel_new channel_id user_identity extranonce_prefix max_target nominal_hashrate
       version_rolling_allowed min_rollable_size batch shares_per_minute job_store pool_tag (Some miner_tag)"

definition ext_set_extranonce_prefix ::
    "bytes \<Rightarrow> ExtendedChannel \<Rightarrow> (unit, ExtendedChannelError) result \<times> ExtendedChannel" where
  "ext_set_extranonce_prefix extranonce_prefix ch =
     (let new_rollable_extranonce_size = rollable_size extranonce_prefix in
      if new_rollable_extranonce_size < ec_rollable_extranonce_size ch
      then (Err NewExtranoncePrefixTooLarge, ch)
      else (Ok (), ch\<lparr>ec_extranonce_prefix := extranonce_prefix,
                      ec_rollable_extranonce_size := new_rollable_extranonce_size\<rparr>))"

definition ext_set_target :: "Target \<Rightarrow> ExtendedChannel \<Rightarrow> ExtendedChannel" where
  "ext_set_target target ch = ch\<lparr>ec_target := target\<rparr>"

definition ext_set_nominal_hashrate :: "u32 \<Rightarrow> ExtendedChannel \<Rightarrow> ExtendedChannel" where
  "ext_set_nominal_hashrate hashrate ch = ch\<lparr>ec_nominal_hashrate := hashrate\<rparr>"

definition ext_update_channel ::
    "u32 \<Rightarrow> Target option \<Rightarrow> ExtendedChannel \<Rightarrow> (unit, ExtendedChannelError) result \<times> ExtendedChannel" where
  "ext_update_channel new_nominal_hashrate requested_max_target ch =
     or_return (map_err (\<lambda>_. InvalidNominalHashrate)
       (hash_rate_to_target (f64_from_f32 new_nominal_hashrate)
          (f64_from_f32 (ec_expected_share_per_minute ch)))) ch (\<lambda>target_u256.
     let requested_max_target =
       (case requested_max_target of Some t \<Rightarrow> t | None \<Rightarrow> ec_requested_max_target ch) in
     or_return (target_from_u256 target_u256) ch (\<lambda>new_target.
       if requested_max_target < new_target then (Err RequestedMaxTargetOutOfRange, ch)
       else (Ok (), ch\<lparr>ec_nominal_hashrate := new_nominal_hashrate, ec_target := new_target,
                      ec_requested_max_target := requested_max_target\<rparr>)))"

definition ext_on_new_template ::
    "bitcoin \<Rightarrow> NewTemplate \<Rightarrow> TxOut list \<Rightarrow> ExtendedChannel \<Rightarrow>
     (unit, ExtendedChannelError) result \<times> ExtendedChannel" where
  "ext_on_new_template btc template rewards ch =
     (if nt_future_template template then
        case new_extended_job btc (ec_channel_id ch) None (ec_extranonce_prefix ch) template rewards
               (ec_job_factory ch) of (r, f) \<Rightarrow>
          let ch = ch\<lparr>ec_job_factory := f\<rparr> in
          or_return (map_err JobFactoryError r) ch (\<lambda>new_job.
            (Ok (), ch\<lparr>ec_job_store := snd (add_future_job extended_job_id
               (nt_template_id template) new_job (ec_job_store ch))\<rparr>))
      else case ec_chain_tip ch of
        None \<Rightarrow> (Err ChainTipNotSet, ch)
      | Some chain_tip \<Rightarrow>
          case new_extended_job btc (ec_channel_id ch) (Some chain_tip) (ec_extranonce_prefix ch)
                 template rewards (ec_job_factory ch) of (r, f) \<Rightarrow>
            let ch = ch\<lparr>ec_job_factory := f\<rparr> in
            or_return (map_err JobFactoryError r) ch (\<lambda>new_job.
              (Ok (), ch\<lparr>ec_job_store := add_active_job extended_job_id new_job (ec_job_store ch)\<rparr>)))"

definition ext_on_set_new_prev_hash ::
    "SetNewPrevHash \<Rightarrow> ExtendedChannel \<Rightarrow> (unit, ExtendedChannelError) result \<times> ExtendedChannel" where
  "ext_on_set_new_prev_hash m ch =
     (case if Mapping.is_empty (future_jobs (ec_job_store ch))
           then (True, mark_past_jobs_as_stale (ec_job_store ch))
           else activate_future_job extended_job_id extended_job_activate (tnph_template_id m)
                  (tnph_header_timestamp m) (ec_job_store ch) of
        (False, store) \<Rightarrow> (Err TemplateIdNotFound, ch\<lparr>ec_job_store := store\<rparr>)
      | (True, store) \<Rightarrow>
          (Ok (), ch\<lparr>ec_job_store := store,
                     ec_share_accounting := flush_seen_shares (ec_share_accounting ch),
                     ec_chain_tip := Some (chain_tip_from_tdp m)\<rparr>))"

definition ext_on_set_custom_mining_job ::
    "bitcoin \<Rightarrow> SetCustomMiningJob \<Rightarrow> ExtendedChannel \<Rightarrow>
     (u32, ExtendedChannelError) result \<times> ExtendedChannel" where
  "ext_on_set_custom_mining_job btc m ch =
     (case new_extended_job_from_custom_job btc m (ec_extranonce_prefix ch) (ec_job_factory ch) of
        (r, f) \<Rightarrow>
          let ch = ch\<lparr>ec_job_factory := f\<rparr> in
          or_return (map_err JobFactoryError r) ch (\<lambda>new_job.
            (Ok (extended_job_id new_job),
             ch\<lparr>ec_job_store := add_active_job extended_job_id new_job (ec_job_store ch),
                ec_chain_tip := Some (chain_tip_new (into_static (scmj_prev_hash m)) (scmj_nbits m)
                  (scmj_min_ntime m))\<rparr>)))"

definition full_extranonce :: "ExtendedJob \<Rightarrow> SubmitSharesExtended \<Rightarrow> bytes" where
  "full_extranonce job share = ej_extranonce_prefix job @ inner_as_ref (sse_extranonce share)"

definition ext_share_header ::
    "bitcoin \<Rightarrow> SubmitSharesExtended \<Rightarrow> ExtendedJob \<Rightarrow> ChainTip option \<Rightarrow>
     (block_header, ShareValidationError) result" where
  "ext_share_header btc share job tip =
     rbind (ok_or Invalid (merkle_root_from_path btc
       (inner_as_ref (nemj_coinbase_tx_prefix (ej_job_message job)))
       (inner_as_ref (nemj_coinbase_tx_suffix (ej_job_message job)))
       (full_extranonce job share)
       (map inner_as_ref (nemj_merkle_path (ej_job_message job))))) (\<lambda>merkle_root.
       if length merkle_root \<noteq> 32 then Panic
       else
     rbind (ok_or NoChainTip tip) (\<lambda>chain_tip.
       if \<not> nemj_version_rolling_allowed (ej_job_message job) \<and>
          and (sse_version share) 0x1fffe000 \<noteq> 0
       then Err VersionRollingNotAllowed
       else
     rbind (u256_to_block_hash (ct_prev_hash chain_tip)) (\<lambda>prev_hash.
       Ok \<lparr>hdr_version = sse_version share, prev_blockhash = prev_hash,
           hdr_merkle_root = merkle_root, hdr_time = sse_ntime share,
           hdr_bits = ct_nbits chain_tip, hdr_nonce = sse_nonce share\<rparr>)))"

definition job_template_id :: "ExtendedJob \<Rightarrow> u64 option" where
  "job_template_id job =
     (case ej_origin job of
        FromNewTemplate template \<Rightarrow> Some (nt_template_id template)
      | FromSetCustomMiningJob _ \<Rightarrow> None)"

definition ext_validate_share ::
    "bitcoin \<Rightarrow> SubmitSharesExtended \<Rightarrow> ExtendedChannel \<Rightarrow>
     (ShareValidationResult, ShareValidationError) result \<times> ExtendedChannel" where
  "ext_validate_share btc share ch =
     or_return (select_job extended_job_id (ec_job_store ch) (sse_job_id share)) ch (\<lambda>job.
     or_return (ext_share_header btc share job (ec_chain_tip ch)) ch (\<lambda>header.
     let share_hash = block_hash btc header in
     or_return (target_from_bytes share_hash) ch (\<lambda>hash_as_target.
       if is_met_by btc (hdr_bits header) share_hash then
         (Ok (BlockFound \<lparr>hash = share_hash\<rparr> (job_template_id job)
            (ej_coinbase_tx_prefix_with_bip141 job @ full_extranonce job share @
               ej_coinbase_tx_suffix_with_bip141 job)),
          ch\<lparr>ec_share_accounting := update_share_accounting (share_work (ec_target ch))
               (sse_sequence_number share) share_hash (ec_share_accounting ch)\<rparr>)
       else
         case check_target (ec_target ch) (sse_sequence_number share) share_hash hash_as_target
                (ec_share_accounting ch) of
           (r, acc) \<Rightarrow> (r, ch\<lparr>ec_share_accounting := acc\<rparr>))))"

section \<open>Reachable channels\<close>

datatype ext_op =
    SetExtranoncePrefix bytes
  | SetTarget Target
  | SetNominalHashrate u32
  | UpdateChannel u32 "Target option"
  | OnNewTemplate NewTemplate "TxOut list"
  | OnSetNewPrevHash SetNewPrevHash
  | OnSetCustomMiningJob SetCustomMiningJob
  | ValidateShare SubmitSharesExtended

fun ext_apply :: "bitcoin \<Rightarrow> ext_op \<Rightarrow> ExtendedChannel \<Rightarrow> ExtendedChannel" where
  "ext_apply btc (SetExtranoncePrefix p) ch = snd (ext_set_extranonce_prefix p ch)"
| "ext_apply btc (SetTarget t) ch = ext_set_target t ch"
| "ext_apply btc (SetNominalHashrate h) ch = ext_set_nominal_hashrate h ch"
| "ext_apply btc (UpdateChannel h t) ch = snd (ext_update_channel h t ch)"
| "ext_apply btc (OnNewTemplate t rewards) ch = snd (ext_on_new_template btc t rewards ch)"
| "ext_apply btc (OnSetNewPrevHash m) ch = snd (ext_on_set_new_prev_hash m ch)"
| "ext_apply btc (OnSetCustomMiningJob m) ch = snd (ext_on_set_custom_mining_job btc m ch)"
| "ext_apply btc (ValidateShare s) ch = snd (ext_validate_share btc s ch)"

text \<open>What a caller must respect for the invariant: the coinbase prefix leaves the script below 253
  bytes (the protocol allows a template 8 bytes), hashes in messages have 32 bytes, and the job id
  counter has not reached its maximum.\<close>

fun ext_op_ok :: "ext_op \<Rightarrow> ExtendedChannel \<Rightarrow> bool" where
  "ext_op_ok (OnNewTemplate t rewards) ch \<longleftrightarrow>
     length (inner_as_ref (nt_coinbase_prefix t)) \<le> 157 \<and> job_id_state (ec_job_factory ch) \<noteq> - 1"
| "ext_op_ok (OnSetCustomMiningJob m) ch \<longleftrightarrow>
     length (inner_as_ref (scmj_coinbase_prefix m)) \<le> 220 \<and> length (inner_as_ref (scmj_prev_hash m)) = 32 \<and>
     job_id_state (ec_job_factory ch) \<noteq> - 1"
| "ext_op_ok (OnSetNewPrevHash m) ch \<longleftrightarrow> length (inner_as_ref (tnph_prev_hash m)) = 32"
| "ext_op_ok op ch \<longleftrightarrow> True"

inductive ext_reachable :: "bitcoin \<Rightarrow> ExtendedChannel \<Rightarrow> bool" for btc where
  opened: "extended_channel_new channel_id user ep max_target hashrate rolling min_size batch spm
      job_store_new pool_tag miner_tag = Ok ch \<Longrightarrow> ext_reachable btc ch"
| step: "ext_reachable btc ch \<Longrightarrow> ext_op_ok op ch \<Longrightarrow> ext_reachable btc (ext_apply btc op ch)"

definition ext_job_ok :: "bitcoin \<Rightarrow> JobFactory \<Rightarrow> ExtendedJob \<Rightarrow> bool" where
  "ext_job_ok btc f j \<longleftrightarrow> coinbase_ok btc j \<and>
     nemj_version_rolling_allowed (ej_job_message j) = jf_version_rolling_allowed f"

definition ext_ok :: "bitcoin \<Rightarrow> ExtendedChannel \<Rightarrow> bool" where
  "ext_ok btc ch \<longleftrightarrow>
     store_ok extended_job_id (ec_job_store ch) \<and>
     ids_up_to extended_job_id (job_id_state (ec_job_factory ch)) (ec_job_store ch) \<and>
     tip_known (ec_job_store ch) (ec_chain_tip ch) \<and>
     (\<forall>j \<in> store_jobs (ec_job_store ch). ext_job_ok btc (ec_job_factory ch) j)"

text \<open>The ordinary shares accepted along a sequence of calls.\<close>

fun ext_accepted :: "bitcoin \<Rightarrow> ext_op list \<Rightarrow> ExtendedChannel \<Rightarrow> bytes list" where
  "ext_accepted btc [] ch = []"
| "ext_accepted btc (op # ops) ch =
     (case op of ValidateShare s \<Rightarrow> accepted_hash (fst (ext_validate_share btc s ch)) | _ \<Rightarrow> []) @
     ext_accepted btc ops (ext_apply btc op ch)"

fun ext_ops_ok :: "bitcoin \<Rightarrow> ext_op list \<Rightarrow> ExtendedChannel \<Rightarrow> bool" where
  "ext_ops_ok btc [] ch \<longleftrightarrow> True"
| "ext_ops_ok btc (op # ops) ch \<longleftrightarrow> ext_op_ok op ch \<and> ext_ops_ok btc ops (ext_apply btc op ch)"

definition changes_tip :: "ext_op \<Rightarrow> bool" where
  "changes_tip op = (case op of OnSetNewPrevHash _ \<Rightarrow> True | _ \<Rightarrow> False)"

section \<open>The invariant is kept\<close>

lemma ext_ok_advance:
  assumes "ext_ok btc ch" and "f = ec_job_factory ch \<or>
      f = (ec_job_factory ch)\<lparr>job_id_state := job_id_state (ec_job_factory ch) + 1\<rparr>"
    and "job_id_state (ec_job_factory ch) \<noteq> - 1"
  shows "ext_ok btc (ch\<lparr>ec_job_factory := f\<rparr>)"
  using assms ids_up_to_succ by (auto simp: ext_ok_def ext_job_ok_def)

text \<open>The one fact behind all methods that create a job.\<close>

lemma ext_ok_add_job:
  assumes "ext_ok btc ch" and "job_id_state (ec_job_factory ch) \<noteq> - 1"
    and "extended_job_id j = job_id_state (ec_job_factory ch) + 1"
    and "ext_job_ok btc (ec_job_factory ch) j"
    and f: "f = (ec_job_factory ch)\<lparr>job_id_state := job_id_state (ec_job_factory ch) + 1\<rparr>"
  shows "ext_ok btc (ch\<lparr>ec_job_factory := f,
           ec_job_store := snd (add_future_job extended_job_id t j (ec_job_store ch))\<rparr>)"
    and "tip_known (add_active_job extended_job_id j (ec_job_store ch)) tip \<Longrightarrow>
      ext_ok btc (ch\<lparr>ec_job_factory := f,
           ec_job_store := add_active_job extended_job_id j (ec_job_store ch), ec_chain_tip := tip\<rparr>)"
proof -
  have fresh: "extended_job_id j \<notin> known_ids extended_job_id (ec_job_store ch)"
    using assms ids_up_to_fresh by (auto simp: ext_ok_def)
  have jobs: "ext_job_ok btc f k" if "k \<in> insert j (store_jobs (ec_job_store ch))" for k
    using that assms by (auto simp: ext_ok_def ext_job_ok_def)
  show "ext_ok btc (ch\<lparr>ec_job_factory := f,
           ec_job_store := snd (add_future_job extended_job_id t j (ec_job_store ch))\<rparr>)"
    using assms fresh ext_job.store_ok_add_future [of "ec_job_store ch" j t]
      ids_up_to_insert [OF _ _ ext_job.known_ids_add_future [of t j "ec_job_store ch", unfolded assms(3)]]
      jobs subsetD [OF ext_job.store_jobs_add_future [of t j "ec_job_store ch"]]
    by (auto simp: ext_ok_def tip_known_def ext_job.active_or_past_add_future)
  show "tip_known (add_active_job extended_job_id j (ec_job_store ch)) tip \<Longrightarrow>
      ext_ok btc (ch\<lparr>ec_job_factory := f,
           ec_job_store := add_active_job extended_job_id j (ec_job_store ch), ec_chain_tip := tip\<rparr>)"
    using assms fresh ext_job.store_ok_add_active [of "ec_job_store ch" j]
      ids_up_to_insert [OF _ _ ext_job.known_ids_add_active [of j "ec_job_store ch", unfolded assms(3)]]
      jobs subsetD [OF ext_job.store_jobs_add_active [of j "ec_job_store ch"]]
    by (auto simp: ext_ok_def)
qed

lemma ext_ok_frame:
  assumes "ec_job_store ch' = ec_job_store ch" and "ec_job_factory ch' = ec_job_factory ch"
    and "ec_chain_tip ch' = ec_chain_tip ch"
  shows "ext_ok btc ch' = ext_ok btc ch"
  using assms by (simp add: ext_ok_def)

lemma ext_set_extranonce_prefix_frame [simp]:
  "ec_job_store (snd (ext_set_extranonce_prefix p ch)) = ec_job_store ch"
  "ec_job_factory (snd (ext_set_extranonce_prefix p ch)) = ec_job_factory ch"
  "ec_chain_tip (snd (ext_set_extranonce_prefix p ch)) = ec_chain_tip ch"
  "ec_share_accounting (snd (ext_set_extranonce_prefix p ch)) = ec_share_accounting ch"
  by (simp_all add: ext_set_extranonce_prefix_def Let_def)

lemma ext_update_channel_frame [simp]:
  "ec_job_store (snd (ext_update_channel h t ch)) = ec_job_store ch"
  "ec_job_factory (snd (ext_update_channel h t ch)) = ec_job_factory ch"
  "ec_chain_tip (snd (ext_update_channel h t ch)) = ec_chain_tip ch"
  "ec_share_accounting (snd (ext_update_channel h t ch)) = ec_share_accounting ch"
  by (simp_all add: ext_update_channel_def or_return_def Let_def split: result.split)

lemma ext_validate_share_frame [simp]:
  "ec_job_store (snd (ext_validate_share btc s ch)) = ec_job_store ch"
  "ec_job_factory (snd (ext_validate_share btc s ch)) = ec_job_factory ch"
  "ec_chain_tip (snd (ext_validate_share btc s ch)) = ec_chain_tip ch"
  "ec_target (snd (ext_validate_share btc s ch)) = ec_target ch"
  by (simp_all add: ext_validate_share_def or_return_def Let_def split: result.split prod.split)

lemma ext_ok_on_new_template:
  assumes ok: "ext_ok btc ch" and "segwit_encoding btc"
    and "ext_op_ok (OnNewTemplate t rewards) ch"
  shows "ext_ok btc (snd (ext_on_new_template btc t rewards ch))"
proof -
  have n: "job_id_state (ec_job_factory ch) \<noteq> - 1" using assms(3) by simp
  have job: "f = (ec_job_factory ch)\<lparr>job_id_state := job_id_state (ec_job_factory ch) + 1\<rparr> \<and>
      extended_job_id j = job_id_state (ec_job_factory ch) + 1 \<and> ext_job_ok btc (ec_job_factory ch) j"
    if "new_extended_job btc c tip ep t rewards (ec_job_factory ch) = (Ok j, f)" for c tip ep j f
    using new_extended_job_new_id [OF that] template_job_commits [OF assms(2) that] assms(3)
    by (auto simp: ext_job_ok_def coinbase_ok_def)
  have step: "ext_ok btc (snd (or_return (map_err JobFactoryError r) (ch\<lparr>ec_job_factory := f\<rparr>)
      (\<lambda>j. (Ok (), k j))))"
    if r: "new_extended_job btc c tip ep t rewards (ec_job_factory ch) = (r, f)"
      and k: "\<And>j. r = Ok j \<Longrightarrow> ext_ok btc (k j)" for c tip ep r f k
    using k ext_ok_advance [OF ok new_extended_job_factory [OF r] n] by (cases r) auto
  show ?thesis
  proof (cases "nt_future_template t")
    case True
    then show ?thesis
      using ext_ok_add_job(1) [OF ok n] job
      by (auto simp: ext_on_new_template_def Let_def split: prod.split intro!: step)
  next
    case False
    show ?thesis
    proof (cases "ec_chain_tip ch")
      case None
      then show ?thesis using False ok by (simp add: ext_on_new_template_def)
    next
      case (Some tip)
      have tk: "tip_known (add_active_job extended_job_id j (ec_job_store ch)) (Some tip)" for j
        using ok Some by (simp add: ext_ok_def tip_known_def)
      have "ext_ok btc (ch\<lparr>ec_job_factory := f, ec_job_store := add_active_job extended_job_id j (ec_job_store ch)\<rparr>)"
        if "new_extended_job btc c (Some tip) ep t rewards (ec_job_factory ch) = (Ok j, f)" for c ep j f
      proof -
        have "ext_ok btc (ch\<lparr>ec_job_factory := f,
            ec_job_store := add_active_job extended_job_id j (ec_job_store ch), ec_chain_tip := Some tip\<rparr>)"
          using ext_ok_add_job(2) [OF ok n _ _ _ tk] job [OF that] by simp
        then show ?thesis using Some by (simp add: ext_ok_def)
      qed
      then show ?thesis
        using False Some
        by (cases "new_extended_job btc (ec_channel_id ch) (Some tip) (ec_extranonce_prefix ch) t rewards
            (ec_job_factory ch)") (auto simp: ext_on_new_template_def Let_def intro!: step)
    qed
  qed
qed

lemma ext_ok_on_set_custom_mining_job:
  assumes ok: "ext_ok btc ch" and "segwit_encoding btc" and "ext_op_ok (OnSetCustomMiningJob m) ch"
  shows "ext_ok btc (snd (ext_on_set_custom_mining_job btc m ch))"
proof -
  have n: "job_id_state (ec_job_factory ch) \<noteq> - 1" using assms(3) by simp
  obtain r f where r: "new_extended_job_from_custom_job btc m (ec_extranonce_prefix ch) (ec_job_factory ch) = (r, f)"
    by fastforce
  show ?thesis
  proof (cases r)
    case (Ok j)
    note j = r [unfolded Ok]
    have "ext_job_ok btc (ec_job_factory ch) j"
      using custom_job_new_id [OF j] custom_job_commits [OF assms(2) j] assms(3)
      by (auto simp: ext_job_ok_def coinbase_ok_def)
    moreover have "length (inner_as_ref (into_static (scmj_prev_hash m))) = 32"
      using assms(3) by (cases "scmj_prev_hash m") auto
    ultimately show ?thesis
      using custom_job_new_id [OF j] ext_ok_add_job(2) [OF ok n]
      by (simp add: ext_on_set_custom_mining_job_def r Ok tip_known_def chain_tip_new_def)
  qed (use ext_ok_advance [OF ok custom_job_factory [OF r] n] r in
      \<open>auto simp: ext_on_set_custom_mining_job_def\<close>)
qed

lemma ext_ok_on_set_new_prev_hash:
  assumes ok: "ext_ok btc ch" and "ext_op_ok (OnSetNewPrevHash m) ch"
  shows "ext_ok btc (snd (ext_on_set_new_prev_hash m ch))"
proof -
  define st where "st = ec_job_store ch"
  define act where "act = activate_future_job extended_job_id extended_job_activate (tnph_template_id m)
      (tnph_header_timestamp m) st"
  have len: "length (inner_as_ref (ct_prev_hash (chain_tip_from_tdp m))) = 32"
    using assms(2) by (cases "tnph_prev_hash m") (auto simp: chain_tip_from_tdp_def chain_tip_new_def)
  have keep: "ext_ok btc (ch\<lparr>ec_job_store := st', ec_share_accounting := acc, ec_chain_tip := tip\<rparr>)"
    if "store_ok extended_job_id st'" "known_ids extended_job_id st' \<subseteq> known_ids extended_job_id st"
      "store_jobs st' \<subseteq> store_jobs st \<union> extended_job_activate ts ` store_jobs st" "tip_known st' tip"
    for st' acc tip ts
  proof -
    have "ext_job_ok btc f (extended_job_activate ts j) = ext_job_ok btc f j" for f j
      by (simp add: ext_job_ok_def) (simp add: extended_job_activate_def)
    then have "ext_job_ok btc (ec_job_factory ch) j" if "j \<in> store_jobs st'" for j
      using ok subsetD [OF \<open>store_jobs st' \<subseteq> _\<close> that] by (auto simp: ext_ok_def st_def)
    moreover have "ids_up_to extended_job_id (job_id_state (ec_job_factory ch)) st'"
      using ok \<open>known_ids extended_job_id st' \<subseteq> _\<close> by (auto simp: ext_ok_def ids_up_to_def st_def)
    ultimately show ?thesis using that(1,4) by (simp add: ext_ok_def)
  qed
  have st: "store_ok extended_job_id st" using ok by (simp add: ext_ok_def st_def)
  have tip: "tip_known st' (Some (chain_tip_from_tdp m))" for st' :: "ExtendedJob DefaultJobStore"
    using len by (simp add: tip_known_def)
  have "fst act = False \<Longrightarrow> active_job (snd act) = active_job st \<and> past_jobs (snd act) = past_jobs st"
    by (auto simp: act_def activate_future_job_def Let_def split: option.splits)
  then have failed: "fst act = False \<Longrightarrow> tip_known (snd act) (ec_chain_tip ch)"
    using ok by (simp add: ext_ok_def tip_known_def st_def)
  note a = ext_job.store_ok_activate [OF st, of "tnph_template_id m" "tnph_header_timestamp m", folded act_def]
    ext_job.known_ids_activate [OF st, of "tnph_template_id m" "tnph_header_timestamp m", folded act_def]
    ext_job.store_jobs_activate [of "tnph_template_id m" "tnph_header_timestamp m" st, folded act_def]
  show ?thesis
  proof (cases "Mapping.is_empty (future_jobs st)")
    case True
    have "store_jobs (mark_past_jobs_as_stale st) \<subseteq>
        store_jobs st \<union> extended_job_activate (tnph_header_timestamp m) ` store_jobs st"
      using ext_job.store_jobs_mark_stale [of st] by blast
    from keep [OF ext_job.store_ok_mark_stale [OF st] ext_job.known_ids_mark_stale this tip] True
    show ?thesis by (simp add: ext_on_set_new_prev_hash_def st_def [symmetric])
  next
    case False
    show ?thesis
    proof (cases "fst act")
      case True
      with keep [OF a tip] False show ?thesis
        by (cases act) (simp add: ext_on_set_new_prev_hash_def st_def [symmetric] act_def [symmetric])
    next
      case f: False
      have "ext_ok btc (ch\<lparr>ec_job_store := snd act\<rparr>)"
        using keep [OF a failed] f by (simp add: ext_ok_def)
      with f False show ?thesis
        by (cases act) (simp add: ext_on_set_new_prev_hash_def st_def [symmetric] act_def [symmetric])
    qed
  qed
qed

lemma ext_ok_opened:
  assumes "extended_channel_new channel_id user ep max_target hashrate rolling min_size batch spm
      job_store_new pool_tag miner_tag = Ok ch"
  shows "ext_ok btc ch"
  using assms
  by (auto simp: extended_channel_new_def ext_ok_def ids_up_to_def tip_known_def result_simps
      job_store_new_def store_ok_def store_jobs_def known_ids_def Let_def split: if_splits)

lemma ext_ok_apply:
  assumes "segwit_encoding btc" and "ext_ok btc ch" and "ext_op_ok op ch"
  shows "ext_ok btc (ext_apply btc op ch)"
proof -
  have "ext_ok btc ch'" if "ec_job_store ch' = ec_job_store ch"
      "ec_job_factory ch' = ec_job_factory ch" "ec_chain_tip ch' = ec_chain_tip ch" for ch'
    using assms(2) ext_ok_frame [OF that, of btc] by simp
  then show ?thesis
    using assms ext_ok_on_new_template ext_ok_on_set_custom_mining_job ext_ok_on_set_new_prev_hash
    by (cases op) (simp_all add: ext_set_target_def ext_set_nominal_hashrate_def)
qed

lemma ext_reachable_ok: "ext_reachable btc ch \<Longrightarrow> segwit_encoding btc \<Longrightarrow> ext_ok btc ch"
  by (induction rule: ext_reachable.induct) (auto intro: ext_ok_opened ext_ok_apply)

section \<open>Outcomes of share validation\<close>

lemma ext_share_header_Ok:
  assumes "ext_share_header btc share j tip = Ok header"
  obtains root t where "tip = Some t"
    "merkle_root_from_path btc (inner_as_ref (nemj_coinbase_tx_prefix (ej_job_message j)))
       (inner_as_ref (nemj_coinbase_tx_suffix (ej_job_message j))) (full_extranonce j share)
       (map inner_as_ref (nemj_merkle_path (ej_job_message j))) = Some root"
    "header = \<lparr>hdr_version = sse_version share, prev_blockhash = inner_as_ref (ct_prev_hash t),
       hdr_merkle_root = root, hdr_time = sse_ntime share, hdr_bits = ct_nbits t,
       hdr_nonce = sse_nonce share\<rparr>"
    "nemj_version_rolling_allowed (ej_job_message j) \<or> and (sse_version share) 0x1fffe000 = 0"
  using assms
  by (auto simp: ext_share_header_def result_simps u256_to_block_hash_def split: if_splits)

lemma ext_share_header_errors:
  assumes "hash_lengths btc" and "tip = Some t" and "length (inner_as_ref (ct_prev_hash t)) = 32"
  shows "ext_share_header btc share j tip \<noteq> Panic"
    and "ext_share_header btc share j tip \<noteq> Err NoChainTip"
    and "ext_share_header btc share j tip \<noteq> Err InvalidCoinbase"
    and "nemj_version_rolling_allowed (ej_job_message j) \<Longrightarrow>
      ext_share_header btc share j tip \<noteq> Err VersionRollingNotAllowed"
    and "commits btc j (full_extranonce j share) tx \<Longrightarrow> ext_share_header btc share j tip \<noteq> Err Invalid"
  using assms length_merkle_root [of btc]
  by (auto simp: ext_share_header_def hash_lengths_def commits_def result_simps u256_to_block_hash_def
      split: if_splits)

lemma ext_validate_share_selected:
  assumes "select_job extended_job_id (ec_job_store ch) (sse_job_id share) = Ok j"
    and "ext_share_header btc share j (ec_chain_tip ch) = Ok header"
    and "target_from_bytes (block_hash btc header) = (Ok t :: (Target, ShareValidationError) result)"
  shows "ext_validate_share btc share ch =
    (if is_met_by btc (hdr_bits header) (block_hash btc header) then
       (Ok (BlockFound \<lparr>hash = block_hash btc header\<rparr> (job_template_id j)
          (ej_coinbase_tx_prefix_with_bip141 j @ full_extranonce j share @ ej_coinbase_tx_suffix_with_bip141 j)),
        ch\<lparr>ec_share_accounting := update_share_accounting (share_work (ec_target ch))
          (sse_sequence_number share) (block_hash btc header) (ec_share_accounting ch)\<rparr>)
     else (fst (check_target (ec_target ch) (sse_sequence_number share) (block_hash btc header) t
              (ec_share_accounting ch)),
           ch\<lparr>ec_share_accounting := snd (check_target (ec_target ch) (sse_sequence_number share)
              (block_hash btc header) t (ec_share_accounting ch))\<rparr>))"
  by (simp add: ext_validate_share_def assms case_prod_unfold Let_def)

lemma ext_validate_share_cases:
  assumes "ext_validate_share btc share ch = (r, ch')"
  obtains (early) "ch' = ch" "\<not> is_ok r"
  | (judged) j header t where
    "select_job extended_job_id (ec_job_store ch) (sse_job_id share) = Ok j"
    "ext_share_header btc share j (ec_chain_tip ch) = Ok header"
    "target_from_bytes (block_hash btc header) = (Ok t :: (Target, ShareValidationError) result)"
proof (cases "\<exists>j header t. select_job extended_job_id (ec_job_store ch) (sse_job_id share) = Ok j \<and>
    ext_share_header btc share j (ec_chain_tip ch) = Ok header \<and>
    target_from_bytes (block_hash btc header) = (Ok t :: (Target, ShareValidationError) result)")
  case True
  then show ?thesis using judged by auto
next
  case False
  have "ch' = ch \<and> \<not> is_ok r"
  proof (cases "select_job extended_job_id (ec_job_store ch) (sse_job_id share)")
    case j: (Ok j)
    show ?thesis
    proof (cases "ext_share_header btc share j (ec_chain_tip ch)")
      case h: (Ok header)
      have "target_from_bytes (block_hash btc header) = (Panic :: (Target, ShareValidationError) result)"
        using False j h by (cases "target_from_bytes (block_hash btc header) :: (Target, ShareValidationError) result")
          (auto simp: target_from_bytes_def split: if_splits)
      then show ?thesis using assms j h by (auto simp: ext_validate_share_def)
    qed (use assms j in \<open>auto simp: ext_validate_share_def\<close>)
  qed (use assms in \<open>auto simp: ext_validate_share_def\<close>)
  then show ?thesis using early by blast
qed

lemma ext_validate_share_Ok:
  assumes "store_ok extended_job_id (ec_job_store ch)"
    and "ext_validate_share btc share ch = (Ok r, ch')"
  obtains (block) j header where
    "select_job extended_job_id (ec_job_store ch) (sse_job_id share) = Ok j"
    "ext_share_header btc share j (ec_chain_tip ch) = Ok header"
    "is_met_by btc (hdr_bits header) (block_hash btc header)"
    "r = BlockFound \<lparr>hash = block_hash btc header\<rparr> (job_template_id j)
       (ej_coinbase_tx_prefix_with_bip141 j @ full_extranonce j share @ ej_coinbase_tx_suffix_with_bip141 j)"
  | (share) j header t where
    "select_job extended_job_id (ec_job_store ch) (sse_job_id share) = Ok j"
    "ext_share_header btc share j (ec_chain_tip ch) = Ok header"
    "\<not> is_met_by btc (hdr_bits header) (block_hash btc header)"
    "target_from_bytes (block_hash btc header) = (Ok t :: (Target, ShareValidationError) result)" "t \<le> ec_target ch"
    "block_hash btc header \<notin> seen_shares (ec_share_accounting ch)"
    "block_hash btc header \<in> seen_shares (ec_share_accounting ch')"
    "r = Valid \<lparr>hash = block_hash btc header\<rparr> \<or>
       (\<exists>a b c. r = ValidWithAcknowledgement \<lparr>hash = block_hash btc header\<rparr> a b c)"
  using assms(2)
proof (cases rule: ext_validate_share_cases)
  case early
  then show ?thesis by simp
next
  case (judged j header t)
  show ?thesis
  proof (cases "is_met_by btc (hdr_bits header) (block_hash btc header)")
    case True
    then show ?thesis using assms(2) block [OF judged(1,2)]
      by (simp add: ext_validate_share_selected [OF judged])
  next
    case False
    obtain acc where c: "check_target (ec_target ch) (sse_sequence_number share) (block_hash btc header) t
        (ec_share_accounting ch) = (Ok r, acc)" and ch': "ec_share_accounting ch' = acc"
      using assms(2) False
      by (cases "check_target (ec_target ch) (sse_sequence_number share) (block_hash btc header) t
        (ec_share_accounting ch)") (auto simp: ext_validate_share_selected [OF judged])
    show ?thesis
      using check_target_cases [OF c] ch' by (intro share [OF judged(1,2) False judged(3)]) auto
  qed
qed

lemma ext_seen_validate:
  assumes "store_ok extended_job_id (ec_job_store ch)"
  shows "seen_shares (ec_share_accounting ch) \<subseteq>
      seen_shares (ec_share_accounting (snd (ext_validate_share btc s ch)))"
    and "set (accepted_hash (fst (ext_validate_share btc s ch))) \<subseteq>
      seen_shares (ec_share_accounting (snd (ext_validate_share btc s ch))) -
      seen_shares (ec_share_accounting ch)"
    and "distinct (accepted_hash (fst (ext_validate_share btc s ch)))"
proof -
  obtain r ch' where v: "ext_validate_share btc s ch = (r, ch')" by fastforce
  show "seen_shares (ec_share_accounting ch) \<subseteq>
      seen_shares (ec_share_accounting (snd (ext_validate_share btc s ch)))"
    using v
  proof (cases rule: ext_validate_share_cases)
    case (judged j header t)
    then show ?thesis
      using check_target_seen by (simp add: ext_validate_share_selected subset_insertI)
  qed (simp add: v)
  show "set (accepted_hash (fst (ext_validate_share btc s ch))) \<subseteq>
      seen_shares (ec_share_accounting (snd (ext_validate_share btc s ch))) -
      seen_shares (ec_share_accounting ch)"
  proof (cases r)
    case (Ok x)
    from assms v [unfolded Ok] show ?thesis
      by (cases rule: ext_validate_share_Ok) (auto simp: v Ok accepted_hash_def)
  qed (simp_all add: v accepted_hash_def)
  show "distinct (accepted_hash (fst (ext_validate_share btc s ch)))"
    by (simp add: accepted_hash_def split: result.split ShareValidationResult.split)
qed

lemma ext_seen_apply:
  assumes "store_ok extended_job_id (ec_job_store ch)" and "\<not> changes_tip op"
  shows "seen_shares (ec_share_accounting ch) \<subseteq> seen_shares (ec_share_accounting (ext_apply btc op ch))"
  using assms ext_seen_validate
  by (cases op) (simp_all add: changes_tip_def ext_set_target_def ext_set_nominal_hashrate_def ext_on_new_template_def ext_on_set_custom_mining_job_def Let_def
      or_return_def split: prod.split option.split result.split)

lemma ext_accepted_distinct:
  assumes "segwit_encoding btc" and "ext_ok btc ch"
    and "ext_ops_ok btc ops ch"
    and "list_all (\<lambda>op. \<not> changes_tip op) ops"
  shows "distinct (ext_accepted btc ops ch) \<and>
    set (ext_accepted btc ops ch) \<inter> seen_shares (ec_share_accounting ch) = {}"
  using assms(2-)
proof (induction ops arbitrary: ch)
  case (Cons op ops)
  have st: "store_ok extended_job_id (ec_job_store ch)" using Cons.prems(1) by (simp add: ext_ok_def)
  have ok: "ext_ok btc (ext_apply btc op ch)"
    using Cons.prems(2) by (intro ext_ok_apply [OF assms(1) Cons.prems(1)]) simp
  from Cons.IH [OF ok] Cons.prems(2,3) ext_seen_apply [OF st, of op btc] ext_seen_validate [OF st, of btc]
  show ?case by (cases op) (auto, blast+)
qed simp

lemma ext_validate_share_errors:
  assumes ok: "ext_ok btc ch" and "hash_lengths btc"
    and "(of_nat (share_batch_size (ec_share_accounting ch)) :: u32) \<noteq> 0"
    and "ext_validate_share btc share ch = (r, ch')"
  shows "r \<noteq> Panic \<and> r \<noteq> Err NoChainTip \<and> r \<noteq> Err InvalidCoinbase \<and>
    (jf_version_rolling_allowed (ec_job_factory ch) \<longrightarrow> r \<noteq> Err VersionRollingNotAllowed) \<and>
    ((\<forall>j \<in> store_jobs (ec_job_store ch). length (full_extranonce j share) = 32) \<longrightarrow> r \<noteq> Err Invalid) \<and>
    (is_ok r \<or> ch' = ch)"
proof -
  have st: "store_ok extended_job_id (ec_job_store ch)" using ok by (simp add: ext_ok_def)
  show ?thesis
  proof (cases "select_job extended_job_id (ec_job_store ch) (sse_job_id share)")
    case j: (Ok j)
    obtain t where t: "ec_chain_tip ch = Some t" "length (inner_as_ref (ct_prev_hash t)) = 32"
      using ok by (auto simp: ext_ok_def elim: select_job_tip [OF _ st j])
    have jok: "j \<in> store_jobs (ec_job_store ch)" "ext_job_ok btc (ec_job_factory ch) j"
      using ok select_job_Ok [OF st j] by (auto simp: ext_ok_def)
    note he = ext_share_header_errors [OF assms(2) t, where share = share and j = j]
    show ?thesis
    proof (cases "ext_share_header btc share j (ec_chain_tip ch)")
      case h: (Ok header)
      obtain tg where tg: "target_from_bytes (block_hash btc header) = (Ok tg :: (Target, ShareValidationError) result)"
        using assms(2) by (auto simp: hash_lengths_def target_from_bytes_def)
      show ?thesis
        using assms(4) check_target_errors(1) [OF assms(3)]
        by (cases r) (auto simp: ext_validate_share_selected [OF j h tg] split: if_splits
            dest!: check_target_errors(2))
    next
      case (Err e)
      then show ?thesis using assms(4) j he jok
        by (auto simp: ext_validate_share_def ext_job_ok_def coinbase_ok_def)
    next
      case Panic
      then show ?thesis using he by simp
    qed
  qed (use assms(4) select_job_errors [of extended_job_id "ec_job_store ch"]
      select_job_no_panic [of extended_job_id "ec_job_store ch"] in \<open>auto simp: ext_validate_share_def\<close>)
qed

lemma ext_validate_block_again:
  assumes "ext_validate_share btc share ch = (Ok (BlockFound s template_id cb), ch')"
  shows "\<exists>ch''. ext_validate_share btc share ch' = (Ok (BlockFound s template_id cb), ch'') \<and>
    shares_accepted (ec_share_accounting ch'') = shares_accepted (ec_share_accounting ch) + 2"
  using assms
proof (cases rule: ext_validate_share_cases)
  case (judged j header t)
  have met: "is_met_by btc (hdr_bits header) (block_hash btc header)"
    using assms by (auto simp: ext_validate_share_selected [OF judged] check_target_not_block split: if_splits)
  then have ch': "ch' = ch\<lparr>ec_share_accounting := update_share_accounting (share_work (ec_target ch))
      (sse_sequence_number share) (block_hash btc header) (ec_share_accounting ch)\<rparr>"
    using assms by (simp add: ext_validate_share_selected [OF judged])
  show ?thesis
  proof -
    have j': "select_job extended_job_id (ec_job_store ch') (sse_job_id share) = Ok j"
        "ext_share_header btc share j (ec_chain_tip ch') = Ok header"
      using judged(1,2) by (simp_all add: ch')
    show ?thesis
      using assms met unfolding ext_validate_share_selected [OF j' judged(3)]
        ext_validate_share_selected [OF judged]
      by (simp add: ch')
  qed
qed simp

section \<open>A channel at work\<close>

text \<open>A channel opened with the concrete encoding, its first job announced (\<open>demo_pending\<close>), being
  mined on (\<open>demo_mining\<close>), and with the next job announced (\<open>demo_next\<close>).\<close>

definition demo_channel :: ExtendedChannel where
  "demo_channel =
     \<lparr>ec_channel_id = 7, ec_user_identity = [], ec_extranonce_prefix = [], ec_rollable_extranonce_size = 32,
      ec_requested_max_target = Target (- 1) (- 1), ec_target = Target 1000 0,
      ec_nominal_hashrate = 0x41200000, ec_job_store = job_store_new, ec_job_factory = demo_factory,
      ec_share_accounting = share_accounting_new 10, ec_expected_share_per_minute = 0x42700000,
      ec_chain_tip = None\<rparr>"

definition demo_pending :: ExtendedChannel where
  "demo_pending = demo_channel\<lparr>
     ec_job_factory := demo_factory\<lparr>job_id_state := 1\<rparr>,
     ec_job_store := snd (add_future_job extended_job_id 1 (demo_job 7 1 []) job_store_new)\<rparr>"

definition demo_mining :: ExtendedChannel where
  "demo_mining = demo_channel\<lparr>
     ec_job_factory := demo_factory\<lparr>job_id_state := 1\<rparr>,
     ec_job_store := job_store_new\<lparr>active_job := Some (extended_job_activate 5 (demo_job 7 1 []))\<rparr>,
     ec_chain_tip := Some (chain_tip_from_tdp demo_prev_hash)\<rparr>"

definition demo_next :: ExtendedChannel where
  "demo_next = demo_mining\<lparr>
     ec_job_factory := demo_factory\<lparr>job_id_state := 2\<rparr>,
     ec_job_store := snd (add_future_job extended_job_id 1 (demo_job 7 2 []) (ec_job_store demo_mining))\<rparr>"

definition demo_share :: "u32 \<Rightarrow> SubmitSharesExtended" where
  "demo_share nonce =
     \<lparr>sse_channel_id = 7, sse_sequence_number = 1, sse_job_id = 1, sse_nonce = nonce, sse_ntime = 5,
      sse_version = 2, sse_extranonce = Owned (replicate 32 5)\<rparr>"

definition demo_header :: "u32 \<Rightarrow> block_header" where
  "demo_header nonce =
     \<lparr>hdr_version = 2, prev_blockhash = replicate 32 9, hdr_merkle_root = replicate 32 0, hdr_time = 5,
      hdr_bits = 0x1d00ffff, hdr_nonce = nonce\<rparr>"

abbreviation "demo_active \<equiv> extended_job_activate 5 (demo_job 7 1 [])"

lemma demo_channel_opened:
  obtains t where "extended_channel_new 7 [] [] (Target (- 1) (- 1)) 0x41200000 True 0 10 0x42700000
      job_store_new (Some [0x41]) None = Ok (demo_channel\<lparr>ec_target := t\<rparr>)"
proof -
  obtain bs where bs: "hash_rate_to_target (Finite False 10) (Finite False 60) = Ok (Owned bs)" "length bs = 32"
    using hash_rate_to_target_value [of "Finite False 60" "Finite False 10"]
    by (auto simp: f64_zero_def signed_value_def)
  define t where "t = Target (from_le_bytes (take 16 bs)) (from_le_bytes (drop 16 bs))"
  have "\<not> Target (- 1) (- 1) < t"
    using target_nat_bound [of t] target_less_iff [of "Target (- 1) (- 1)" t] by (simp add: target_nat_max)
  then have "extended_channel_new 7 [] [] (Target (- 1) (- 1)) 0x41200000 True 0 10 0x42700000
      job_store_new (Some [0x41]) None = Ok (demo_channel\<lparr>ec_target := t\<rparr>)"
    using bs by (simp add: extended_channel_new_def demo_f32 target_from_u256_def target_from_bytes_def
        rollable_size_def MAX_EXTRANONCE_LEN_def demo_channel_def demo_factory_def t_def)
  then show ?thesis by (rule that)
qed

lemma demo_channel_reachable: "ext_reachable demo_bitcoin demo_channel"
proof (rule demo_channel_opened)
  fix t
  assume "extended_channel_new 7 [] [] (Target (- 1) (- 1)) 0x41200000 True 0 10 0x42700000
      job_store_new (Some [0x41]) None = Ok (demo_channel\<lparr>ec_target := t\<rparr>)"
  from ext_reachable.step [OF ext_reachable.opened [OF this], of "SetTarget (Target 1000 0)"]
  show ?thesis by (simp add: demo_channel_def ext_set_target_def)
qed

lemma demo_on_tip: "ext_on_set_new_prev_hash demo_prev_hash demo_pending = (Ok (), demo_mining)"
  by (simp add: ext_on_set_new_prev_hash_def demo_channel_def demo_mining_def demo_prev_hash_def
      demo_pending_def job_store_defs flush_seen_shares_def share_accounting_new_def Mapping.is_empty_def
      extended_job_id_def demo_job_def lookup_update lookup_empty)

lemma demo_on_new_template:
  "ext_on_new_template demo_bitcoin demo_template demo_rewards demo_channel = (Ok (), demo_pending)"
  using demo_new_extended_job [of 7 None "[]" 0]
  by (simp add: ext_on_new_template_def demo_channel_def demo_pending_def demo_factory_zero [symmetric] Let_def)
    (simp add: demo_template_def)

lemma demo_template_ok: "ext_op_ok (OnNewTemplate demo_template demo_rewards) demo_channel"
  by (simp add: demo_template_def demo_channel_def demo_factory_def job_factory_new_def)

lemma demo_mining_reachable: "ext_reachable demo_bitcoin demo_mining"
proof -
  have "ext_reachable demo_bitcoin demo_pending"
    using ext_reachable.step [OF demo_channel_reachable demo_template_ok] by (simp add: demo_on_new_template)
  from ext_reachable.step [OF this, of "OnSetNewPrevHash demo_prev_hash"]
  show ?thesis using demo_on_tip by (simp add: demo_prev_hash_def)
qed

lemma demo_next_reachable: "ext_reachable demo_bitcoin demo_next"
proof -
  have "ext_on_new_template demo_bitcoin demo_template demo_rewards demo_mining = (Ok (), demo_next)"
    using demo_new_extended_job [of 7 None "[]" 1]
    by (simp add: ext_on_new_template_def demo_mining_def demo_next_def demo_channel_def Let_def)
      (simp add: demo_template_def)
  moreover have "ext_op_ok (OnNewTemplate demo_template demo_rewards) demo_mining"
    by (simp add: demo_template_def demo_mining_def)
  ultimately show ?thesis
    using ext_reachable.step [OF demo_mining_reachable, of "OnNewTemplate demo_template demo_rewards"] by simp
qed

lemma demo_select: "select_job extended_job_id (ec_job_store demo_mining) (sse_job_id (demo_share n)) = Ok demo_active"
  by (simp add: demo_share_def demo_mining_def select_job_def job_store_new_def lookup_empty extended_job_id_def
      extended_job_activate_def demo_job_def)

lemma demo_next_select:
  "select_job extended_job_id (ec_job_store demo_next) (sse_job_id (demo_share n)) = Ok demo_active"
  using demo_select [of n] by (simp add: demo_next_def select_job_add_future)

lemma demo_share_header:
  "ext_share_header demo_bitcoin (demo_share n) demo_active (ec_chain_tip demo_mining) = Ok (demo_header n)"
  by (simp add: ext_share_header_def demo_share_def demo_mining_def demo_job_def extended_job_activate_def
      demo_bitcoin_def merkle_root_from_path_def merkle_root_from_path_id_def chain_tip_from_tdp_def
      chain_tip_new_def demo_prev_hash_def u256_to_block_hash_def demo_header_def)

lemma demo_hash: "block_hash demo_bitcoin (demo_header n) = to_le_bytes n @ replicate 28 0"
  by (simp add: demo_bitcoin_def demo_header_def)

lemma demo_hash_target:
  obtains t where "target_from_bytes (block_hash demo_bitcoin (demo_header n)) = (Ok t :: (Target, ShareValidationError) result)" "target_nat t = unat n"
proof -
  have len: "length (block_hash demo_bitcoin (demo_header n)) = 32" by (simp add: demo_hash)
  then obtain t where t: "target_from_bytes (block_hash demo_bitcoin (demo_header n)) = (Ok t :: (Target, ShareValidationError) result)"
    by (auto simp: target_from_bytes_def)
  moreover have "nat_of_le (block_hash demo_bitcoin (demo_header n)) = unat n"
    using unat_from_le_bytes [of "to_le_bytes n", where ?'a = 32] by (simp add: demo_hash from_to_le_bytes)
  ultimately show ?thesis using that target_from_bytes_value [OF t len] by simp
qed

lemma demo_met: "is_met_by demo_bitcoin b (block_hash demo_bitcoin (demo_header n)) \<longleftrightarrow> n = 0"
proof -
  have "to_le_bytes (0 :: u32) = replicate 4 0" by code_simp
  moreover have "replicate 4 0 @ replicate 28 0 = replicate 32 (0 :: u8)"
    by (simp flip: replicate_add)
  ultimately have "replicate 32 0 = to_le_bytes (0 :: u32) @ replicate 28 0" by simp
  then show ?thesis
    unfolding demo_hash by (simp add: demo_bitcoin_def to_le_bytes_inject)
qed

lemmas demo_judged = ext_validate_share_selected [OF demo_select demo_share_header]

lemma demo_validate_block:
  obtains s i cb ch' where
    "ext_validate_share demo_bitcoin (demo_share 0) demo_mining = (Ok (BlockFound s i cb), ch')"
  by (rule demo_hash_target [of 0]) (simp add: demo_judged demo_met)

lemma demo_full_extranonce: "j \<in> store_jobs (ec_job_store demo_mining) \<Longrightarrow> length (full_extranonce j (demo_share n)) = 32"
  by (auto simp: store_jobs_def demo_mining_def job_store_new_def lookup_empty full_extranonce_def demo_share_def
      demo_job_def extended_job_activate_def)

section \<open>Properties\<close>

text \<open>C7: every extended channel that calls can produce from a newly opened one satisfies the invariant
  \<open>ext_ok\<close>: the job store is consistent, job ids are unique and below the counter, an active or past
  job implies a known chain tip, every job has the channel's version rolling flag, and for every
  extranonce the halves of every job spell the coinbase transaction its merkle root commits to.\<close>

theorem ext_channel_invariant:
  assumes "segwit_encoding btc" and "ext_reachable btc ch"
  shows "ext_ok btc ch"
  by (rule ext_reachable_ok [OF assms(2,1)])

theorem ext_channel_invariant_witness: "ext_ok demo_bitcoin demo_mining"
  using ext_channel_invariant [OF demo_segwit_encoding demo_mining_reachable] .







text \<open>C14: once a new chain tip has activated a future job, every job that could be mined on before is
  stale: its shares are rejected as such and leave the channel unchanged.\<close>

theorem ext_stale_after_new_tip:
  assumes "segwit_encoding btc" and "ext_reachable btc ch"
    and "\<not> Mapping.is_empty (future_jobs (ec_job_store ch))"
    and "ext_on_set_new_prev_hash m ch = (Ok (), ch')"
    and "select_job extended_job_id (ec_job_store ch) (sse_job_id share) = Ok j"
  shows "ext_validate_share btc share ch' = (Err Stale, ch')"
proof -
  have st: "store_ok extended_job_id (ec_job_store ch)"
    using ext_reachable_ok [OF assms(2,1)] by (simp add: ext_ok_def)
  have "activate_future_job extended_job_id extended_job_activate (tnph_template_id m)
      (tnph_header_timestamp m) (ec_job_store ch) = (True, ec_job_store ch')"
    using assms(3,4) by (auto simp: ext_on_set_new_prev_hash_def split: prod.splits bool.splits)
  from ext_job.activate_makes_stale [OF st this select_job_active_or_past [OF st assms(5)]]
  show ?thesis by (simp add: ext_validate_share_def select_job_stale)
qed

theorem ext_stale_after_new_tip_witness:
  "\<exists>ch'. ext_on_set_new_prev_hash demo_prev_hash demo_next = (Ok (), ch') \<and>
     ext_validate_share demo_bitcoin (demo_share 3) ch' = (Err Stale, ch')"
proof -
  have ne: "\<not> Mapping.is_empty (future_jobs (ec_job_store demo_next))"
    by (simp add: demo_next_def job_store_defs Mapping.is_empty_def)
  then obtain ch' where ch': "ext_on_set_new_prev_hash demo_prev_hash demo_next = (Ok (), ch')"
    by (simp add: ext_on_set_new_prev_hash_def)
      (simp add: demo_next_def demo_mining_def demo_prev_hash_def job_store_defs lookup_update)
  with ext_stale_after_new_tip [OF demo_segwit_encoding demo_next_reachable ne ch' demo_next_select]
  show ?thesis by blast
qed



text \<open>C32: updating a channel never panics, leaves it unchanged on error, and on success sets the
  target of the new hashrate, which does not exceed the requested maximum now on record.\<close>

theorem ext_update_channel_bounds:
  assumes "ext_update_channel h t ch = (r, ch')"
  shows "r \<noteq> Panic \<and> (\<forall>e. r = Err e \<longrightarrow> ch' = ch) \<and>
    (r = Ok () \<longrightarrow> ec_target ch' \<le> ec_requested_max_target ch' \<and>
       ec_requested_max_target ch' = (case t of Some x \<Rightarrow> x | None \<Rightarrow> ec_requested_max_target ch) \<and>
       ec_nominal_hashrate ch' = h \<and>
       (\<exists>u. hash_rate_to_target (f64_from_f32 h) (f64_from_f32 (ec_expected_share_per_minute ch)) = Ok u \<and>
          target_nat (ec_target ch') = nat_of_le (inner_as_ref u)))"
proof (cases "hash_rate_to_target (f64_from_f32 h) (f64_from_f32 (ec_expected_share_per_minute ch))")
  case (Ok u)
  have len: "length (inner_as_ref u) = 32" by (rule hash_rate_to_target_length [OF Ok])
  then obtain tg where tg: "target_from_bytes (inner_as_ref u) = (Ok tg :: (Target, ExtendedChannelError) result)"
    by (auto simp: target_from_bytes_def)
  show ?thesis
    using assms target_from_bytes_value [OF tg len]
    by (auto simp: ext_update_channel_def Ok target_from_u256_def tg Let_def split: if_splits)
qed (use assms hash_rate_to_target_no_panic in \<open>auto simp: ext_update_channel_def\<close>)

theorem ext_update_channel_bounds_witness:
  "fst (ext_update_channel 0x41200000 None demo_channel) \<noteq> Panic"
  using ext_update_channel_bounds [OF surjective_pairing, of "0x41200000" None demo_channel] by simp

text \<open>C33: a new extranonce prefix of at most 32 bytes is accepted exactly if the rollable part does not
  shrink, and prefix and rollable part then add up to 32; but the 16-bit subtraction wraps, so that
  a prefix of 33 bytes is accepted with a rollable size of 65535.\<close>

theorem ext_extranonce_prefix_size:
  assumes "ext_set_extranonce_prefix p ch = (r, ch')"
  shows "(length p \<le> 32 \<longrightarrow> (r = Ok () \<longleftrightarrow> unat (ec_rollable_extranonce_size ch) + length p \<le> 32) \<and>
      (r = Ok () \<longrightarrow> ec_extranonce_prefix ch' = p \<and> unat (ec_rollable_extranonce_size ch') + length p = 32) \<and>
      (r \<noteq> Ok () \<longrightarrow> r = Err NewExtranoncePrefixTooLarge \<and> ch' = ch)) \<and>
    (length p = 33 \<longrightarrow> r = Ok () \<and> ec_extranonce_prefix ch' = p \<and> ec_rollable_extranonce_size ch' = 65535)"
proof -
  have "unat (rollable_size p) = 32 - length p" if "length p \<le> 32"
  proof -
    have "unat (of_nat (length p) :: u16) = length p" using that by (simp add: unat_of_nat_small)
    then show ?thesis using that by (simp add: rollable_size_def MAX_EXTRANONCE_LEN_def unat_sub word_le_nat_alt)
  qed
  moreover have "rollable_size p = 65535" if "length p = 33"
    using that by (simp add: rollable_size_def MAX_EXTRANONCE_LEN_def)
  moreover have "\<not> (65535 :: u16) < x" for x
    using unsigned_less [of x, where ?'a = nat] by (simp add: word_less_nat_alt not_less)
  ultimately show ?thesis
    using assms by (auto simp: ext_set_extranonce_prefix_def word_less_nat_alt split: if_splits)
qed

theorem ext_extranonce_prefix_size_witness:
  "ext_set_extranonce_prefix (replicate 33 0) demo_channel =
     (Ok (), demo_channel\<lparr>ec_extranonce_prefix := replicate 33 0, ec_rollable_extranonce_size := 65535\<rparr>)"
  using ext_extranonce_prefix_size [OF surjective_pairing, of "replicate 33 0" demo_channel]
  by (auto simp: ext_set_extranonce_prefix_def Let_def split: if_splits)

text \<open>C34: a share that is a block is not checked for duplicates: submitted again it is reported as a
  block and counted again.\<close>

theorem ext_block_accepted_again:
  assumes "ext_validate_share btc share ch = (Ok (BlockFound s template_id cb), ch')"
  shows "\<exists>ch''. ext_validate_share btc share ch' = (Ok (BlockFound s template_id cb), ch'') \<and>
    shares_accepted (ec_share_accounting ch'') = shares_accepted (ec_share_accounting ch) + 2"
  by (rule ext_validate_block_again [OF assms])

theorem ext_block_accepted_again_witness:
  "\<exists>s i cb ch' ch''. ext_validate_share demo_bitcoin (demo_share 0) demo_mining = (Ok (BlockFound s i cb), ch') \<and>
     ext_validate_share demo_bitcoin (demo_share 0) ch' = (Ok (BlockFound s i cb), ch'')"
proof -
  obtain s i cb ch' where v: "ext_validate_share demo_bitcoin (demo_share 0) demo_mining = (Ok (BlockFound s i cb), ch')"
    by (rule demo_validate_block)
  with ext_block_accepted_again [OF v] show ?thesis by blast
qed

end
