(* ===== verification/Standard_Channel.thy ===== *)
theory Standard_Channel
  imports Share_Validation
begin

text \<open>Standard channels of a mining server (\<open>channels-sv2/src/server/standard.rs\<close>). A standard channel
  has no extranonce of its own to roll: its jobs carry a finished merkle root. Jobs come from the
  channel's own factory (\<open>std_on_new_template\<close>) or from an extended job of the group channel
  (\<open>std_on_group_channel_job\<close>). The methods are the steps of a state machine
  (\<open>std_reachable\<close>) with the invariant \<open>std_ok\<close>.\<close>

section \<open>State and methods\<close>

datatype StandardChannelError =
    TemplateIdNotFound
  | InvalidNominalHashrate
  | RequestedMaxTargetOutOfRange
  | NewExtranoncePrefixTooLarge
  | JobFactoryError JobFactoryError
  | ChainTipNotSet
  | FailedToConvertToStandardJob

record StandardChannel =
  sc_channel_id :: u32
  sc_user_identity :: bytes
  sc_extranonce_prefix :: bytes
  sc_requested_max_target :: Target
  sc_target :: Target
  sc_nominal_hashrate :: u32
  sc_share_accounting :: ShareAccounting
  sc_expected_share_per_minute :: u32
  sc_job_store :: "StandardJob DefaultJobStore"
  sc_job_factory :: JobFactory
  sc_chain_tip :: "ChainTip option"

definition standard_channel_new ::
    "u32 \<Rightarrow> bytes \<Rightarrow> bytes \<Rightarrow> Target \<Rightarrow> u32 \<Rightarrow> nat \<Rightarrow> u32 \<Rightarrow> StandardJob DefaultJobStore \<Rightarrow>
     bytes option \<Rightarrow> bytes option \<Rightarrow> (StandardChannel, StandardChannelError) result" where
  "standard_channel_new channel_id user_identity extranonce_prefix max_target nominal_hashrate
     batch expected_share_per_minute job_store pool_tag miner_tag =
     rbind (map_err (\<lambda>_. InvalidNominalHashrate)
       (hash_rate_to_target (f64_from_f32 nominal_hashrate) (f64_from_f32 expected_share_per_minute)))
       (\<lambda>calculated_target.
     rbind (target_from_u256 calculated_target) (\<lambda>target.
       if max_target < target then Err RequestedMaxTargetOutOfRange
       else Ok \<lparr>sc_channel_id = channel_id, sc_user_identity = user_identity,
                sc_extranonce_prefix = extranonce_prefix, sc_requested_max_target = max_target,
                sc_target = target, sc_nominal_hashrate = nominal_hashrate,
                sc_share_accounting = share_accounting_new batch,
                sc_expected_share_per_minute = expected_share_per_minute,
                sc_job_store = job_store,
                sc_job_factory = job_factory_new True pool_tag miner_tag,
                sc_chain_tip = None\<rparr>))"

definition std_new_for_pool ::
    "u32 \<Rightarrow> bytes \<Rightarrow> bytes \<Rightarrow> Target \<Rightarrow> u32 \<Rightarrow> nat \<Rightarrow> u32 \<Rightarrow> StandardJob DefaultJobStore \<Rightarrow> bytes \<Rightarrow>
     (StandardChannel, StandardChannelError) result" where
  "std_new_for_pool channel_id user_identity extranonce_prefix max_target nominal_hashrate batch
     shares_per_minute job_store pool_tag =
     standard_channel_new channel_id user_identity extranonce_prefix max_target nominal_hashrate batch
       shares_per_minute job_store (Some pool_tag) None"

definition std_new_for_job_declaration_client ::
    "u32 \<Rightarrow> bytes \<Rightarrow> bytes \<Rightarrow> Target \<Rightarrow> u32 \<Rightarrow> nat \<Rightarrow> u32 \<Rightarrow> StandardJob DefaultJobStore \<Rightarrow>
     bytes option \<Rightarrow> bytes \<Rightarrow> (StandardChannel, StandardChannelError) result" where
  "std_new_for_job_declaration_client channel_id user_identity extranonce_prefix max_target
     nominal_hashrate batch shares_per_minute job_store pool_tag miner_tag =
     standard_channel_new channel_id user_identity extranonce_prefix max_target nominal_hashrate batch
       shares_per_minute job_store pool_tag (Some miner_tag)"

definition std_set_extranonce_prefix ::
    "bytes \<Rightarrow> StandardChannel \<Rightarrow> (unit, StandardChannelError) result \<times> StandardChannel" where
  "std_set_extranonce_prefix extranonce_prefix ch =
     (if MAX_EXTRANONCE_LEN < length extranonce_prefix then (Err NewExtranoncePrefixTooLarge, ch)
      else (Ok (), ch\<lparr>sc_extranonce_prefix := extranonce_prefix\<rparr>))"

definition std_set_target :: "Target \<Rightarrow> StandardChannel \<Rightarrow> StandardChannel" where
  "std_set_target target ch = ch\<lparr>sc_target := target\<rparr>"

definition std_set_nominal_hashrate :: "u32 \<Rightarrow> StandardChannel \<Rightarrow> StandardChannel" where
  "std_set_nominal_hashrate hashrate ch = ch\<lparr>sc_nominal_hashrate := hashrate\<rparr>"

definition std_update_channel ::
    "u32 \<Rightarrow> Target option \<Rightarrow> StandardChannel \<Rightarrow> (unit, StandardChannelError) result \<times> StandardChannel" where
  "std_update_channel nominal_hashrate requested_max_target ch =
     or_return (map_err (\<lambda>_. InvalidNominalHashrate)
       (hash_rate_to_target (f64_from_f32 nominal_hashrate)
          (f64_from_f32 (sc_expected_share_per_minute ch)))) ch (\<lambda>target_u256.
     let requested_max_target =
       (case requested_max_target of Some t \<Rightarrow> t | None \<Rightarrow> sc_requested_max_target ch) in
     or_return (target_from_u256 target_u256) ch (\<lambda>new_target.
       if requested_max_target < new_target then (Err RequestedMaxTargetOutOfRange, ch)
       else (Ok (), ch\<lparr>sc_target := new_target, sc_nominal_hashrate := nominal_hashrate,
                      sc_requested_max_target := requested_max_target\<rparr>)))"

definition std_on_new_template ::
    "bitcoin \<Rightarrow> NewTemplate \<Rightarrow> TxOut list \<Rightarrow> StandardChannel \<Rightarrow>
     (unit, StandardChannelError) result \<times> StandardChannel" where
  "std_on_new_template btc template rewards ch =
     (if nt_future_template template then
        case new_standard_job btc (sc_channel_id ch) None (sc_extranonce_prefix ch) template rewards
               (sc_job_factory ch) of (r, f) \<Rightarrow>
          let ch = ch\<lparr>sc_job_factory := f\<rparr> in
          or_return (map_err JobFactoryError r) ch (\<lambda>new_job.
            (Ok (), ch\<lparr>sc_job_store := snd (add_future_job standard_job_id
               (nt_template_id template) new_job (sc_job_store ch))\<rparr>))
      else case sc_chain_tip ch of
        None \<Rightarrow> (Err ChainTipNotSet, ch)
      | Some chain_tip \<Rightarrow>
          case new_standard_job btc (sc_channel_id ch) (Some chain_tip) (sc_extranonce_prefix ch)
                 template rewards (sc_job_factory ch) of (r, f) \<Rightarrow>
            let ch = ch\<lparr>sc_job_factory := f\<rparr> in
            or_return (map_err JobFactoryError r) ch (\<lambda>new_job.
              (Ok (), ch\<lparr>sc_job_store := add_active_job standard_job_id new_job (sc_job_store ch)\<rparr>)))"

definition std_on_group_channel_job ::
    "bitcoin \<Rightarrow> ExtendedJob \<Rightarrow> StandardChannel \<Rightarrow> (unit, StandardChannelError) result \<times> StandardChannel" where
  "std_on_group_channel_job btc extended_job ch =
     or_return (map_err (\<lambda>_. StandardChannelError.FailedToConvertToStandardJob)
       (into_standard_job btc extended_job (sc_channel_id ch) (sc_extranonce_prefix ch))) ch
       (\<lambda>standard_job.
     or_return (expect (standard_job_is_future standard_job)) ch (\<lambda>is_future.
       if is_future
       then (Ok (), ch\<lparr>sc_job_store := snd (add_future_job standard_job_id
               (nt_template_id (sj_template standard_job)) standard_job (sc_job_store ch))\<rparr>)
       else (Ok (), ch\<lparr>sc_job_store := add_active_job standard_job_id standard_job (sc_job_store ch)\<rparr>)))"

definition std_on_set_new_prev_hash ::
    "SetNewPrevHash \<Rightarrow> StandardChannel \<Rightarrow> (unit, StandardChannelError) result \<times> StandardChannel" where
  "std_on_set_new_prev_hash m ch =
     (if Mapping.is_empty (future_jobs (sc_job_store ch)) then (Err TemplateIdNotFound, ch)
      else
        case activate_future_job standard_job_id standard_job_activate (tnph_template_id m)
               (tnph_header_timestamp m) (sc_job_store ch) of (activated, store) \<Rightarrow>
          if \<not> activated then (Err TemplateIdNotFound, ch\<lparr>sc_job_store := store\<rparr>)
          else (Ok (), ch\<lparr>sc_job_store := store, sc_chain_tip := Some (chain_tip_from_tdp m)\<rparr>))"

definition std_share_header ::
    "SubmitSharesStandard \<Rightarrow> StandardJob \<Rightarrow> ChainTip option \<Rightarrow>
     (block_header, ShareValidationError) result" where
  "std_share_header share j tip =
     (let merkle_root = inner_as_ref (nmj_merkle_root (sj_job_message j)) in
      if length merkle_root \<noteq> 32 then Panic
      else
        rbind (ok_or NoChainTip tip) (\<lambda>chain_tip.
        rbind (u256_to_block_hash (ct_prev_hash chain_tip)) (\<lambda>prev_hash.
          Ok \<lparr>hdr_version = sss_version share, prev_blockhash = prev_hash,
              hdr_merkle_root = merkle_root, hdr_time = sss_ntime share,
              hdr_bits = ct_nbits chain_tip, hdr_nonce = sss_nonce share\<rparr>)))"

definition std_block_coinbase :: "bitcoin \<Rightarrow> StandardJob \<Rightarrow> bytes \<Rightarrow> Transaction" where
  "std_block_coinbase btc j tag =
     \<lparr>tx_version = nt_coinbase_tx_version (sj_template j),
      lock_time = nt_coinbase_tx_locktime (sj_template j),
      tx_input = [\<lparr>previous_output = outpoint_null btc,
                   script_sig = inner_as_ref (nt_coinbase_prefix (sj_template j)) @ tag @
                     [of_nat MAX_EXTRANONCE_LEN] @ sj_extranonce_prefix j,
                   sequence = nt_coinbase_tx_input_sequence (sj_template j),
                   witness = [replicate 32 0]\<rparr>],
      tx_output = sj_coinbase_outputs j\<rparr>"

definition std_validate_share ::
    "bitcoin \<Rightarrow> SubmitSharesStandard \<Rightarrow> StandardChannel \<Rightarrow>
     (ShareValidationResult, ShareValidationError) result \<times> StandardChannel" where
  "std_validate_share btc share ch =
     or_return (select_job standard_job_id (sc_job_store ch) (sss_job_id share)) ch (\<lambda>j.
     or_return (std_share_header share j (sc_chain_tip ch)) ch (\<lambda>header.
     let share_hash = block_hash btc header in
     or_return (target_from_bytes share_hash) ch (\<lambda>hash_as_target.
       if is_met_by btc (hdr_bits header) share_hash then
         let ch = ch\<lparr>sc_share_accounting := update_share_accounting (share_work (sc_target ch))
               (sss_sequence_number share) share_hash (sc_share_accounting ch)\<rparr> in
         or_return (map_err (\<lambda>_. InvalidCoinbase) (op_pushbytes_pool_miner_tag (sc_job_factory ch))) ch
           (\<lambda>tag. (Ok (BlockFound \<lparr>hash = share_hash\<rparr> (Some (nt_template_id (sj_template j)))
              (serialize btc (std_block_coinbase btc j tag))), ch))
       else
         case check_target (sc_target ch) (sss_sequence_number share) share_hash hash_as_target
                (sc_share_accounting ch) of
           (r, acc) \<Rightarrow> (r, ch\<lparr>sc_share_accounting := acc\<rparr>))))"

section \<open>Reachable channels\<close>

datatype std_op =
    SetExtranoncePrefix bytes
  | SetTarget Target
  | SetNominalHashrate u32
  | UpdateChannel u32 "Target option"
  | OnNewTemplate NewTemplate "TxOut list"
  | OnGroupChannelJob ExtendedJob
  | OnSetNewPrevHash SetNewPrevHash
  | ValidateShare SubmitSharesStandard

fun std_apply :: "bitcoin \<Rightarrow> std_op \<Rightarrow> StandardChannel \<Rightarrow> StandardChannel" where
  "std_apply btc (SetExtranoncePrefix p) ch = snd (std_set_extranonce_prefix p ch)"
| "std_apply btc (SetTarget t) ch = std_set_target t ch"
| "std_apply btc (SetNominalHashrate h) ch = std_set_nominal_hashrate h ch"
| "std_apply btc (UpdateChannel h t) ch = snd (std_update_channel h t ch)"
| "std_apply btc (OnNewTemplate t rewards) ch = snd (std_on_new_template btc t rewards ch)"
| "std_apply btc (OnGroupChannelJob j) ch = snd (std_on_group_channel_job btc j ch)"
| "std_apply btc (OnSetNewPrevHash m) ch = snd (std_on_set_new_prev_hash m ch)"
| "std_apply btc (ValidateShare s) ch = snd (std_validate_share btc s ch)"

text \<open>What a caller must respect: a new job has an id the channel does not know yet (the channel's
  own ids and those of its group are drawn from different counters), an extended job of the group
  that is not for a future template comes after a chain tip, and hashes in messages have 32 bytes.\<close>

fun std_op_ok :: "std_op \<Rightarrow> StandardChannel \<Rightarrow> bool" where
  "std_op_ok (OnNewTemplate t rewards) ch \<longleftrightarrow>
     job_id_state (sc_job_factory ch) + 1 \<notin> known_ids standard_job_id (sc_job_store ch)"
| "std_op_ok (OnGroupChannelJob j) ch \<longleftrightarrow>
     extended_job_id j \<notin> known_ids standard_job_id (sc_job_store ch) \<and>
     (nemj_min_ntime (ej_job_message j) = [] \<or> sc_chain_tip ch \<noteq> None)"
| "std_op_ok (OnSetNewPrevHash m) ch \<longleftrightarrow> length (inner_as_ref (tnph_prev_hash m)) = 32"
| "std_op_ok op ch \<longleftrightarrow> True"

inductive std_reachable :: "bitcoin \<Rightarrow> StandardChannel \<Rightarrow> bool" for btc where
  opened: "standard_channel_new channel_id user ep max_target hashrate batch spm
      job_store_new pool_tag miner_tag = Ok ch \<Longrightarrow> std_reachable btc ch"
| step: "std_reachable btc ch \<Longrightarrow> std_op_ok op ch \<Longrightarrow> std_reachable btc (std_apply btc op ch)"

definition root_ok :: "StandardJob \<Rightarrow> bool" where
  "root_ok j \<longleftrightarrow> length (inner_as_ref (nmj_merkle_root (sj_job_message j))) = 32"

definition std_ok :: "StandardChannel \<Rightarrow> bool" where
  "std_ok ch \<longleftrightarrow>
     store_ok standard_job_id (sc_job_store ch) \<and> tip_known (sc_job_store ch) (sc_chain_tip ch) \<and>
     (\<forall>j \<in> store_jobs (sc_job_store ch). root_ok j)"

text \<open>The ordinary shares accepted along a sequence of calls.\<close>

fun std_accepted :: "bitcoin \<Rightarrow> std_op list \<Rightarrow> StandardChannel \<Rightarrow> bytes list" where
  "std_accepted btc [] ch = []"
| "std_accepted btc (op # ops) ch =
     (case op of ValidateShare s \<Rightarrow> accepted_hash (fst (std_validate_share btc s ch)) | _ \<Rightarrow> []) @
     std_accepted btc ops (std_apply btc op ch)"

fun std_ops_ok :: "bitcoin \<Rightarrow> std_op list \<Rightarrow> StandardChannel \<Rightarrow> bool" where
  "std_ops_ok btc [] ch \<longleftrightarrow> True"
| "std_ops_ok btc (op # ops) ch \<longleftrightarrow> std_op_ok op ch \<and> std_ops_ok btc ops (std_apply btc op ch)"

section \<open>The invariant is kept\<close>

lemma std_ok_frame:
  assumes "std_ok ch" and "sc_job_store ch' = sc_job_store ch" and "sc_chain_tip ch' = sc_chain_tip ch"
  shows "std_ok ch'"
  using assms by (simp add: std_ok_def)

lemma std_ok_add_job:
  assumes "std_ok ch" and "standard_job_id j \<notin> known_ids standard_job_id (sc_job_store ch)" and "root_ok j"
  shows "std_ok (ch\<lparr>sc_job_store := snd (add_future_job standard_job_id t j (sc_job_store ch))\<rparr>)"
    and "sc_chain_tip ch \<noteq> None \<Longrightarrow>
      std_ok (ch\<lparr>sc_job_store := add_active_job standard_job_id j (sc_job_store ch)\<rparr>)"
  using assms std_job.store_ok_add_future [of "sc_job_store ch" j t]
    subsetD [OF std_job.store_jobs_add_future [of t j "sc_job_store ch"]]
    std_job.store_ok_add_active [of "sc_job_store ch" j]
    subsetD [OF std_job.store_jobs_add_active [of j "sc_job_store ch"]]
  by (auto simp: std_ok_def tip_known_def std_job.active_or_past_add_future)

lemma new_standard_job_new_id:
  assumes "new_standard_job btc c tip ep t r f = (Ok j, f')"
  shows "standard_job_id j = job_id_state f + 1 \<and> root_ok j"
proof -
  have "inner_try_from_vec U256 x = Ok y \<Longrightarrow> length (inner_as_ref y) = 32" for x y
    by (auto simp: inner_try_from_vec_def U256_def split: if_splits)
  then show ?thesis
    using assms
    by (auto simp: new_standard_job_def job_id_next_def result_simps standard_job_from_template_def
        standard_job_id_def root_ok_def split: if_splits)
qed

lemma into_standard_job_Ok:
  assumes "into_standard_job btc j channel_id ep = Ok sj"
  shows "standard_job_id sj = extended_job_id j \<and> root_ok sj \<and>
    nmj_min_ntime (sj_job_message sj) = nemj_min_ntime (ej_job_message j) \<and> sj_extranonce_prefix sj = ep"
proof -
  have "inner_try_from_vec U256 x = Ok y \<Longrightarrow> length (inner_as_ref y) = 32" for x y
    by (auto simp: inner_try_from_vec_def U256_def split: if_splits)
  then show ?thesis
    using assms
    by (auto simp: into_standard_job_def result_simps standard_job_from_template_def
        standard_job_id_def root_ok_def split: JobOrigin.splits)
qed

lemma std_ok_on_new_template:
  assumes ok: "std_ok ch" and "std_op_ok (OnNewTemplate t rewards) ch"
  shows "std_ok (snd (std_on_new_template btc t rewards ch))"
proof -
  have step: "std_ok (snd (or_return (map_err JobFactoryError r) (ch\<lparr>sc_job_factory := f\<rparr>) (\<lambda>j. (Ok (), k j))))"
    if "\<And>j. r = Ok j \<Longrightarrow> std_ok (k j)" for r f k
    using that std_ok_frame [OF ok] by (cases r) auto
  have fut: "std_ok (ch\<lparr>sc_job_factory := f, sc_job_store := snd (add_future_job standard_job_id tid j (sc_job_store ch))\<rparr>)"
    if "new_standard_job btc c tip ep t rewards (sc_job_factory ch) = (Ok j, f)" for c tip ep j f tid
    using std_ok_add_job(1) [OF ok, of j tid] new_standard_job_new_id [OF that] assms(2)
    by (auto intro: std_ok_frame)
  have act: "std_ok (ch\<lparr>sc_job_factory := f, sc_job_store := add_active_job standard_job_id j (sc_job_store ch)\<rparr>)"
    if "new_standard_job btc c tip ep t rewards (sc_job_factory ch) = (Ok j, f)" "sc_chain_tip ch \<noteq> None"
    for c tip ep j f
    using std_ok_add_job(2) [OF ok, of j] new_standard_job_new_id [OF that(1)] that(2) assms(2)
    by (auto intro: std_ok_frame)
  show ?thesis
    using ok
    by (auto simp: std_on_new_template_def Let_def split: prod.split option.split intro!: step fut act)
qed

lemma std_ok_on_group_channel_job:
  assumes ok: "std_ok ch" and "std_op_ok (OnGroupChannelJob j) ch"
  shows "std_ok (snd (std_on_group_channel_job btc j ch))"
proof (cases "into_standard_job btc j (sc_channel_id ch) (sc_extranonce_prefix ch)")
  case (Ok sj)
  note sj = into_standard_job_Ok [OF Ok]
  have "standard_job_is_future sj = Ok False \<Longrightarrow> sc_chain_tip ch \<noteq> None"
    using assms(2) sj
    by (auto simp: standard_job_is_future_def sv2_option_into_inner_def result_simps vec_pop_def)
  then show ?thesis
    using std_ok_add_job [OF ok] sj assms(2) ok
    by (cases "standard_job_is_future sj") (auto simp: std_on_group_channel_job_def Ok)
qed (use ok in \<open>simp_all add: std_on_group_channel_job_def\<close>)

lemma std_ok_on_set_new_prev_hash:
  assumes ok: "std_ok ch" and "std_op_ok (OnSetNewPrevHash m) ch"
  shows "std_ok (snd (std_on_set_new_prev_hash m ch))"
proof -
  define act where "act = activate_future_job standard_job_id standard_job_activate (tnph_template_id m)
      (tnph_header_timestamp m) (sc_job_store ch)"
  have st: "store_ok standard_job_id (sc_job_store ch)" using ok by (simp add: std_ok_def)
  have roots: "\<forall>j \<in> store_jobs (snd act). root_ok j"
    using std_job.store_jobs_activate [of "tnph_template_id m" "tnph_header_timestamp m" "sc_job_store ch"] ok
    by (fastforce simp: act_def std_ok_def root_ok_def standard_job_activate_def)
  have len: "length (inner_as_ref (ct_prev_hash (chain_tip_from_tdp m))) = 32"
    using assms(2) by (cases "tnph_prev_hash m") (auto simp: chain_tip_from_tdp_def chain_tip_new_def)
  have "\<not> fst act \<Longrightarrow> active_job (snd act) = active_job (sc_job_store ch) \<and>
      past_jobs (snd act) = past_jobs (sc_job_store ch)"
    by (auto simp: act_def activate_future_job_def Let_def split: option.splits)
  then show ?thesis
    using ok roots len std_job.store_ok_activate [OF st, of "tnph_template_id m" "tnph_header_timestamp m"]
    by (cases act) (auto simp: std_on_set_new_prev_hash_def act_def [symmetric] std_ok_def tip_known_def)
qed

lemma std_set_extranonce_prefix_frame [simp]:
  "sc_job_store (snd (std_set_extranonce_prefix p ch)) = sc_job_store ch"
  "sc_chain_tip (snd (std_set_extranonce_prefix p ch)) = sc_chain_tip ch"
  "sc_share_accounting (snd (std_set_extranonce_prefix p ch)) = sc_share_accounting ch"
  by (simp_all add: std_set_extranonce_prefix_def)

lemma std_update_channel_frame [simp]:
  "sc_job_store (snd (std_update_channel h t ch)) = sc_job_store ch"
  "sc_chain_tip (snd (std_update_channel h t ch)) = sc_chain_tip ch"
  "sc_share_accounting (snd (std_update_channel h t ch)) = sc_share_accounting ch"
  by (simp_all add: std_update_channel_def or_return_def Let_def split: result.split)

lemma std_validate_share_frame [simp]:
  "sc_job_store (snd (std_validate_share btc s ch)) = sc_job_store ch"
  "sc_chain_tip (snd (std_validate_share btc s ch)) = sc_chain_tip ch"
  by (simp_all add: std_validate_share_def or_return_def Let_def split: result.split prod.split)

lemma std_ok_opened:
  assumes "standard_channel_new channel_id user ep max_target hashrate batch spm
      job_store_new pool_tag miner_tag = Ok ch"
  shows "std_ok ch"
  using assms
  by (auto simp: standard_channel_new_def std_ok_def tip_known_def result_simps
      job_store_new_def store_ok_def store_jobs_def Let_def split: if_splits)

lemma std_ok_apply: "std_ok ch \<Longrightarrow> std_op_ok op ch \<Longrightarrow> std_ok (std_apply btc op ch)"
  using std_ok_on_new_template std_ok_on_group_channel_job std_ok_on_set_new_prev_hash
    std_ok_frame [of ch]
  by (cases op) (simp_all add: std_set_target_def std_set_nominal_hashrate_def)

lemma std_reachable_ok: "std_reachable btc ch \<Longrightarrow> std_ok ch"
  by (induction rule: std_reachable.induct) (auto intro: std_ok_opened std_ok_apply)

section \<open>Outcomes of share validation\<close>

lemma std_share_header_Ok:
  assumes "tip = Some t" and "length (inner_as_ref (ct_prev_hash t)) = 32" and "root_ok j"
  shows "std_share_header share j tip =
    Ok \<lparr>hdr_version = sss_version share, prev_blockhash = inner_as_ref (ct_prev_hash t),
        hdr_merkle_root = inner_as_ref (nmj_merkle_root (sj_job_message j)), hdr_time = sss_ntime share,
        hdr_bits = ct_nbits t, hdr_nonce = sss_nonce share\<rparr>"
  using assms by (simp add: std_share_header_def root_ok_def u256_to_block_hash_def Let_def)

lemma std_validate_share_selected:
  assumes "select_job standard_job_id (sc_job_store ch) (sss_job_id share) = Ok j"
    and "std_share_header share j (sc_chain_tip ch) = Ok header"
    and "target_from_bytes (block_hash btc header) = (Ok t :: (Target, ShareValidationError) result)"
  shows "std_validate_share btc share ch =
    (if is_met_by btc (hdr_bits header) (block_hash btc header) then
       (map_ok (\<lambda>tag. BlockFound \<lparr>hash = block_hash btc header\<rparr> (Some (nt_template_id (sj_template j)))
            (serialize btc (std_block_coinbase btc j tag)))
          (map_err (\<lambda>_. InvalidCoinbase) (op_pushbytes_pool_miner_tag (sc_job_factory ch))),
        ch\<lparr>sc_share_accounting := update_share_accounting (share_work (sc_target ch))
          (sss_sequence_number share) (block_hash btc header) (sc_share_accounting ch)\<rparr>)
     else (fst (check_target (sc_target ch) (sss_sequence_number share) (block_hash btc header) t
              (sc_share_accounting ch)),
           ch\<lparr>sc_share_accounting := snd (check_target (sc_target ch) (sss_sequence_number share)
              (block_hash btc header) t (sc_share_accounting ch))\<rparr>))"
  by (cases "op_pushbytes_pool_miner_tag (sc_job_factory ch)")
    (simp_all add: std_validate_share_def assms case_prod_unfold Let_def)

text \<open>On a channel that satisfies the invariant every share is either rejected with its job id or
  compared with the targets.\<close>

lemma std_validate_share_cases:
  assumes ok: "std_ok ch" and "hash_lengths btc" and v: "std_validate_share btc share ch = (r, ch')"
  obtains (early) "ch' = ch" "r = Err Stale \<or> r = Err InvalidJobId"
  | (judged) j header t where
    "select_job standard_job_id (sc_job_store ch) (sss_job_id share) = Ok j"
    "std_share_header share j (sc_chain_tip ch) = Ok header"
    "target_from_bytes (block_hash btc header) = (Ok t :: (Target, ShareValidationError) result)"
proof (cases "select_job standard_job_id (sc_job_store ch) (sss_job_id share)")
  case (Ok j)
  have st: "store_ok standard_job_id (sc_job_store ch)" and tk: "tip_known (sc_job_store ch) (sc_chain_tip ch)"
    using ok by (simp_all add: std_ok_def)
  obtain tip where tip: "sc_chain_tip ch = Some tip" "length (inner_as_ref (ct_prev_hash tip)) = 32"
    by (rule select_job_tip [OF tk st Ok])
  have "root_ok j" using ok select_job_Ok [OF st Ok] by (simp add: std_ok_def)
  from std_share_header_Ok [OF tip this] obtain header where h: "std_share_header share j (sc_chain_tip ch) = Ok header"
    by blast
  obtain t where t: "target_from_bytes (block_hash btc header) = (Ok t :: (Target, ShareValidationError) result)"
    using assms(2) by (auto simp: hash_lengths_def target_from_bytes_def)
  show ?thesis by (rule judged [OF Ok h t])
next
  case (Err e)
  then show ?thesis using v early select_job_errors [OF Err] by (auto simp: std_validate_share_def)
next
  case Panic
  then show ?thesis by (simp add: select_job_no_panic)
qed

lemma std_seen_validate:
  assumes "std_ok ch" and "hash_lengths btc"
  shows "seen_shares (sc_share_accounting ch) \<subseteq>
      seen_shares (sc_share_accounting (snd (std_validate_share btc s ch)))"
    and "set (accepted_hash (fst (std_validate_share btc s ch))) \<subseteq>
      seen_shares (sc_share_accounting (snd (std_validate_share btc s ch))) -
      seen_shares (sc_share_accounting ch)"
    and "distinct (accepted_hash (fst (std_validate_share btc s ch)))"
proof -
  obtain r ch' where v: "std_validate_share btc s ch = (r, ch')" by fastforce
  have "seen_shares (sc_share_accounting ch) \<subseteq>
      seen_shares (sc_share_accounting (snd (std_validate_share btc s ch))) \<and>
    set (accepted_hash (fst (std_validate_share btc s ch))) \<subseteq>
      seen_shares (sc_share_accounting (snd (std_validate_share btc s ch))) -
      seen_shares (sc_share_accounting ch)"
    using assms v
  proof (cases rule: std_validate_share_cases)
    case (judged j header t)
    let ?c = "check_target (sc_target ch) (sss_sequence_number s) (block_hash btc header) t (sc_share_accounting ch)"
    have "set (accepted_hash (fst ?c)) \<subseteq> seen_shares (snd ?c) - seen_shares (sc_share_accounting ch)"
      by (rule check_target_accepted)
    moreover have "accepted_hash (map_ok (\<lambda>tag. BlockFound a b (k tag)) x) = []" for a b and k :: "bytes \<Rightarrow> bytes" and x
      by (cases x) (simp_all add: accepted_hash_def)
    ultimately show ?thesis
      using check_target_seen by (simp add: std_validate_share_selected [OF judged] subset_insertI)
  qed (auto simp: v accepted_hash_def)
  then show "seen_shares (sc_share_accounting ch) \<subseteq>
      seen_shares (sc_share_accounting (snd (std_validate_share btc s ch)))"
    and "set (accepted_hash (fst (std_validate_share btc s ch))) \<subseteq>
      seen_shares (sc_share_accounting (snd (std_validate_share btc s ch))) -
      seen_shares (sc_share_accounting ch)" by blast+
  show "distinct (accepted_hash (fst (std_validate_share btc s ch)))"
    by (simp add: accepted_hash_def split: result.split ShareValidationResult.split)
qed

lemma std_seen_apply:
  assumes "std_ok ch" and "hash_lengths btc"
  shows "seen_shares (sc_share_accounting ch) \<subseteq> seen_shares (sc_share_accounting (std_apply btc op ch))"
  using std_seen_validate [OF assms]
  by (cases op) (simp_all add: std_set_target_def std_set_nominal_hashrate_def std_on_new_template_def
      std_on_group_channel_job_def std_on_set_new_prev_hash_def Let_def or_return_def
      split: prod.split option.split result.split)

lemma std_accepted_distinct:
  assumes "hash_lengths btc" and "std_ok ch" and "std_ops_ok btc ops ch"
  shows "distinct (std_accepted btc ops ch) \<and>
    set (std_accepted btc ops ch) \<inter> seen_shares (sc_share_accounting ch) = {}"
  using assms(2-)
proof (induction ops arbitrary: ch)
  case (Cons op ops)
  have ok: "std_ok (std_apply btc op ch)"
    using Cons.prems(2) by (intro std_ok_apply [OF Cons.prems(1)]) simp
  from Cons.IH [OF ok] Cons.prems(2) std_seen_apply [OF Cons.prems(1) assms(1), of op]
    std_seen_validate [OF Cons.prems(1) assms(1)]
  show ?case by (cases op) (auto, blast+)
qed simp

lemma std_validate_share_errors:
  assumes ok: "std_ok ch" and "hash_lengths btc"
    and "(of_nat (share_batch_size (sc_share_accounting ch)) :: u32) \<noteq> 0"
    and "std_validate_share btc share ch = (r, ch')"
  shows "r \<noteq> Panic \<and> (\<forall>e. r = Err e \<longrightarrow>
      (e \<in> {Stale, InvalidJobId, DoesNotMeetTarget, DuplicateShare} \<and> ch' = ch) \<or>
      (e = InvalidCoinbase \<and> \<not> is_ok (op_pushbytes_pool_miner_tag (sc_job_factory ch))))"
  using ok assms(2,4)
proof (cases rule: std_validate_share_cases)
  case (judged j header t)
  then show ?thesis
    using assms(4) check_target_errors(1) [OF assms(3)] op_pushbytes_no_panic
    by (auto simp: std_validate_share_selected [OF judged] result_simps split: if_splits
        dest!: check_target_errors(2))
qed auto

section \<open>A channel at work\<close>

definition demo_standard :: StandardChannel where
  "demo_standard =
     \<lparr>sc_channel_id = 8, sc_user_identity = [], sc_extranonce_prefix = replicate 32 5,
      sc_requested_max_target = Target (- 1) (- 1), sc_target = Target 1000 0,
      sc_nominal_hashrate = 0x41200000, sc_share_accounting = share_accounting_new 10,
      sc_expected_share_per_minute = 0x42700000, sc_job_store = job_store_new,
      sc_job_factory = demo_factory, sc_chain_tip = None\<rparr>"

definition demo_std_share :: "u32 \<Rightarrow> SubmitSharesStandard" where
  "demo_std_share nonce =
     \<lparr>sss_channel_id = 8, sss_sequence_number = 1, sss_job_id = 1, sss_nonce = nonce, sss_ntime = 5,
      sss_version = 2\<rparr>"

lemma demo_standard_reachable: "std_reachable demo_bitcoin demo_standard"
proof -
  obtain bs where bs: "hash_rate_to_target (Finite False 10) (Finite False 60) = Ok (Owned bs)" "length bs = 32"
    using hash_rate_to_target_value [of "Finite False 60" "Finite False 10"]
    by (auto simp: f64_zero_def signed_value_def)
  define t where "t = Target (from_le_bytes (take 16 bs)) (from_le_bytes (drop 16 bs))"
  have "\<not> Target (- 1) (- 1) < t"
    using target_nat_bound [of t] target_less_iff [of "Target (- 1) (- 1)" t] by (simp add: target_nat_max)
  then have "standard_channel_new 8 [] (replicate 32 5) (Target (- 1) (- 1)) 0x41200000 10 0x42700000
      job_store_new (Some [0x41]) None = Ok (demo_standard\<lparr>sc_target := t\<rparr>)"
    using bs by (simp add: standard_channel_new_def demo_f32 target_from_u256_def target_from_bytes_def
        demo_standard_def demo_factory_def t_def)
  from std_reachable.step [OF std_reachable.opened [OF this], of "SetTarget (Target 1000 0)"]
  show ?thesis by (simp add: demo_standard_def std_set_target_def)
qed

lemma demo_new_standard_job:
  "\<exists>j. new_standard_job demo_bitcoin 8 None (replicate 32 5) demo_template demo_rewards demo_factory =
     (Ok j, demo_factory\<lparr>job_id_state := 1\<rparr>)"
proof -
  have "outputs_sum demo_rewards = nt_coinbase_tx_value_remaining demo_template"
    by (simp add: outputs_sum_def demo_defs)
  moreover have "job_id_next demo_factory = (1, demo_factory\<lparr>job_id_state := 1\<rparr>)"
    by (simp add: job_id_next_def demo_factory_def job_factory_new_def)
  ultimately show ?thesis
    by (simp add: new_standard_job_def demo_coinbase_halves [of _ 0 0 "[]"])
      (simp add: demo_bitcoin_def demo_template_def merkle_root_from_path_def merkle_root_from_path_id_def
        inner_try_from_vec_def U256_def job_min_ntime_def standard_job_from_template_def
        deserialize_template_outputs_def)
qed

section \<open>Properties\<close>





text \<open>C35: the merkle root of a standard job built from a template commits to the very coinbase
  transaction that the channel submits when a share on the job is a block.\<close>

theorem std_block_coinbase_committed:
  assumes "segwit_encoding btc" and "txid_stable btc"
    and "new_standard_job btc channel_id tip ep template rewards f = (Ok j, f')"
    and "length (inner_as_ref (nt_coinbase_prefix template)) \<le> 157" and "length ep = 32"
  shows "\<exists>tag. op_pushbytes_pool_miner_tag f = Ok tag \<and>
    inner_as_ref (nmj_merkle_root (sj_job_message j)) =
      reduce_path btc (compute_txid btc (std_block_coinbase btc j tag))
        (map inner_as_ref (nt_merkle_path template))"
proof -
  obtain prefix suffix root T where f': "f' = f\<lparr>job_id_state := job_id_state f + 1\<rparr>" and J:
    "coinbase_tx_prefix btc f' template rewards = Ok prefix"
    "coinbase_tx_suffix btc f' template rewards = Ok suffix"
    "merkle_root_from_path btc prefix suffix ep (map inner_as_ref (nt_merkle_path template)) = Some root"
    "deserialize_template_outputs btc (inner_as_ref (nt_coinbase_tx_outputs template))
       (nt_coinbase_tx_outputs_count template) = Ok T"
    "sj_template j = template" "sj_extranonce_prefix j = ep" "sj_coinbase_outputs j = rewards @ T"
    "nmj_merkle_root (sj_job_message j) = Owned root"
    by (rule new_standard_job_Ok [OF assms(3)])
  obtain tx where cb: "coinbase btc f' template rewards = Ok tx"
    and ps: "prefix = take (coinbase_split_index f' template) (serialize btc tx)"
      "suffix = drop (coinbase_split_index f' template + 32) (serialize btc tx)"
    by (rule coinbase_halves_Ok [OF J(1,2)])
  obtain tag where tag: "op_pushbytes_pool_miner_tag f' = Ok tag"
    and inp: "tx_input tx = [\<lparr>previous_output = outpoint_null btc,
       script_sig = (inner_as_ref (nt_coinbase_prefix template) @ tag @ [32]) @ replicate 32 0,
       sequence = nt_coinbase_tx_input_sequence template, witness = [replicate 32 0]\<rparr>]"
    by (rule coinbase_Ok [OF cb]) (simp add: MAX_EXTRANONCE_LEN_def)
  define b where "b = inner_as_ref (nt_coinbase_prefix template) @ tag @ [32]"
  have "length tag \<le> 62"
    using tag by (auto simp: op_pushbytes_pool_miner_tag_def Let_def split: if_splits)
  then have short: "length b + 32 < 253" using assms(4) by (simp add: b_def)
  have idx: "coinbase_split_index f' template = 44 + length b"
    using op_pushbytes_length [OF tag] by (simp add: coinbase_split_index_def b_def)
  have ser: "serialize btc (with_extranonce ep tx) = prefix @ ep @ suffix"
    using halves_serialize [OF assms(1) inp _ _ short assms(5)] by (simp add: ps idx b_def)
  have "with_extranonce ep tx = std_block_coinbase btc j tag"
    using inp cb J(4) tag
    by (auto simp: with_extranonce_def std_block_coinbase_def J coinbase_def MAX_EXTRANONCE_LEN_def
        result_simps split: if_splits)
  moreover obtain t where "deserialize btc (prefix @ ep @ suffix) = Some t"
      "compute_txid btc t = compute_txid btc (with_extranonce ep tx)"
    using assms(2) by (auto simp: txid_stable_def simp flip: ser)
  moreover have "op_pushbytes_pool_miner_tag f = Ok tag"
    using tag by (simp add: f' op_pushbytes_pool_miner_tag_def)
  ultimately show ?thesis
    using J(3) by (simp add: J(8) merkle_root_from_path_def merkle_root_from_path_id_fold)
qed

theorem std_block_coinbase_committed_witness:
  "\<exists>j f' tag. new_standard_job demo_bitcoin 8 None (replicate 32 5) demo_template demo_rewards demo_factory =
       (Ok j, f') \<and> inner_as_ref (nmj_merkle_root (sj_job_message j)) =
     reduce_path demo_bitcoin (compute_txid demo_bitcoin (std_block_coinbase demo_bitcoin j tag)) []"
proof -
  obtain j where j: "new_standard_job demo_bitcoin 8 None (replicate 32 5) demo_template demo_rewards
      demo_factory = (Ok j, demo_factory\<lparr>job_id_state := 1\<rparr>)"
    using demo_new_standard_job by blast
  with std_block_coinbase_committed [OF demo_segwit_encoding demo_txid_stable j] show ?thesis
    by (auto simp: demo_template_def)
qed

text \<open>C36: a standard job converted from the group channel's extended job does not have this property:
  its merkle root commits to a coinbase with the rewards and the template's outputs, while the
  coinbase the channel would submit for a block on it lists the template's outputs twice.\<close>

theorem group_block_coinbase_differs:
  assumes "segwit_encoding btc"
    and "new_extended_job btc group_id tip ep template rewards f = (Ok j, f')"
    and "length (inner_as_ref (nt_coinbase_prefix template)) \<le> 157"
    and "into_standard_job btc j channel_id extranonce_prefix = Ok sj" and "length extranonce_prefix = 32"
  shows "\<exists>tx T. length T = unat (nt_coinbase_tx_outputs_count template) \<and>
    inner_as_ref (nmj_merkle_root (sj_job_message sj)) =
      reduce_path btc (compute_txid btc tx) (map inner_as_ref (nt_merkle_path template)) \<and>
    tx_output tx = rewards @ T \<and> tx_output (std_block_coinbase btc sj tag) = rewards @ T @ T"
proof -
  obtain T where T: "length T = unat (nt_coinbase_tx_outputs_count template)"
      "ej_coinbase_outputs j = rewards @ T" "sj_coinbase_outputs sj = rewards @ T @ T"
    using group_job_outputs [OF assms(2,4)] by blast
  obtain tx where tx: "commits btc j extranonce_prefix tx"
    using template_job_commits [OF assms(1,2,3,5)] by blast
  have path: "nemj_merkle_path (ej_job_message j) = nt_merkle_path template"
    by (rule new_extended_job_Ok [OF assms(2)]) simp
  have "inner_try_from_vec U256 x = Ok y \<Longrightarrow> inner_as_ref y = x" for x y
    by (auto simp: inner_try_from_vec_def split: if_splits)
  then have "inner_as_ref (nmj_merkle_root (sj_job_message sj)) =
      reduce_path btc (compute_txid btc tx) (map inner_as_ref (nt_merkle_path template))"
    using assms(4) tx
    by (auto simp: into_standard_job_def commits_def path result_simps standard_job_from_template_def
        split: JobOrigin.splits)
  then show ?thesis using T tx by (auto simp: commits_def std_block_coinbase_def)
qed

theorem group_block_coinbase_differs_witness:
  "\<exists>sj T. into_standard_job demo_bitcoin (demo_job 7 1 []) 8 (replicate 32 5) = Ok sj \<and> length T = 1 \<and>
     tx_output (std_block_coinbase demo_bitcoin sj []) = demo_rewards @ T @ T"
proof -
  obtain sj where sj: "into_standard_job demo_bitcoin (demo_job 7 1 []) 8 (replicate 32 5) = Ok sj"
    using demo_into_standard_job by blast
  with group_block_coinbase_differs [OF demo_segwit_encoding
      demo_new_extended_job [of 7 None "[]" 0, simplified] _ sj, of "[]"]
  show ?thesis by (auto simp: demo_template_def)
qed

end
