(* ===== verification/Group_Channel.thy ===== *)
theory Group_Channel
  imports Standard_Channel
begin

text \<open>Group channels of a mining server (\<open>channels-sv2/src/server/group.rs\<close>): one extended job per
  template for all standard channels of the group. The last section composes a group channel with
  one of its standard channels.\<close>

section \<open>State and methods\<close>

datatype GroupChannelError =
    ChainTipNotSet
  | TemplateIdNotFound
  | JobFactoryError JobFactoryError

record GroupChannel =
  gc_group_channel_id :: u32
  gc_standard_channel_ids :: "u32 set"
  gc_job_factory :: JobFactory
  gc_job_store :: "ExtendedJob DefaultJobStore"
  gc_chain_tip :: "ChainTip option"

definition group_channel_new ::
    "u32 \<Rightarrow> ExtendedJob DefaultJobStore \<Rightarrow> bytes option \<Rightarrow> bytes option \<Rightarrow> GroupChannel" where
  "group_channel_new group_channel_id job_store pool_tag miner_tag =
     \<lparr>gc_group_channel_id = group_channel_id, gc_standard_channel_ids = {},
      gc_job_factory = job_factory_new True pool_tag miner_tag, gc_job_store = job_store,
      gc_chain_tip = None\<rparr>"

definition group_new_for_pool :: "u32 \<Rightarrow> ExtendedJob DefaultJobStore \<Rightarrow> bytes \<Rightarrow> GroupChannel" where
  "group_new_for_pool group_channel_id job_store pool_tag =
     group_channel_new group_channel_id job_store (Some pool_tag) None"

definition group_new_for_job_declaration_client ::
    "u32 \<Rightarrow> ExtendedJob DefaultJobStore \<Rightarrow> bytes option \<Rightarrow> bytes \<Rightarrow> GroupChannel" where
  "group_new_for_job_declaration_client group_channel_id job_store pool_tag miner_tag =
     group_channel_new group_channel_id job_store pool_tag (Some miner_tag)"

definition add_standard_channel_id :: "u32 \<Rightarrow> GroupChannel \<Rightarrow> GroupChannel" where
  "add_standard_channel_id i g = g\<lparr>gc_standard_channel_ids := insert i (gc_standard_channel_ids g)\<rparr>"

definition remove_standard_channel_id :: "u32 \<Rightarrow> GroupChannel \<Rightarrow> GroupChannel" where
  "remove_standard_channel_id i g = g\<lparr>gc_standard_channel_ids := gc_standard_channel_ids g - {i}\<rparr>"

definition group_on_new_template ::
    "bitcoin \<Rightarrow> NewTemplate \<Rightarrow> TxOut list \<Rightarrow> GroupChannel \<Rightarrow>
     (unit, GroupChannelError) result \<times> GroupChannel" where
  "group_on_new_template btc template rewards g =
     (if nt_future_template template then
        case new_extended_job btc (gc_group_channel_id g) None [] template rewards (gc_job_factory g) of
          (r, f) \<Rightarrow>
            let g = g\<lparr>gc_job_factory := f\<rparr> in
            or_return (map_err JobFactoryError r) g (\<lambda>new_job.
              (Ok (), g\<lparr>gc_job_store := snd (add_future_job extended_job_id
                 (nt_template_id template) new_job (gc_job_store g))\<rparr>))
      else case gc_chain_tip g of
        None \<Rightarrow> (Err ChainTipNotSet, g)
      | Some chain_tip \<Rightarrow>
          case new_extended_job btc (gc_group_channel_id g) (Some chain_tip) [] template rewards
                 (gc_job_factory g) of (r, f) \<Rightarrow>
            let g = g\<lparr>gc_job_factory := f\<rparr> in
            or_return (map_err JobFactoryError r) g (\<lambda>new_job.
              (Ok (), g\<lparr>gc_job_store := add_active_job extended_job_id new_job (gc_job_store g)\<rparr>)))"

definition group_on_set_new_prev_hash ::
    "SetNewPrevHash \<Rightarrow> GroupChannel \<Rightarrow> (unit, GroupChannelError) result \<times> GroupChannel" where
  "group_on_set_new_prev_hash m g =
     (if Mapping.is_empty (future_jobs (gc_job_store g)) then (Err TemplateIdNotFound, g)
      else (Ok (), g\<lparr>gc_job_store := snd (activate_future_job extended_job_id extended_job_activate
                       (tnph_template_id m) (tnph_header_timestamp m) (gc_job_store g)),
                     gc_chain_tip := Some (chain_tip_from_tdp m)\<rparr>))"

section \<open>Reachable group channels\<close>

inductive group_reachable :: "bitcoin \<Rightarrow> GroupChannel \<Rightarrow> bool" for btc where
  opened: "group_reachable btc (group_channel_new i job_store_new pool_tag miner_tag)"
| join: "group_reachable btc g \<Longrightarrow> group_reachable btc (add_standard_channel_id i g)"
| leave: "group_reachable btc g \<Longrightarrow> group_reachable btc (remove_standard_channel_id i g)"
| template: "group_reachable btc g \<Longrightarrow> job_id_state (gc_job_factory g) \<noteq> - 1 \<Longrightarrow>
    group_reachable btc (snd (group_on_new_template btc t rewards g))"
| tip: "group_reachable btc g \<Longrightarrow> group_reachable btc (snd (group_on_set_new_prev_hash m g))"

definition group_ok :: "GroupChannel \<Rightarrow> bool" where
  "group_ok g \<longleftrightarrow> store_ok extended_job_id (gc_job_store g) \<and>
     ids_up_to extended_job_id (job_id_state (gc_job_factory g)) (gc_job_store g)"

lemma group_ok_advance:
  assumes "group_ok g" and "f = gc_job_factory g \<or>
      f = (gc_job_factory g)\<lparr>job_id_state := job_id_state (gc_job_factory g) + 1\<rparr>"
    and "job_id_state (gc_job_factory g) \<noteq> - 1"
  shows "group_ok (g\<lparr>gc_job_factory := f\<rparr>)"
  using assms ids_up_to_succ by (auto simp: group_ok_def)

lemma group_ok_add_job:
  assumes "group_ok g" and "job_id_state (gc_job_factory g) \<noteq> - 1"
    and "new_extended_job btc c tip ep t rewards (gc_job_factory g) = (Ok j, f)"
  shows "group_ok (g\<lparr>gc_job_factory := f,
      gc_job_store := snd (add_future_job extended_job_id tid j (gc_job_store g))\<rparr>)"
    and "group_ok (g\<lparr>gc_job_factory := f,
      gc_job_store := add_active_job extended_job_id j (gc_job_store g)\<rparr>)"
proof -
  let ?n = "job_id_state (gc_job_factory g)"
  have j: "extended_job_id j = ?n + 1" "job_id_state f = ?n + 1"
    using new_extended_job_new_id [OF assms(3)] by simp_all
  have ids: "ids_up_to extended_job_id ?n (gc_job_store g)" "store_ok extended_job_id (gc_job_store g)"
    using assms(1) by (simp_all add: group_ok_def)
  then have fresh: "extended_job_id j \<notin> known_ids extended_job_id (gc_job_store g)"
    using ids_up_to_fresh assms(2) j(1) by auto
  show "group_ok (g\<lparr>gc_job_factory := f,
      gc_job_store := snd (add_future_job extended_job_id tid j (gc_job_store g))\<rparr>)"
    using ext_job.store_ok_add_future [OF ids(2) fresh, of tid]
      ids_up_to_insert [OF ids(1) assms(2) ext_job.known_ids_add_future [of tid j, unfolded j(1)]]
    by (simp add: group_ok_def j(2))
  show "group_ok (g\<lparr>gc_job_factory := f,
      gc_job_store := add_active_job extended_job_id j (gc_job_store g)\<rparr>)"
    using ext_job.store_ok_add_active [OF ids(2) fresh]
      ids_up_to_insert [OF ids(1) assms(2) ext_job.known_ids_add_active [of j, unfolded j(1)]]
    by (simp add: group_ok_def j(2))
qed

lemma group_ok_on_new_template:
  assumes ok: "group_ok g" and n: "job_id_state (gc_job_factory g) \<noteq> - 1"
  shows "group_ok (snd (group_on_new_template btc t rewards g))"
proof -
  have step: "group_ok (snd (or_return (map_err JobFactoryError r) (g\<lparr>gc_job_factory := f\<rparr>) (\<lambda>j. (Ok (), k j))))"
    if r: "new_extended_job btc c tip ep t rewards (gc_job_factory g) = (r, f)"
      and "\<And>j. r = Ok j \<Longrightarrow> group_ok (k j)" for c tip ep r f k
    using that(2) group_ok_advance [OF ok new_extended_job_factory [OF r] n] by (cases r) auto
  show ?thesis
    using ok
    by (auto simp: group_on_new_template_def Let_def split: prod.split option.split
        intro!: step group_ok_add_job [OF ok n])
qed

lemma group_ok_on_set_new_prev_hash:
  assumes "group_ok g"
  shows "group_ok (snd (group_on_set_new_prev_hash m g))"
proof -
  have st: "store_ok extended_job_id (gc_job_store g)" using assms by (simp add: group_ok_def)
  show ?thesis
    using assms ext_job.store_ok_activate [OF st] ext_job.known_ids_activate [OF st]
    by (fastforce simp: group_on_set_new_prev_hash_def group_ok_def ids_up_to_def)
qed

lemma group_reachable_ok: "group_reachable btc g \<Longrightarrow> group_ok g"
proof (induction rule: group_reachable.induct)
  case (opened i pool_tag miner_tag)
  then show ?case by (simp add: group_channel_new_def group_ok_def ids_up_to_def)
next
  case (template g t rewards)
  then show ?case by (simp add: group_ok_on_new_template)
next
  case (tip g m)
  then show ?case by (simp add: group_ok_on_set_new_prev_hash)
qed (simp_all add: group_ok_def add_standard_channel_id_def remove_standard_channel_id_def)

section \<open>Properties\<close>

lemma into_standard_job_root:
  assumes "into_standard_job btc j channel_id ep = Ok sj"
  shows "merkle_root_from_path btc (inner_as_ref (nemj_coinbase_tx_prefix (ej_job_message j)))
      (inner_as_ref (nemj_coinbase_tx_suffix (ej_job_message j))) ep
      (map inner_as_ref (nemj_merkle_path (ej_job_message j))) =
    Some (inner_as_ref (nmj_merkle_root (sj_job_message sj))) \<and>
    ej_origin j = FromNewTemplate (sj_template sj)"
proof -
  have "inner_try_from_vec U256 x = Ok y \<Longrightarrow> inner_as_ref y = x" for x y
    by (auto simp: inner_try_from_vec_def split: if_splits)
  then show ?thesis
    using assms
    by (auto simp: into_standard_job_def result_simps standard_job_from_template_def split: JobOrigin.splits)
qed

text \<open>C37: a future template reaches the miners of a group: once the group channel has made its job and
  a standard channel of the group has taken the job over, the chain tip that names the template
  succeeds on both channels and activates the same job there, under the same id; the standard
  channel's merkle root is the one computed from the group job's halves with the standard channel's
  extranonce prefix.\<close>

theorem group_job_goes_live:
  assumes "group_reachable btc g" and "std_reachable btc s"
    and "nt_future_template t" and "job_id_state (gc_job_factory g) \<noteq> - 1"
    and "group_on_new_template btc t rewards g = (Ok (), g1)"
    and "Mapping.lookup (future_template_to_job_id (gc_job_store g1)) (nt_template_id t) = Some i"
    and "Mapping.lookup (future_jobs (gc_job_store g1)) i = Some j"
    and "i \<notin> known_ids standard_job_id (sc_job_store s)"
    and "std_on_group_channel_job btc j s = (Ok (), s1)"
    and "tnph_template_id m = nt_template_id t"
  shows "\<exists>g2 s2 gj sj. group_on_set_new_prev_hash m g1 = (Ok (), g2) \<and>
    std_on_set_new_prev_hash m s1 = (Ok (), s2) \<and>
    active_job (gc_job_store g2) = Some gj \<and> active_job (sc_job_store s2) = Some sj \<and>
    extended_job_id gj = i \<and> standard_job_id sj = i \<and> sj_template sj = t \<and>
    gc_chain_tip g2 = Some (chain_tip_from_tdp m) \<and> sc_chain_tip s2 = Some (chain_tip_from_tdp m) \<and>
    merkle_root_from_path btc (inner_as_ref (nemj_coinbase_tx_prefix (ej_job_message gj)))
      (inner_as_ref (nemj_coinbase_tx_suffix (ej_job_message gj))) (sc_extranonce_prefix s)
      (map inner_as_ref (nemj_merkle_path (ej_job_message gj))) =
    Some (inner_as_ref (nmj_merkle_root (sj_job_message sj)))"
proof -
  obtain k f where k: "new_extended_job btc (gc_group_channel_id g) None [] t rewards (gc_job_factory g) =
        (Ok k, f)"
    and g1: "g1 = g\<lparr>gc_job_factory := f, gc_job_store :=
        snd (add_future_job extended_job_id (nt_template_id t) k (gc_job_store g))\<rparr>"
    using assms(3,5)
    by (auto simp: group_on_new_template_def Let_def result_simps split: prod.splits elim!: or_return_cases)
  have i: "i = extended_job_id k" and jk: "j = k"
    using assms(6,7) by (auto simp: g1 job_store_defs lookup_update)
  have k': "ej_origin k = FromNewTemplate t" "nemj_min_ntime (ej_job_message k) = []"
    by (rule new_extended_job_Ok [OF k], simp add: assms(3))+
  have st1: "store_ok extended_job_id (gc_job_store g1)"
    using group_ok_on_new_template [OF group_reachable_ok [OF assms(1)] assms(4), of btc t rewards] assms(5)
    by (simp add: group_ok_def)
  obtain sj where sj: "into_standard_job btc k (sc_channel_id s) (sc_extranonce_prefix s) = Ok sj"
    using assms(9) by (auto simp: std_on_group_channel_job_def jk result_simps elim!: or_return_cases)
  note sj' = into_standard_job_Ok [OF sj] into_standard_job_root [OF sj]
  have "standard_job_is_future sj = Ok True"
    using sj' k' by (simp add: standard_job_is_future_def sv2_option_into_inner_def vec_pop_def)
  then have s1: "s1 = s\<lparr>sc_job_store := snd (add_future_job standard_job_id (nt_template_id t) sj (sc_job_store s))\<rparr>"
    using assms(9) sj' k' by (simp add: std_on_group_channel_job_def jk sj)
  have st2: "store_ok standard_job_id (sc_job_store s1)"
    using std_job.store_ok_add_future [of "sc_job_store s" sj "nt_template_id t"] std_reachable_ok [OF assms(2)]
      assms(8) sj' by (simp add: s1 std_ok_def i)
  have look: "Mapping.lookup (future_template_to_job_id (sc_job_store s1)) (tnph_template_id m) = Some i"
      "Mapping.lookup (future_jobs (sc_job_store s1)) i = Some sj"
      "\<not> Mapping.is_empty (future_jobs (sc_job_store s1))" "\<not> Mapping.is_empty (future_jobs (gc_job_store g1))"
    using sj' by (simp_all add: s1 g1 i assms(10) job_store_defs lookup_update Mapping.is_empty_def)
  note a1 = ext_job.activate_known_template [OF st1 assms(6,7), of "tnph_header_timestamp m"]
  note a2 = std_job.activate_known_template [OF st2 look(1,2), of "tnph_header_timestamp m"]
  show ?thesis
    using a1 a2 look(3,4) sj' k'
    by (simp add: group_on_set_new_prev_hash_def std_on_set_new_prev_hash_def assms(10) jk i
        ext_job.activate_keeps_id std_job.activate_keeps_id)
      (simp add: extended_job_activate_def standard_job_activate_def)
qed

text \<open>C38: a chain tip that names a template the group does not know is reported as a success as long
  as any future job exists: the tip changes, no job is activated and the jobs stay as they are.\<close>

theorem group_unknown_template_accepted:
  assumes "\<not> Mapping.is_empty (future_jobs (gc_job_store g))"
    and "Mapping.lookup (future_template_to_job_id (gc_job_store g)) (tnph_template_id m) = None"
  shows "group_on_set_new_prev_hash m g = (Ok (), g\<lparr>gc_chain_tip := Some (chain_tip_from_tdp m)\<rparr>)"
  using assms by (simp add: group_on_set_new_prev_hash_def ext_job.activate_unknown_template)

definition demo_group :: GroupChannel where
  "demo_group = group_channel_new 7 job_store_new (Some [0x41]) None"

lemma demo_group_template:
  obtains g1 where "group_on_new_template demo_bitcoin demo_template demo_rewards demo_group = (Ok (), g1)"
    "Mapping.lookup (future_template_to_job_id (gc_job_store g1)) 1 = Some 1"
    "Mapping.lookup (future_template_to_job_id (gc_job_store g1)) 2 = None"
    "Mapping.lookup (future_jobs (gc_job_store g1)) 1 = Some (demo_job 7 1 [])"
    "\<not> Mapping.is_empty (future_jobs (gc_job_store g1))"
proof -
  let ?g = "demo_group\<lparr>gc_job_factory := demo_factory\<lparr>job_id_state := 1\<rparr>,
     gc_job_store := snd (add_future_job extended_job_id 1 (demo_job 7 1 []) job_store_new)\<rparr>"
  have "group_on_new_template demo_bitcoin demo_template demo_rewards demo_group = (Ok (), ?g)"
    using demo_new_extended_job [of 7 None "[]" 0]
    by (simp add: group_on_new_template_def demo_group_def group_channel_new_def Let_def
        demo_factory_zero [symmetric] flip: demo_factory_def)
      (simp add: demo_template_def)
  then show ?thesis
    by (rule that) (simp_all add: job_store_defs lookup_update' lookup_empty extended_job_id_def demo_job_def
        Mapping.is_empty_def)
qed

lemma demo_take_over:
  obtains s1 where "std_on_group_channel_job demo_bitcoin (demo_job 7 1 []) demo_standard = (Ok (), s1)"
proof -
  obtain sj where sj: "into_standard_job demo_bitcoin (demo_job 7 1 []) 8 (replicate 32 5) = Ok sj"
    using demo_into_standard_job by blast
  have "standard_job_is_future sj = Ok True"
    using into_standard_job_Ok [OF sj]
    by (simp add: standard_job_is_future_def sv2_option_into_inner_def vec_pop_def demo_job_def)
  then show ?thesis
    using sj that by (simp add: std_on_group_channel_job_def demo_standard_def)
qed

theorem group_job_goes_live_witness:
  "\<exists>g1 g2 s1 s2. group_on_new_template demo_bitcoin demo_template demo_rewards demo_group = (Ok (), g1) \<and>
     std_on_group_channel_job demo_bitcoin (demo_job 7 1 []) demo_standard = (Ok (), s1) \<and>
     group_on_set_new_prev_hash demo_prev_hash g1 = (Ok (), g2) \<and>
     std_on_set_new_prev_hash demo_prev_hash s1 = (Ok (), s2)"
proof -
  obtain g1 where g1: "group_on_new_template demo_bitcoin demo_template demo_rewards demo_group = (Ok (), g1)"
    "Mapping.lookup (future_template_to_job_id (gc_job_store g1)) (nt_template_id demo_template) = Some 1"
    "Mapping.lookup (future_jobs (gc_job_store g1)) 1 = Some (demo_job 7 1 [])"
    by (rule demo_group_template) (simp add: demo_template_def)
  obtain s1 where s1: "std_on_group_channel_job demo_bitcoin (demo_job 7 1 []) demo_standard = (Ok (), s1)"
    by (rule demo_take_over)
  have "group_reachable demo_bitcoin demo_group" unfolding demo_group_def by (rule group_reachable.opened)
  moreover have "nt_future_template demo_template"
      "job_id_state (gc_job_factory demo_group) \<noteq> - 1" "1 \<notin> known_ids standard_job_id (sc_job_store demo_standard)"
      "tnph_template_id demo_prev_hash = nt_template_id demo_template"
    by (simp_all add: demo_group_def demo_template_def group_channel_new_def
        job_factory_new_def demo_standard_def demo_prev_hash_def)
  ultimately show ?thesis
    using group_job_goes_live [OF _ demo_standard_reachable _ _ g1 _ s1] g1(1) s1 by blast
qed

theorem group_unknown_template_accepted_witness:
  "\<exists>g1 g2. group_on_new_template demo_bitcoin demo_template demo_rewards demo_group = (Ok (), g1) \<and>
     group_on_set_new_prev_hash (demo_prev_hash\<lparr>tnph_template_id := 2\<rparr>) g1 = (Ok (), g2)"
proof -
  obtain g1 where g1: "group_on_new_template demo_bitcoin demo_template demo_rewards demo_group = (Ok (), g1)"
    "Mapping.lookup (future_template_to_job_id (gc_job_store g1))
       (tnph_template_id (demo_prev_hash\<lparr>tnph_template_id := 2\<rparr>)) = None"
    "\<not> Mapping.is_empty (future_jobs (gc_job_store g1))"
    by (rule demo_group_template) simp
  with group_unknown_template_accepted [OF g1(3,2)] show ?thesis by blast
qed

end
