(* ===== verification/Ehash.thy ===== *)
theory Ehash
  imports Protocol_Messages Extranonce
begin

text \<open>
  The \<open>ehash\<close> crate (src/protocols/ehash/src): the value of a share in ehash units (work.rs), the
  typed share hash (share.rs), locking keys (locking\_key.rs), mint quote requests and responses
  (quote.rs), mint quote message types (message\_type.rs), and keysets with their 64-key wire form
  (keyset.rs, sv2.rs).

  The Cashu development kit is code outside the repository.  What the crate calls of it is the
  record \<open>cdk\<close>: the byte form of keyset ids and of public keys, their parsers, and the derivation
  of an id from the keys.  An \<open>Amount\<close> is its \<open>u64\<close>, and \<open>Keys\<close>, a \<open>BTreeMap\<close>, is the
  association list in ascending order of the amounts.  Text of error messages is replaced by the
  values it is made from.
\<close>

record ('id, 'pk, 'h, 'er) cdk =
  id_to_bytes :: "'id \<Rightarrow> bytes"
  id_from_bytes :: "bytes \<Rightarrow> ('id, 'er) result"
  v1_from_keys :: "(u64 \<times> 'pk) list \<Rightarrow> 'id"
  pk_to_bytes :: "'pk \<Rightarrow> bytes"
  pk_from_slice :: "bytes \<Rightarrow> ('pk, 'er) result"
  hash_from_slice :: "bytes \<Rightarrow> ('h, 'er) result"

section \<open>work.rs\<close>

definition leading_zeros :: "'a::len word \<Rightarrow> nat" where
  "leading_zeros w = length (takeWhile (\<lambda>i. \<not> bit w i) (rev [0..<LENGTH('a)]))"

fun calculate_difficulty_loop :: "bytes \<Rightarrow> u32 \<Rightarrow> u32" where
  "calculate_difficulty_loop [] count = count"
| "calculate_difficulty_loop (b # bs) count =
     (if b = 0 then calculate_difficulty_loop bs (count + 8)
      else count + word_of_nat (leading_zeros b))"

definition calculate_difficulty :: "bytes \<Rightarrow> u32" where
  "calculate_difficulty hash = calculate_difficulty_loop hash 0"

definition calculate_ehash_amount :: "bytes \<Rightarrow> u32 \<Rightarrow> u64" where
  "calculate_ehash_amount hash min_leading_zeros =
     (let leading_zero_bits = calculate_difficulty hash in
      if leading_zero_bits < min_leading_zeros then 0
      else
        (let relative_difficulty = leading_zero_bits - min_leading_zeros in
         if 63 \<le> relative_difficulty then push_bit 63 1
         else push_bit (unat relative_difficulty) 1))"

section \<open>share.rs\<close>

datatype ShareHash = ShareHash (share_hash_bytes: bytes)

datatype ShareHashError = ShareHash_InvalidLength nat | ShareHash_InvalidEncoding

definition share_hash_try_from :: "bytes \<Rightarrow> (ShareHash, ShareHashError) result" where
  "share_hash_try_from bs =
     (if length bs \<noteq> 32 then Err (ShareHash_InvalidLength (length bs)) else Ok (ShareHash bs))"

definition share_hash_from_u256 :: "inner \<Rightarrow> (ShareHash, ShareHashError) result" where
  "share_hash_from_u256 value = share_hash_try_from (inner_as_ref value)"

definition share_hash_from_pubkey :: "inner \<Rightarrow> (ShareHash, ShareHashError) result" where
  "share_hash_from_pubkey value = share_hash_try_from (inner_as_ref value)"

definition share_hash_into_u256 :: "ShareHash \<Rightarrow> (inner, ShareHashError) result" where
  "share_hash_into_u256 h =
     map_err (\<lambda>_. ShareHash_InvalidEncoding) (inner_try_from_vec U256 (share_hash_bytes h))"

definition share_hash_into_pubkey :: "ShareHash \<Rightarrow> (inner, ShareHashError) result" where
  "share_hash_into_pubkey h =
     map_err (\<lambda>_. ShareHash_InvalidEncoding)
       (map_ok into_static (decodable_from_bytes u256_structure u256_from_decoded (share_hash_bytes h)))"

section \<open>locking\_key.rs\<close>

datatype LockingKeyError =
    LockingKey_InvalidLength u32 nat
  | LockingKey_ParseError u32 sv2_error

definition parse_locking_key :: "bytes \<Rightarrow> u32 \<Rightarrow> (inner, LockingKeyError) result" where
  "parse_locking_key bs channel_id =
     (if length bs \<noteq> 33 then Err (LockingKey_InvalidLength channel_id (length bs))
      else
        map_err (LockingKey_ParseError channel_id)
          (map_ok into_static
            (decodable_from_bytes b0255_structure b0255_from_decoded (33 # bs))))"

section \<open>quote.rs\<close>

datatype QuoteBuildError =
    Build_InvalidUnit sv2_error
  | Build_InvalidHeaderHash sv2_error
  | Build_InvalidHeaderHashLength nat

datatype HeaderHashError = HeaderHash_InvalidLength nat

datatype QuoteParseError =
    Parse_Decode sv2_error
  | Parse_ShareHash ShareHashError
  | Parse_InvalidUnit sv2_error
  | Parse_InvalidDescription sv2_error

datatype 'er QuoteConversionError =
    Conversion_ShareHash ShareHashError
  | Conversion_InvalidHeaderHash 'er
  | Conversion_InvalidLockingKey 'er
  | Conversion_InvalidQuoteId sv2_error

text \<open>The string \<open>HASH\<close>.\<close>

definition HASH_unit :: bytes where
  "HASH_unit = [72, 65, 83, 72]"

definition build_mint_quote_request ::
  "u64 \<Rightarrow> bytes \<Rightarrow> inner \<Rightarrow> (MintQuoteRequest, QuoteBuildError) result" where
  "build_mint_quote_request amount header_hash locking_key =
     (if length header_hash \<noteq> 32 then Err (Build_InvalidHeaderHashLength (length header_hash))
      else
        rbind (map_err Build_InvalidUnit (inner_try_from_vec Str0255 HASH_unit)) (\<lambda>unit.
        rbind (map_err Build_InvalidHeaderHash (inner_try_from_vec U256 header_hash)) (\<lambda>header_hash.
          Ok \<lparr>mqr_amount = amount, mqr_unit = unit, mqr_header_hash = header_hash,
              mqr_description = sv2_option_new None, mqr_locking_key = locking_key\<rparr>)))"

record ParsedMintQuoteRequest =
  parsed_request :: MintQuoteRequest
  parsed_share_hash :: ShareHash

text \<open>
  \<open>String::from_utf8_lossy\<close>: the ranges of the bytes that may follow a lead byte, the number of
  them present, and the replacement character for every maximal ill-formed sequence.
\<close>

definition utf8_tail :: "u8 \<Rightarrow> (u8 \<times> u8) list option" where
  "utf8_tail b =
     (if b < 0x80 then Some []
      else if 0xC2 \<le> b \<and> b \<le> 0xDF then Some [(0x80, 0xBF)]
      else if b = 0xE0 then Some [(0xA0, 0xBF), (0x80, 0xBF)]
      else if b = 0xED then Some [(0x80, 0x9F), (0x80, 0xBF)]
      else if 0xE1 \<le> b \<and> b \<le> 0xEF then Some [(0x80, 0xBF), (0x80, 0xBF)]
      else if b = 0xF0 then Some [(0x90, 0xBF), (0x80, 0xBF), (0x80, 0xBF)]
      else if 0xF1 \<le> b \<and> b \<le> 0xF3 then Some [(0x80, 0xBF), (0x80, 0xBF), (0x80, 0xBF)]
      else if b = 0xF4 then Some [(0x80, 0x8F), (0x80, 0xBF), (0x80, 0xBF)]
      else None)"

fun utf8_matched :: "(u8 \<times> u8) list \<Rightarrow> bytes \<Rightarrow> nat" where
  "utf8_matched ((lo, hi) # rs) (b # bs) =
     (if lo \<le> b \<and> b \<le> hi then Suc (utf8_matched rs bs) else 0)"
| "utf8_matched _ _ = 0"

fun from_utf8_lossy :: "bytes \<Rightarrow> bytes" where
  "from_utf8_lossy [] = []"
| "from_utf8_lossy (b # bs) =
     (case utf8_tail b of
        None \<Rightarrow> [0xEF, 0xBF, 0xBD] @ from_utf8_lossy bs
      | Some rs \<Rightarrow>
          (let n = utf8_matched rs bs in
           (if n = length rs then b # take n bs else [0xEF, 0xBF, 0xBD]) @
             from_utf8_lossy (drop n bs)))"

datatype CurrencyUnit = Custom bytes

record ('pk, 'h) MintQuoteMiningShareRequest =
  cdk_amount :: u64
  cdk_unit :: CurrencyUnit
  cdk_header_hash :: 'h
  cdk_description :: "bytes option"
  cdk_pubkey :: 'pk

definition to_cdk_request ::
  "('id, 'pk, 'h, 'er) cdk \<Rightarrow> ParsedMintQuoteRequest \<Rightarrow>
   (('pk, 'h) MintQuoteMiningShareRequest, 'er QuoteConversionError) result" where
  "to_cdk_request cdk parsed =
     rbind (map_err Conversion_InvalidHeaderHash
       (hash_from_slice cdk (share_hash_bytes (parsed_share_hash parsed)))) (\<lambda>header_hash.
     rbind (expect (sv2_option_into_inner (mqr_description (parsed_request parsed)))) (\<lambda>desc.
     rbind (map_err Conversion_InvalidLockingKey
       (pk_from_slice cdk (inner_as_ref (mqr_locking_key (parsed_request parsed))))) (\<lambda>pubkey.
       Ok \<lparr>cdk_amount = mqr_amount (parsed_request parsed), cdk_unit = Custom HASH_unit,
           cdk_header_hash = header_hash,
           cdk_description = map_option (\<lambda>s. from_utf8_lossy (inner_as_ref s)) desc,
           cdk_pubkey = pubkey\<rparr>)))"

definition validate_header_hash :: "bytes \<Rightarrow> (bytes, HeaderHashError) result" where
  "validate_header_hash header_hash =
     (if length header_hash \<noteq> 32 then Err (HeaderHash_InvalidLength (length header_hash))
      else Ok header_hash)"

definition into_static_request ::
  "MintQuoteRequest \<Rightarrow> ShareHash \<Rightarrow> (MintQuoteRequest, QuoteParseError) result" where
  "into_static_request request share_hash =
     rbind (map_err Parse_InvalidUnit (inner_try_from_vec Str0255 (inner_as_ref (mqr_unit request)))) (\<lambda>unit.
     rbind (expect (sv2_option_into_inner (mqr_description request))) (\<lambda>desc.
     rbind (case desc of
          Some d \<Rightarrow> rbind (map_err Parse_InvalidDescription (inner_try_from_vec Str0255 (inner_as_ref d)))
            (\<lambda>inner. Ok (sv2_option_new (Some inner)))
        | None \<Rightarrow> Ok (sv2_option_new None)) (\<lambda>description.
     rbind (map_err Parse_ShareHash (share_hash_into_u256 share_hash)) (\<lambda>header_hash.
       Ok \<lparr>mqr_amount = mqr_amount request, mqr_unit = unit, mqr_header_hash = header_hash,
           mqr_description = description,
           mqr_locking_key = into_static (mqr_locking_key request)\<rparr>))))"

definition parse_mint_quote_request :: "bytes \<Rightarrow> (ParsedMintQuoteRequest, QuoteParseError) result" where
  "parse_mint_quote_request payload =
     rbind (map_err Parse_Decode (MintQuoteRequest_from_bytes payload)) (\<lambda>parsed.
     rbind (map_err Parse_ShareHash (share_hash_from_u256 (mqr_header_hash parsed))) (\<lambda>share_hash.
     rbind (into_static_request parsed share_hash) (\<lambda>request.
       Ok \<lparr>parsed_request = request, parsed_share_hash = share_hash\<rparr>)))"

text \<open>\<open>mint_quote_response_from_cdk\<close> reads nothing of the Cashu quote but its id as a string.\<close>

definition mint_quote_response_from_cdk ::
  "ShareHash \<Rightarrow> bytes \<Rightarrow> (MintQuoteResponse, 'er QuoteConversionError) result" where
  "mint_quote_response_from_cdk share_hash quote_id_string =
     rbind (map_err Conversion_InvalidQuoteId (inner_try_from_vec Str0255 quote_id_string)) (\<lambda>quote_id.
     rbind (map_err Conversion_ShareHash (share_hash_into_u256 share_hash)) (\<lambda>header_hash.
       Ok \<lparr>mqresp_quote_id = quote_id, mqresp_header_hash = header_hash\<rparr>))"

section \<open>message\_type.rs\<close>

datatype MessageTypeError = InvalidMessageType u8

datatype MessageType = MT_MintQuoteRequest | MT_MintQuoteResponse | MT_MintQuoteError

definition message_type_from_u8 :: "u8 \<Rightarrow> (MessageType, MessageTypeError) result" where
  "message_type_from_u8 value =
     (if value = 0x80 then Ok MT_MintQuoteRequest
      else if value = 0x81 then Ok MT_MintQuoteResponse
      else if value = 0x82 then Ok MT_MintQuoteError
      else Err (InvalidMessageType value))"

fun message_type_as_u8 :: "MessageType \<Rightarrow> u8" where
  "message_type_as_u8 MT_MintQuoteRequest = 0x80"
| "message_type_as_u8 MT_MintQuoteResponse = 0x81"
| "message_type_as_u8 MT_MintQuoteError = 0x82"

definition is_mint_quote_message :: "u8 \<Rightarrow> bool" where
  "is_mint_quote_message message_type \<longleftrightarrow>
     message_type = 0x80 \<or> message_type = 0x81 \<or> message_type = 0x82"

section \<open>keyset.rs\<close>

datatype 'er public_key_failure = Sv2_public_key_parse | Key_failure nat 'er

datatype 'er KeysetConversionError =
    InvalidKeysetId 'er
  | InvalidKeyCount nat
  | InvalidPublicKey "'er public_key_failure"

record SigningKey =
  sk_amount :: u64
  sk_parity_bit :: bool
  sk_pubkey :: inner

record ('id, 'pk) KeySet =
  ks_id :: 'id
  ks_unit :: CurrencyUnit
  ks_keys :: "(u64 \<times> 'pk) list"
  ks_final_expiry :: "u64 option"

definition pad_id_bytes :: "bytes \<Rightarrow> (u64, 'e) result" where
  "pad_id_bytes bs =
     (if length bs \<le> 8 then Ok (from_be_bytes (bs @ replicate (8 - length bs) 0)) else Panic)"

definition keyset_id_into_u64 :: "('id, 'pk, 'h, 'er) cdk \<Rightarrow> 'id \<Rightarrow> (u64, 'e) result" where
  "keyset_id_into_u64 cdk kid = pad_id_bytes (id_to_bytes cdk kid)"

definition keyset_id_try_from :: "('id, 'pk, 'h, 'er) cdk \<Rightarrow> u64 \<Rightarrow> ('id, 'er) result" where
  "keyset_id_try_from cdk value = id_from_bytes cdk (to_be_bytes value)"

fun btree_insert :: "u64 \<Rightarrow> 'v \<Rightarrow> (u64 \<times> 'v) list \<Rightarrow> (u64 \<times> 'v) list" where
  "btree_insert k v [] = [(k, v)]"
| "btree_insert k v ((k', v') # m) =
     (if k < k' then (k, v) # (k', v') # m
      else if k = k' then (k, v) # m
      else (k', v') # btree_insert k v m)"

definition signing_key_from_cdk ::
  "('id, 'pk, 'h, 'er) cdk \<Rightarrow> u64 \<times> 'pk \<Rightarrow> (SigningKey, 'er KeysetConversionError) result" where
  "signing_key_from_cdk cdk entry =
     (let (amount, public_key) = entry in
      rbind (split_at (pk_to_bytes cdk public_key) 1) (\<lambda>(parity_byte, pubkey_data).
      rbind (map_err (\<lambda>_. InvalidPublicKey Sv2_public_key_parse)
        (map_ok into_static (decodable_from_bytes u256_structure u256_from_decoded pubkey_data))) (\<lambda>pubkey.
        Ok \<lparr>sk_amount = amount, sk_parity_bit = (hd parity_byte = 0x03), sk_pubkey = pubkey\<rparr>)))"

definition signing_keys_from_cdk ::
  "('id, 'pk, 'h, 'er) cdk \<Rightarrow> ('id, 'pk) KeySet \<Rightarrow> (SigningKey list, 'er KeysetConversionError) result" where
  "signing_keys_from_cdk cdk keyset =
     rbind (rtraverse (signing_key_from_cdk cdk) (ks_keys keyset)) (\<lambda>sv2_keys.
       if length sv2_keys \<noteq> 64 then Err (InvalidKeyCount (length sv2_keys)) else Ok sv2_keys)"

fun signing_keys_to_cdk_loop ::
  "('id, 'pk, 'h, 'er) cdk \<Rightarrow> nat \<Rightarrow> SigningKey list \<Rightarrow> (u64 \<times> 'pk) list \<Rightarrow>
   ((u64 \<times> 'pk) list, 'er KeysetConversionError) result" where
  "signing_keys_to_cdk_loop cdk i [] m = Ok m"
| "signing_keys_to_cdk_loop cdk i (k # ks) m =
     (if length (inner_as_ref (sk_pubkey k)) \<noteq> 32 then Panic
      else
        rbind (map_err (\<lambda>e. InvalidPublicKey (Key_failure i e))
          (pk_from_slice cdk ((if sk_parity_bit k then 0x03 else 0x02) # inner_as_ref (sk_pubkey k)))) (\<lambda>pubkey.
          signing_keys_to_cdk_loop cdk (Suc i) ks (btree_insert (sk_amount k) pubkey m)))"

definition signing_keys_to_cdk ::
  "('id, 'pk, 'h, 'er) cdk \<Rightarrow> SigningKey list \<Rightarrow> ((u64 \<times> 'pk) list, 'er KeysetConversionError) result" where
  "signing_keys_to_cdk cdk keys = signing_keys_to_cdk_loop cdk 0 keys []"

definition calculate_keyset_id :: "('id, 'pk, 'h, 'er) cdk \<Rightarrow> SigningKey list \<Rightarrow> (u64, 'e) result" where
  "calculate_keyset_id cdk keys =
     (case signing_keys_to_cdk cdk keys of
        Ok keys_map \<Rightarrow> pad_id_bytes (id_to_bytes cdk (v1_from_keys cdk keys_map))
      | Err _ \<Rightarrow> Ok 0
      | Panic \<Rightarrow> Panic)"

definition build_cdk_keyset ::
  "('id, 'pk, 'h, 'er) cdk \<Rightarrow> u64 \<Rightarrow> SigningKey list \<Rightarrow> (('id, 'pk) KeySet, 'er KeysetConversionError) result" where
  "build_cdk_keyset cdk keyset_id signing_keys =
     rbind (map_err InvalidKeysetId (keyset_id_try_from cdk keyset_id)) (\<lambda>kid.
     rbind (signing_keys_to_cdk cdk signing_keys) (\<lambda>keys.
       Ok \<lparr>ks_id = kid, ks_unit = Custom HASH_unit, ks_keys = keys, ks_final_expiry = None\<rparr>))"

definition keyset_from_sv2_bytes :: "('id, 'pk, 'h, 'er) cdk \<Rightarrow> bytes \<Rightarrow> ('id, 'er) result" where
  "keyset_from_sv2_bytes cdk bs =
     (if bs = [] then id_from_bytes cdk (replicate 8 0)
      else if \<not> list_ex (\<lambda>x. x \<noteq> 0) bs then id_from_bytes cdk (replicate 8 0)
      else if length bs = 8 \<or> length bs = 33 then id_from_bytes cdk bs
      else if 8 \<le> length bs then id_from_bytes cdk (drop (length bs - 8) bs)
      else id_from_bytes cdk (bs @ replicate (8 - length bs) 0))"

section \<open>sv2.rs\<close>

record Sv2SigningKey =
  svk_amount :: u64
  svk_parity_bit :: bool
  svk_pubkey :: inner

definition Sv2SigningKey_get_structure :: "bytes \<Rightarrow> field_marker list sv2" where
  "Sv2SigningKey_get_structure = derive_get_structure [u64_structure, bool_structure, u256_structure]"

definition Sv2SigningKey_from_decoded_fields :: "decodable_field list \<Rightarrow> Sv2SigningKey sv2" where
  "Sv2SigningKey_from_decoded_fields data =
     rbind (derive_pop u256_from_decoded data) (\<lambda>(pubkey, data).
     rbind (derive_pop bool_from_decoded data) (\<lambda>(parity_bit, data).
     rbind (derive_pop u64_from_decoded data) (\<lambda>(amount, data).
       Ok \<lparr>svk_amount = amount, svk_parity_bit = parity_bit, svk_pubkey = pubkey\<rparr>)))"

definition Sv2SigningKey_into_field :: "Sv2SigningKey \<Rightarrow> encodable_field" where
  "Sv2SigningKey_into_field v = derive_into_field
     [u64_into (svk_amount v), bool_into (svk_parity_bit v), u256_into (svk_pubkey v)]"

definition Sv2SigningKey_get_size :: "Sv2SigningKey \<Rightarrow> nat" where
  "Sv2SigningKey_get_size v =
     u64_size (svk_amount v) + bool_size (svk_parity_bit v) + u256_size (svk_pubkey v)"

definition Sv2SigningKey_wf :: "Sv2SigningKey \<Rightarrow> bool" where
  "Sv2SigningKey_wf v = inner_wf U256 (svk_pubkey v)"

definition Sv2SigningKey_norm :: "Sv2SigningKey \<Rightarrow> Sv2SigningKey" where
  "Sv2SigningKey_norm v =
     \<lparr>svk_amount = svk_amount v, svk_parity_bit = svk_parity_bit v,
      svk_pubkey = inner_norm (svk_pubkey v)\<rparr>"

definition Sv2SigningKey_from_bytes :: "bytes \<Rightarrow> Sv2SigningKey sv2" where
  "Sv2SigningKey_from_bytes =
     decodable_from_bytes Sv2SigningKey_get_structure Sv2SigningKey_from_decoded_fields"

definition Sv2SigningKey_default :: Sv2SigningKey where
  "Sv2SigningKey_default =
     \<lparr>svk_amount = 0, svk_parity_bit = False, svk_pubkey = Owned (replicate 32 0)\<rparr>"

definition sv2_signing_key_from :: "SigningKey \<Rightarrow> Sv2SigningKey" where
  "sv2_signing_key_from key =
     \<lparr>svk_amount = sk_amount key, svk_parity_bit = sk_parity_bit key, svk_pubkey = sk_pubkey key\<rparr>"

definition signing_key_from :: "Sv2SigningKey \<Rightarrow> SigningKey" where
  "signing_key_from key =
     \<lparr>sk_amount = svk_amount key, sk_parity_bit = svk_parity_bit key,
      sk_pubkey = into_static (svk_pubkey key)\<rparr>"

record Sv2KeySetWire =
  wire_id :: u64
  wire_keys :: inner

record Sv2KeySet =
  sks_id :: u64
  sks_keys :: "Sv2SigningKey list"

definition KEY_SIZE :: nat where "KEY_SIZE = 41"

definition NUM_KEYS :: nat where "NUM_KEYS = 64"

definition Sv2SigningKey_into_static :: "Sv2SigningKey \<Rightarrow> Sv2SigningKey" where
  "Sv2SigningKey_into_static v = v\<lparr>svk_pubkey := into_static (svk_pubkey v)\<rparr>"

text \<open>The loop over \<open>raw.chunks(KEY_SIZE)\<close>, \<open>keys[i]\<close> at a time.\<close>

function decode_keys :: "nat \<Rightarrow> bytes \<Rightarrow> Sv2SigningKey list \<Rightarrow> Sv2SigningKey list sv2" where
  "decode_keys i raw keys =
     (if raw = [] then Ok keys
      else if i \<ge> length keys \<or> length raw < KEY_SIZE then Panic
      else
        rbind (map_err (\<lambda>_. DecodableConversionError)
          (map_ok Sv2SigningKey_into_static (Sv2SigningKey_from_bytes (take KEY_SIZE raw)))) (\<lambda>key.
          decode_keys (Suc i) (drop KEY_SIZE raw) (keys[i := key])))"

  by pat_completeness auto
termination by (relation "measure (\<lambda>(i, raw, keys). length raw)") (auto simp: KEY_SIZE_def)

declare decode_keys.simps [simp del]

definition keys_try_from_wire :: "Sv2KeySetWire \<Rightarrow> Sv2SigningKey list sv2" where
  "keys_try_from_wire wire =
     (let raw = inner_as_ref (wire_keys wire) in
      if length raw \<noteq> KEY_SIZE * NUM_KEYS then Err DecodableConversionError
      else decode_keys 0 raw (replicate NUM_KEYS Sv2SigningKey_default))"

fun encode_keys :: "nat \<Rightarrow> Sv2SigningKey list \<Rightarrow> bytes \<Rightarrow> bytes sv2" where
  "encode_keys i [] buffer = Ok buffer"
| "encode_keys i (key # keys) buffer =
     (let start = i * KEY_SIZE; end' = start + KEY_SIZE in
      if length buffer < end' then Panic
      else
        rbind (map_err (\<lambda>_. DecodableConversionError)
          (field_encode (Sv2SigningKey_into_field key) (take KEY_SIZE (drop start buffer)) 0)) (\<lambda>(part, _).
          encode_keys (Suc i) keys (write_at start part buffer)))"

definition wire_try_from_keys ::
  "('id, 'pk, 'h, 'er) cdk \<Rightarrow> Sv2SigningKey list \<Rightarrow> Sv2KeySetWire sv2" where
  "wire_try_from_keys cdk keys =
     rbind (encode_keys 0 keys (replicate (KEY_SIZE * NUM_KEYS) 0)) (\<lambda>buffer.
     rbind (map_err (\<lambda>_. DecodableConversionError) (inner_try_from_vec B064K buffer)) (\<lambda>encoded_keys.
     rbind (calculate_keyset_id cdk (map signing_key_from keys)) (\<lambda>kid.
       Ok \<lparr>wire_id = kid, wire_keys = encoded_keys\<rparr>)))"

definition wire_from_keyset ::
  "('id, 'pk, 'h, 'er) cdk \<Rightarrow> Sv2KeySet \<Rightarrow> (Sv2KeySetWire, 'e) result" where
  "wire_from_keyset cdk domain = expect (wire_try_from_keys cdk (sks_keys domain))"

definition keyset_try_from_wire :: "Sv2KeySetWire \<Rightarrow> Sv2KeySet sv2" where
  "keyset_try_from_wire wire =
     rbind (keys_try_from_wire wire) (\<lambda>keys. Ok \<lparr>sks_id = wire_id wire, sks_keys = keys\<rparr>)"

definition Sv2KeySet_default :: Sv2KeySet where
  "Sv2KeySet_default = \<lparr>sks_id = 0, sks_keys = replicate NUM_KEYS Sv2SigningKey_default\<rparr>"

definition sv2_keyset_try_from ::
  "('id, 'pk, 'h, 'er) cdk \<Rightarrow> ('id, 'pk) KeySet \<Rightarrow> (Sv2KeySet, 'er KeysetConversionError) result" where
  "sv2_keyset_try_from cdk value =
     rbind (signing_keys_from_cdk cdk value) (\<lambda>signing_keys.
     rbind (keyset_id_into_u64 cdk (ks_id value)) (\<lambda>kid.
       Ok \<lparr>sks_id = kid, sks_keys = map sv2_signing_key_from signing_keys\<rparr>))"

definition keyset_try_from_sv2 ::
  "('id, 'pk, 'h, 'er) cdk \<Rightarrow> Sv2KeySet \<Rightarrow> (('id, 'pk) KeySet, 'er KeysetConversionError) result" where
  "keyset_try_from_sv2 cdk value =
     build_cdk_keyset cdk (sks_id value) (map signing_key_from (sks_keys value))"

section \<open>Message types\<close>

lemma message_type_roundtrip: "message_type_from_u8 (message_type_as_u8 t) = Ok t"
  by (cases t) (simp_all add: message_type_from_u8_def)

lemma message_type_from_u8_iff:
  "is_ok (message_type_from_u8 v) \<longleftrightarrow> is_mint_quote_message v"
  by (simp add: message_type_from_u8_def is_mint_quote_message_def)

section \<open>The value of a share\<close>

lemma leading_zeros_le: "leading_zeros (w :: 'a::len word) \<le> LENGTH('a)"
  unfolding leading_zeros_def by (metis length_rev length_takeWhile_le length_upt minus_nat.diff_0)

lemma leading_zeros_above:
  assumes "LENGTH('a) - leading_zeros w \<le> i" and "i < LENGTH('a)"
  shows "\<not> bit (w :: 'a::len word) i"
proof -
  let ?xs = "rev [0..<LENGTH('a)]" and ?P = "\<lambda>i. \<not> bit w i"
  have "LENGTH('a) - 1 - i < length (takeWhile ?P ?xs)"
    using assms unfolding leading_zeros_def by linarith
  moreover from this have "takeWhile ?P ?xs ! (LENGTH('a) - 1 - i) = i"
    using assms by (simp add: takeWhile_nth rev_nth)
  ultimately show ?thesis
    using nth_mem set_takeWhileD by metis
qed

lemma leading_zeros_bit:
  assumes "leading_zeros w < LENGTH('a)"
  shows "bit (w :: 'a::len word) (LENGTH('a) - 1 - leading_zeros w)"
proof -
  let ?xs = "rev [0..<LENGTH('a)]" and ?P = "\<lambda>i. \<not> bit w i"
  have "\<not> ?P (?xs ! length (takeWhile ?P ?xs))"
    by (rule nth_length_takeWhile) (use assms in \<open>simp add: leading_zeros_def\<close>)
  then show ?thesis
    using assms by (simp add: leading_zeros_def rev_nth)
qed

lemma leading_zeros_less:
  "unat (w :: 'a::len word) < 2 ^ (LENGTH('a) - leading_zeros w)"
proof -
  have "drop_bit (LENGTH('a) - leading_zeros w) w = 0"
  proof (rule bit_word_eqI)
    fix n
    show "bit (drop_bit (LENGTH('a) - leading_zeros w) w) n = bit (0 :: 'a word) n"
      using leading_zeros_above [of w "LENGTH('a) - leading_zeros w + n"]
        bit_imp_le_length [of w "LENGTH('a) - leading_zeros w + n"]
      by (auto simp: bit_drop_bit_eq)
  qed
  then have "unat w div 2 ^ (LENGTH('a) - leading_zeros w) = 0"
    by (metis unat_drop_bit_eq drop_bit_eq_div unsigned_0)
  then show ?thesis by (simp add: div_eq_0_iff)
qed

lemma leading_zeros_nonzero:
  assumes "w \<noteq> 0"
  shows "leading_zeros w < LENGTH('a)"
    and "2 ^ (LENGTH('a) - 1 - leading_zeros w) \<le> unat (w :: 'a::len word)"
proof -
  show less: "leading_zeros w < LENGTH('a)"
    using leading_zeros_less [of w] leading_zeros_le [of w] assms
    by (cases "leading_zeros w = LENGTH('a)") (simp_all add: unat_eq_0)
  have "bit (unat w) (LENGTH('a) - 1 - leading_zeros w)"
    using leading_zeros_bit [OF less] bit_imp_le_length by (auto simp: bit_unsigned_iff)
  then have "odd (unat w div 2 ^ (LENGTH('a) - 1 - leading_zeros w))"
    unfolding bit_iff_odd .
  then show "2 ^ (LENGTH('a) - 1 - leading_zeros w) \<le> unat w"
    by (metis div_less even_zero not_le)
qed

fun zero_bits :: "bytes \<Rightarrow> nat" where
  "zero_bits [] = 0"
| "zero_bits (b # bs) = (if b = 0 then 8 + zero_bits bs else leading_zeros b)"

lemma difficulty_loop_zero_bits:
  "calculate_difficulty_loop bs count = count + word_of_nat (zero_bits bs)"
  by (induction bs arbitrary: count) simp_all

lemma nat_of_be_Cons: "nat_of_be (b # bs) = unat b * 256 ^ length bs + nat_of_be bs"
  by (simp add: nat_of_be_def nat_of_le_append)

lemma nat_of_be_less: "nat_of_be bs < 2 ^ (8 * length bs)"
  using nat_of_be_bound [of bs] by (simp add: pow_256_bits)

lemma zero_bits_le: "zero_bits bs \<le> 8 * length bs"
  using leading_zeros_le [where 'a = 8] by (induction bs) (auto intro: trans_le_add1)

lemma zero_bits_bounds:
  "nat_of_be bs < 2 ^ (8 * length bs - zero_bits bs)"
  "nat_of_be bs \<noteq> 0 \<Longrightarrow> zero_bits bs < 8 * length bs \<and> 2 ^ (8 * length bs - 1 - zero_bits bs) \<le> nat_of_be bs"
  "nat_of_be bs = 0 \<Longrightarrow> zero_bits bs = 8 * length bs"
proof (induction bs)
  case (Cons b bs)
  show "nat_of_be (b # bs) < 2 ^ (8 * length (b # bs) - zero_bits (b # bs))"
  proof (cases "b = 0")
    case False
    have "nat_of_be (b # bs) < (unat b + 1) * 2 ^ (8 * length bs)"
      using nat_of_be_less [of bs] by (simp add: nat_of_be_Cons pow_256_bits)
    also have "\<dots> \<le> 2 ^ (8 - leading_zeros b) * 2 ^ (8 * length bs)"
      using leading_zeros_less [of b] by (intro mult_le_mono1) simp
    also have "\<dots> = 2 ^ (8 * length (b # bs) - leading_zeros b)"
      using leading_zeros_nonzero(1) [OF False] by (simp flip: power_add)
    finally show ?thesis using False by simp
  qed (use Cons.IH(1) in \<open>simp add: nat_of_be_Cons\<close>)
  show "zero_bits (b # bs) < 8 * length (b # bs) \<and>
      2 ^ (8 * length (b # bs) - 1 - zero_bits (b # bs)) \<le> nat_of_be (b # bs)"
    if "nat_of_be (b # bs) \<noteq> 0"
  proof (cases "b = 0")
    case False
    have "8 * length (b # bs) - 1 - leading_zeros b = 7 - leading_zeros b + 8 * length bs"
      using leading_zeros_nonzero(1) [OF False] by simp
    then have "(2 :: nat) ^ (8 * length (b # bs) - 1 - leading_zeros b) =
        2 ^ (7 - leading_zeros b) * 2 ^ (8 * length bs)"
      by (simp only: power_add)
    also have "\<dots> \<le> unat b * 2 ^ (8 * length bs)"
      using leading_zeros_nonzero(2) [OF False] by (intro mult_le_mono1) simp
    finally show ?thesis
      using False leading_zeros_nonzero(1) [OF False] by (simp add: nat_of_be_Cons pow_256_bits)
  qed (use Cons.IH(2) that in \<open>simp add: nat_of_be_Cons\<close>)
  show "zero_bits (b # bs) = 8 * length (b # bs)" if "nat_of_be (b # bs) = 0"
    using that Cons.IH(3) by (simp add: nat_of_be_Cons unat_eq_0)
qed (simp_all add: nat_of_be_def)

lemma unat_calculate_difficulty:
  "length hash = 32 \<Longrightarrow> unat (calculate_difficulty hash) = zero_bits hash"
  using zero_bits_le [of hash]
  by (simp add: calculate_difficulty_def difficulty_loop_zero_bits unat_of_nat_small)

lemma unat_calculate_ehash_amount:
  assumes "length hash = 32"
  shows "unat (calculate_ehash_amount hash m) =
    (if zero_bits hash < unat m then 0 else 2 ^ min 63 (zero_bits hash - unat m))"
proof -
  have u: "unat (push_bit k 1 :: u64) = 2 ^ k" if "k < 64" for k
  proof -
    have "(2 :: nat) ^ k < 2 ^ 64" using that by (intro power_strict_increasing) auto
    then have "unat (of_nat (2 ^ k) :: u64) = 2 ^ k" by (intro unat_of_nat_small) simp
    then show ?thesis by (simp add: push_bit_eq_mult)
  qed
  show ?thesis
    using assms zero_bits_le [of hash]
    by (auto simp: calculate_ehash_amount_def Let_def word_less_nat_alt word_le_nat_alt
      unat_calculate_difficulty u u [unfolded push_bit_eq_mult mult_1] unat_sub min_def not_less)
qed

lemma ehash_amount_zero_iff:
  assumes "length hash = 32"
  shows "zero_bits hash < m \<longleftrightarrow> 256 < m \<or> 2 ^ (256 - m) \<le> nat_of_be hash"
proof (cases "zero_bits hash < m")
  case True
  have "2 ^ (256 - m) \<le> nat_of_be hash" if "m \<le> 256"
  proof -
    have "nat_of_be hash \<noteq> 0" using zero_bits_bounds(3) [of hash] True that assms by auto
    then have "2 ^ (255 - zero_bits hash) \<le> nat_of_be hash"
      using zero_bits_bounds(2) [of hash] assms by simp
    moreover have "(2 :: nat) ^ (256 - m) \<le> 2 ^ (255 - zero_bits hash)"
      using True by (intro power_increasing) auto
    ultimately show ?thesis by linarith
  qed
  with True show ?thesis by (cases "m \<le> 256") auto
next
  case False
  have "(2 :: nat) ^ (256 - zero_bits hash) \<le> 2 ^ (256 - m)"
    using False by (intro power_increasing) auto
  then have "nat_of_be hash < 2 ^ (256 - m)"
    using zero_bits_bounds(1) [of hash] assms by (simp add: order_less_le_trans)
  with False show ?thesis using zero_bits_le [of hash] assms by simp
qed

lemma ehash_amount_tight:
  assumes "length hash = 32" and "m \<le> zero_bits hash"
  defines "k \<equiv> min 63 (zero_bits hash - m)"
  shows "2 ^ k * nat_of_be hash < 2 ^ (256 - m)"
    and "k < 63 \<Longrightarrow> nat_of_be hash = 0 \<Longrightarrow> k = 256 - m"
    and "k < 63 \<Longrightarrow> nat_of_be hash \<noteq> 0 \<Longrightarrow> 2 ^ (256 - m) \<le> 2 * (2 ^ k * nat_of_be hash)"
proof -
  have le: "zero_bits hash \<le> 256" using zero_bits_le [of hash] assms(1) by simp
  have "2 ^ k * nat_of_be hash < 2 ^ k * 2 ^ (256 - zero_bits hash)"
    using zero_bits_bounds(1) [of hash] assms(1) by simp
  also have "\<dots> = 2 ^ (k + (256 - zero_bits hash))" by (simp add: power_add)
  also have "\<dots> \<le> 2 ^ (256 - m)"
    using le assms(2) by (intro power_increasing) (auto simp: k_def)
  finally show "2 ^ k * nat_of_be hash < 2 ^ (256 - m)" .
  show "k = 256 - m" if "k < 63" "nat_of_be hash = 0"
    using that zero_bits_bounds(3) [of hash] assms(1) by (simp add: k_def min_def split: if_splits)
  show "2 ^ (256 - m) \<le> 2 * (2 ^ k * nat_of_be hash)" if "k < 63" "nat_of_be hash \<noteq> 0"
  proof -
    have b: "zero_bits hash < 256" "2 ^ (255 - zero_bits hash) \<le> nat_of_be hash"
      using zero_bits_bounds(2) [OF that(2)] assms(1) by simp_all
    have "k = zero_bits hash - m" using that(1) by (simp add: k_def min_def split: if_splits)
    with b(1) assms(2) have "256 - m = Suc (k + (255 - zero_bits hash))" by simp
    then have "(2 :: nat) ^ (256 - m) = 2 * (2 ^ k * 2 ^ (255 - zero_bits hash))"
      by (simp only: power_Suc power_add)
    also have "\<dots> \<le> 2 * (2 ^ k * nat_of_be hash)" using b(2) by simp
    finally show ?thesis .
  qed
qed

text \<open>C21: The ehash of a share is zero exactly if its hash, read as a big-endian number \<open>n\<close>, is not
  below \<open>2 ^ (256 - m)\<close> for the required number \<open>m\<close> of leading zero bits.  Otherwise it is the
  largest power of two \<open>a\<close>, at most \<open>2 ^ 63\<close>, with \<open>a * n < 2 ^ (256 - m)\<close>; the hash zero earns
  \<open>2 ^ (256 - m)\<close> within the same cap.\<close>

theorem ehash_amount_spec:
  assumes "length hash = 32"
  shows "let a = unat (calculate_ehash_amount hash min_leading_zeros);
      n = nat_of_be hash; m = unat min_leading_zeros in
    (a = 0 \<longleftrightarrow> 256 < m \<or> 2 ^ (256 - m) \<le> n) \<and>
    (a \<noteq> 0 \<longrightarrow> (\<exists>k \<le> 63. a = 2 ^ k \<and> a * n < 2 ^ (256 - m) \<and>
      (k < 63 \<longrightarrow> (if n = 0 then k = 256 - m else 2 ^ (256 - m) \<le> 2 * (a * n)))))"
proof (cases "zero_bits hash < unat min_leading_zeros")
  case True
  with ehash_amount_zero_iff [OF assms, of "unat min_leading_zeros"] show ?thesis
    by (simp add: Let_def unat_calculate_ehash_amount assms)
next
  case False
  with ehash_amount_zero_iff [OF assms, of "unat min_leading_zeros"]
    ehash_amount_tight [OF assms, of "unat min_leading_zeros"] show ?thesis
    by (auto simp: Let_def unat_calculate_ehash_amount assms not_less
      intro!: exI [of _ "min 63 (zero_bits hash - unat min_leading_zeros)"])
qed

theorem ehash_amount_spec_witness:
  "unat (calculate_ehash_amount (replicate 4 0 @ 15 # replicate 27 255) 32) = 16 \<and> 16 * nat_of_be (replicate 4 0 @ 15 # replicate 27 255) < 2 ^ 224"
proof -
  have a: "calculate_ehash_amount (replicate 4 0 @ 15 # replicate 27 255) 32 = 16"
    by code_simp
  show ?thesis
    using ehash_amount_spec [of "replicate 4 0 @ 15 # replicate 27 255" 32] by (auto simp: a Let_def)
qed
section \<open>Mint quotes from the locking key to the Cashu request\<close>

lemma share_hash_u256 [simp]:
  "length bs = 32 \<Longrightarrow> share_hash_into_u256 (ShareHash bs) = Ok (Owned bs)"
  "length bs = 32 \<Longrightarrow> share_hash_from_u256 (Ref bs) = Ok (ShareHash bs)"
  by (simp_all add: share_hash_into_u256_def share_hash_from_u256_def share_hash_try_from_def
    inner_try_from_vec_def U256_def)

lemma b0255_from_bytes:
  assumes "length bs \<le> 255"
  shows "decodable_from_bytes b0255_structure b0255_from_decoded (of_nat (length bs) # bs) = Ok (Ref bs)"
proof -
  have "field_wire (b0255_into (Ref bs)) = of_nat (length bs) # bs"
    using assms by (simp add: inner_wire_def B0255_def)
  with f_b0255.from_bytes_message [of "Ref bs" "[]"] assms show ?thesis
    by (simp add: inner_wf_def B0255_def inner_norm_def)
qed

lemma parse_locking_key_Ok: "length bs = 33 \<Longrightarrow> parse_locking_key bs channel_id = Ok (Owned bs)"
  using b0255_from_bytes [of bs] by (simp add: parse_locking_key_def)

lemma parse_locking_key_iff:
  "parse_locking_key bs channel_id = Ok k \<longleftrightarrow> length bs = 33 \<and> k = Owned bs"
  using parse_locking_key_Ok [of bs channel_id] by (auto simp: parse_locking_key_def)

lemma build_mint_quote_request_Ok:
  "length header_hash = 32 \<Longrightarrow>
   build_mint_quote_request amount header_hash locking_key = Ok
     \<lparr>mqr_amount = amount, mqr_unit = Owned HASH_unit, mqr_header_hash = Owned header_hash,
      mqr_description = [], mqr_locking_key = locking_key\<rparr>"
  by (simp add: build_mint_quote_request_def inner_try_from_vec_def Str0255_def B0255_def U256_def
    HASH_unit_def sv2_option_new_def)

lemma into_static_request_Ok:
  "inner_wf Str0255 (mqr_unit r) \<Longrightarrow> mqr_description r = [] \<Longrightarrow> length bs = 32 \<Longrightarrow>
   into_static_request r (ShareHash bs) = Ok
     \<lparr>mqr_amount = mqr_amount r, mqr_unit = Owned (inner_as_ref (mqr_unit r)),
      mqr_header_hash = Owned bs, mqr_description = [],
      mqr_locking_key = into_static (mqr_locking_key r)\<rparr>"
  by (simp add: into_static_request_def inner_try_from_vec_def inner_wf_def Str0255_def B0255_def
    sv2_option_into_inner_def sv2_option_new_def)

text \<open>
  What the Cashu library documents of its types: a public key has a 33-byte compressed form that
  starts with 2 or 3 and parses back, an id parses back from its bytes, and the version 1 id of any
  keys has 8 bytes.
\<close>

definition compressed_keys :: "('id, 'pk, 'h, 'er) cdk \<Rightarrow> bool" where
  "compressed_keys cdk \<longleftrightarrow>
     (\<forall>pk. length (pk_to_bytes cdk pk) = 33 \<and> hd (pk_to_bytes cdk pk) \<in> {2, 3} \<and>
       pk_from_slice cdk (pk_to_bytes cdk pk) = Ok pk)"

definition v1_ids :: "('id, 'pk, 'h, 'er) cdk \<Rightarrow> bool" where
  "v1_ids cdk \<longleftrightarrow>
     (\<forall>kid. id_from_bytes cdk (id_to_bytes cdk kid) = Ok kid) \<and>
     (\<forall>keys. length (id_to_bytes cdk (v1_from_keys cdk keys)) = 8)"

text \<open>A concrete instance of the Cashu functions, for the witnesses.\<close>

definition demo_cdk :: "(u64, u64, bytes, unit) cdk" where
  "demo_cdk =
     \<lparr>id_to_bytes = to_be_bytes,
      id_from_bytes = (\<lambda>bs. if length bs = 8 then Ok (from_be_bytes bs) else Err ()),
      v1_from_keys = (\<lambda>keys. sum_list (map (\<lambda>(amount, key). amount * 3 + key) keys)),
      pk_to_bytes = (\<lambda>key. 2 # to_be_bytes key @ replicate 24 0),
      pk_from_slice = (\<lambda>bs. if length bs = 33 then Ok (from_be_bytes (take 8 (tl bs))) else Err ()),
      hash_from_slice = (\<lambda>bs. if length bs = 32 then Ok bs else Err ())\<rparr>"

lemma demo_cdk_laws: "compressed_keys demo_cdk" "v1_ids demo_cdk"
  by (simp_all add: compressed_keys_def v1_ids_def demo_cdk_def from_to_be_bytes)

lemma built_request_wf:
  assumes "length header_hash = 32" and "length key = 33"
  shows "MintQuoteRequest_wf \<lparr>mqr_amount = amount, mqr_unit = Owned HASH_unit,
    mqr_header_hash = Owned header_hash, mqr_description = [], mqr_locking_key = Owned key\<rparr>"
  using assms by (simp add: MintQuoteRequest_wf_def inner_wf_def B0255_def U256_def HASH_unit_def
    sv2_option_wf_def)

lemma parse_built_request:
  fixes amount :: u64
  assumes "length header_hash = 32" and "length key = 33"
  defines "r \<equiv> \<lparr>mqr_amount = amount, mqr_unit = Owned HASH_unit,
    mqr_header_hash = Owned header_hash, mqr_description = [], mqr_locking_key = Owned key\<rparr>"
  shows "parse_mint_quote_request (field_wire (MintQuoteRequest_into_field r) @ rest) =
    Ok \<lparr>parsed_request = r, parsed_share_hash = ShareHash header_hash\<rparr>"
proof -
  have "MintQuoteRequest_from_bytes (field_wire (MintQuoteRequest_into_field r) @ rest) =
      Ok (MintQuoteRequest_norm r)"
    using m_MintQuoteRequest.from_bytes_message [OF built_request_wf [OF assms(1,2)]]
    by (simp add: MintQuoteRequest_from_bytes_def r_def)
  then show ?thesis
    using assms by (simp add: parse_mint_quote_request_def MintQuoteRequest_norm_def inner_norm_def
      into_static_request_Ok inner_wf_def Str0255_def B0255_def HASH_unit_def)
qed

text \<open>C22: A quote request built for a 32-byte header hash and any 33-byte locking key is encoded without
  error, and whatever bytes follow it the other side parses exactly the request that was built,
  with the header hash as its share hash; if the Cashu library accepts the key and the hash, the
  Cashu request carries the amount, the unit \<open>HASH\<close>, that hash, no description and that key.\<close>

theorem mint_quote_roundtrip:
  assumes "length header_hash = 32" and "length key = 33"
    and "hash_from_slice cdk header_hash = Ok h" and "pk_from_slice cdk key = Ok pk"
  shows "\<exists>locking_key request data parsed.
    parse_locking_key key channel_id = Ok locking_key \<and>
    build_mint_quote_request amount header_hash locking_key = Ok request \<and>
    to_bytes (MintQuoteRequest_get_size request) (MintQuoteRequest_into_field request) = Ok data \<and>
    parse_mint_quote_request (data @ rest) = Ok parsed \<and>
    parsed_request parsed = request \<and> parsed_share_hash parsed = ShareHash header_hash \<and>
    to_cdk_request cdk parsed = Ok \<lparr>cdk_amount = amount, cdk_unit = Custom HASH_unit,
      cdk_header_hash = h, cdk_description = None, cdk_pubkey = pk\<rparr>"
proof -
  let ?r = "\<lparr>mqr_amount = amount, mqr_unit = Owned HASH_unit, mqr_header_hash = Owned header_hash,
    mqr_description = [], mqr_locking_key = Owned key\<rparr>"
  let ?data = "field_wire (MintQuoteRequest_into_field ?r)"
  have wf: "MintQuoteRequest_wf ?r" using assms(1,2) by (rule built_request_wf)
  show ?thesis
    using assms m_MintQuoteRequest.to_bytes_message [OF wf] parse_built_request [OF assms(1,2)]
    by (intro exI [of _ "Owned key"] exI [of _ ?r] exI [of _ ?data]
        exI [of _ "\<lparr>parsed_request = ?r, parsed_share_hash = ShareHash header_hash\<rparr>"] conjI)
      (simp_all add: parse_locking_key_Ok build_mint_quote_request_Ok to_cdk_request_def
        sv2_option_into_inner_def)
qed

theorem mint_quote_roundtrip_witness:
  "\<exists>locking_key request data parsed.
    parse_locking_key (replicate 33 2) 1 = Ok locking_key \<and>
    build_mint_quote_request 16 (replicate 32 7) locking_key = Ok request \<and>
    to_bytes (MintQuoteRequest_get_size request) (MintQuoteRequest_into_field request) = Ok data \<and>
    parse_mint_quote_request (data @ [1, 2, 3]) = Ok parsed \<and>
    parsed_request parsed = request \<and> parsed_share_hash parsed = ShareHash (replicate 32 7) \<and>
    to_cdk_request demo_cdk parsed = Ok \<lparr>cdk_amount = 16, cdk_unit = Custom HASH_unit,
      cdk_header_hash = replicate 32 7, cdk_description = None,
      cdk_pubkey = from_be_bytes (replicate 8 2)\<rparr>"
  by (rule mint_quote_roundtrip) (simp_all add: demo_cdk_def)

section \<open>Keysets\<close>

lemma btree_insert_last:
  "\<forall>p \<in> set m. fst p < k \<Longrightarrow> btree_insert k v m = m @ [(k, v)]"
  by (induction m) auto

lemma Sv2SigningKey_size: "Sv2SigningKey_wf v \<Longrightarrow> Sv2SigningKey_get_size v = KEY_SIZE"
  by (simp add: Sv2SigningKey_wf_def Sv2SigningKey_get_size_def inner_wf_def U256_def KEY_SIZE_def
    inner_get_size_def uint_SIZE_def BOOL_SIZE_def)

interpretation m_Sv2SigningKey: sv2_message Sv2SigningKey_get_structure
  Sv2SigningKey_from_decoded_fields Sv2SigningKey_into_field Sv2SigningKey_get_size Sv2SigningKey_wf Sv2SigningKey_norm
  by (rule derived_message [OF Sv2SigningKey_get_structure_def Sv2SigningKey_into_field_def])
    (simp_all add: Sv2SigningKey_wf_def Sv2SigningKey_norm_def Sv2SigningKey_get_size_def
      Sv2SigningKey_from_decoded_fields_def derived_message_simps)

abbreviation key_wire :: "Sv2SigningKey \<Rightarrow> bytes" where
  "key_wire v \<equiv> field_wire (Sv2SigningKey_into_field v)"

lemma length_key_wire: "Sv2SigningKey_wf v \<Longrightarrow> length (key_wire v) = KEY_SIZE"
  by (simp add: m_Sv2SigningKey.length_message_wire Sv2SigningKey_size)

lemma length_keys_wire:
  "list_all Sv2SigningKey_wf vs \<Longrightarrow> length (concat (map key_wire vs)) = length vs * KEY_SIZE"
  by (induction vs) (simp_all add: length_key_wire)

lemma key_from_bytes:
  "Sv2SigningKey_wf v \<Longrightarrow>
   map_ok Sv2SigningKey_into_static (Sv2SigningKey_from_bytes (key_wire v)) = Ok (Sv2SigningKey_into_static v)"
  using m_Sv2SigningKey.from_bytes_message [of v "[]"]
  by (cases "svk_pubkey v") (simp_all add: Sv2SigningKey_from_bytes_def Sv2SigningKey_into_static_def
    Sv2SigningKey_norm_def inner_norm_def)

lemma decode_keys_wire:
  "list_all Sv2SigningKey_wf vs \<Longrightarrow>
   decode_keys (length ds) (concat (map key_wire vs)) (ds @ replicate (length vs) d) =
     Ok (ds @ map Sv2SigningKey_into_static vs)"
proof (induction vs arbitrary: ds)
  case (Cons v vs)
  have "decode_keys (length (ds @ [Sv2SigningKey_into_static v])) (concat (map key_wire vs))
      ((ds @ [Sv2SigningKey_into_static v]) @ replicate (length vs) d) =
      Ok ((ds @ [Sv2SigningKey_into_static v]) @ map Sv2SigningKey_into_static vs)"
    using Cons by (intro Cons.IH) simp
  moreover have "key_wire v \<noteq> []"
    using length_key_wire [of v] Cons.prems by (auto simp: KEY_SIZE_def)
  ultimately show ?case
    using Cons.prems
    by (subst decode_keys.simps) (simp add: length_key_wire key_from_bytes)
qed (simp add: decode_keys.simps)

lemma encode_keys_wire:
  "list_all Sv2SigningKey_wf vs \<Longrightarrow> length pre = i * KEY_SIZE \<Longrightarrow>
   encode_keys i vs (pre @ replicate (length vs * KEY_SIZE) 0) = Ok (pre @ concat (map key_wire vs))"
proof (induction vs arbitrary: i pre)
  case (Cons v vs)
  let ?z = "\<lambda>n. replicate n (0 :: u8)"
  have wf: "Sv2SigningKey_wf v" using Cons.prems by simp
  have "encode_keys (Suc i) vs ((pre @ key_wire v) @ ?z (length vs * KEY_SIZE)) =
      Ok ((pre @ key_wire v) @ concat (map key_wire vs))"
    using Cons.prems length_key_wire [OF wf] by (intro Cons.IH) simp_all
  moreover have "field_encode (Sv2SigningKey_into_field v) (?z KEY_SIZE) 0 = Ok (key_wire v, KEY_SIZE)"
    using field_encode_wire [OF m_Sv2SigningKey.field_ok [OF wf], of 0 "?z KEY_SIZE"]
      m_Sv2SigningKey.get_size_field [OF wf] Sv2SigningKey_size [OF wf] by simp
  ultimately show ?case
    using Cons.prems length_key_wire [OF wf]
    by (simp add: Let_def replicate_add write_at_append take_append)
qed simp

lemma u256_from_bytes:
  assumes "length bs = 32"
  shows "decodable_from_bytes u256_structure u256_from_decoded bs = Ok (Ref bs)"
  using f_u256.from_bytes_message [of "Ref bs" "[]"] assms
  by (simp add: inner_wf_def U256_def inner_norm_def inner_wire_def)

definition cdk_signing_key :: "('id, 'pk, 'h, 'er) cdk \<Rightarrow> u64 \<times> 'pk \<Rightarrow> SigningKey" where
  "cdk_signing_key cdk entry =
     \<lparr>sk_amount = fst entry, sk_parity_bit = (hd (pk_to_bytes cdk (snd entry)) = 3),
      sk_pubkey = Owned (tl (pk_to_bytes cdk (snd entry)))\<rparr>"

lemma signing_key_from_cdk_Ok:
  assumes "compressed_keys cdk"
  shows "signing_key_from_cdk cdk entry = Ok (cdk_signing_key cdk entry)"
proof -
  have "length (pk_to_bytes cdk (snd entry)) = 33" using assms by (simp add: compressed_keys_def)
  then obtain b bs where "pk_to_bytes cdk (snd entry) = b # bs" "length bs = 32"
    by (cases "pk_to_bytes cdk (snd entry)") auto
  then show ?thesis
    by (cases entry) (simp add: signing_key_from_cdk_def cdk_signing_key_def split_at_def u256_from_bytes)
qed

lemma signing_keys_from_cdk_Ok:
  assumes "compressed_keys cdk" and "length (ks_keys keyset) = 64"
  shows "signing_keys_from_cdk cdk keyset = Ok (map (cdk_signing_key cdk) (ks_keys keyset))"
proof -
  have "rtraverse (signing_key_from_cdk cdk) (ks_keys keyset) = Ok (map (cdk_signing_key cdk) (ks_keys keyset))"
    by (rule rtraverse_map_Ok) (rule signing_key_from_cdk_Ok [OF assms(1)])
  then show ?thesis using assms(2) by (simp add: signing_keys_from_cdk_def)
qed

lemma signing_keys_to_cdk_loop_Ok:
  assumes "compressed_keys cdk"
  shows "sorted_wrt (<) (map fst (m @ es)) \<Longrightarrow>
    signing_keys_to_cdk_loop cdk i (map (cdk_signing_key cdk) es) m = Ok (m @ es)"
proof (induction es arbitrary: i m)
  case (Cons e es)
  have pk: "length (pk_to_bytes cdk (snd e)) = 33" "hd (pk_to_bytes cdk (snd e)) \<in> {2, 3}"
    "pk_from_slice cdk (pk_to_bytes cdk (snd e)) = Ok (snd e)"
    using assms by (simp_all add: compressed_keys_def)
  then obtain b bs where "pk_to_bytes cdk (snd e) = b # bs" "length bs = 32" "b \<in> {2, 3}"
    by (cases "pk_to_bytes cdk (snd e)") auto
  with pk have "pk_from_slice cdk ((if b = 3 then 3 else 2) # bs) = Ok (snd e)" by auto
  moreover have "btree_insert (fst e) (snd e) m = m @ [e]"
    using Cons.prems by (subst btree_insert_last) (auto simp: sorted_wrt_append)
  moreover have "signing_keys_to_cdk_loop cdk (Suc i) (map (cdk_signing_key cdk) es) (m @ [e]) = Ok (m @ e # es)"
    using Cons.IH [of "m @ [e]" "Suc i"] Cons.prems by simp
  ultimately show ?case
    using \<open>pk_to_bytes cdk (snd e) = b # bs\<close> \<open>length bs = 32\<close> by (simp add: cdk_signing_key_def [of cdk e])
qed simp

lemma signing_keys_to_cdk_Ok:
  "compressed_keys cdk \<Longrightarrow> sorted_wrt (<) (map fst es) \<Longrightarrow>
   signing_keys_to_cdk cdk (map (cdk_signing_key cdk) es) = Ok es"
  using signing_keys_to_cdk_loop_Ok [of cdk "[]" es] by (simp add: signing_keys_to_cdk_def)

lemma pad_id_bytes_Ok: "length bs = 8 \<Longrightarrow> pad_id_bytes bs = Ok (from_be_bytes bs)"
  by (simp add: pad_id_bytes_def)

lemma wire_from_keyset_Ok:
  assumes "length (sks_keys s) = 64" and "list_all Sv2SigningKey_wf (sks_keys s)"
    and "calculate_keyset_id cdk (map signing_key_from (sks_keys s)) = (Ok kid :: u64 sv2)"
  shows "wire_from_keyset cdk s =
      Ok \<lparr>wire_id = kid, wire_keys = Owned (concat (map key_wire (sks_keys s)))\<rparr>"
    and "keyset_try_from_wire \<lparr>wire_id = kid, wire_keys = Owned (concat (map key_wire (sks_keys s)))\<rparr> =
      Ok \<lparr>sks_id = kid, sks_keys = map Sv2SigningKey_into_static (sks_keys s)\<rparr>"
proof -
  have len: "length (concat (map key_wire (sks_keys s))) = 2624"
    using length_keys_wire [OF assms(2)] assms(1) by (simp add: KEY_SIZE_def)
  have "encode_keys 0 (sks_keys s) (replicate 2624 0) = Ok (concat (map key_wire (sks_keys s)))"
    using encode_keys_wire [OF assms(2), of "[]" 0] assms(1) by (simp add: KEY_SIZE_def)
  with len assms(3) show "wire_from_keyset cdk s =
      Ok \<lparr>wire_id = kid, wire_keys = Owned (concat (map key_wire (sks_keys s)))\<rparr>"
    by (simp add: wire_from_keyset_def wire_try_from_keys_def KEY_SIZE_def NUM_KEYS_def
      inner_try_from_vec_def B064K_def)
  show "keyset_try_from_wire \<lparr>wire_id = kid, wire_keys = Owned (concat (map key_wire (sks_keys s)))\<rparr> =
      Ok \<lparr>sks_id = kid, sks_keys = map Sv2SigningKey_into_static (sks_keys s)\<rparr>"
    using len decode_keys_wire [OF assms(2), of "[]" Sv2SigningKey_default] assms(1)
    by (simp add: keyset_try_from_wire_def keys_try_from_wire_def Let_def KEY_SIZE_def NUM_KEYS_def)
qed

lemma signing_key_conversions:
  "signing_key_from (sv2_signing_key_from (cdk_signing_key cdk e)) = cdk_signing_key cdk e"
  "signing_key_from (Sv2SigningKey_into_static k) = signing_key_from k"
  by (simp_all add: signing_key_from_def sv2_signing_key_from_def cdk_signing_key_def
    Sv2SigningKey_into_static_def, cases "svk_pubkey k", simp_all)

definition demo_keys :: "(u64 \<times> u64) list" where
  "demo_keys = map (\<lambda>i. (of_nat i, of_nat (5 * i))) [0..<64]"

definition demo_keyset :: "(u64, u64) KeySet" where
  "demo_keyset =
     \<lparr>ks_id = v1_from_keys demo_cdk demo_keys, ks_unit = Custom HASH_unit, ks_keys = demo_keys,
      ks_final_expiry = None\<rparr>"

text \<open>C23: A Cashu keyset of 64 keys in ascending order of their amounts, under the version 1 id of its
  keys, survives the way to the pool: converted to its domain form, encoded into the 2624-byte
  wire form, decoded and converted back, it has the same id and the same keys.\<close>

theorem keyset_roundtrip:
  assumes "compressed_keys cdk" and "v1_ids cdk"
    and "length (ks_keys keyset) = 64" and "sorted_wrt (<) (map fst (ks_keys keyset))"
    and "ks_id keyset = v1_from_keys cdk (ks_keys keyset)"
  shows "\<exists>sv2 wire sv2' keyset'.
    sv2_keyset_try_from cdk keyset = Ok sv2 \<and>
    wire_from_keyset cdk sv2 = (Ok wire :: Sv2KeySetWire sv2) \<and> length (inner_as_ref (wire_keys wire)) = 2624 \<and>
    keyset_try_from_wire wire = Ok sv2' \<and> sks_id sv2' = sks_id sv2 \<and>
    keyset_try_from_sv2 cdk sv2' = Ok keyset' \<and>
    ks_id keyset' = ks_id keyset \<and> ks_keys keyset' = ks_keys keyset"
proof -
  let ?sks = "map (cdk_signing_key cdk) (ks_keys keyset)"
  let ?id = "from_be_bytes (id_to_bytes cdk (ks_id keyset)) :: u64"
  let ?sv2 = "\<lparr>sks_id = ?id, sks_keys = map sv2_signing_key_from ?sks\<rparr>"
  let ?wire = "\<lparr>wire_id = ?id, wire_keys = Owned (concat (map key_wire (sks_keys ?sv2)))\<rparr>"
  let ?sv2' = "\<lparr>sks_id = ?id, sks_keys = map Sv2SigningKey_into_static (sks_keys ?sv2)\<rparr>"
  have idl: "length (id_to_bytes cdk (ks_id keyset)) = 8" using assms(2,5) by (simp add: v1_ids_def)
  have tocdk: "signing_keys_to_cdk cdk ?sks = Ok (ks_keys keyset)"
    using assms by (simp add: signing_keys_to_cdk_Ok)
  have keys: "map signing_key_from (sks_keys ?sv2) = ?sks" "map signing_key_from (sks_keys ?sv2') = ?sks"
    by (simp_all add: signing_key_conversions)
  have 1: "sv2_keyset_try_from cdk keyset = Ok ?sv2"
    using assms idl by (simp add: sv2_keyset_try_from_def signing_keys_from_cdk_Ok keyset_id_into_u64_def
      pad_id_bytes_Ok)
  have cid: "calculate_keyset_id cdk (map signing_key_from (sks_keys ?sv2)) = (Ok ?id :: u64 sv2)"
    unfolding keys using tocdk assms(5) idl by (simp add: calculate_keyset_id_def pad_id_bytes_Ok)
  have wf: "list_all Sv2SigningKey_wf (sks_keys ?sv2)"
    using assms(1) by (auto simp: list_all_iff compressed_keys_def Sv2SigningKey_wf_def
      sv2_signing_key_from_def cdk_signing_key_def inner_wf_def U256_def)
  have len: "length (sks_keys ?sv2) = 64" using assms by simp
  note wire = wire_from_keyset_Ok [OF len wf cid]
  have "to_be_bytes ?id = id_to_bytes cdk (ks_id keyset)" using idl by (simp add: to_from_be_bytes)
  then have 2: "keyset_try_from_sv2 cdk ?sv2' =
      Ok \<lparr>ks_id = ks_id keyset, ks_unit = Custom HASH_unit, ks_keys = ks_keys keyset, ks_final_expiry = None\<rparr>"
    unfolding keyset_try_from_sv2_def keys(2) using tocdk assms(2)
    by (simp add: build_cdk_keyset_def keyset_id_try_from_def v1_ids_def)
  have 3: "length (inner_as_ref (wire_keys ?wire)) = 2624"
    using length_keys_wire [OF wf] len by (simp add: KEY_SIZE_def)
  show ?thesis
    by (intro exI conjI, rule 1, rule wire(1), rule 3, rule wire(2), simp, rule 2, simp_all)
qed

theorem keyset_roundtrip_witness:
  "\<exists>sv2 wire sv2' keyset'.
    sv2_keyset_try_from demo_cdk demo_keyset = Ok sv2 \<and>
    wire_from_keyset demo_cdk sv2 = (Ok wire :: Sv2KeySetWire sv2) \<and> length (inner_as_ref (wire_keys wire)) = 2624 \<and>
    keyset_try_from_wire wire = Ok sv2' \<and> sks_id sv2' = sks_id sv2 \<and>
    keyset_try_from_sv2 demo_cdk sv2' = Ok keyset' \<and>
    ks_id keyset' = ks_id demo_keyset \<and> ks_keys keyset' = ks_keys demo_keyset"
proof (rule keyset_roundtrip)
  show "sorted_wrt (<) (map fst (ks_keys demo_keyset))"
    by (simp add: demo_keyset_def demo_keys_def sorted_wrt_iff_nth_less word_less_nat_alt
      unat_of_nat_small del: upt_rec_numeral)
qed (simp_all add: demo_cdk_laws demo_keyset_def demo_keys_def)

end
