(* ===== verification/Framing.thy ===== *)
theory Framing
  imports Field_Types
begin

text \<open>
  Frames of \<open>protocols/v2/framing-sv2/src\<close>: the six-byte header with its derived codec, the frame
  with a message or serialized bytes, the handshake frame, and the length arithmetic of encrypted
  frames. A message type \<open>T: Serialize + GetSize\<close> is given by its conversion to an encodable
  field and its size; the buffer type \<open>B\<close> is a byte vector. An \<open>isize\<close> is an \<open>int\<close>: no length
  reaches \<open>2^63\<close>.
\<close>

section \<open>The header\<close>

definition SV2_FRAME_HEADER_SIZE :: nat where "SV2_FRAME_HEADER_SIZE = 6"

definition SV2_FRAME_CHUNK_SIZE :: nat where "SV2_FRAME_CHUNK_SIZE = 65535"

definition AEAD_MAC_LEN :: nat where "AEAD_MAC_LEN = 16"

definition ENCRYPTED_SV2_FRAME_HEADER_SIZE :: nat where
  "ENCRYPTED_SV2_FRAME_HEADER_SIZE = SV2_FRAME_HEADER_SIZE + AEAD_MAC_LEN"

datatype framing_error =
    BinarySv2Error sv2_error
  | ExpectedHandshakeFrame
  | ExpectedSv2Frame
  | UnexpectedHeaderLength int

record Header =
  extension_type :: u16
  msg_type :: u8
  msg_length :: u24

definition header_from_bytes :: "bytes \<Rightarrow> (Header, framing_error) result" where
  "header_from_bytes bs =
     (if length bs < SV2_FRAME_HEADER_SIZE then Err (UnexpectedHeaderLength (int (length bs)))
      else rbind (map_err BinarySv2Error
          (u24_try_from_u32 (from_le_bytes [bs ! 3, bs ! 4, bs ! 5, 0]))) (\<lambda>len.
        Ok \<lparr>extension_type = from_le_bytes [bs ! 0, bs ! 1], msg_type = bs ! 2, msg_length = len\<rparr>))"

definition header_len :: "Header \<Rightarrow> nat" where
  "header_len h = unat (u32_from_u24 (msg_length h))"

definition header_from_len :: "u32 \<Rightarrow> u8 \<Rightarrow> u16 \<Rightarrow> Header option" where
  "header_from_len len mtype ext =
     (case u24_try_from_u32 len of
        Ok l \<Rightarrow> Some \<lparr>extension_type = ext, msg_type = mtype, msg_length = l\<rparr>
      | _ \<Rightarrow> None)"

definition ext_type :: "Header \<Rightarrow> u16" where
  "ext_type h = extension_type h"

definition channel_msg :: "Header \<Rightarrow> bool" where
  "channel_msg h = (extension_type h AND 0x8000 \<noteq> 0)"

definition encrypted_len :: "Header \<Rightarrow> nat" where
  "encrypted_len h =
     (let len = header_len h;
          chunks = len div (SV2_FRAME_CHUNK_SIZE - AEAD_MAC_LEN);
          chunks = (if len mod (SV2_FRAME_CHUNK_SIZE - AEAD_MAC_LEN) \<noteq> 0 then chunks + 1 else chunks);
          mac_len = chunks * AEAD_MAC_LEN
      in len + mac_len)"

definition header_into_field :: "Header \<Rightarrow> encodable_field" where
  "header_into_field h =
     derive_into_field [u16_into (extension_type h), u8_into (msg_type h), u24_into (msg_length h)]"

section \<open>Frames\<close>

record 't Sv2Frame =
  header :: Header
  payload :: "'t option"
  serialized :: "bytes option"

record HandShakeFrame =
  hs_payload :: bytes

datatype 't frame = HandShake HandShakeFrame | Sv2 "'t Sv2Frame"

definition frame_serialize ::
  "('t \<Rightarrow> encodable_field) \<Rightarrow> 't Sv2Frame \<Rightarrow> bytes \<Rightarrow> (bytes, framing_error) result" where
  "frame_serialize into_field f dst =
     (case serialized f of
        Some s \<Rightarrow> if length dst = length s then Ok s else Panic
      | None \<Rightarrow>
          (case payload f of
             Some p \<Rightarrow>
               rbind (map_err BinarySv2Error (to_writer (header_into_field (header f)) dst)) (\<lambda>dst.
               rbind (slice_from dst SV2_FRAME_HEADER_SIZE) (\<lambda>rest.
               rbind (map_err BinarySv2Error (to_writer (into_field p) rest)) (\<lambda>rest.
                 Ok (take SV2_FRAME_HEADER_SIZE dst @ rest))))
           | None \<Rightarrow> Panic))"

definition frame_payload :: "'t Sv2Frame \<Rightarrow> (bytes, 'e) result" where
  "frame_payload f =
     (case serialized f of
        Some s \<Rightarrow> slice_from s SV2_FRAME_HEADER_SIZE
      | None \<Rightarrow> Panic)"

definition frame_get_header :: "'t Sv2Frame \<Rightarrow> Header option" where
  "frame_get_header f = Some (header f)"

definition frame_size_hint :: "bytes \<Rightarrow> int" where
  "frame_size_hint bs =
     (case header_from_bytes bs of
        Ok h \<Rightarrow>
          if length bs - SV2_FRAME_HEADER_SIZE = header_len h then 0
          else int (length bs - SV2_FRAME_HEADER_SIZE) + int (header_len h)
      | _ \<Rightarrow> int SV2_FRAME_HEADER_SIZE - int (length bs))"

definition frame_from_bytes_unchecked :: "bytes \<Rightarrow> ('t Sv2Frame, 'e) result" where
  "frame_from_bytes_unchecked bs =
     rbind (expect (header_from_bytes bs)) (\<lambda>h.
       Ok \<lparr>header = h, payload = None, serialized = Some bs\<rparr>)"

definition frame_from_bytes :: "bytes \<Rightarrow> ('t Sv2Frame, int) result" where
  "frame_from_bytes bs =
     (if frame_size_hint bs = 0 then frame_from_bytes_unchecked bs else Err (frame_size_hint bs))"

definition frame_encoded_length :: "('t \<Rightarrow> nat) \<Rightarrow> 't Sv2Frame \<Rightarrow> (nat, 'e) result" where
  "frame_encoded_length get_size f =
     (case serialized f of
        Some s \<Rightarrow> Ok (length s)
      | None \<Rightarrow> (case payload f of Some p \<Rightarrow> Ok (get_size p + SV2_FRAME_HEADER_SIZE) | None \<Rightarrow> Panic))"

definition update_extension_type :: "u16 \<Rightarrow> bool \<Rightarrow> u16" where
  "update_extension_type ext is_channel_msg =
     (if is_channel_msg then ext OR 0x8000 else ext AND 0x7FFF)"

definition frame_from_message ::
  "('t \<Rightarrow> nat) \<Rightarrow> 't \<Rightarrow> u8 \<Rightarrow> u16 \<Rightarrow> bool \<Rightarrow> 't Sv2Frame option" where
  "frame_from_message get_size message mtype ext is_channel_msg =
     map_option (\<lambda>h. \<lparr>header = h, payload = Some message, serialized = None\<rparr>)
       (header_from_len (of_nat (get_size message)) mtype (update_extension_type ext is_channel_msg))"

definition frame_map :: "('a \<Rightarrow> 'c) \<Rightarrow> 'a Sv2Frame \<Rightarrow> 'c Sv2Frame" where
  "frame_map fn f =
     \<lparr>header = header f, payload = map_option fn (payload f), serialized = serialized f\<rparr>"

definition sv2_frame_try_from :: "'t frame \<Rightarrow> ('t Sv2Frame, framing_error) result" where
  "sv2_frame_try_from v = (case v of Sv2 f \<Rightarrow> Ok f | HandShake _ \<Rightarrow> Err ExpectedSv2Frame)"

definition handshake_frame_try_from :: "'t frame \<Rightarrow> (HandShakeFrame, framing_error) result" where
  "handshake_frame_try_from v = (case v of HandShake f \<Rightarrow> Ok f | Sv2 _ \<Rightarrow> Err ExpectedHandshakeFrame)"

definition handshake_from_bytes :: "bytes \<Rightarrow> (HandShakeFrame, int) result" where
  "handshake_from_bytes bs = Ok \<lparr>hs_payload = bs\<rparr>"

definition get_payload_when_handshaking :: "HandShakeFrame \<Rightarrow> bytes" where
  "get_payload_when_handshaking f = hs_payload f"

definition handshake_encoded_length :: "HandShakeFrame \<Rightarrow> nat" where
  "handshake_encoded_length f = length (hs_payload f)"

definition handshake_message_to_frame :: "bytes \<Rightarrow> HandShakeFrame" where
  "handshake_message_to_frame message = \<lparr>hs_payload = message\<rparr>"

definition any_frame_encoded_length :: "('t \<Rightarrow> nat) \<Rightarrow> 't frame \<Rightarrow> (nat, 'e) result" where
  "any_frame_encoded_length get_size v =
     (case v of HandShake f \<Rightarrow> Ok (handshake_encoded_length f)
              | Sv2 f \<Rightarrow> frame_encoded_length get_size f)"

section \<open>Header round trip\<close>

definition header_wf :: "Header \<Rightarrow> bool" where
  "header_wf h = u24_wf (msg_length h)"

lemma header_field_wf: "header_wf h \<Longrightarrow> field_wf (header_into_field h)"
  by (simp add: header_into_field_def derive_into_field_def header_wf_def)

lemma header_field_size: "field_get_size (header_into_field h) = SV2_FRAME_HEADER_SIZE"
  by (simp add: header_into_field_def derive_into_field_def SV2_FRAME_HEADER_SIZE_def
    uint_SIZE_def U24_SIZE_def)

lemma header_wire:
  "field_wire (header_into_field h) =
     to_le_bytes (extension_type h) @ msg_type h # nat_to_le 3 (unat (u24_inner (msg_length h)))"
  by (simp add: header_into_field_def derive_into_field_def u24_wire_def bytes_simps)

lemma header_from_bytes_wire:
  assumes "header_wf h"
  shows "header_from_bytes (field_wire (header_into_field h) @ post) = Ok h"
proof -
  define n where "n = unat (u24_inner (msg_length h))"
  have n: "n < 2 ^ 24" using assms by (simp add: n_def header_wf_def u24_wf_def)
  obtain a b where ab: "to_le_bytes (extension_type h) = [a, b]"
    using to_le_bytes_u16 [of "extension_type h"] by metis
  obtain d e f where len: "nat_to_le 3 n = [d, e, f]"
    using first_three [of "nat_to_le 3 n"] by (simp, metis)
  have "nat_of_le [d, e, f, 0] = n"
    using nat_of_le_Cons0 [of "[d, e, f]"] nat_of_le_to_le [of 3 n] n by (simp add: len)
  then have v: "unat (from_le_bytes [d, e, f, 0] :: u32) = n"
    by (simp add: unat_from_le_bytes)
  have w: "field_wire (header_into_field h) @ post = [a, b, msg_type h, d, e, f] @ post"
    by (simp add: header_wire ab len flip: n_def)
  have "from_le_bytes [a, b] = extension_type h"
    using from_to_le_bytes [of "extension_type h"] by (simp add: ab)
  moreover have "u24_try_from_u32 (from_le_bytes [d, e, f, 0]) = Ok (msg_length h)"
    using v n by (cases "msg_length h")
      (auto simp: u24_try_from_u32_def n_def word_unat_eq_iff word_le_nat_alt)
  ultimately show ?thesis
    by (simp add: w header_from_bytes_def SV2_FRAME_HEADER_SIZE_def)
qed

lemma header_from_bytes_no_panic: "header_from_bytes bs \<noteq> Panic"
  by (simp add: header_from_bytes_def result_simps u24_try_from_u32_def)

lemma header_from_bytes_Ok:
  assumes "SV2_FRAME_HEADER_SIZE \<le> length bs"
  shows "\<exists>h. header_from_bytes bs = Ok h \<and> header_wf h"
proof -
  have "unat (from_le_bytes [bs ! 3, bs ! 4, bs ! 5, 0] :: u32) < 2 ^ 24"
    using nat_of_le_Cons0 [of "[bs ! 3, bs ! 4, bs ! 5]"] nat_of_le_bound [of "[bs ! 3, bs ! 4, bs ! 5]"]
    by (simp add: unat_from_le_bytes)
  then show ?thesis using assms
    by (auto simp: header_from_bytes_def result_simps u24_try_from_u32_def header_wf_def u24_wf_def
      word_le_nat_alt)
qed

lemma header_from_bytes_short:
  "length bs < SV2_FRAME_HEADER_SIZE \<Longrightarrow>
   header_from_bytes bs = Err (UnexpectedHeaderLength (int (length bs)))"
  by (simp add: header_from_bytes_def)

lemma header_from_len_Some:
  "header_from_len len t ext = Some h \<longleftrightarrow>
     unat len < 2 ^ 24 \<and> h = \<lparr>extension_type = ext, msg_type = t, msg_length = U24 len\<rparr>"
  by (auto simp: header_from_len_def u24_try_from_u32_def word_le_nat_alt split: result.splits)


section \<open>Frames\<close>

lemma to_writer_wire:
  "field_wf f \<Longrightarrow> field_get_size f \<le> length dst \<Longrightarrow>
   to_writer f dst = Ok (field_wire f @ drop (field_get_size f) dst)"
  by (simp add: to_writer_def field_encode_wire)

lemma frame_serialize_message:
  assumes "serialized f = None" and "payload f = Some m" and "header_wf (header f)"
    and "field_wf (into_field m)"
    and "length dst = SV2_FRAME_HEADER_SIZE + field_get_size (into_field m)"
  shows "frame_serialize into_field f dst =
    Ok (field_wire (header_into_field (header f)) @ field_wire (into_field m))"
  using assms
  by (simp add: frame_serialize_def to_writer_wire header_field_wf header_field_size slice_from_def
    length_field_wire)

lemma frame_size_hint_complete:
  "frame_size_hint bs = 0 \<longleftrightarrow>
     (\<exists>h. header_from_bytes bs = Ok h \<and> length bs = SV2_FRAME_HEADER_SIZE + header_len h)"
proof (cases "SV2_FRAME_HEADER_SIZE \<le> length bs")
  case True
  then show ?thesis using header_from_bytes_Ok [OF True]
    by (auto simp: frame_size_hint_def split: if_splits)
next
  case False
  then show ?thesis by (simp add: frame_size_hint_def header_from_bytes_short)
qed

lemma frame_size_hint_nonneg: "0 \<le> frame_size_hint bs"
  using header_from_bytes_Ok [of bs] header_from_bytes_short [of bs]
  by (cases "SV2_FRAME_HEADER_SIZE \<le> length bs") (auto simp: frame_size_hint_def)

lemma frame_from_bytes_serialized:
  assumes "header_wf h" and "header_len h = length p"
  shows "frame_from_bytes (field_wire (header_into_field h) @ p) =
    Ok \<lparr>header = h, payload = None, serialized = Some (field_wire (header_into_field h) @ p)\<rparr>"
proof -
  have "length (field_wire (header_into_field h)) = SV2_FRAME_HEADER_SIZE"
    using assms(1) by (simp add: length_field_wire header_field_wf header_field_size)
  then have "frame_size_hint (field_wire (header_into_field h) @ p) = 0"
    using assms by (auto simp: frame_size_hint_complete header_from_bytes_wire)
  with assms(1) show ?thesis
    by (simp add: frame_from_bytes_def frame_from_bytes_unchecked_def header_from_bytes_wire)
qed

lemma channel_msg_update:
  "update_extension_type ext c AND 0x8000 \<noteq> 0 \<longleftrightarrow> c"
  "update_extension_type ext c AND 0x7FFF = ext AND 0x7FFF"
proof -
  have "(ext OR 0x8000) AND 0x8000 = (0x8000 :: u16)" "(ext AND 0x7FFF) AND 0x8000 = (0 :: u16)"
    "(ext OR 0x8000) AND 0x7FFF = ext AND (0x7FFF :: u16)" 
    by (simp_all add: bit.conj_disj_distrib2 and.assoc)
  then show "update_extension_type ext c AND 0x8000 \<noteq> 0 \<longleftrightarrow> c"
    "update_extension_type ext c AND 0x7FFF = ext AND 0x7FFF"
    by (simp_all add: update_extension_type_def and.assoc)
qed

lemma frame_from_message_Some:
  "frame_from_message get_size m t ext c = Some f \<longleftrightarrow>
     unat (of_nat (get_size m) :: u32) < 2 ^ 24 \<and>
     f = \<lparr>header = \<lparr>extension_type = update_extension_type ext c, msg_type = t,
             msg_length = U24 (of_nat (get_size m))\<rparr>, payload = Some m, serialized = None\<rparr>"
  by (auto simp: frame_from_message_def header_from_len_Some)

lemma div_round_up:
  fixes n k :: nat
  assumes "0 < k"
  shows "(if n mod k \<noteq> 0 then n div k + 1 else n div k) = (n + (k - 1)) div k"
proof -
  have "(n + (k - 1)) div k = (n mod k + (k - 1)) div k + n div k"
    using div_plus_div_distrib_dvd_left [of k "k * (n div k)" "n mod k + (k - 1)"] assms
    by (simp add: ac_simps)
  moreover have "(n mod k + (k - 1)) div k = (if n mod k \<noteq> 0 then 1 else 0)"
  proof (cases "n mod k = 0")
    case False
    then have "k \<le> n mod k + (k - 1)" "n mod k + (k - 1) - k < k"
      using mod_less_divisor [OF assms, of n] by linarith+
    then show ?thesis using False assms by (simp add: le_div_geq)
  qed (use assms in simp)
  ultimately show ?thesis by simp
qed

lemma encrypted_len_chunks:
  "encrypted_len h = header_len h + 16 * ((header_len h + 65518) div 65519)"
  using div_round_up [of 65519 "header_len h"]
  by (simp add: encrypted_len_def SV2_FRAME_CHUNK_SIZE_def AEAD_MAC_LEN_def Let_def)


lemma header_from_bytes_canonical:
  assumes "header_from_bytes bs = Ok h"
  shows "field_wire (header_into_field h) = take SV2_FRAME_HEADER_SIZE bs"
proof -
  have len: "SV2_FRAME_HEADER_SIZE \<le> length bs"
    using assms by (auto simp: header_from_bytes_def split: if_splits)
  then obtain a b c d e f where bs: "take 6 bs = [a, b, c, d, e, f]" "bs ! 0 = a" "bs ! 1 = b"
      "bs ! 2 = c" "bs ! 3 = d" "bs ! 4 = e" "bs ! 5 = f"
    by (cases bs; cases "tl bs"; cases "tl (tl bs)"; cases "tl (tl (tl bs))";
        cases "tl (tl (tl (tl bs)))"; cases "tl (tl (tl (tl (tl bs))))")
      (auto simp: SV2_FRAME_HEADER_SIZE_def)
  let ?n = "from_le_bytes [d, e, f, 0] :: u32"
  have h: "h = \<lparr>extension_type = from_le_bytes [a, b], msg_type = c, msg_length = U24 ?n\<rparr>"
    using assms len bs
    by (auto simp: header_from_bytes_def result_simps u24_try_from_u32_def split: if_splits)
  have "nat_to_le 3 (nat_of_le [d, e, f]) = [d, e, f]"
    using nat_to_le_of_le [of "[d, e, f]"] by (simp only: list.size numeral_3_eq_3 One_nat_def plus_1_eq_Suc add_0_right add_Suc_right)
  moreover have "unat ?n = nat_of_le [d, e, f]"
    using nat_of_le_Cons0 [of "[d, e, f]"] by (simp add: unat_from_le_bytes)
  ultimately show ?thesis
    using to_from_le_bytes [of "[a, b]", where ?'a = 16]
    by (simp add: header_wire h bs SV2_FRAME_HEADER_SIZE_def)
qed

section \<open>Properties\<close>

text \<open>C24: A frame built from a message is serialized into a buffer of its encoded length as the
  header followed by the message's bytes. Reading those bytes back gives a complete frame with the
  same header and the message's bytes as its payload; the header carries the message type, the
  channel bit that was asked for and the other bits of the extension type.\<close>

theorem frame_roundtrip:
  assumes "field_wf (into_field m)" and "get_size m = field_get_size (into_field m)"
    and "get_size m < 2 ^ 32" and "frame_from_message get_size m t ext c = Some f"
  shows "\<exists>bs. frame_encoded_length get_size f = (Ok (length bs) :: (nat, unit) result) \<and>
    frame_serialize into_field f (replicate (length bs) 0) = Ok bs \<and>
    (\<exists>g :: 'b Sv2Frame. frame_from_bytes bs = Ok g \<and> header g = header f \<and>
       frame_payload g = (Ok (field_wire (into_field m)) :: (bytes, unit) result)) \<and>
    msg_type (header f) = t \<and> channel_msg (header f) = c \<and>
    ext_type (header f) AND 0x7FFF = ext AND 0x7FFF"
proof -
  let ?h = "\<lparr>extension_type = update_extension_type ext c, msg_type = t,
    msg_length = U24 (of_nat (get_size m))\<rparr>"
  let ?bs = "field_wire (header_into_field ?h) @ field_wire (into_field m)"
  have f: "f = \<lparr>header = ?h, payload = Some m, serialized = None\<rparr>"
    and small: "unat (of_nat (get_size m) :: u32) < 2 ^ 24"
    using assms(4) by (simp_all add: frame_from_message_Some)
  have h: "header_wf ?h" "header_len ?h = length (field_wire (into_field m))"
    using small assms(1-3) unat_of_nat_small [of "get_size m", where ?'a = 32]
    by (simp_all add: header_wf_def u24_wf_def header_len_def u32_from_u24_def length_field_wire)
  have len: "length ?bs = SV2_FRAME_HEADER_SIZE + get_size m"
    using assms(1,2) h(1) by (simp add: length_field_wire header_field_wf header_field_size)
  have hlen: "length (field_wire (header_into_field ?h)) = SV2_FRAME_HEADER_SIZE"
    using h(1) by (simp add: length_field_wire header_field_wf header_field_size)
  have "frame_encoded_length get_size f = (Ok (length ?bs) :: (nat, unit) result)"
    unfolding len by (simp add: f frame_encoded_length_def)
  moreover have "frame_serialize into_field f (replicate (length ?bs) 0) = Ok ?bs"
    using frame_serialize_message [of f m into_field "replicate (length ?bs) 0"] h(1) assms(1,2) len
    by (simp add: f)
  moreover have "\<exists>g :: 'b Sv2Frame. frame_from_bytes ?bs = Ok g \<and> header g = header f \<and>
       frame_payload g = (Ok (field_wire (into_field m)) :: (bytes, unit) result)"
    by (intro exI conjI, rule frame_from_bytes_serialized [OF h])
      (simp_all add: f frame_payload_def slice_from_def hlen)
  moreover have "msg_type (header f) = t" "channel_msg (header f) = c"
    "ext_type (header f) AND 0x7FFF = ext AND 0x7FFF"
    by (simp_all add: f channel_msg_def ext_type_def channel_msg_update)
  ultimately show ?thesis by blast
qed

theorem frame_roundtrip_witness:
  "\<exists>bs f. frame_from_message (\<lambda>_ :: u32. 4) 7 0x1a 0 True = Some f \<and>
    frame_serialize u32_into f (replicate (length bs) 0) = Ok bs \<and> channel_msg (header f)"
proof -
  obtain f where f: "frame_from_message (\<lambda>_ :: u32. 4) 7 0x1a 0 True = Some f"
    by (simp add: frame_from_message_def header_from_len_def u24_try_from_u32_def)
  show ?thesis
    using frame_roundtrip [OF _ _ _ f, of u32_into, where ?'b = unit] f by (auto simp: uint_SIZE_def)
qed

text \<open>C28: Parsing a header never panics; it succeeds on every input of at least six bytes, and the
  header it returns encodes to exactly the six bytes it was read from, so no two different
  headers share an encoding and none is rejected.\<close>

theorem header_bijective:
  "header_from_bytes bs \<noteq> Panic \<and>
   ((\<exists>h. header_from_bytes bs = Ok h) \<longleftrightarrow> SV2_FRAME_HEADER_SIZE \<le> length bs) \<and>
   (header_from_bytes bs = Ok h \<longrightarrow> field_wire (header_into_field h) = take SV2_FRAME_HEADER_SIZE bs)"
  using header_from_bytes_canonical [of bs h] header_from_bytes_Ok [of bs]
    header_from_bytes_short [of bs] header_from_bytes_no_panic [of bs]
  by (cases "SV2_FRAME_HEADER_SIZE \<le> length bs") auto

theorem header_bijective_witness:
  "\<exists>h. header_from_bytes [0, 0x80, 0x1a, 4, 0, 0, 9] = Ok h \<and>
     field_wire (header_into_field h) = [0, 0x80, 0x1a, 4, 0, 0]"
proof -
  obtain h where "header_from_bytes [0, 0x80, 0x1a, 4, 0, 0, 9] = Ok h"
    using header_bijective [of "[0, 0x80, 0x1a, 4, 0, 0, 9]"] by (auto simp: SV2_FRAME_HEADER_SIZE_def)
  then show ?thesis
    using header_bijective [of "[0, 0x80, 0x1a, 4, 0, 0, 9]" h] by (simp add: SV2_FRAME_HEADER_SIZE_def)
qed

text \<open>The hint for the size of a frame is never negative, although its documentation promises
  the negated number of missing bytes for a short frame: a frame that is one byte short of its
  announced length \<open>n\<close> is reported as \<open>2 * n - 1\<close> surplus bytes.\<close>

theorem frame_size_hint_short:
  assumes "header_from_bytes bs = Ok h" and "Suc (length bs) = SV2_FRAME_HEADER_SIZE + header_len h"
  shows "frame_size_hint bs = 2 * int (header_len h) - 1 \<and> (\<forall>bs. 0 \<le> frame_size_hint bs)"
proof -
  have "SV2_FRAME_HEADER_SIZE \<le> length bs"
    using assms(1) by (auto simp: header_from_bytes_def split: if_splits)
  with assms have "frame_size_hint bs = 2 * int (header_len h) - 1"
    by (auto simp: frame_size_hint_def)
  then show ?thesis by (simp add: frame_size_hint_nonneg)
qed

theorem frame_size_hint_short_witness:
  "frame_size_hint [0, 0, 0, 2, 0, 0, 9] = 3"
proof -
  have "from_le_bytes [2, 0, 0, 0 :: u8] = (2 :: u32)"
    by (simp add: from_le_bytes_def)
  then have "header_from_bytes [0, 0, 0, 2, 0, 0, 9] =
      Ok \<lparr>extension_type = from_le_bytes [0, 0], msg_type = 0, msg_length = U24 2\<rparr>"
    by (simp add: header_from_bytes_def u24_try_from_u32_def SV2_FRAME_HEADER_SIZE_def)
  from frame_size_hint_short [OF this] show ?thesis
    by (simp add: SV2_FRAME_HEADER_SIZE_def header_len_def u32_from_u24_def)
qed

end
