(* ===== verification/Mint_Messaging.thy ===== *)
theory Mint_Messaging
  imports Ehash Framing "HOL-Library.Mapping"
begin

text \<open>
  Messaging between the pool and the mint inside one process and over the wire: the message hub, the
  channel manager and the frame builders of src/roles/roles-utils/mint-pool-messaging/src
  (lib.rs, message\_hub.rs, channel\_manager.rs, sv2\_frames.rs), and the quote dispatcher of
  src/roles/roles-utils/quote-dispatcher/src/lib.rs.

  The broadcast channels of the tokio library are values of type parameters; sending on them is the
  record \<open>broadcast\<close>, whose functions return the channel after the message, or \<open>None\<close> for a send
  error.  Reading the clock is an argument \<open>now\<close>, in nanoseconds.  A task handed to
  \<open>tokio::spawn\<close> is a value of the type \<open>hub_task\<close> that the caller returns; it runs later.
\<close>

section \<open>Types and errors (lib.rs)\<close>

datatype Role = Role_Pool | Role_Mint

datatype MessagingError =
    ChannelClosed string
  | Timeout
  | Encoding sv2_error
  | Decoding ShareHashError
  | Messaging_InvalidMessageType u8
  | Connection string

fun map_share_hash_error :: "ShareHashError \<Rightarrow> QuoteBuildError" where
  "map_share_hash_error (ShareHash_InvalidLength actual) = Build_InvalidHeaderHashLength actual"
| "map_share_hash_error ShareHash_InvalidEncoding = Build_InvalidHeaderHash DecodableConversionError"

definition build_parsed_quote_request ::
  "u64 \<Rightarrow> bytes \<Rightarrow> inner \<Rightarrow> (ParsedMintQuoteRequest, QuoteBuildError) result" where
  "build_parsed_quote_request amount header_hash locking_key =
     rbind (map_err map_share_hash_error (share_hash_try_from header_hash)) (\<lambda>share_hash.
     rbind (build_mint_quote_request amount (share_hash_bytes share_hash) locking_key) (\<lambda>request.
       Ok \<lparr>parsed_request = request, parsed_share_hash = share_hash\<rparr>))"

section \<open>The message hub (message\_hub.rs)\<close>

record ConnectionInfo =
  ci_role :: Role
  ci_connected_at :: nat

record PendingQuoteContext =
  pqc_channel_id :: u32
  pqc_sequence_number :: u32
  pqc_amount :: u64

record PendingQuote =
  pq_parsed :: ParsedMintQuoteRequest
  pq_created_at :: nat
  pq_context :: PendingQuoteContext

record MintQuoteResponseEvent =
  ev_response :: MintQuoteResponse
  ev_share_hash :: ShareHash
  ev_context :: "PendingQuoteContext option"

definition response_event_new ::
  "MintQuoteResponse \<Rightarrow> PendingQuoteContext option \<Rightarrow> (MintQuoteResponseEvent, 'er QuoteConversionError) result" where
  "response_event_new response context =
     rbind (map_err Conversion_ShareHash (share_hash_from_u256 (mqresp_header_hash response))) (\<lambda>share_hash.
       Ok \<lparr>ev_response = response, ev_share_hash = share_hash, ev_context = context\<rparr>)"

record ('q, 'r, 'e) broadcast =
  send_request :: "'q \<Rightarrow> ParsedMintQuoteRequest \<Rightarrow> 'q option"
  send_response :: "'r \<Rightarrow> MintQuoteResponseEvent \<Rightarrow> 'r option"
  send_error :: "'e \<Rightarrow> MintQuoteError \<Rightarrow> 'e option"

record ('q, 'r, 'e) MintPoolMessageHub =
  quote_request_tx :: 'q
  quote_response_tx :: 'r
  quote_error_tx :: 'e
  connections :: "(bytes, ConnectionInfo) mapping"
  pending_quotes :: "(ShareHash, PendingQuote) mapping"

definition hub_new :: "'q \<Rightarrow> 'r \<Rightarrow> 'e \<Rightarrow> ('q, 'r, 'e) MintPoolMessageHub" where
  "hub_new request_tx response_tx error_tx =
     \<lparr>quote_request_tx = request_tx, quote_response_tx = response_tx, quote_error_tx = error_tx,
      connections = Mapping.empty, pending_quotes = Mapping.empty\<rparr>"

definition register_connection ::
  "nat \<Rightarrow> bytes \<Rightarrow> Role \<Rightarrow> ('q, 'r, 'e) MintPoolMessageHub \<Rightarrow> ('q, 'r, 'e) MintPoolMessageHub" where
  "register_connection now connection_id role hub =
     hub\<lparr>connections := Mapping.update connection_id \<lparr>ci_role = role, ci_connected_at = now\<rparr> (connections hub)\<rparr>"

definition unregister_connection ::
  "bytes \<Rightarrow> ('q, 'r, 'e) MintPoolMessageHub \<Rightarrow> ('q, 'r, 'e) MintPoolMessageHub" where
  "unregister_connection connection_id hub =
     hub\<lparr>connections := Mapping.delete connection_id (connections hub)\<rparr>"

definition send_quote_request ::
  "('q, 'r, 'e) broadcast \<Rightarrow> nat \<Rightarrow> ParsedMintQuoteRequest \<Rightarrow> PendingQuoteContext \<Rightarrow>
   ('q, 'r, 'e) MintPoolMessageHub \<Rightarrow> (unit, MessagingError) result \<times> ('q, 'r, 'e) MintPoolMessageHub" where
  "send_quote_request bc now request context hub =
     (let hub = hub\<lparr>pending_quotes := Mapping.update (parsed_share_hash request)
            \<lparr>pq_parsed = request, pq_created_at = now, pq_context = context\<rparr> (pending_quotes hub)\<rparr> in
      case send_request bc (quote_request_tx hub) request of
        None \<Rightarrow> (Err (ChannelClosed ''quote_request''), hub)
      | Some tx \<Rightarrow> (Ok (), hub\<lparr>quote_request_tx := tx\<rparr>))"

definition send_quote_response ::
  "('q, 'r, 'e) broadcast \<Rightarrow> MintQuoteResponse \<Rightarrow> ('q, 'r, 'e) MintPoolMessageHub \<Rightarrow>
   (MintQuoteResponseEvent, MessagingError) result \<times> ('q, 'r, 'e) MintPoolMessageHub" where
  "send_quote_response bc response hub =
     (case share_hash_from_u256 (mqresp_header_hash response) of
        Ok share_hash \<Rightarrow>
          let context = map_option pq_context (Mapping.lookup (pending_quotes hub) share_hash);
              hub = hub\<lparr>pending_quotes := Mapping.delete share_hash (pending_quotes hub)\<rparr>;
              event = \<lparr>ev_response = response, ev_share_hash = share_hash, ev_context = context\<rparr> in
          (case send_response bc (quote_response_tx hub) event of
             None \<Rightarrow> (Err (ChannelClosed ''quote_response''), hub)
           | Some tx \<Rightarrow> (Ok event, hub\<lparr>quote_response_tx := tx\<rparr>))
      | Err e \<Rightarrow> (Err (Decoding e), hub)
      | Panic \<Rightarrow> (Panic, hub))"

definition send_quote_error ::
  "('q, 'r, 'e) broadcast \<Rightarrow> MintQuoteError \<Rightarrow> ('q, 'r, 'e) MintPoolMessageHub \<Rightarrow>
   (unit, MessagingError) result \<times> ('q, 'r, 'e) MintPoolMessageHub" where
  "send_quote_error bc error hub =
     (case send_error bc (quote_error_tx hub) error of
        None \<Rightarrow> (Err (ChannelClosed ''quote_error''), hub)
      | Some tx \<Rightarrow> (Ok (), hub\<lparr>quote_error_tx := tx\<rparr>))"

definition pending_quote :: "ShareHash \<Rightarrow> ('q, 'r, 'e) MintPoolMessageHub \<Rightarrow> ParsedMintQuoteRequest option" where
  "pending_quote share_hash hub = map_option pq_parsed (Mapping.lookup (pending_quotes hub) share_hash)"

section \<open>The channel manager (channel\_manager.rs)\<close>

record ChannelInfo =
  chi_id :: u64
  chi_role :: Role
  chi_created_at :: nat
  chi_last_activity :: nat
  chi_message_count :: u64

datatype ChannelError = NotFound u64 | AlreadyExists u64 | InvalidState string

record ChannelManager =
  next_channel_id :: u64
  active_channels :: "(u64, ChannelInfo) mapping"

definition channel_manager_new :: ChannelManager where
  "channel_manager_new = \<lparr>next_channel_id = 1, active_channels = Mapping.empty\<rparr>"

definition create_channel :: "nat \<Rightarrow> Role \<Rightarrow> ChannelManager \<Rightarrow> u64 \<times> ChannelManager" where
  "create_channel now role cm =
     (let channel_id = next_channel_id cm;
          info = \<lparr>chi_id = channel_id, chi_role = role, chi_created_at = now, chi_last_activity = now,
            chi_message_count = 0\<rparr> in
      (channel_id, cm\<lparr>next_channel_id := next_channel_id cm + 1,
        active_channels := Mapping.update channel_id info (active_channels cm)\<rparr>))"

definition close_channel :: "u64 \<Rightarrow> ChannelManager \<Rightarrow> (unit, ChannelError) result \<times> ChannelManager" where
  "close_channel channel_id cm =
     (case Mapping.lookup (active_channels cm) channel_id of
        None \<Rightarrow> (Err (NotFound channel_id), cm)
      | Some _ \<Rightarrow> (Ok (), cm\<lparr>active_channels := Mapping.delete channel_id (active_channels cm)\<rparr>))"

definition update_activity :: "nat \<Rightarrow> u64 \<Rightarrow> ChannelManager \<Rightarrow> (unit, ChannelError) result \<times> ChannelManager" where
  "update_activity now channel_id cm =
     (case Mapping.lookup (active_channels cm) channel_id of
        Some channel \<Rightarrow>
          (Ok (), cm\<lparr>active_channels := Mapping.update channel_id
             (channel\<lparr>chi_last_activity := now, chi_message_count := chi_message_count channel + 1\<rparr>)
             (active_channels cm)\<rparr>)
      | None \<Rightarrow> (Err (NotFound channel_id), cm))"

definition get_channel :: "u64 \<Rightarrow> ChannelManager \<Rightarrow> (ChannelInfo, ChannelError) result" where
  "get_channel channel_id cm = ok_or (NotFound channel_id) (Mapping.lookup (active_channels cm) channel_id)"

text \<open>\<open>Instant::duration_since\<close> saturates at zero.\<close>

definition cleanup_stale_channels :: "nat \<Rightarrow> u64 \<Rightarrow> ChannelManager \<Rightarrow> nat \<times> ChannelManager" where
  "cleanup_stale_channels now max_idle_secs cm =
     (let stale = Mapping.keys (Mapping.filter
            (\<lambda>_ info. 1000000000 * unat max_idle_secs < now - chi_last_activity info) (active_channels cm)) in
      (card stale, cm\<lparr>active_channels :=
         Mapping.filter (\<lambda>i _. i \<notin> stale) (active_channels cm)\<rparr>))"

section \<open>Frames (sv2\_frames.rs)\<close>

definition SV2_MINT_QUOTE_PROTOCOL_DISCRIMINANT :: u8 where
  "SV2_MINT_QUOTE_PROTOCOL_DISCRIMINANT = 3"

definition build_frame_bytes :: "bytes \<Rightarrow> u8 \<Rightarrow> bool \<Rightarrow> (bytes, MessagingError) result" where
  "build_frame_bytes data message_type is_channel_msg =
     (let ext = ucast SV2_MINT_QUOTE_PROTOCOL_DISCRIMINANT :: u16;
          ext = (if is_channel_msg then ext OR 0x8000 else ext);
          len_bytes = to_le_bytes (of_nat (length data) :: u32) in
      Ok (to_le_bytes ext @ [message_type] @ take 3 len_bytes @ data))"

definition quote_request_frame_bytes :: "MintQuoteRequest \<Rightarrow> (bytes, MessagingError) result" where
  "quote_request_frame_bytes request =
     rbind (map_err Encoding (to_bytes (MintQuoteRequest_get_size request) (MintQuoteRequest_into_field request)))
       (\<lambda>data. build_frame_bytes data 0x80 True)"

definition quote_response_frame_bytes :: "MintQuoteResponse \<Rightarrow> (bytes, MessagingError) result" where
  "quote_response_frame_bytes response =
     rbind (map_err Encoding (to_bytes (MintQuoteResponse_get_size response) (MintQuoteResponse_into_field response)))
       (\<lambda>data. build_frame_bytes data 0x81 True)"

definition quote_error_frame_bytes :: "MintQuoteError \<Rightarrow> (bytes, MessagingError) result" where
  "quote_error_frame_bytes error =
     rbind (map_err Encoding (to_bytes (MintQuoteError_get_size error) (MintQuoteError_into_field error)))
       (\<lambda>data. build_frame_bytes data 0x82 True)"

section \<open>The quote dispatcher\<close>

datatype 'er DispatchError =
    Dispatch_InvalidHeaderHash 'er
  | FailedToBuildQuote QuoteBuildError
  | FailedToDispatch string

text \<open>
  The callback of a dispatcher is only told the channel and the amount of a quote; a dispatcher with
  a callback returns that pair.  \<open>dispatch_enabled\<close> is the field \<open>enabled\<close> of the optional messaging
  configuration.
\<close>

record QuoteDispatcher =
  dispatch_enabled :: "bool option"
  minimum_difficulty :: u32
  has_callback :: bool

datatype hub_task = SendQuoteRequest ParsedMintQuoteRequest PendingQuoteContext

definition submit_quote ::
  "(bytes \<Rightarrow> (bytes, 'er) result) \<Rightarrow> QuoteDispatcher \<Rightarrow> bytes \<Rightarrow> inner \<Rightarrow> u32 \<Rightarrow> u32 \<Rightarrow>
   (unit, 'er DispatchError) result \<times> (u32 \<times> u64) list \<times> hub_task list" where
  "submit_quote sha256_from_slice disp header_hash locking_pubkey channel_id sequence_number =
     (case sha256_from_slice header_hash of
        Err e \<Rightarrow> (Err (Dispatch_InvalidHeaderHash e), [], [])
      | Panic \<Rightarrow> (Panic, [], [])
      | Ok hash \<Rightarrow>
          let amount = calculate_ehash_amount hash (minimum_difficulty disp);
              told = (if has_callback disp then [(channel_id, amount)] else []);
              messaging_enabled = (case dispatch_enabled disp of Some enabled \<Rightarrow> enabled | None \<Rightarrow> True) in
          if \<not> messaging_enabled then (Ok (), told, [])
          else
            (case build_parsed_quote_request amount header_hash locking_pubkey of
               Ok parsed \<Rightarrow>
                 (Ok (), told, [SendQuoteRequest parsed
                    \<lparr>pqc_channel_id = channel_id, pqc_sequence_number = sequence_number, pqc_amount = amount\<rparr>])
             | Err e \<Rightarrow> (Err (FailedToBuildQuote e), told, [])
             | Panic \<Rightarrow> (Panic, told, [])))"

section \<open>Frames carry what was sent\<close>

abbreviation quote_header :: "u8 \<Rightarrow> nat \<Rightarrow> Header" where
  "quote_header message_type n \<equiv>
     \<lparr>extension_type = 0x8003, msg_type = message_type, msg_length = U24 (of_nat n)\<rparr>"

lemma quote_header_wf:
  "n < 2 ^ 24 \<Longrightarrow> header_wf (quote_header message_type n) \<and> header_len (quote_header message_type n) = n"
  by (simp add: header_wf_def u24_wf_def header_len_def u32_from_u24_def unat_of_nat_small)

lemma build_frame_bytes_wire:
  assumes "length data < 2 ^ 24"
  shows "build_frame_bytes data message_type True =
    Ok (field_wire (header_into_field (quote_header message_type (length data))) @ data)"
proof -
  have "take 3 (to_le_bytes (of_nat (length data) :: u32)) = nat_to_le 3 (length data)"
    using assms by (simp add: to_le_bytes_def take_nat_to_le unat_of_nat_small)
  then show ?thesis
    using assms by (simp add: build_frame_bytes_def SV2_MINT_QUOTE_PROTOCOL_DISCRIMINANT_def header_wire
      unat_of_nat_small)
qed

lemma quote_frame_read:
  assumes "length data < 2 ^ 24" and "build_frame_bytes data message_type True = Ok frame_bytes"
  shows "frame_from_bytes frame_bytes =
      Ok \<lparr>header = quote_header message_type (length data), payload = None, serialized = Some frame_bytes\<rparr>"
    and "frame_payload \<lparr>header = quote_header message_type (length data), payload = (None :: 't option),
      serialized = Some frame_bytes\<rparr> = Ok data"
proof -
  note h = quote_header_wf [OF assms(1), of message_type]
  have f: "frame_bytes = field_wire (header_into_field (quote_header message_type (length data))) @ data"
    using assms build_frame_bytes_wire [OF assms(1), of message_type] by simp
  show "frame_from_bytes frame_bytes =
      Ok \<lparr>header = quote_header message_type (length data), payload = None, serialized = Some frame_bytes\<rparr>"
    unfolding f using h by (intro frame_from_bytes_serialized) simp_all
  have "length (field_wire (header_into_field (quote_header message_type (length data)))) = 6"
    using h by (simp add: length_field_wire header_field_wf header_field_size SV2_FRAME_HEADER_SIZE_def)
  then show "frame_payload \<lparr>header = quote_header message_type (length data), payload = (None :: 't option),
      serialized = Some frame_bytes\<rparr> = Ok data"
    by (simp add: frame_payload_def slice_from_def f SV2_FRAME_HEADER_SIZE_def)
qed

lemma MintQuoteRequest_size_bound:
  "MintQuoteRequest_wf v \<Longrightarrow> MintQuoteRequest_get_size v < 2 ^ 24"
  by (cases "mqr_description v")
    (auto simp: MintQuoteRequest_wf_def MintQuoteRequest_get_size_def inner_wf_def B0255_def U256_def
      sv2_option_wf_def inner_get_size_def uint_SIZE_def seq_get_size_sum sv2_option_HEADERSIZE_def
      option_b0255_size_def)

lemma MintQuoteResponse_size_bound:
  "MintQuoteResponse_wf v \<Longrightarrow> MintQuoteResponse_get_size v < 2 ^ 24"
  by (auto simp: MintQuoteResponse_wf_def MintQuoteResponse_get_size_def inner_wf_def B0255_def U256_def
      inner_get_size_def)

lemma build_parsed_quote_request_Ok:
  "length header_hash = 32 \<Longrightarrow>
   build_parsed_quote_request amount header_hash locking_key = Ok
     \<lparr>parsed_request = \<lparr>mqr_amount = amount, mqr_unit = Owned HASH_unit, mqr_header_hash = Owned header_hash,
        mqr_description = [], mqr_locking_key = locking_key\<rparr>,
      parsed_share_hash = ShareHash header_hash\<rparr>"
  by (simp add: build_parsed_quote_request_def share_hash_try_from_def build_mint_quote_request_Ok)

text \<open>C20: The frame built for a quote request is complete and of type 0x80 with the channel bit set, and its
  payload is parsed by the mint into exactly the request the dispatcher built.\<close>

theorem quote_request_delivered:
  assumes "length header_hash = 32" and "length key = 33"
  shows "\<exists>parsed frame_bytes (frame :: MintQuoteRequest Sv2Frame) data.
    build_parsed_quote_request amount header_hash (Owned key) = Ok parsed \<and>
    quote_request_frame_bytes (parsed_request parsed) = Ok frame_bytes \<and>
    frame_from_bytes frame_bytes = Ok frame \<and>
    msg_type (header frame) = 0x80 \<and> channel_msg (header frame) \<and>
    frame_payload frame = (Ok data :: bytes sv2) \<and> parse_mint_quote_request data = Ok parsed"
proof -
  let ?r = "\<lparr>mqr_amount = amount, mqr_unit = Owned HASH_unit, mqr_header_hash = Owned header_hash,
    mqr_description = [], mqr_locking_key = Owned key\<rparr>"
  let ?p = "\<lparr>parsed_request = ?r, parsed_share_hash = ShareHash header_hash\<rparr>"
  let ?data = "field_wire (MintQuoteRequest_into_field ?r)"
  have wf: "MintQuoteRequest_wf ?r" using assms by (rule built_request_wf)
  have len: "length ?data < 2 ^ 24"
    using MintQuoteRequest_size_bound [OF wf] m_MintQuoteRequest.length_message_wire [OF wf] by simp
  obtain fb where fb: "build_frame_bytes ?data 0x80 True = Ok fb"
    using build_frame_bytes_wire [OF len] by blast
  note read = quote_frame_read [OF len fb]
  have "quote_request_frame_bytes ?r = Ok fb"
    using m_MintQuoteRequest.to_bytes_message [OF wf] fb by (simp add: quote_request_frame_bytes_def)
  moreover have "parse_mint_quote_request ?data = Ok ?p"
    using parse_built_request [OF assms, of amount "[]"] by simp
  ultimately show ?thesis
    using read assms
    by (intro exI [of _ ?p] exI [of _ fb] exI [of _ ?data]
      exI [of _ "\<lparr>header = quote_header 0x80 (length ?data), payload = None, serialized = Some fb\<rparr>"])
      (simp add: build_parsed_quote_request_Ok channel_msg_def)
qed

theorem quote_request_delivered_witness:
  "\<exists>parsed frame_bytes (frame :: MintQuoteRequest Sv2Frame) data.
    build_parsed_quote_request 16 (replicate 32 7) (Owned (replicate 33 2)) = Ok parsed \<and>
    quote_request_frame_bytes (parsed_request parsed) = Ok frame_bytes \<and>
    frame_from_bytes frame_bytes = Ok frame \<and>
    msg_type (header frame) = 0x80 \<and> channel_msg (header frame) \<and>
    frame_payload frame = (Ok data :: bytes sv2) \<and> parse_mint_quote_request data = Ok parsed"
  by (rule quote_request_delivered) simp_all

section \<open>Responses find the share they answer\<close>

datatype hub_op =
    Register nat bytes Role
  | Unregister bytes
  | QuoteRequest nat ParsedMintQuoteRequest PendingQuoteContext
  | QuoteResponse MintQuoteResponse
  | QuoteError MintQuoteError

fun hub_apply ::
  "('q, 'r, 'e) broadcast \<Rightarrow> hub_op \<Rightarrow> ('q, 'r, 'e) MintPoolMessageHub \<Rightarrow> ('q, 'r, 'e) MintPoolMessageHub" where
  "hub_apply bc (Register now connection_id role) hub = register_connection now connection_id role hub"
| "hub_apply bc (Unregister connection_id) hub = unregister_connection connection_id hub"
| "hub_apply bc (QuoteRequest now request context) hub = snd (send_quote_request bc now request context hub)"
| "hub_apply bc (QuoteResponse response) hub = snd (send_quote_response bc response hub)"
| "hub_apply bc (QuoteError error) hub = snd (send_quote_error bc error hub)"

text \<open>The specification: the context of the last request for a hash that no response has answered since,
  from the calls so far, last call first.\<close>

fun unanswered :: "hub_op list \<Rightarrow> ShareHash \<Rightarrow> PendingQuoteContext option" where
  "unanswered [] h = None"
| "unanswered (QuoteRequest now request context # ops) h =
     (if parsed_share_hash request = h then Some context else unanswered ops h)"
| "unanswered (QuoteResponse response # ops) h =
     (if share_hash_from_u256 (mqresp_header_hash response) = Ok h then None else unanswered ops h)"
| "unanswered (_ # ops) h = unanswered ops h"

abbreviation context_of :: "('q, 'r, 'e) MintPoolMessageHub \<Rightarrow> ShareHash \<Rightarrow> PendingQuoteContext option" where
  "context_of hub h \<equiv> map_option pq_context (Mapping.lookup (pending_quotes hub) h)"

lemma share_hash_from_u256_no_panic: "share_hash_from_u256 v \<noteq> Panic"
  by (simp add: share_hash_from_u256_def share_hash_try_from_def)

lemma context_of_apply:
  "context_of (hub_apply bc op hub) h =
     (case op of
        QuoteRequest now request context \<Rightarrow>
          if parsed_share_hash request = h then Some context else context_of hub h
      | QuoteResponse response \<Rightarrow>
          if share_hash_from_u256 (mqresp_header_hash response) = Ok h then None else context_of hub h
      | _ \<Rightarrow> context_of hub h)"
  by (cases op)
    (auto simp: register_connection_def unregister_connection_def send_quote_request_def
      send_quote_response_def send_quote_error_def Let_def lookup_update' Mapping.lookup_delete
      split: option.splits result.splits)

lemma context_of_run:
  "context_of (fold (hub_apply bc) ops (hub_new q r e)) h = unanswered (rev ops) h"
proof (induction ops rule: rev_induct)
  case (snoc op ops)
  then show ?case by (cases op) (simp_all only: rev_append rev.simps append.simps fold_append fold.simps
    comp_apply id_apply context_of_apply unanswered.simps hub_op.case)
qed (simp add: hub_new_def)

text \<open>C19: Whatever calls the hub has served, a response that it delivers carries the context of the last
  request for the same share hash that had not been answered, and no context if there is none; afterwards
  that hash has no pending quote, and the pending quotes of all other hashes are untouched.
  A response with a 32-byte hash fails only if the channel to the pool refuses it.\<close>

theorem hub_response_context:
  assumes "hub = fold (hub_apply bc) ops (hub_new q r e)"
    and "length (inner_as_ref (mqresp_header_hash response)) = 32"
  shows "let h = ShareHash (inner_as_ref (mqresp_header_hash response));
      event = \<lparr>ev_response = response, ev_share_hash = h, ev_context = unanswered (rev ops) h\<rparr>;
      (result, hub') = send_quote_response bc response hub in
    result = (case send_response bc (quote_response_tx hub) event of
      Some _ \<Rightarrow> Ok event | None \<Rightarrow> Err (ChannelClosed ''quote_response'')) \<and>
    pending_quote h hub' = None \<and>
    (\<forall>h'. h' \<noteq> h \<longrightarrow> pending_quote h' hub' = pending_quote h' hub)"
proof -
  have "share_hash_from_u256 (mqresp_header_hash response) =
      Ok (ShareHash (inner_as_ref (mqresp_header_hash response)))"
    using assms(2) by (simp add: share_hash_from_u256_def share_hash_try_from_def)
  moreover note context_of_run [of bc ops q r e, folded assms(1)]
  ultimately show ?thesis
    by (auto simp: send_quote_response_def pending_quote_def Let_def Mapping.lookup_delete
      split: option.splits)
qed

text \<open>A concrete channel: the list of the messages sent, refused once it holds a thousand.\<close>

definition demo_send :: "'m list \<Rightarrow> 'm \<Rightarrow> 'm list option" where
  "demo_send sent m = (if length sent < 1000 then Some (sent @ [m]) else None)"

definition demo_broadcast ::
  "(ParsedMintQuoteRequest list, MintQuoteResponseEvent list, MintQuoteError list) broadcast" where
  "demo_broadcast = \<lparr>send_request = demo_send, send_response = demo_send, send_error = demo_send\<rparr>"

definition demo_parsed :: "bytes \<Rightarrow> ParsedMintQuoteRequest" where
  "demo_parsed header_hash =
     \<lparr>parsed_request = \<lparr>mqr_amount = 1, mqr_unit = Owned HASH_unit, mqr_header_hash = Owned header_hash,
        mqr_description = [], mqr_locking_key = Owned (replicate 33 2)\<rparr>,
      parsed_share_hash = ShareHash header_hash\<rparr>"

definition demo_context :: "u32 \<Rightarrow> PendingQuoteContext" where
  "demo_context n = \<lparr>pqc_channel_id = 1, pqc_sequence_number = n, pqc_amount = 1\<rparr>"

definition demo_response :: "bytes \<Rightarrow> MintQuoteResponse" where
  "demo_response header_hash = \<lparr>mqresp_quote_id = Owned [1], mqresp_header_hash = Owned header_hash\<rparr>"

theorem hub_response_context_witness:
  "let hub = fold (hub_apply demo_broadcast)
        [QuoteRequest 5 (demo_parsed (replicate 32 7)) (demo_context 1),
         QuoteRequest 6 (demo_parsed (replicate 32 8)) (demo_context 2)] (hub_new [] [] []);
       (result, hub') = send_quote_response demo_broadcast (demo_response (replicate 32 7)) hub in
   (\<exists>ev. result = Ok ev \<and> ev_context ev = Some (demo_context 1)) \<and>
   pending_quote (ShareHash (replicate 32 7)) hub' = None \<and>
   pending_quote (ShareHash (replicate 32 8)) hub' = pending_quote (ShareHash (replicate 32 8)) hub"
proof -
  have "replicate 32 (7 :: u8) \<noteq> replicate 32 8" by (simp add: replicate_eq_replicate)
  then show ?thesis
    using hub_response_context [OF refl, where response = "demo_response (replicate 32 7)" and
      bc = demo_broadcast and q = "[]" and r = "[]" and e = "[]" and
      ops = "[QuoteRequest 5 (demo_parsed (replicate 32 7)) (demo_context 1),
        QuoteRequest 6 (demo_parsed (replicate 32 8)) (demo_context 2)]"]
    by (auto simp: Let_def demo_response_def demo_parsed_def demo_broadcast_def demo_send_def
      hub_new_def send_quote_request_def split: prod.splits)
qed

section \<open>Channel ids and clean-up\<close>

lemma create_channel_fresh:
  assumes "create_channel now role cm = (i, cm')" and "\<forall>j \<in> Mapping.keys (active_channels cm). j < next_channel_id cm"
    and "next_channel_id cm \<noteq> - 1"
  shows "i \<notin> Mapping.keys (active_channels cm)" and "\<forall>j \<in> Mapping.keys (active_channels cm'). j < next_channel_id cm'"
proof -
  have less: "next_channel_id cm < next_channel_id cm + 1"
    using assms(3) inc_less_eq_triv_imp [of "next_channel_id cm"] by (auto simp: not_le [symmetric])
  show "i \<notin> Mapping.keys (active_channels cm)"
    using assms(1,2) by (auto simp: create_channel_def Let_def)
  have "j < next_channel_id cm + 1" if "j \<in> Mapping.keys (active_channels cm)" for j
    using assms(2) that less order_less_trans by blast
  then show "\<forall>j \<in> Mapping.keys (active_channels cm'). j < next_channel_id cm'"
    using assms(1) less by (auto simp: create_channel_def Let_def)
qed

lemma cleanup_stale_channels_exact:
  "Mapping.lookup (active_channels (snd (cleanup_stale_channels now secs cm))) i =
     (case Mapping.lookup (active_channels cm) i of
        Some info \<Rightarrow> if 1000000000 * unat secs < now - chi_last_activity info then None else Some info
      | None \<Rightarrow> None)"
  by (auto simp: cleanup_stale_channels_def Let_def lookup_filter keys_dom_lookup split: option.splits)

section \<open>The dispatcher\<close>

lemma submit_quote_tasks:
  assumes "submit_quote sha disp header_hash key channel_id seq = (res, told, tasks)"
    and "SendQuoteRequest parsed context \<in> set tasks"
  shows "\<exists>hash. sha header_hash = Ok hash \<and> length header_hash = 32 \<and>
    parsed_share_hash parsed = ShareHash header_hash \<and>
    mqr_amount (parsed_request parsed) = calculate_ehash_amount hash (minimum_difficulty disp) \<and>
    mqr_locking_key (parsed_request parsed) = key \<and>
    context = \<lparr>pqc_channel_id = channel_id, pqc_sequence_number = seq,
      pqc_amount = calculate_ehash_amount hash (minimum_difficulty disp)\<rparr>"
  using assms build_parsed_quote_request_Ok [of header_hash]
  by (cases "length header_hash = 32")
    (auto simp: submit_quote_def Let_def build_parsed_quote_request_def share_hash_try_from_def
      build_mint_quote_request_Ok split: result.splits if_splits option.splits)

end
