(* ===== verification/Parsers.thy ===== *)
theory Parsers
  imports Mining_Messages Protocol_Messages Framing
begin

text \<open>
  The message parsers of \<open>protocols/v2/parsers-sv2/src/lib.rs\<close>: the unions of the messages of each
  subprotocol, their message types and channel bits, their encoding, and the parsing of a payload
  by its message type, up to \<open>AnyMessage\<close> and the frames it is sent in.
\<close>

section \<open>Message types and channel bits\<close>

definition MESSAGE_TYPE_CLOSE_CHANNEL :: u8 where "MESSAGE_TYPE_CLOSE_CHANNEL = 0x18"
definition MESSAGE_TYPE_NEW_EXTENDED_MINING_JOB :: u8 where "MESSAGE_TYPE_NEW_EXTENDED_MINING_JOB = 0x1f"
definition MESSAGE_TYPE_NEW_MINING_JOB :: u8 where "MESSAGE_TYPE_NEW_MINING_JOB = 0x15"
definition MESSAGE_TYPE_OPEN_EXTENDED_MINING_CHANNEL :: u8 where "MESSAGE_TYPE_OPEN_EXTENDED_MINING_CHANNEL = 0x13"
definition MESSAGE_TYPE_OPEN_EXTENDED_MINING_CHANNEL_SUCCESS :: u8 where "MESSAGE_TYPE_OPEN_EXTENDED_MINING_CHANNEL_SUCCESS = 0x14"
definition MESSAGE_TYPE_OPEN_MINING_CHANNEL_ERROR :: u8 where "MESSAGE_TYPE_OPEN_MINING_CHANNEL_ERROR = 0x12"
definition MESSAGE_TYPE_OPEN_STANDARD_MINING_CHANNEL :: u8 where "MESSAGE_TYPE_OPEN_STANDARD_MINING_CHANNEL = 0x10"
definition MESSAGE_TYPE_OPEN_STANDARD_MINING_CHANNEL_SUCCESS :: u8 where "MESSAGE_TYPE_OPEN_STANDARD_MINING_CHANNEL_SUCCESS = 0x11"
definition MESSAGE_TYPE_SET_CUSTOM_MINING_JOB :: u8 where "MESSAGE_TYPE_SET_CUSTOM_MINING_JOB = 0x22"
definition MESSAGE_TYPE_SET_CUSTOM_MINING_JOB_ERROR :: u8 where "MESSAGE_TYPE_SET_CUSTOM_MINING_JOB_ERROR = 0x24"
definition MESSAGE_TYPE_SET_CUSTOM_MINING_JOB_SUCCESS :: u8 where "MESSAGE_TYPE_SET_CUSTOM_MINING_JOB_SUCCESS = 0x23"
definition MESSAGE_TYPE_SET_EXTRANONCE_PREFIX :: u8 where "MESSAGE_TYPE_SET_EXTRANONCE_PREFIX = 0x19"
definition MESSAGE_TYPE_SET_GROUP_CHANNEL :: u8 where "MESSAGE_TYPE_SET_GROUP_CHANNEL = 0x25"
definition MESSAGE_TYPE_MINING_SET_NEW_PREV_HASH :: u8 where "MESSAGE_TYPE_MINING_SET_NEW_PREV_HASH = 0x20"
definition MESSAGE_TYPE_SET_TARGET :: u8 where "MESSAGE_TYPE_SET_TARGET = 0x21"
definition MESSAGE_TYPE_SUBMIT_SHARES_ERROR :: u8 where "MESSAGE_TYPE_SUBMIT_SHARES_ERROR = 0x1d"
definition MESSAGE_TYPE_SUBMIT_SHARES_EXTENDED :: u8 where "MESSAGE_TYPE_SUBMIT_SHARES_EXTENDED = 0x1b"
definition MESSAGE_TYPE_SUBMIT_SHARES_STANDARD :: u8 where "MESSAGE_TYPE_SUBMIT_SHARES_STANDARD = 0x1a"
definition MESSAGE_TYPE_SUBMIT_SHARES_SUCCESS :: u8 where "MESSAGE_TYPE_SUBMIT_SHARES_SUCCESS = 0x1c"
definition MESSAGE_TYPE_UPDATE_CHANNEL :: u8 where "MESSAGE_TYPE_UPDATE_CHANNEL = 0x16"
definition MESSAGE_TYPE_UPDATE_CHANNEL_ERROR :: u8 where "MESSAGE_TYPE_UPDATE_CHANNEL_ERROR = 0x17"
definition MESSAGE_TYPE_MINT_QUOTE_NOTIFICATION :: u8 where "MESSAGE_TYPE_MINT_QUOTE_NOTIFICATION = 0xC0"
definition MESSAGE_TYPE_MINT_QUOTE_FAILURE :: u8 where "MESSAGE_TYPE_MINT_QUOTE_FAILURE = 0xC1"
definition CHANNEL_BIT_CLOSE_CHANNEL :: bool where "CHANNEL_BIT_CLOSE_CHANNEL = True"
definition CHANNEL_BIT_NEW_EXTENDED_MINING_JOB :: bool where "CHANNEL_BIT_NEW_EXTENDED_MINING_JOB = True"
definition CHANNEL_BIT_NEW_MINING_JOB :: bool where "CHANNEL_BIT_NEW_MINING_JOB = True"
definition CHANNEL_BIT_OPEN_EXTENDED_MINING_CHANNEL :: bool where "CHANNEL_BIT_OPEN_EXTENDED_MINING_CHANNEL = False"
definition CHANNEL_BIT_OPEN_EXTENDED_MINING_CHANNEL_SUCCESS :: bool where "CHANNEL_BIT_OPEN_EXTENDED_MINING_CHANNEL_SUCCESS = False"
definition CHANNEL_BIT_OPEN_MINING_CHANNEL_ERROR :: bool where "CHANNEL_BIT_OPEN_MINING_CHANNEL_ERROR = False"
definition CHANNEL_BIT_OPEN_STANDARD_MINING_CHANNEL :: bool where "CHANNEL_BIT_OPEN_STANDARD_MINING_CHANNEL = False"
definition CHANNEL_BIT_OPEN_STANDARD_MINING_CHANNEL_SUCCESS :: bool where "CHANNEL_BIT_OPEN_STANDARD_MINING_CHANNEL_SUCCESS = False"
definition CHANNEL_BIT_SET_CUSTOM_MINING_JOB :: bool where "CHANNEL_BIT_SET_CUSTOM_MINING_JOB = False"
definition CHANNEL_BIT_SET_CUSTOM_MINING_JOB_ERROR :: bool where "CHANNEL_BIT_SET_CUSTOM_MINING_JOB_ERROR = False"
definition CHANNEL_BIT_SET_CUSTOM_MINING_JOB_SUCCESS :: bool where "CHANNEL_BIT_SET_CUSTOM_MINING_JOB_SUCCESS = False"
definition CHANNEL_BIT_SET_EXTRANONCE_PREFIX :: bool where "CHANNEL_BIT_SET_EXTRANONCE_PREFIX = True"
definition CHANNEL_BIT_SET_GROUP_CHANNEL :: bool where "CHANNEL_BIT_SET_GROUP_CHANNEL = False"
definition CHANNEL_BIT_MINING_SET_NEW_PREV_HASH :: bool where "CHANNEL_BIT_MINING_SET_NEW_PREV_HASH = True"
definition CHANNEL_BIT_SET_TARGET :: bool where "CHANNEL_BIT_SET_TARGET = True"
definition CHANNEL_BIT_SUBMIT_SHARES_ERROR :: bool where "CHANNEL_BIT_SUBMIT_SHARES_ERROR = True"
definition CHANNEL_BIT_SUBMIT_SHARES_EXTENDED :: bool where "CHANNEL_BIT_SUBMIT_SHARES_EXTENDED = True"
definition CHANNEL_BIT_SUBMIT_SHARES_STANDARD :: bool where "CHANNEL_BIT_SUBMIT_SHARES_STANDARD = True"
definition CHANNEL_BIT_SUBMIT_SHARES_SUCCESS :: bool where "CHANNEL_BIT_SUBMIT_SHARES_SUCCESS = True"
definition CHANNEL_BIT_UPDATE_CHANNEL :: bool where "CHANNEL_BIT_UPDATE_CHANNEL = True"
definition CHANNEL_BIT_UPDATE_CHANNEL_ERROR :: bool where "CHANNEL_BIT_UPDATE_CHANNEL_ERROR = True"
definition CHANNEL_BIT_MINT_QUOTE_NOTIFICATION :: bool where "CHANNEL_BIT_MINT_QUOTE_NOTIFICATION = True"
definition CHANNEL_BIT_MINT_QUOTE_FAILURE :: bool where "CHANNEL_BIT_MINT_QUOTE_FAILURE = True"
definition MESSAGE_TYPE_CHANNEL_ENDPOINT_CHANGED :: u8 where "MESSAGE_TYPE_CHANNEL_ENDPOINT_CHANGED = 0x3"
definition MESSAGE_TYPE_RECONNECT :: u8 where "MESSAGE_TYPE_RECONNECT = 0x4"
definition MESSAGE_TYPE_SETUP_CONNECTION :: u8 where "MESSAGE_TYPE_SETUP_CONNECTION = 0"
definition MESSAGE_TYPE_SETUP_CONNECTION_ERROR :: u8 where "MESSAGE_TYPE_SETUP_CONNECTION_ERROR = 0x2"
definition MESSAGE_TYPE_SETUP_CONNECTION_SUCCESS :: u8 where "MESSAGE_TYPE_SETUP_CONNECTION_SUCCESS = 0x1"
definition CHANNEL_BIT_CHANNEL_ENDPOINT_CHANGED :: bool where "CHANNEL_BIT_CHANNEL_ENDPOINT_CHANGED = True"
definition CHANNEL_BIT_RECONNECT :: bool where "CHANNEL_BIT_RECONNECT = False"
definition CHANNEL_BIT_SETUP_CONNECTION :: bool where "CHANNEL_BIT_SETUP_CONNECTION = False"
definition CHANNEL_BIT_SETUP_CONNECTION_ERROR :: bool where "CHANNEL_BIT_SETUP_CONNECTION_ERROR = False"
definition CHANNEL_BIT_SETUP_CONNECTION_SUCCESS :: bool where "CHANNEL_BIT_SETUP_CONNECTION_SUCCESS = False"
definition MESSAGE_TYPE_COINBASE_OUTPUT_CONSTRAINTS :: u8 where "MESSAGE_TYPE_COINBASE_OUTPUT_CONSTRAINTS = 0x70"
definition MESSAGE_TYPE_NEW_TEMPLATE :: u8 where "MESSAGE_TYPE_NEW_TEMPLATE = 0x71"
definition MESSAGE_TYPE_REQUEST_TRANSACTION_DATA :: u8 where "MESSAGE_TYPE_REQUEST_TRANSACTION_DATA = 0x73"
definition MESSAGE_TYPE_REQUEST_TRANSACTION_DATA_ERROR :: u8 where "MESSAGE_TYPE_REQUEST_TRANSACTION_DATA_ERROR = 0x75"
definition MESSAGE_TYPE_REQUEST_TRANSACTION_DATA_SUCCESS :: u8 where "MESSAGE_TYPE_REQUEST_TRANSACTION_DATA_SUCCESS = 0x74"
definition MESSAGE_TYPE_SET_NEW_PREV_HASH :: u8 where "MESSAGE_TYPE_SET_NEW_PREV_HASH = 0x72"
definition MESSAGE_TYPE_SUBMIT_SOLUTION :: u8 where "MESSAGE_TYPE_SUBMIT_SOLUTION = 0x76"
definition CHANNEL_BIT_COINBASE_OUTPUT_CONSTRAINTS :: bool where "CHANNEL_BIT_COINBASE_OUTPUT_CONSTRAINTS = False"
definition CHANNEL_BIT_NEW_TEMPLATE :: bool where "CHANNEL_BIT_NEW_TEMPLATE = False"
definition CHANNEL_BIT_REQUEST_TRANSACTION_DATA :: bool where "CHANNEL_BIT_REQUEST_TRANSACTION_DATA = False"
definition CHANNEL_BIT_REQUEST_TRANSACTION_DATA_ERROR :: bool where "CHANNEL_BIT_REQUEST_TRANSACTION_DATA_ERROR = False"
definition CHANNEL_BIT_REQUEST_TRANSACTION_DATA_SUCCESS :: bool where "CHANNEL_BIT_REQUEST_TRANSACTION_DATA_SUCCESS = False"
definition CHANNEL_BIT_SET_NEW_PREV_HASH :: bool where "CHANNEL_BIT_SET_NEW_PREV_HASH = False"
definition CHANNEL_BIT_SUBMIT_SOLUTION :: bool where "CHANNEL_BIT_SUBMIT_SOLUTION = False"
definition MESSAGE_TYPE_ALLOCATE_MINING_JOB_TOKEN :: u8 where "MESSAGE_TYPE_ALLOCATE_MINING_JOB_TOKEN = 0x50"
definition MESSAGE_TYPE_ALLOCATE_MINING_JOB_TOKEN_SUCCESS :: u8 where "MESSAGE_TYPE_ALLOCATE_MINING_JOB_TOKEN_SUCCESS = 0x51"
definition MESSAGE_TYPE_DECLARE_MINING_JOB :: u8 where "MESSAGE_TYPE_DECLARE_MINING_JOB = 0x57"
definition MESSAGE_TYPE_DECLARE_MINING_JOB_SUCCESS :: u8 where "MESSAGE_TYPE_DECLARE_MINING_JOB_SUCCESS = 0x58"
definition MESSAGE_TYPE_DECLARE_MINING_JOB_ERROR :: u8 where "MESSAGE_TYPE_DECLARE_MINING_JOB_ERROR = 0x59"
definition MESSAGE_TYPE_PROVIDE_MISSING_TRANSACTIONS :: u8 where "MESSAGE_TYPE_PROVIDE_MISSING_TRANSACTIONS = 0x55"
definition MESSAGE_TYPE_PROVIDE_MISSING_TRANSACTIONS_SUCCESS :: u8 where "MESSAGE_TYPE_PROVIDE_MISSING_TRANSACTIONS_SUCCESS = 0x56"
definition MESSAGE_TYPE_PUSH_SOLUTION :: u8 where "MESSAGE_TYPE_PUSH_SOLUTION = 0x60"
definition CHANNEL_BIT_ALLOCATE_MINING_JOB_TOKEN :: bool where "CHANNEL_BIT_ALLOCATE_MINING_JOB_TOKEN = False"
definition CHANNEL_BIT_ALLOCATE_MINING_JOB_TOKEN_SUCCESS :: bool where "CHANNEL_BIT_ALLOCATE_MINING_JOB_TOKEN_SUCCESS = False"
definition CHANNEL_BIT_DECLARE_MINING_JOB :: bool where "CHANNEL_BIT_DECLARE_MINING_JOB = False"
definition CHANNEL_BIT_DECLARE_MINING_JOB_SUCCESS :: bool where "CHANNEL_BIT_DECLARE_MINING_JOB_SUCCESS = False"
definition CHANNEL_BIT_DECLARE_MINING_JOB_ERROR :: bool where "CHANNEL_BIT_DECLARE_MINING_JOB_ERROR = False"
definition CHANNEL_BIT_PROVIDE_MISSING_TRANSACTIONS :: bool where "CHANNEL_BIT_PROVIDE_MISSING_TRANSACTIONS = False"
definition CHANNEL_BIT_PROVIDE_MISSING_TRANSACTIONS_SUCCESS :: bool where "CHANNEL_BIT_PROVIDE_MISSING_TRANSACTIONS_SUCCESS = False"
definition CHANNEL_BIT_SUBMIT_SOLUTION_JD :: bool where "CHANNEL_BIT_SUBMIT_SOLUTION_JD = True"

lemmas message_type_defs =
  MESSAGE_TYPE_CLOSE_CHANNEL_def MESSAGE_TYPE_NEW_EXTENDED_MINING_JOB_def
  MESSAGE_TYPE_NEW_MINING_JOB_def MESSAGE_TYPE_OPEN_EXTENDED_MINING_CHANNEL_def
  MESSAGE_TYPE_OPEN_EXTENDED_MINING_CHANNEL_SUCCESS_def
  MESSAGE_TYPE_OPEN_MINING_CHANNEL_ERROR_def MESSAGE_TYPE_OPEN_STANDARD_MINING_CHANNEL_def
  MESSAGE_TYPE_OPEN_STANDARD_MINING_CHANNEL_SUCCESS_def MESSAGE_TYPE_SET_CUSTOM_MINING_JOB_def
  MESSAGE_TYPE_SET_CUSTOM_MINING_JOB_ERROR_def MESSAGE_TYPE_SET_CUSTOM_MINING_JOB_SUCCESS_def
  MESSAGE_TYPE_SET_EXTRANONCE_PREFIX_def MESSAGE_TYPE_SET_GROUP_CHANNEL_def
  MESSAGE_TYPE_MINING_SET_NEW_PREV_HASH_def MESSAGE_TYPE_SET_TARGET_def
  MESSAGE_TYPE_SUBMIT_SHARES_ERROR_def MESSAGE_TYPE_SUBMIT_SHARES_EXTENDED_def
  MESSAGE_TYPE_SUBMIT_SHARES_STANDARD_def MESSAGE_TYPE_SUBMIT_SHARES_SUCCESS_def
  MESSAGE_TYPE_UPDATE_CHANNEL_def MESSAGE_TYPE_UPDATE_CHANNEL_ERROR_def
  MESSAGE_TYPE_MINT_QUOTE_NOTIFICATION_def MESSAGE_TYPE_MINT_QUOTE_FAILURE_def
  MESSAGE_TYPE_CHANNEL_ENDPOINT_CHANGED_def MESSAGE_TYPE_RECONNECT_def
  MESSAGE_TYPE_SETUP_CONNECTION_def MESSAGE_TYPE_SETUP_CONNECTION_ERROR_def
  MESSAGE_TYPE_SETUP_CONNECTION_SUCCESS_def MESSAGE_TYPE_COINBASE_OUTPUT_CONSTRAINTS_def
  MESSAGE_TYPE_NEW_TEMPLATE_def MESSAGE_TYPE_REQUEST_TRANSACTION_DATA_def
  MESSAGE_TYPE_REQUEST_TRANSACTION_DATA_ERROR_def
  MESSAGE_TYPE_REQUEST_TRANSACTION_DATA_SUCCESS_def MESSAGE_TYPE_SET_NEW_PREV_HASH_def
  MESSAGE_TYPE_SUBMIT_SOLUTION_def MESSAGE_TYPE_ALLOCATE_MINING_JOB_TOKEN_def
  MESSAGE_TYPE_ALLOCATE_MINING_JOB_TOKEN_SUCCESS_def MESSAGE_TYPE_DECLARE_MINING_JOB_def
  MESSAGE_TYPE_DECLARE_MINING_JOB_SUCCESS_def MESSAGE_TYPE_DECLARE_MINING_JOB_ERROR_def
  MESSAGE_TYPE_PROVIDE_MISSING_TRANSACTIONS_def
  MESSAGE_TYPE_PROVIDE_MISSING_TRANSACTIONS_SUCCESS_def MESSAGE_TYPE_PUSH_SOLUTION_def

lemmas channel_bit_defs =
  CHANNEL_BIT_CLOSE_CHANNEL_def CHANNEL_BIT_NEW_EXTENDED_MINING_JOB_def
  CHANNEL_BIT_NEW_MINING_JOB_def CHANNEL_BIT_OPEN_EXTENDED_MINING_CHANNEL_def
  CHANNEL_BIT_OPEN_EXTENDED_MINING_CHANNEL_SUCCESS_def
  CHANNEL_BIT_OPEN_MINING_CHANNEL_ERROR_def CHANNEL_BIT_OPEN_STANDARD_MINING_CHANNEL_def
  CHANNEL_BIT_OPEN_STANDARD_MINING_CHANNEL_SUCCESS_def CHANNEL_BIT_SET_CUSTOM_MINING_JOB_def
  CHANNEL_BIT_SET_CUSTOM_MINING_JOB_ERROR_def CHANNEL_BIT_SET_CUSTOM_MINING_JOB_SUCCESS_def
  CHANNEL_BIT_SET_EXTRANONCE_PREFIX_def CHANNEL_BIT_SET_GROUP_CHANNEL_def
  CHANNEL_BIT_MINING_SET_NEW_PREV_HASH_def CHANNEL_BIT_SET_TARGET_def
  CHANNEL_BIT_SUBMIT_SHARES_ERROR_def CHANNEL_BIT_SUBMIT_SHARES_EXTENDED_def
  CHANNEL_BIT_SUBMIT_SHARES_STANDARD_def CHANNEL_BIT_SUBMIT_SHARES_SUCCESS_def
  CHANNEL_BIT_UPDATE_CHANNEL_def CHANNEL_BIT_UPDATE_CHANNEL_ERROR_def
  CHANNEL_BIT_MINT_QUOTE_NOTIFICATION_def CHANNEL_BIT_MINT_QUOTE_FAILURE_def
  CHANNEL_BIT_CHANNEL_ENDPOINT_CHANGED_def CHANNEL_BIT_RECONNECT_def
  CHANNEL_BIT_SETUP_CONNECTION_def CHANNEL_BIT_SETUP_CONNECTION_ERROR_def
  CHANNEL_BIT_SETUP_CONNECTION_SUCCESS_def CHANNEL_BIT_COINBASE_OUTPUT_CONSTRAINTS_def
  CHANNEL_BIT_NEW_TEMPLATE_def CHANNEL_BIT_REQUEST_TRANSACTION_DATA_def
  CHANNEL_BIT_REQUEST_TRANSACTION_DATA_ERROR_def
  CHANNEL_BIT_REQUEST_TRANSACTION_DATA_SUCCESS_def CHANNEL_BIT_SET_NEW_PREV_HASH_def
  CHANNEL_BIT_SUBMIT_SOLUTION_def CHANNEL_BIT_ALLOCATE_MINING_JOB_TOKEN_def
  CHANNEL_BIT_ALLOCATE_MINING_JOB_TOKEN_SUCCESS_def CHANNEL_BIT_DECLARE_MINING_JOB_def
  CHANNEL_BIT_DECLARE_MINING_JOB_SUCCESS_def CHANNEL_BIT_DECLARE_MINING_JOB_ERROR_def
  CHANNEL_BIT_PROVIDE_MISSING_TRANSACTIONS_def
  CHANNEL_BIT_PROVIDE_MISSING_TRANSACTIONS_SUCCESS_def CHANNEL_BIT_SUBMIT_SOLUTION_JD_def

datatype ParserError =
    UnexpectedMessage u8
  | BadPayloadSize
  | UnexpectedPoolMessage
  | BinaryError sv2_error

type_synonym 'a parsed = "('a, ParserError) result"

section \<open>Mining\<close>

datatype Mining =
    Mining_CloseChannel CloseChannel
  | Mining_NewExtendedMiningJob NewExtendedMiningJob
  | Mining_NewMiningJob NewMiningJob
  | Mining_OpenExtendedMiningChannel OpenExtendedMiningChannel
  | Mining_OpenExtendedMiningChannelSuccess OpenExtendedMiningChannelSuccess
  | Mining_OpenMiningChannelError OpenMiningChannelError
  | Mining_OpenStandardMiningChannel OpenStandardMiningChannel
  | Mining_OpenStandardMiningChannelSuccess OpenStandardMiningChannelSuccess
  | Mining_SetCustomMiningJob SetCustomMiningJob
  | Mining_SetCustomMiningJobError SetCustomMiningJobError
  | Mining_SetCustomMiningJobSuccess SetCustomMiningJobSuccess
  | Mining_SetExtranoncePrefix SetExtranoncePrefix
  | Mining_SetGroupChannel SetGroupChannel
  | Mining_SetNewPrevHash MiningSetNewPrevHash
  | Mining_SetTarget SetTarget
  | Mining_SubmitSharesError SubmitSharesError
  | Mining_SubmitSharesExtended SubmitSharesExtended
  | Mining_SubmitSharesStandard SubmitSharesStandard
  | Mining_SubmitSharesSuccess SubmitSharesSuccess
  | Mining_UpdateChannel UpdateChannel
  | Mining_UpdateChannelError UpdateChannelError
  | Mining_MintQuoteNotification MintQuoteNotification
  | Mining_MintQuoteFailure MintQuoteFailure

fun mining_message_type :: "Mining \<Rightarrow> u8" where
  "mining_message_type (Mining_CloseChannel m) = MESSAGE_TYPE_CLOSE_CHANNEL"
| "mining_message_type (Mining_NewExtendedMiningJob m) = MESSAGE_TYPE_NEW_EXTENDED_MINING_JOB"
| "mining_message_type (Mining_NewMiningJob m) = MESSAGE_TYPE_NEW_MINING_JOB"
| "mining_message_type (Mining_OpenExtendedMiningChannel m) = MESSAGE_TYPE_OPEN_EXTENDED_MINING_CHANNEL"
| "mining_message_type (Mining_OpenExtendedMiningChannelSuccess m) = MESSAGE_TYPE_OPEN_EXTENDED_MINING_CHANNEL_SUCCESS"
| "mining_message_type (Mining_OpenMiningChannelError m) = MESSAGE_TYPE_OPEN_MINING_CHANNEL_ERROR"
| "mining_message_type (Mining_OpenStandardMiningChannel m) = MESSAGE_TYPE_OPEN_STANDARD_MINING_CHANNEL"
| "mining_message_type (Mining_OpenStandardMiningChannelSuccess m) = MESSAGE_TYPE_OPEN_STANDARD_MINING_CHANNEL_SUCCESS"
| "mining_message_type (Mining_SetCustomMiningJob m) = MESSAGE_TYPE_SET_CUSTOM_MINING_JOB"
| "mining_message_type (Mining_SetCustomMiningJobError m) = MESSAGE_TYPE_SET_CUSTOM_MINING_JOB_ERROR"
| "mining_message_type (Mining_SetCustomMiningJobSuccess m) = MESSAGE_TYPE_SET_CUSTOM_MINING_JOB_SUCCESS"
| "mining_message_type (Mining_SetExtranoncePrefix m) = MESSAGE_TYPE_SET_EXTRANONCE_PREFIX"
| "mining_message_type (Mining_SetGroupChannel m) = MESSAGE_TYPE_SET_GROUP_CHANNEL"
| "mining_message_type (Mining_SetNewPrevHash m) = MESSAGE_TYPE_MINING_SET_NEW_PREV_HASH"
| "mining_message_type (Mining_SetTarget m) = MESSAGE_TYPE_SET_TARGET"
| "mining_message_type (Mining_SubmitSharesError m) = MESSAGE_TYPE_SUBMIT_SHARES_ERROR"
| "mining_message_type (Mining_SubmitSharesExtended m) = MESSAGE_TYPE_SUBMIT_SHARES_EXTENDED"
| "mining_message_type (Mining_SubmitSharesStandard m) = MESSAGE_TYPE_SUBMIT_SHARES_STANDARD"
| "mining_message_type (Mining_SubmitSharesSuccess m) = MESSAGE_TYPE_SUBMIT_SHARES_SUCCESS"
| "mining_message_type (Mining_UpdateChannel m) = MESSAGE_TYPE_UPDATE_CHANNEL"
| "mining_message_type (Mining_UpdateChannelError m) = MESSAGE_TYPE_UPDATE_CHANNEL_ERROR"
| "mining_message_type (Mining_MintQuoteNotification m) = MESSAGE_TYPE_MINT_QUOTE_NOTIFICATION"
| "mining_message_type (Mining_MintQuoteFailure m) = MESSAGE_TYPE_MINT_QUOTE_FAILURE"

fun mining_channel_bit :: "Mining \<Rightarrow> bool" where
  "mining_channel_bit (Mining_CloseChannel m) = CHANNEL_BIT_CLOSE_CHANNEL"
| "mining_channel_bit (Mining_NewExtendedMiningJob m) = CHANNEL_BIT_NEW_EXTENDED_MINING_JOB"
| "mining_channel_bit (Mining_NewMiningJob m) = CHANNEL_BIT_NEW_MINING_JOB"
| "mining_channel_bit (Mining_OpenExtendedMiningChannel m) = CHANNEL_BIT_OPEN_EXTENDED_MINING_CHANNEL"
| "mining_channel_bit (Mining_OpenExtendedMiningChannelSuccess m) = CHANNEL_BIT_OPEN_EXTENDED_MINING_CHANNEL_SUCCESS"
| "mining_channel_bit (Mining_OpenMiningChannelError m) = CHANNEL_BIT_OPEN_MINING_CHANNEL_ERROR"
| "mining_channel_bit (Mining_OpenStandardMiningChannel m) = CHANNEL_BIT_OPEN_STANDARD_MINING_CHANNEL"
| "mining_channel_bit (Mining_OpenStandardMiningChannelSuccess m) = CHANNEL_BIT_OPEN_STANDARD_MINING_CHANNEL_SUCCESS"
| "mining_channel_bit (Mining_SetCustomMiningJob m) = CHANNEL_BIT_SET_CUSTOM_MINING_JOB"
| "mining_channel_bit (Mining_SetCustomMiningJobError m) = CHANNEL_BIT_SET_CUSTOM_MINING_JOB_ERROR"
| "mining_channel_bit (Mining_SetCustomMiningJobSuccess m) = CHANNEL_BIT_SET_CUSTOM_MINING_JOB_SUCCESS"
| "mining_channel_bit (Mining_SetExtranoncePrefix m) = CHANNEL_BIT_SET_EXTRANONCE_PREFIX"
| "mining_channel_bit (Mining_SetGroupChannel m) = CHANNEL_BIT_SET_GROUP_CHANNEL"
| "mining_channel_bit (Mining_SetNewPrevHash m) = CHANNEL_BIT_MINING_SET_NEW_PREV_HASH"
| "mining_channel_bit (Mining_SetTarget m) = CHANNEL_BIT_SET_TARGET"
| "mining_channel_bit (Mining_SubmitSharesError m) = CHANNEL_BIT_SUBMIT_SHARES_ERROR"
| "mining_channel_bit (Mining_SubmitSharesExtended m) = CHANNEL_BIT_SUBMIT_SHARES_EXTENDED"
| "mining_channel_bit (Mining_SubmitSharesStandard m) = CHANNEL_BIT_SUBMIT_SHARES_STANDARD"
| "mining_channel_bit (Mining_SubmitSharesSuccess m) = CHANNEL_BIT_SUBMIT_SHARES_SUCCESS"
| "mining_channel_bit (Mining_UpdateChannel m) = CHANNEL_BIT_UPDATE_CHANNEL"
| "mining_channel_bit (Mining_UpdateChannelError m) = CHANNEL_BIT_UPDATE_CHANNEL_ERROR"
| "mining_channel_bit (Mining_MintQuoteNotification m) = CHANNEL_BIT_MINT_QUOTE_NOTIFICATION"
| "mining_channel_bit (Mining_MintQuoteFailure m) = CHANNEL_BIT_MINT_QUOTE_FAILURE"

fun mining_into_field :: "Mining \<Rightarrow> encodable_field" where
  "mining_into_field (Mining_CloseChannel m) = CloseChannel_into_field m"
| "mining_into_field (Mining_NewExtendedMiningJob m) = NewExtendedMiningJob_into_field m"
| "mining_into_field (Mining_NewMiningJob m) = NewMiningJob_into_field m"
| "mining_into_field (Mining_OpenExtendedMiningChannel m) = OpenExtendedMiningChannel_into_field m"
| "mining_into_field (Mining_OpenExtendedMiningChannelSuccess m) = OpenExtendedMiningChannelSuccess_into_field m"
| "mining_into_field (Mining_OpenMiningChannelError m) = OpenMiningChannelError_into_field m"
| "mining_into_field (Mining_OpenStandardMiningChannel m) = OpenStandardMiningChannel_into_field m"
| "mining_into_field (Mining_OpenStandardMiningChannelSuccess m) = OpenStandardMiningChannelSuccess_into_field m"
| "mining_into_field (Mining_SetCustomMiningJob m) = SetCustomMiningJob_into_field m"
| "mining_into_field (Mining_SetCustomMiningJobError m) = SetCustomMiningJobError_into_field m"
| "mining_into_field (Mining_SetCustomMiningJobSuccess m) = SetCustomMiningJobSuccess_into_field m"
| "mining_into_field (Mining_SetExtranoncePrefix m) = SetExtranoncePrefix_into_field m"
| "mining_into_field (Mining_SetGroupChannel m) = SetGroupChannel_into_field m"
| "mining_into_field (Mining_SetNewPrevHash m) = MiningSetNewPrevHash_into_field m"
| "mining_into_field (Mining_SetTarget m) = SetTarget_into_field m"
| "mining_into_field (Mining_SubmitSharesError m) = SubmitSharesError_into_field m"
| "mining_into_field (Mining_SubmitSharesExtended m) = SubmitSharesExtended_into_field m"
| "mining_into_field (Mining_SubmitSharesStandard m) = SubmitSharesStandard_into_field m"
| "mining_into_field (Mining_SubmitSharesSuccess m) = SubmitSharesSuccess_into_field m"
| "mining_into_field (Mining_UpdateChannel m) = UpdateChannel_into_field m"
| "mining_into_field (Mining_UpdateChannelError m) = UpdateChannelError_into_field m"
| "mining_into_field (Mining_MintQuoteNotification m) = MintQuoteNotification_into_field m"
| "mining_into_field (Mining_MintQuoteFailure m) = MintQuoteFailure_into_field m"

fun mining_get_size :: "Mining \<Rightarrow> nat" where
  "mining_get_size (Mining_CloseChannel m) = CloseChannel_get_size m"
| "mining_get_size (Mining_NewExtendedMiningJob m) = NewExtendedMiningJob_get_size m"
| "mining_get_size (Mining_NewMiningJob m) = NewMiningJob_get_size m"
| "mining_get_size (Mining_OpenExtendedMiningChannel m) = OpenExtendedMiningChannel_get_size m"
| "mining_get_size (Mining_OpenExtendedMiningChannelSuccess m) = OpenExtendedMiningChannelSuccess_get_size m"
| "mining_get_size (Mining_OpenMiningChannelError m) = OpenMiningChannelError_get_size m"
| "mining_get_size (Mining_OpenStandardMiningChannel m) = OpenStandardMiningChannel_get_size m"
| "mining_get_size (Mining_OpenStandardMiningChannelSuccess m) = OpenStandardMiningChannelSuccess_get_size m"
| "mining_get_size (Mining_SetCustomMiningJob m) = SetCustomMiningJob_get_size m"
| "mining_get_size (Mining_SetCustomMiningJobError m) = SetCustomMiningJobError_get_size m"
| "mining_get_size (Mining_SetCustomMiningJobSuccess m) = SetCustomMiningJobSuccess_get_size m"
| "mining_get_size (Mining_SetExtranoncePrefix m) = SetExtranoncePrefix_get_size m"
| "mining_get_size (Mining_SetGroupChannel m) = SetGroupChannel_get_size m"
| "mining_get_size (Mining_SetNewPrevHash m) = MiningSetNewPrevHash_get_size m"
| "mining_get_size (Mining_SetTarget m) = SetTarget_get_size m"
| "mining_get_size (Mining_SubmitSharesError m) = SubmitSharesError_get_size m"
| "mining_get_size (Mining_SubmitSharesExtended m) = SubmitSharesExtended_get_size m"
| "mining_get_size (Mining_SubmitSharesStandard m) = SubmitSharesStandard_get_size m"
| "mining_get_size (Mining_SubmitSharesSuccess m) = SubmitSharesSuccess_get_size m"
| "mining_get_size (Mining_UpdateChannel m) = UpdateChannel_get_size m"
| "mining_get_size (Mining_UpdateChannelError m) = UpdateChannelError_get_size m"
| "mining_get_size (Mining_MintQuoteNotification m) = MintQuoteNotification_get_size m"
| "mining_get_size (Mining_MintQuoteFailure m) = MintQuoteFailure_get_size m"

datatype MiningTypes =
    MT_CloseChannel
  | MT_NewExtendedMiningJob
  | MT_NewMiningJob
  | MT_OpenExtendedMiningChannel
  | MT_OpenExtendedMiningChannelSuccess
  | MT_OpenMiningChannelError
  | MT_OpenStandardMiningChannel
  | MT_OpenStandardMiningChannelSuccess
  | MT_SetCustomMiningJob
  | MT_SetCustomMiningJobError
  | MT_SetCustomMiningJobSuccess
  | MT_SetExtranoncePrefix
  | MT_SetGroupChannel
  | MT_SetNewPrevHash
  | MT_SetTarget
  | MT_SubmitSharesError
  | MT_SubmitSharesExtended
  | MT_SubmitSharesStandard
  | MT_SubmitSharesSuccess
  | MT_UpdateChannel
  | MT_UpdateChannelError

definition mining_types_try_from :: "u8 \<Rightarrow> MiningTypes parsed" where
  "mining_types_try_from v =
     (if v = MESSAGE_TYPE_CLOSE_CHANNEL then Ok MT_CloseChannel
      else if v = MESSAGE_TYPE_NEW_EXTENDED_MINING_JOB then Ok MT_NewExtendedMiningJob
      else if v = MESSAGE_TYPE_NEW_MINING_JOB then Ok MT_NewMiningJob
      else if v = MESSAGE_TYPE_OPEN_EXTENDED_MINING_CHANNEL then Ok MT_OpenExtendedMiningChannel
      else if v = MESSAGE_TYPE_OPEN_EXTENDED_MINING_CHANNEL_SUCCESS then Ok MT_OpenExtendedMiningChannelSuccess
      else if v = MESSAGE_TYPE_OPEN_MINING_CHANNEL_ERROR then Ok MT_OpenMiningChannelError
      else if v = MESSAGE_TYPE_OPEN_STANDARD_MINING_CHANNEL then Ok MT_OpenStandardMiningChannel
      else if v = MESSAGE_TYPE_OPEN_STANDARD_MINING_CHANNEL_SUCCESS then Ok MT_OpenStandardMiningChannelSuccess
      else if v = MESSAGE_TYPE_SET_CUSTOM_MINING_JOB then Ok MT_SetCustomMiningJob
      else if v = MESSAGE_TYPE_SET_CUSTOM_MINING_JOB_ERROR then Ok MT_SetCustomMiningJobError
      else if v = MESSAGE_TYPE_SET_CUSTOM_MINING_JOB_SUCCESS then Ok MT_SetCustomMiningJobSuccess
      else if v = MESSAGE_TYPE_SET_EXTRANONCE_PREFIX then Ok MT_SetExtranoncePrefix
      else if v = MESSAGE_TYPE_SET_GROUP_CHANNEL then Ok MT_SetGroupChannel
      else if v = MESSAGE_TYPE_MINING_SET_NEW_PREV_HASH then Ok MT_SetNewPrevHash
      else if v = MESSAGE_TYPE_SET_TARGET then Ok MT_SetTarget
      else if v = MESSAGE_TYPE_SUBMIT_SHARES_ERROR then Ok MT_SubmitSharesError
      else if v = MESSAGE_TYPE_SUBMIT_SHARES_EXTENDED then Ok MT_SubmitSharesExtended
      else if v = MESSAGE_TYPE_SUBMIT_SHARES_STANDARD then Ok MT_SubmitSharesStandard
      else if v = MESSAGE_TYPE_SUBMIT_SHARES_SUCCESS then Ok MT_SubmitSharesSuccess
      else if v = MESSAGE_TYPE_UPDATE_CHANNEL then Ok MT_UpdateChannel
      else if v = MESSAGE_TYPE_UPDATE_CHANNEL_ERROR then Ok MT_UpdateChannelError
      else Err (UnexpectedMessage v))"

fun mining_decode :: "MiningTypes \<Rightarrow> bytes \<Rightarrow> Mining parsed" where
  "mining_decode MT_CloseChannel v = map_ok Mining_CloseChannel (map_err BinaryError (CloseChannel_from_bytes v))"
| "mining_decode MT_NewExtendedMiningJob v = map_ok Mining_NewExtendedMiningJob (map_err BinaryError (NewExtendedMiningJob_from_bytes v))"
| "mining_decode MT_NewMiningJob v = map_ok Mining_NewMiningJob (map_err BinaryError (NewMiningJob_from_bytes v))"
| "mining_decode MT_OpenExtendedMiningChannel v = map_ok Mining_OpenExtendedMiningChannel (map_err BinaryError (OpenExtendedMiningChannel_from_bytes v))"
| "mining_decode MT_OpenExtendedMiningChannelSuccess v = map_ok Mining_OpenExtendedMiningChannelSuccess (map_err BinaryError (OpenExtendedMiningChannelSuccess_from_bytes v))"
| "mining_decode MT_OpenMiningChannelError v = map_ok Mining_OpenMiningChannelError (map_err BinaryError (OpenMiningChannelError_from_bytes v))"
| "mining_decode MT_OpenStandardMiningChannel v = map_ok Mining_OpenStandardMiningChannel (map_err BinaryError (OpenStandardMiningChannel_from_bytes v))"
| "mining_decode MT_OpenStandardMiningChannelSuccess v = map_ok Mining_OpenStandardMiningChannelSuccess (map_err BinaryError (OpenStandardMiningChannelSuccess_from_bytes v))"
| "mining_decode MT_SetCustomMiningJob v = map_ok Mining_SetCustomMiningJob (map_err BinaryError (SetCustomMiningJob_from_bytes v))"
| "mining_decode MT_SetCustomMiningJobError v = map_ok Mining_SetCustomMiningJobError (map_err BinaryError (SetCustomMiningJobError_from_bytes v))"
| "mining_decode MT_SetCustomMiningJobSuccess v = map_ok Mining_SetCustomMiningJobSuccess (map_err BinaryError (SetCustomMiningJobSuccess_from_bytes v))"
| "mining_decode MT_SetExtranoncePrefix v = map_ok Mining_SetExtranoncePrefix (map_err BinaryError (SetExtranoncePrefix_from_bytes v))"
| "mining_decode MT_SetGroupChannel v = map_ok Mining_SetGroupChannel (map_err BinaryError (SetGroupChannel_from_bytes v))"
| "mining_decode MT_SetNewPrevHash v = map_ok Mining_SetNewPrevHash (map_err BinaryError (MiningSetNewPrevHash_from_bytes v))"
| "mining_decode MT_SetTarget v = map_ok Mining_SetTarget (map_err BinaryError (SetTarget_from_bytes v))"
| "mining_decode MT_SubmitSharesError v = map_ok Mining_SubmitSharesError (map_err BinaryError (SubmitSharesError_from_bytes v))"
| "mining_decode MT_SubmitSharesExtended v = map_ok Mining_SubmitSharesExtended (map_err BinaryError (SubmitSharesExtended_from_bytes v))"
| "mining_decode MT_SubmitSharesStandard v = map_ok Mining_SubmitSharesStandard (map_err BinaryError (SubmitSharesStandard_from_bytes v))"
| "mining_decode MT_SubmitSharesSuccess v = map_ok Mining_SubmitSharesSuccess (map_err BinaryError (SubmitSharesSuccess_from_bytes v))"
| "mining_decode MT_UpdateChannel v = map_ok Mining_UpdateChannel (map_err BinaryError (UpdateChannel_from_bytes v))"
| "mining_decode MT_UpdateChannelError v = map_ok Mining_UpdateChannelError (map_err BinaryError (UpdateChannelError_from_bytes v))"

definition mining_try_from :: "u8 \<times> bytes \<Rightarrow> Mining parsed" where
  "mining_try_from v = rbind (mining_types_try_from (fst v)) (\<lambda>msg_type. mining_decode msg_type (snd v))"

fun mining_wf :: "Mining \<Rightarrow> bool" where
  "mining_wf (Mining_CloseChannel m) = CloseChannel_wf m"
| "mining_wf (Mining_NewExtendedMiningJob m) = NewExtendedMiningJob_wf m"
| "mining_wf (Mining_NewMiningJob m) = NewMiningJob_wf m"
| "mining_wf (Mining_OpenExtendedMiningChannel m) = OpenExtendedMiningChannel_wf m"
| "mining_wf (Mining_OpenExtendedMiningChannelSuccess m) = OpenExtendedMiningChannelSuccess_wf m"
| "mining_wf (Mining_OpenMiningChannelError m) = OpenMiningChannelError_wf m"
| "mining_wf (Mining_OpenStandardMiningChannel m) = OpenStandardMiningChannel_wf m"
| "mining_wf (Mining_OpenStandardMiningChannelSuccess m) = OpenStandardMiningChannelSuccess_wf m"
| "mining_wf (Mining_SetCustomMiningJob m) = SetCustomMiningJob_wf m"
| "mining_wf (Mining_SetCustomMiningJobError m) = SetCustomMiningJobError_wf m"
| "mining_wf (Mining_SetCustomMiningJobSuccess m) = SetCustomMiningJobSuccess_wf m"
| "mining_wf (Mining_SetExtranoncePrefix m) = SetExtranoncePrefix_wf m"
| "mining_wf (Mining_SetGroupChannel m) = SetGroupChannel_wf m"
| "mining_wf (Mining_SetNewPrevHash m) = MiningSetNewPrevHash_wf m"
| "mining_wf (Mining_SetTarget m) = SetTarget_wf m"
| "mining_wf (Mining_SubmitSharesError m) = SubmitSharesError_wf m"
| "mining_wf (Mining_SubmitSharesExtended m) = SubmitSharesExtended_wf m"
| "mining_wf (Mining_SubmitSharesStandard m) = SubmitSharesStandard_wf m"
| "mining_wf (Mining_SubmitSharesSuccess m) = SubmitSharesSuccess_wf m"
| "mining_wf (Mining_UpdateChannel m) = UpdateChannel_wf m"
| "mining_wf (Mining_UpdateChannelError m) = UpdateChannelError_wf m"
| "mining_wf (Mining_MintQuoteNotification m) = MintQuoteNotification_wf m"
| "mining_wf (Mining_MintQuoteFailure m) = MintQuoteFailure_wf m"

fun mining_norm :: "Mining \<Rightarrow> Mining" where
  "mining_norm (Mining_CloseChannel m) = Mining_CloseChannel (CloseChannel_norm m)"
| "mining_norm (Mining_NewExtendedMiningJob m) = Mining_NewExtendedMiningJob (NewExtendedMiningJob_norm m)"
| "mining_norm (Mining_NewMiningJob m) = Mining_NewMiningJob (NewMiningJob_norm m)"
| "mining_norm (Mining_OpenExtendedMiningChannel m) = Mining_OpenExtendedMiningChannel (OpenExtendedMiningChannel_norm m)"
| "mining_norm (Mining_OpenExtendedMiningChannelSuccess m) = Mining_OpenExtendedMiningChannelSuccess (OpenExtendedMiningChannelSuccess_norm m)"
| "mining_norm (Mining_OpenMiningChannelError m) = Mining_OpenMiningChannelError (OpenMiningChannelError_norm m)"
| "mining_norm (Mining_OpenStandardMiningChannel m) = Mining_OpenStandardMiningChannel (OpenStandardMiningChannel_norm m)"
| "mining_norm (Mining_OpenStandardMiningChannelSuccess m) = Mining_OpenStandardMiningChannelSuccess (OpenStandardMiningChannelSuccess_norm m)"
| "mining_norm (Mining_SetCustomMiningJob m) = Mining_SetCustomMiningJob (SetCustomMiningJob_norm m)"
| "mining_norm (Mining_SetCustomMiningJobError m) = Mining_SetCustomMiningJobError (SetCustomMiningJobError_norm m)"
| "mining_norm (Mining_SetCustomMiningJobSuccess m) = Mining_SetCustomMiningJobSuccess (SetCustomMiningJobSuccess_norm m)"
| "mining_norm (Mining_SetExtranoncePrefix m) = Mining_SetExtranoncePrefix (SetExtranoncePrefix_norm m)"
| "mining_norm (Mining_SetGroupChannel m) = Mining_SetGroupChannel (SetGroupChannel_norm m)"
| "mining_norm (Mining_SetNewPrevHash m) = Mining_SetNewPrevHash (MiningSetNewPrevHash_norm m)"
| "mining_norm (Mining_SetTarget m) = Mining_SetTarget (SetTarget_norm m)"
| "mining_norm (Mining_SubmitSharesError m) = Mining_SubmitSharesError (SubmitSharesError_norm m)"
| "mining_norm (Mining_SubmitSharesExtended m) = Mining_SubmitSharesExtended (SubmitSharesExtended_norm m)"
| "mining_norm (Mining_SubmitSharesStandard m) = Mining_SubmitSharesStandard (SubmitSharesStandard_norm m)"
| "mining_norm (Mining_SubmitSharesSuccess m) = Mining_SubmitSharesSuccess (SubmitSharesSuccess_norm m)"
| "mining_norm (Mining_UpdateChannel m) = Mining_UpdateChannel (UpdateChannel_norm m)"
| "mining_norm (Mining_UpdateChannelError m) = Mining_UpdateChannelError (UpdateChannelError_norm m)"
| "mining_norm (Mining_MintQuoteNotification m) = Mining_MintQuoteNotification (MintQuoteNotification_norm m)"
| "mining_norm (Mining_MintQuoteFailure m) = Mining_MintQuoteFailure (MintQuoteFailure_norm m)"

section \<open>CommonMessages\<close>

datatype CommonMessages =
    Common_ChannelEndpointChanged ChannelEndpointChanged
  | Common_Reconnect Reconnect
  | Common_SetupConnection SetupConnection
  | Common_SetupConnectionError SetupConnectionError
  | Common_SetupConnectionSuccess SetupConnectionSuccess

fun common_message_type :: "CommonMessages \<Rightarrow> u8" where
  "common_message_type (Common_ChannelEndpointChanged m) = MESSAGE_TYPE_CHANNEL_ENDPOINT_CHANGED"
| "common_message_type (Common_Reconnect m) = MESSAGE_TYPE_RECONNECT"
| "common_message_type (Common_SetupConnection m) = MESSAGE_TYPE_SETUP_CONNECTION"
| "common_message_type (Common_SetupConnectionError m) = MESSAGE_TYPE_SETUP_CONNECTION_ERROR"
| "common_message_type (Common_SetupConnectionSuccess m) = MESSAGE_TYPE_SETUP_CONNECTION_SUCCESS"

fun common_channel_bit :: "CommonMessages \<Rightarrow> bool" where
  "common_channel_bit (Common_ChannelEndpointChanged m) = CHANNEL_BIT_CHANNEL_ENDPOINT_CHANGED"
| "common_channel_bit (Common_Reconnect m) = CHANNEL_BIT_RECONNECT"
| "common_channel_bit (Common_SetupConnection m) = CHANNEL_BIT_SETUP_CONNECTION"
| "common_channel_bit (Common_SetupConnectionError m) = CHANNEL_BIT_SETUP_CONNECTION_ERROR"
| "common_channel_bit (Common_SetupConnectionSuccess m) = CHANNEL_BIT_SETUP_CONNECTION_SUCCESS"

fun common_into_field :: "CommonMessages \<Rightarrow> encodable_field" where
  "common_into_field (Common_ChannelEndpointChanged m) = ChannelEndpointChanged_into_field m"
| "common_into_field (Common_Reconnect m) = Reconnect_into_field m"
| "common_into_field (Common_SetupConnection m) = SetupConnection_into_field m"
| "common_into_field (Common_SetupConnectionError m) = SetupConnectionError_into_field m"
| "common_into_field (Common_SetupConnectionSuccess m) = SetupConnectionSuccess_into_field m"

fun common_get_size :: "CommonMessages \<Rightarrow> nat" where
  "common_get_size (Common_ChannelEndpointChanged m) = ChannelEndpointChanged_get_size m"
| "common_get_size (Common_Reconnect m) = Reconnect_get_size m"
| "common_get_size (Common_SetupConnection m) = SetupConnection_get_size m"
| "common_get_size (Common_SetupConnectionError m) = SetupConnectionError_get_size m"
| "common_get_size (Common_SetupConnectionSuccess m) = SetupConnectionSuccess_get_size m"

datatype CommonMessageTypes =
    CT_SetupConnection
  | CT_SetupConnectionSuccess
  | CT_SetupConnectionError
  | CT_ChannelEndpointChanged
  | CT_Reconnect

definition common_types_try_from :: "u8 \<Rightarrow> CommonMessageTypes parsed" where
  "common_types_try_from v =
     (if v = MESSAGE_TYPE_SETUP_CONNECTION then Ok CT_SetupConnection
      else if v = MESSAGE_TYPE_SETUP_CONNECTION_SUCCESS then Ok CT_SetupConnectionSuccess
      else if v = MESSAGE_TYPE_SETUP_CONNECTION_ERROR then Ok CT_SetupConnectionError
      else if v = MESSAGE_TYPE_CHANNEL_ENDPOINT_CHANGED then Ok CT_ChannelEndpointChanged
      else if v = MESSAGE_TYPE_RECONNECT then Ok CT_Reconnect
      else Err (UnexpectedMessage v))"

fun common_decode :: "CommonMessageTypes \<Rightarrow> bytes \<Rightarrow> CommonMessages parsed" where
  "common_decode CT_SetupConnection v = map_ok Common_SetupConnection (map_err BinaryError (SetupConnection_from_bytes v))"
| "common_decode CT_SetupConnectionSuccess v = map_ok Common_SetupConnectionSuccess (map_err BinaryError (SetupConnectionSuccess_from_bytes v))"
| "common_decode CT_SetupConnectionError v = map_ok Common_SetupConnectionError (map_err BinaryError (SetupConnectionError_from_bytes v))"
| "common_decode CT_ChannelEndpointChanged v = map_ok Common_ChannelEndpointChanged (map_err BinaryError (ChannelEndpointChanged_from_bytes v))"
| "common_decode CT_Reconnect v = map_ok Common_Reconnect (map_err BinaryError (Reconnect_from_bytes v))"

definition common_try_from :: "u8 \<times> bytes \<Rightarrow> CommonMessages parsed" where
  "common_try_from v = rbind (common_types_try_from (fst v)) (\<lambda>msg_type. common_decode msg_type (snd v))"

fun common_wf :: "CommonMessages \<Rightarrow> bool" where
  "common_wf (Common_ChannelEndpointChanged m) = ChannelEndpointChanged_wf m"
| "common_wf (Common_Reconnect m) = Reconnect_wf m"
| "common_wf (Common_SetupConnection m) = SetupConnection_wf m"
| "common_wf (Common_SetupConnectionError m) = SetupConnectionError_wf m"
| "common_wf (Common_SetupConnectionSuccess m) = SetupConnectionSuccess_wf m"

fun common_norm :: "CommonMessages \<Rightarrow> CommonMessages" where
  "common_norm (Common_ChannelEndpointChanged m) = Common_ChannelEndpointChanged (ChannelEndpointChanged_norm m)"
| "common_norm (Common_Reconnect m) = Common_Reconnect (Reconnect_norm m)"
| "common_norm (Common_SetupConnection m) = Common_SetupConnection (SetupConnection_norm m)"
| "common_norm (Common_SetupConnectionError m) = Common_SetupConnectionError (SetupConnectionError_norm m)"
| "common_norm (Common_SetupConnectionSuccess m) = Common_SetupConnectionSuccess (SetupConnectionSuccess_norm m)"

section \<open>TemplateDistribution\<close>

datatype TemplateDistribution =
    Template_CoinbaseOutputConstraints CoinbaseOutputConstraints
  | Template_NewTemplate NewTemplate
  | Template_RequestTransactionData RequestTransactionData
  | Template_RequestTransactionDataError RequestTransactionDataError
  | Template_RequestTransactionDataSuccess RequestTransactionDataSuccess
  | Template_SetNewPrevHash SetNewPrevHash
  | Template_SubmitSolution SubmitSolution

fun template_message_type :: "TemplateDistribution \<Rightarrow> u8" where
  "template_message_type (Template_CoinbaseOutputConstraints m) = MESSAGE_TYPE_COINBASE_OUTPUT_CONSTRAINTS"
| "template_message_type (Template_NewTemplate m) = MESSAGE_TYPE_NEW_TEMPLATE"
| "template_message_type (Template_RequestTransactionData m) = MESSAGE_TYPE_REQUEST_TRANSACTION_DATA"
| "template_message_type (Template_RequestTransactionDataError m) = MESSAGE_TYPE_REQUEST_TRANSACTION_DATA_ERROR"
| "template_message_type (Template_RequestTransactionDataSuccess m) = MESSAGE_TYPE_REQUEST_TRANSACTION_DATA_SUCCESS"
| "template_message_type (Template_SetNewPrevHash m) = MESSAGE_TYPE_SET_NEW_PREV_HASH"
| "template_message_type (Template_SubmitSolution m) = MESSAGE_TYPE_SUBMIT_SOLUTION"

fun template_channel_bit :: "TemplateDistribution \<Rightarrow> bool" where
  "template_channel_bit (Template_CoinbaseOutputConstraints m) = CHANNEL_BIT_COINBASE_OUTPUT_CONSTRAINTS"
| "template_channel_bit (Template_NewTemplate m) = CHANNEL_BIT_NEW_TEMPLATE"
| "template_channel_bit (Template_RequestTransactionData m) = CHANNEL_BIT_REQUEST_TRANSACTION_DATA"
| "template_channel_bit (Template_RequestTransactionDataError m) = CHANNEL_BIT_REQUEST_TRANSACTION_DATA_ERROR"
| "template_channel_bit (Template_RequestTransactionDataSuccess m) = CHANNEL_BIT_REQUEST_TRANSACTION_DATA_SUCCESS"
| "template_channel_bit (Template_SetNewPrevHash m) = CHANNEL_BIT_SET_NEW_PREV_HASH"
| "template_channel_bit (Template_SubmitSolution m) = CHANNEL_BIT_SUBMIT_SOLUTION"

fun template_into_field :: "TemplateDistribution \<Rightarrow> encodable_field" where
  "template_into_field (Template_CoinbaseOutputConstraints m) = CoinbaseOutputConstraints_into_field m"
| "template_into_field (Template_NewTemplate m) = NewTemplate_into_field m"
| "template_into_field (Template_RequestTransactionData m) = RequestTransactionData_into_field m"
| "template_into_field (Template_RequestTransactionDataError m) = RequestTransactionDataError_into_field m"
| "template_into_field (Template_RequestTransactionDataSuccess m) = RequestTransactionDataSuccess_into_field m"
| "template_into_field (Template_SetNewPrevHash m) = SetNewPrevHash_into_field m"
| "template_into_field (Template_SubmitSolution m) = SubmitSolution_into_field m"

fun template_get_size :: "TemplateDistribution \<Rightarrow> nat" where
  "template_get_size (Template_CoinbaseOutputConstraints m) = CoinbaseOutputConstraints_get_size m"
| "template_get_size (Template_NewTemplate m) = NewTemplate_get_size m"
| "template_get_size (Template_RequestTransactionData m) = RequestTransactionData_get_size m"
| "template_get_size (Template_RequestTransactionDataError m) = RequestTransactionDataError_get_size m"
| "template_get_size (Template_RequestTransactionDataSuccess m) = RequestTransactionDataSuccess_get_size m"
| "template_get_size (Template_SetNewPrevHash m) = SetNewPrevHash_get_size m"
| "template_get_size (Template_SubmitSolution m) = SubmitSolution_get_size m"

datatype TemplateDistributionTypes =
    TT_CoinbaseOutputConstraints
  | TT_NewTemplate
  | TT_SetNewPrevHash
  | TT_RequestTransactionData
  | TT_RequestTransactionDataSuccess
  | TT_RequestTransactionDataError
  | TT_SubmitSolution

definition template_types_try_from :: "u8 \<Rightarrow> TemplateDistributionTypes parsed" where
  "template_types_try_from v =
     (if v = MESSAGE_TYPE_COINBASE_OUTPUT_CONSTRAINTS then Ok TT_CoinbaseOutputConstraints
      else if v = MESSAGE_TYPE_NEW_TEMPLATE then Ok TT_NewTemplate
      else if v = MESSAGE_TYPE_SET_NEW_PREV_HASH then Ok TT_SetNewPrevHash
      else if v = MESSAGE_TYPE_REQUEST_TRANSACTION_DATA then Ok TT_RequestTransactionData
      else if v = MESSAGE_TYPE_REQUEST_TRANSACTION_DATA_SUCCESS then Ok TT_RequestTransactionDataSuccess
      else if v = MESSAGE_TYPE_REQUEST_TRANSACTION_DATA_ERROR then Ok TT_RequestTransactionDataError
      else if v = MESSAGE_TYPE_SUBMIT_SOLUTION then Ok TT_SubmitSolution
      else Err (UnexpectedMessage v))"

fun template_decode :: "TemplateDistributionTypes \<Rightarrow> bytes \<Rightarrow> TemplateDistribution parsed" where
  "template_decode TT_CoinbaseOutputConstraints v = map_ok Template_CoinbaseOutputConstraints (map_err BinaryError (CoinbaseOutputConstraints_from_bytes v))"
| "template_decode TT_NewTemplate v = map_ok Template_NewTemplate (map_err BinaryError (NewTemplate_from_bytes v))"
| "template_decode TT_SetNewPrevHash v = map_ok Template_SetNewPrevHash (map_err BinaryError (SetNewPrevHash_from_bytes v))"
| "template_decode TT_RequestTransactionData v = map_ok Template_RequestTransactionData (map_err BinaryError (RequestTransactionData_from_bytes v))"
| "template_decode TT_RequestTransactionDataSuccess v = map_ok Template_RequestTransactionDataSuccess (map_err BinaryError (RequestTransactionDataSuccess_from_bytes v))"
| "template_decode TT_RequestTransactionDataError v = map_ok Template_RequestTransactionDataError (map_err BinaryError (RequestTransactionDataError_from_bytes v))"
| "template_decode TT_SubmitSolution v = map_ok Template_SubmitSolution (map_err BinaryError (SubmitSolution_from_bytes v))"

definition template_try_from :: "u8 \<times> bytes \<Rightarrow> TemplateDistribution parsed" where
  "template_try_from v = rbind (template_types_try_from (fst v)) (\<lambda>msg_type. template_decode msg_type (snd v))"

fun template_wf :: "TemplateDistribution \<Rightarrow> bool" where
  "template_wf (Template_CoinbaseOutputConstraints m) = CoinbaseOutputConstraints_wf m"
| "template_wf (Template_NewTemplate m) = NewTemplate_wf m"
| "template_wf (Template_RequestTransactionData m) = RequestTransactionData_wf m"
| "template_wf (Template_RequestTransactionDataError m) = RequestTransactionDataError_wf m"
| "template_wf (Template_RequestTransactionDataSuccess m) = RequestTransactionDataSuccess_wf m"
| "template_wf (Template_SetNewPrevHash m) = SetNewPrevHash_wf m"
| "template_wf (Template_SubmitSolution m) = SubmitSolution_wf m"

fun template_norm :: "TemplateDistribution \<Rightarrow> TemplateDistribution" where
  "template_norm (Template_CoinbaseOutputConstraints m) = Template_CoinbaseOutputConstraints (CoinbaseOutputConstraints_norm m)"
| "template_norm (Template_NewTemplate m) = Template_NewTemplate (NewTemplate_norm m)"
| "template_norm (Template_RequestTransactionData m) = Template_RequestTransactionData (RequestTransactionData_norm m)"
| "template_norm (Template_RequestTransactionDataError m) = Template_RequestTransactionDataError (RequestTransactionDataError_norm m)"
| "template_norm (Template_RequestTransactionDataSuccess m) = Template_RequestTransactionDataSuccess (RequestTransactionDataSuccess_norm m)"
| "template_norm (Template_SetNewPrevHash m) = Template_SetNewPrevHash (SetNewPrevHash_norm m)"
| "template_norm (Template_SubmitSolution m) = Template_SubmitSolution (SubmitSolution_norm m)"

section \<open>JobDeclaration\<close>

datatype JobDeclaration =
    JobDecl_AllocateMiningJobToken AllocateMiningJobToken
  | JobDecl_AllocateMiningJobTokenSuccess AllocateMiningJobTokenSuccess
  | JobDecl_DeclareMiningJob DeclareMiningJob
  | JobDecl_DeclareMiningJobError DeclareMiningJobError
  | JobDecl_DeclareMiningJobSuccess DeclareMiningJobSuccess
  | JobDecl_ProvideMissingTransactions ProvideMissingTransactions
  | JobDecl_ProvideMissingTransactionsSuccess ProvideMissingTransactionsSuccess
  | JobDecl_PushSolution PushSolution

fun job_declaration_message_type :: "JobDeclaration \<Rightarrow> u8" where
  "job_declaration_message_type (JobDecl_AllocateMiningJobToken m) = MESSAGE_TYPE_ALLOCATE_MINING_JOB_TOKEN"
| "job_declaration_message_type (JobDecl_AllocateMiningJobTokenSuccess m) = MESSAGE_TYPE_ALLOCATE_MINING_JOB_TOKEN_SUCCESS"
| "job_declaration_message_type (JobDecl_DeclareMiningJob m) = MESSAGE_TYPE_DECLARE_MINING_JOB"
| "job_declaration_message_type (JobDecl_DeclareMiningJobError m) = MESSAGE_TYPE_DECLARE_MINING_JOB_ERROR"
| "job_declaration_message_type (JobDecl_DeclareMiningJobSuccess m) = MESSAGE_TYPE_DECLARE_MINING_JOB_SUCCESS"
| "job_declaration_message_type (JobDecl_ProvideMissingTransactions m) = MESSAGE_TYPE_PROVIDE_MISSING_TRANSACTIONS"
| "job_declaration_message_type (JobDecl_ProvideMissingTransactionsSuccess m) = MESSAGE_TYPE_PROVIDE_MISSING_TRANSACTIONS_SUCCESS"
| "job_declaration_message_type (JobDecl_PushSolution m) = MESSAGE_TYPE_PUSH_SOLUTION"

fun job_declaration_channel_bit :: "JobDeclaration \<Rightarrow> bool" where
  "job_declaration_channel_bit (JobDecl_AllocateMiningJobToken m) = CHANNEL_BIT_ALLOCATE_MINING_JOB_TOKEN"
| "job_declaration_channel_bit (JobDecl_AllocateMiningJobTokenSuccess m) = CHANNEL_BIT_ALLOCATE_MINING_JOB_TOKEN_SUCCESS"
| "job_declaration_channel_bit (JobDecl_DeclareMiningJob m) = CHANNEL_BIT_DECLARE_MINING_JOB"
| "job_declaration_channel_bit (JobDecl_DeclareMiningJobError m) = CHANNEL_BIT_DECLARE_MINING_JOB_ERROR"
| "job_declaration_channel_bit (JobDecl_DeclareMiningJobSuccess m) = CHANNEL_BIT_DECLARE_MINING_JOB_SUCCESS"
| "job_declaration_channel_bit (JobDecl_ProvideMissingTransactions m) = CHANNEL_BIT_PROVIDE_MISSING_TRANSACTIONS"
| "job_declaration_channel_bit (JobDecl_ProvideMissingTransactionsSuccess m) = CHANNEL_BIT_PROVIDE_MISSING_TRANSACTIONS_SUCCESS"
| "job_declaration_channel_bit (JobDecl_PushSolution m) = CHANNEL_BIT_SUBMIT_SOLUTION_JD"

fun job_declaration_into_field :: "JobDeclaration \<Rightarrow> encodable_field" where
  "job_declaration_into_field (JobDecl_AllocateMiningJobToken m) = AllocateMiningJobToken_into_field m"
| "job_declaration_into_field (JobDecl_AllocateMiningJobTokenSuccess m) = AllocateMiningJobTokenSuccess_into_field m"
| "job_declaration_into_field (JobDecl_DeclareMiningJob m) = DeclareMiningJob_into_field m"
| "job_declaration_into_field (JobDecl_DeclareMiningJobError m) = DeclareMiningJobError_into_field m"
| "job_declaration_into_field (JobDecl_DeclareMiningJobSuccess m) = DeclareMiningJobSuccess_into_field m"
| "job_declaration_into_field (JobDecl_ProvideMissingTransactions m) = ProvideMissingTransactions_into_field m"
| "job_declaration_into_field (JobDecl_ProvideMissingTransactionsSuccess m) = ProvideMissingTransactionsSuccess_into_field m"
| "job_declaration_into_field (JobDecl_PushSolution m) = PushSolution_into_field m"

fun job_declaration_get_size :: "JobDeclaration \<Rightarrow> nat" where
  "job_declaration_get_size (JobDecl_AllocateMiningJobToken m) = AllocateMiningJobToken_get_size m"
| "job_declaration_get_size (JobDecl_AllocateMiningJobTokenSuccess m) = AllocateMiningJobTokenSuccess_get_size m"
| "job_declaration_get_size (JobDecl_DeclareMiningJob m) = DeclareMiningJob_get_size m"
| "job_declaration_get_size (JobDecl_DeclareMiningJobError m) = DeclareMiningJobError_get_size m"
| "job_declaration_get_size (JobDecl_DeclareMiningJobSuccess m) = DeclareMiningJobSuccess_get_size m"
| "job_declaration_get_size (JobDecl_ProvideMissingTransactions m) = ProvideMissingTransactions_get_size m"
| "job_declaration_get_size (JobDecl_ProvideMissingTransactionsSuccess m) = ProvideMissingTransactionsSuccess_get_size m"
| "job_declaration_get_size (JobDecl_PushSolution m) = PushSolution_get_size m"

datatype JobDeclarationTypes =
    JT_AllocateMiningJobToken
  | JT_AllocateMiningJobTokenSuccess
  | JT_DeclareMiningJob
  | JT_DeclareMiningJobSuccess
  | JT_DeclareMiningJobError
  | JT_ProvideMissingTransactions
  | JT_ProvideMissingTransactionsSuccess
  | JT_PushSolution

definition job_declaration_types_try_from :: "u8 \<Rightarrow> JobDeclarationTypes parsed" where
  "job_declaration_types_try_from v =
     (if v = MESSAGE_TYPE_ALLOCATE_MINING_JOB_TOKEN then Ok JT_AllocateMiningJobToken
      else if v = MESSAGE_TYPE_ALLOCATE_MINING_JOB_TOKEN_SUCCESS then Ok JT_AllocateMiningJobTokenSuccess
      else if v = MESSAGE_TYPE_DECLARE_MINING_JOB then Ok JT_DeclareMiningJob
      else if v = MESSAGE_TYPE_DECLARE_MINING_JOB_SUCCESS then Ok JT_DeclareMiningJobSuccess
      else if v = MESSAGE_TYPE_DECLARE_MINING_JOB_ERROR then Ok JT_DeclareMiningJobError
      else if v = MESSAGE_TYPE_PROVIDE_MISSING_TRANSACTIONS then Ok JT_ProvideMissingTransactions
      else if v = MESSAGE_TYPE_PROVIDE_MISSING_TRANSACTIONS_SUCCESS then Ok JT_ProvideMissingTransactionsSuccess
      else if v = MESSAGE_TYPE_PUSH_SOLUTION then Ok JT_PushSolution
      else Err (UnexpectedMessage v))"

fun job_declaration_decode :: "JobDeclarationTypes \<Rightarrow> bytes \<Rightarrow> JobDeclaration parsed" where
  "job_declaration_decode JT_AllocateMiningJobToken v = map_ok JobDecl_AllocateMiningJobToken (map_err BinaryError (AllocateMiningJobToken_from_bytes v))"
| "job_declaration_decode JT_AllocateMiningJobTokenSuccess v = map_ok JobDecl_AllocateMiningJobTokenSuccess (map_err BinaryError (AllocateMiningJobTokenSuccess_from_bytes v))"
| "job_declaration_decode JT_DeclareMiningJob v = map_ok JobDecl_DeclareMiningJob (map_err BinaryError (DeclareMiningJob_from_bytes v))"
| "job_declaration_decode JT_DeclareMiningJobSuccess v = map_ok JobDecl_DeclareMiningJobSuccess (map_err BinaryError (DeclareMiningJobSuccess_from_bytes v))"
| "job_declaration_decode JT_DeclareMiningJobError v = map_ok JobDecl_DeclareMiningJobError (map_err BinaryError (DeclareMiningJobError_from_bytes v))"
| "job_declaration_decode JT_ProvideMissingTransactions v = map_ok JobDecl_ProvideMissingTransactions (map_err BinaryError (ProvideMissingTransactions_from_bytes v))"
| "job_declaration_decode JT_ProvideMissingTransactionsSuccess v = map_ok JobDecl_ProvideMissingTransactionsSuccess (map_err BinaryError (ProvideMissingTransactionsSuccess_from_bytes v))"
| "job_declaration_decode JT_PushSolution v = map_ok JobDecl_PushSolution (map_err BinaryError (PushSolution_from_bytes v))"

definition job_declaration_try_from :: "u8 \<times> bytes \<Rightarrow> JobDeclaration parsed" where
  "job_declaration_try_from v = rbind (job_declaration_types_try_from (fst v)) (\<lambda>msg_type. job_declaration_decode msg_type (snd v))"

fun job_declaration_wf :: "JobDeclaration \<Rightarrow> bool" where
  "job_declaration_wf (JobDecl_AllocateMiningJobToken m) = AllocateMiningJobToken_wf m"
| "job_declaration_wf (JobDecl_AllocateMiningJobTokenSuccess m) = AllocateMiningJobTokenSuccess_wf m"
| "job_declaration_wf (JobDecl_DeclareMiningJob m) = DeclareMiningJob_wf m"
| "job_declaration_wf (JobDecl_DeclareMiningJobError m) = DeclareMiningJobError_wf m"
| "job_declaration_wf (JobDecl_DeclareMiningJobSuccess m) = DeclareMiningJobSuccess_wf m"
| "job_declaration_wf (JobDecl_ProvideMissingTransactions m) = ProvideMissingTransactions_wf m"
| "job_declaration_wf (JobDecl_ProvideMissingTransactionsSuccess m) = ProvideMissingTransactionsSuccess_wf m"
| "job_declaration_wf (JobDecl_PushSolution m) = PushSolution_wf m"

fun job_declaration_norm :: "JobDeclaration \<Rightarrow> JobDeclaration" where
  "job_declaration_norm (JobDecl_AllocateMiningJobToken m) = JobDecl_AllocateMiningJobToken (AllocateMiningJobToken_norm m)"
| "job_declaration_norm (JobDecl_AllocateMiningJobTokenSuccess m) = JobDecl_AllocateMiningJobTokenSuccess (AllocateMiningJobTokenSuccess_norm m)"
| "job_declaration_norm (JobDecl_DeclareMiningJob m) = JobDecl_DeclareMiningJob (DeclareMiningJob_norm m)"
| "job_declaration_norm (JobDecl_DeclareMiningJobError m) = JobDecl_DeclareMiningJobError (DeclareMiningJobError_norm m)"
| "job_declaration_norm (JobDecl_DeclareMiningJobSuccess m) = JobDecl_DeclareMiningJobSuccess (DeclareMiningJobSuccess_norm m)"
| "job_declaration_norm (JobDecl_ProvideMissingTransactions m) = JobDecl_ProvideMissingTransactions (ProvideMissingTransactions_norm m)"
| "job_declaration_norm (JobDecl_ProvideMissingTransactionsSuccess m) = JobDecl_ProvideMissingTransactionsSuccess (ProvideMissingTransactionsSuccess_norm m)"
| "job_declaration_norm (JobDecl_PushSolution m) = JobDecl_PushSolution (PushSolution_norm m)"

section \<open>Any message\<close>

datatype AnyMessage =
    Any_Common CommonMessages
  | Any_Mining Mining
  | Any_JobDeclaration JobDeclaration
  | Any_TemplateDistribution TemplateDistribution

datatype MiningDeviceMessages = Device_Common CommonMessages | Device_Mining Mining

fun any_message_type :: "AnyMessage \<Rightarrow> u8" where
  "any_message_type (Any_Common m) = common_message_type m"
| "any_message_type (Any_Mining m) = mining_message_type m"
| "any_message_type (Any_JobDeclaration m) = job_declaration_message_type m"
| "any_message_type (Any_TemplateDistribution m) = template_message_type m"

fun any_channel_bit :: "AnyMessage \<Rightarrow> bool" where
  "any_channel_bit (Any_Common m) = common_channel_bit m"
| "any_channel_bit (Any_Mining m) = mining_channel_bit m"
| "any_channel_bit (Any_JobDeclaration m) = job_declaration_channel_bit m"
| "any_channel_bit (Any_TemplateDistribution m) = template_channel_bit m"

fun any_into_field :: "AnyMessage \<Rightarrow> encodable_field" where
  "any_into_field (Any_Common m) = common_into_field m"
| "any_into_field (Any_Mining m) = mining_into_field m"
| "any_into_field (Any_JobDeclaration m) = job_declaration_into_field m"
| "any_into_field (Any_TemplateDistribution m) = template_into_field m"

fun any_get_size :: "AnyMessage \<Rightarrow> nat" where
  "any_get_size (Any_Common m) = common_get_size m"
| "any_get_size (Any_Mining m) = mining_get_size m"
| "any_get_size (Any_JobDeclaration m) = job_declaration_get_size m"
| "any_get_size (Any_TemplateDistribution m) = template_get_size m"

fun any_wf :: "AnyMessage \<Rightarrow> bool" where
  "any_wf (Any_Common m) = common_wf m"
| "any_wf (Any_Mining m) = mining_wf m"
| "any_wf (Any_JobDeclaration m) = job_declaration_wf m"
| "any_wf (Any_TemplateDistribution m) = template_wf m"

fun any_norm :: "AnyMessage \<Rightarrow> AnyMessage" where
  "any_norm (Any_Common m) = Any_Common (common_norm m)"
| "any_norm (Any_Mining m) = Any_Mining (mining_norm m)"
| "any_norm (Any_JobDeclaration m) = Any_JobDeclaration (job_declaration_norm m)"
| "any_norm (Any_TemplateDistribution m) = Any_TemplateDistribution (template_norm m)"

definition any_try_from :: "u8 \<times> bytes \<Rightarrow> AnyMessage parsed" where
  "any_try_from v =
     (case (common_types_try_from (fst v), mining_types_try_from (fst v),
            job_declaration_types_try_from (fst v), template_types_try_from (fst v)) of
        (Ok _, Err _, Err _, Err _) \<Rightarrow> map_ok Any_Common (common_try_from v)
      | (Err _, Ok _, Err _, Err _) \<Rightarrow> map_ok Any_Mining (mining_try_from v)
      | (Err _, Err _, Ok _, Err _) \<Rightarrow> map_ok Any_JobDeclaration (job_declaration_try_from v)
      | (Err _, Err _, Err _, Ok _) \<Rightarrow> map_ok Any_TemplateDistribution (template_try_from v)
      | (Err e, Err _, Err _, Err _) \<Rightarrow> Err e
      | _ \<Rightarrow> Panic)"

definition device_try_from :: "u8 \<times> bytes \<Rightarrow> MiningDeviceMessages parsed" where
  "device_try_from v =
     (case (common_types_try_from (fst v), mining_types_try_from (fst v)) of
        (Ok _, Err _) \<Rightarrow> map_ok Device_Common (common_try_from v)
      | (Err _, Ok _) \<Rightarrow> map_ok Device_Mining (mining_try_from v)
      | (Err e, Err _) \<Rightarrow> Err e
      | _ \<Rightarrow> Panic)"

definition device_try_from_any :: "AnyMessage \<Rightarrow> MiningDeviceMessages parsed" where
  "device_try_from_any value =
     (case value of
        Any_Common m \<Rightarrow> Ok (Device_Common m)
      | Any_Mining m \<Rightarrow> Ok (Device_Mining m)
      | Any_JobDeclaration _ \<Rightarrow> Err UnexpectedPoolMessage
      | Any_TemplateDistribution _ \<Rightarrow> Err UnexpectedPoolMessage)"

fun any_from_device :: "MiningDeviceMessages \<Rightarrow> AnyMessage" where
  "any_from_device (Device_Common m) = Any_Common m"
| "any_from_device (Device_Mining m) = Any_Mining m"

definition any_frame :: "AnyMessage \<Rightarrow> AnyMessage Sv2Frame parsed" where
  "any_frame v =
     ok_or BadPayloadSize
       (frame_from_message any_get_size v (any_message_type v) 0 (any_channel_bit v))"

section \<open>Every message is parsed back\<close>

fun mining_extension :: "Mining \<Rightarrow> bool" where
  "mining_extension (Mining_MintQuoteNotification m) = True"
| "mining_extension (Mining_MintQuoteFailure m) = True"
| "mining_extension _ = False"

lemma mining_types_of_message:
  "mining_wf m \<Longrightarrow> \<not> mining_extension m \<Longrightarrow>
   \<exists>t. mining_types_try_from (mining_message_type m) = Ok t \<and>
       mining_decode t (field_wire (mining_into_field m) @ post) = Ok (mining_norm m)"
  by (cases m) (simp_all add: mining_types_try_from_def message_type_defs mining_messages_from_bytes)

lemma mining_try_from_wire:
  "mining_wf m \<Longrightarrow> \<not> mining_extension m \<Longrightarrow>
   mining_try_from (mining_message_type m, field_wire (mining_into_field m) @ post) =
     Ok (mining_norm m)"
  using mining_types_of_message [of m post] by (auto simp: mining_try_from_def)

lemma common_try_from_wire:
  "common_wf m \<Longrightarrow>
   common_try_from (common_message_type m, field_wire (common_into_field m) @ post) =
     Ok (common_norm m)"
  by (cases m) (simp_all add: common_try_from_def common_types_try_from_def message_type_defs
    protocol_messages_from_bytes)

lemma template_try_from_wire:
  "template_wf m \<Longrightarrow>
   template_try_from (template_message_type m, field_wire (template_into_field m) @ post) =
     Ok (template_norm m)"
  by (cases m) (simp_all add: template_try_from_def template_types_try_from_def message_type_defs
    protocol_messages_from_bytes)

lemma job_declaration_try_from_wire:
  "job_declaration_wf m \<Longrightarrow>
   job_declaration_try_from (job_declaration_message_type m,
     field_wire (job_declaration_into_field m) @ post) = Ok (job_declaration_norm m)"
  by (cases m) (simp_all add: job_declaration_try_from_def job_declaration_types_try_from_def
    message_type_defs protocol_messages_from_bytes)

lemma mining_field_ok:
  "mining_wf m \<Longrightarrow> field_wf (mining_into_field m) \<and> mining_get_size m = field_get_size (mining_into_field m)"
  by (cases m) (simp_all add: mining_messages_field_ok mining_messages_get_size)

lemma common_field_ok:
  "common_wf m \<Longrightarrow> field_wf (common_into_field m) \<and> common_get_size m = field_get_size (common_into_field m)"
  by (cases m) (simp_all add: protocol_messages_field_ok protocol_messages_get_size)

lemma template_field_ok:
  "template_wf m \<Longrightarrow>
   field_wf (template_into_field m) \<and> template_get_size m = field_get_size (template_into_field m)"
  by (cases m) (simp_all add: protocol_messages_field_ok protocol_messages_get_size)

lemma job_declaration_field_ok:
  "job_declaration_wf m \<Longrightarrow>
   field_wf (job_declaration_into_field m) \<and>
   job_declaration_get_size m = field_get_size (job_declaration_into_field m)"
  by (cases m) (simp_all add: protocol_messages_field_ok protocol_messages_get_size)

lemma any_field_ok:
  "any_wf m \<Longrightarrow> field_wf (any_into_field m) \<and> any_get_size m = field_get_size (any_into_field m)"
  by (cases m)
    (simp_all add: common_field_ok mining_field_ok job_declaration_field_ok template_field_ok)

section \<open>Message types do not overlap\<close>

lemma types_try_from_cases:
  "common_types_try_from v = Ok c \<Longrightarrow>
     mining_types_try_from v = Err (UnexpectedMessage v) \<and>
     job_declaration_types_try_from v = Err (UnexpectedMessage v) \<and>
     template_types_try_from v = Err (UnexpectedMessage v)"
  "mining_types_try_from v = Ok t \<Longrightarrow>
     common_types_try_from v = Err (UnexpectedMessage v) \<and>
     job_declaration_types_try_from v = Err (UnexpectedMessage v) \<and>
     template_types_try_from v = Err (UnexpectedMessage v)"
  "job_declaration_types_try_from v = Ok j \<Longrightarrow>
     common_types_try_from v = Err (UnexpectedMessage v) \<and>
     mining_types_try_from v = Err (UnexpectedMessage v) \<and>
     template_types_try_from v = Err (UnexpectedMessage v)"
  "template_types_try_from v = Ok d \<Longrightarrow>
     common_types_try_from v = Err (UnexpectedMessage v) \<and>
     mining_types_try_from v = Err (UnexpectedMessage v) \<and>
     job_declaration_types_try_from v = Err (UnexpectedMessage v)"
  by (auto simp: common_types_try_from_def mining_types_try_from_def
    job_declaration_types_try_from_def template_types_try_from_def message_type_defs split: if_splits)

lemma types_try_from_Err:
  "common_types_try_from v = Err e \<Longrightarrow> e = UnexpectedMessage v"
  "mining_types_try_from v = Err e \<Longrightarrow> e = UnexpectedMessage v"
  "job_declaration_types_try_from v = Err e \<Longrightarrow> e = UnexpectedMessage v"
  "template_types_try_from v = Err e \<Longrightarrow> e = UnexpectedMessage v"
  by (auto simp: common_types_try_from_def mining_types_try_from_def
    job_declaration_types_try_from_def template_types_try_from_def split: if_splits)

lemma types_try_from_no_panic:
  "common_types_try_from v \<noteq> Panic" "mining_types_try_from v \<noteq> Panic"
  "job_declaration_types_try_from v \<noteq> Panic" "template_types_try_from v \<noteq> Panic"
  by (auto simp: common_types_try_from_def mining_types_try_from_def
    job_declaration_types_try_from_def template_types_try_from_def)

lemma any_try_from_common:
  "common_types_try_from (fst v) = Ok c \<Longrightarrow> any_try_from v = map_ok Any_Common (common_try_from v)"
  by (simp add: any_try_from_def types_try_from_cases(1))

lemma any_try_from_mining:
  "mining_types_try_from (fst v) = Ok t \<Longrightarrow> any_try_from v = map_ok Any_Mining (mining_try_from v)"
  by (simp add: any_try_from_def types_try_from_cases(2))

lemma any_try_from_job_declaration:
  "job_declaration_types_try_from (fst v) = Ok j \<Longrightarrow>
   any_try_from v = map_ok Any_JobDeclaration (job_declaration_try_from v)"
  by (simp add: any_try_from_def types_try_from_cases(3))

lemma any_try_from_template:
  "template_types_try_from (fst v) = Ok d \<Longrightarrow>
   any_try_from v = map_ok Any_TemplateDistribution (template_try_from v)"
  by (simp add: any_try_from_def types_try_from_cases(4))

lemma any_try_from_unknown:
  "common_types_try_from (fst v) = Err a \<Longrightarrow> mining_types_try_from (fst v) = Err b \<Longrightarrow>
   job_declaration_types_try_from (fst v) = Err c \<Longrightarrow> template_types_try_from (fst v) = Err d \<Longrightarrow>
   any_try_from v = Err (UnexpectedMessage (fst v))"
  by (simp add: any_try_from_def types_try_from_Err)

section \<open>Parsing any message\<close>

lemma not_panic_cases: "r \<noteq> Panic \<Longrightarrow> (\<exists>x. r = Ok x) \<or> (\<exists>e. r = Err e)"
  by (cases r) auto

lemma types_of_message:
  "\<exists>c. common_types_try_from (common_message_type x) = Ok c"
  "\<not> mining_extension y \<Longrightarrow> \<exists>t. mining_types_try_from (mining_message_type y) = Ok t"
  "\<exists>j. job_declaration_types_try_from (job_declaration_message_type z) = Ok j"
  "\<exists>d. template_types_try_from (template_message_type w) = Ok d"
     apply (cases x; simp add: common_types_try_from_def message_type_defs)
    apply (cases y; simp add: mining_types_try_from_def message_type_defs)
   apply (cases z; simp add: job_declaration_types_try_from_def message_type_defs)
  apply (cases w; simp add: template_types_try_from_def message_type_defs)
  done

fun any_extension :: "AnyMessage \<Rightarrow> bool" where
  "any_extension (Any_Mining m) = mining_extension m"
| "any_extension _ = False"

lemma any_try_from_wire:
  assumes "any_wf m" and "\<not> any_extension m"
  shows "any_try_from (any_message_type m, field_wire (any_into_field m) @ post) = Ok (any_norm m)"
proof (cases m)
  case (Any_Common x)
  then show ?thesis
    using assms types_of_message(1) [of x]
    by (auto simp: any_try_from_common common_try_from_wire)
next
  case (Any_Mining x)
  then show ?thesis
    using assms types_of_message(2) [of x] by (auto simp: any_try_from_mining mining_try_from_wire)
next
  case (Any_JobDeclaration x)
  then show ?thesis
    using assms types_of_message(3) [of x]
    by (auto simp: any_try_from_job_declaration job_declaration_try_from_wire)
next
  case (Any_TemplateDistribution x)
  then show ?thesis
    using assms types_of_message(4) [of x] by (auto simp: any_try_from_template template_try_from_wire)
qed

section \<open>Properties\<close>





text \<open>C29: The branch of the parser of any message that panics because two subprotocols claim the
  same message type is unreachable: parsing panics only where the decoder of the one
  subprotocol that owns the type panics.\<close>

theorem any_try_from_dispatch:
  "any_try_from v =
     (if \<exists>c. common_types_try_from (fst v) = Ok c then map_ok Any_Common (common_try_from v)
      else if \<exists>t. mining_types_try_from (fst v) = Ok t then map_ok Any_Mining (mining_try_from v)
      else if \<exists>j. job_declaration_types_try_from (fst v) = Ok j
        then map_ok Any_JobDeclaration (job_declaration_try_from v)
      else if \<exists>d. template_types_try_from (fst v) = Ok d
        then map_ok Any_TemplateDistribution (template_try_from v)
      else Err (UnexpectedMessage (fst v)))"
proof -
  consider c where "common_types_try_from (fst v) = Ok c"
    | t where "mining_types_try_from (fst v) = Ok t"
    | j where "job_declaration_types_try_from (fst v) = Ok j"
    | d where "template_types_try_from (fst v) = Ok d"
    | "(\<exists>a. common_types_try_from (fst v) = Err a)" "(\<exists>b. mining_types_try_from (fst v) = Err b)"
      "(\<exists>c. job_declaration_types_try_from (fst v) = Err c)"
      "(\<exists>d. template_types_try_from (fst v) = Err d)"
    using not_panic_cases [OF types_try_from_no_panic(1) [of "fst v"]]
      not_panic_cases [OF types_try_from_no_panic(2) [of "fst v"]]
      not_panic_cases [OF types_try_from_no_panic(3) [of "fst v"]]
      not_panic_cases [OF types_try_from_no_panic(4) [of "fst v"]] by (elim disjE exE) blast+
  then show ?thesis
  proof cases
    case (1 c)
    then show ?thesis by (auto simp: any_try_from_common)
  next
    case (2 t)
    then show ?thesis using types_try_from_cases(2) [OF 2] by (auto simp: any_try_from_mining)
  next
    case (3 j)
    then show ?thesis using types_try_from_cases(3) [OF 3] by (auto simp: any_try_from_job_declaration)
  next
    case (4 d)
    then show ?thesis using types_try_from_cases(4) [OF 4] by (auto simp: any_try_from_template)
  next
    case 5
    then show ?thesis using any_try_from_unknown [of v] by auto
  qed
qed

end
