(* ===== verification/Pool.thy ===== *)
theory Pool
  imports Extended_Channel Group_Channel Mint_Messaging Parsers "HOL-Library.AList"
begin

text \<open>
  The pool's side of one connection (src/roles/pool/src/lib): the record \<open>Downstream\<close> of
  mining\_pool/mod.rs, the handlers of mining\_pool/message\_handler.rs, what a new template and a new
  chain tip do to a connection (mining\_pool/mod.rs), the minimum difficulty of share\_validation.rs,
  and the channel contexts of mining\_pool/mint\_integration.rs with the dispatch of quotes.

  A hash map from channel ids is an association list with distinct keys; its order stands for the
  unspecified order in which the code iterates.  Locks are not modelled: they are only poisoned by a
  panic.  The extranonce factories are shared by all connections and passed in and out.  The clock of
  \<open>VardiffState::new\<close> is an argument (\<open>None\<close> before 1970), and so is the answer of \<open>try_send\<close> on the channel
  to the template provider.  Tasks handed to \<open>tokio::spawn\<close> are returned as values of \<open>pool_task\<close>.
  Statistics are not modelled.
\<close>

section \<open>share\_validation.rs\<close>

fun count_leading_zero_bits_loop :: "bytes \<Rightarrow> u32 \<Rightarrow> u32" where
  "count_leading_zero_bits_loop [] bits = bits"
| "count_leading_zero_bits_loop (b # bs) bits =
     (if b = 0 then count_leading_zero_bits_loop bs (bits + 8)
      else bits + of_nat (leading_zeros b))"

definition count_leading_zero_bits :: "bytes \<Rightarrow> u32" where
  "count_leading_zero_bits h = count_leading_zero_bits_loop h 0"

text \<open>The error text only reports the two numbers.\<close>

definition validate_share_difficulty :: "bytes \<Rightarrow> u32 option \<Rightarrow> (unit, u32 \<times> u32) result" where
  "validate_share_difficulty h minimum_bits =
     (case minimum_bits of
        None \<Rightarrow> Ok ()
      | Some min_bits \<Rightarrow>
          let zeros = count_leading_zero_bits h in
          if zeros < min_bits then Err (zeros, min_bits) else Ok ())"

section \<open>mint\_integration.rs\<close>

record ChannelContext =
  ctx_channel_id :: u32
  ctx_locking_key_bytes :: "bytes option"
  ctx_downstream_id :: u32

type_synonym channel_contexts = "(u32, ChannelContext) mapping"

definition register_channel :: "u32 \<Rightarrow> bytes option \<Rightarrow> u32 \<Rightarrow> channel_contexts \<Rightarrow> channel_contexts" where
  "register_channel channel_id locking_key downstream_id contexts =
     Mapping.update channel_id
       \<lparr>ctx_channel_id = channel_id, ctx_locking_key_bytes = locking_key, ctx_downstream_id = downstream_id\<rparr>
       contexts"

definition unregister_channel :: "u32 \<Rightarrow> channel_contexts \<Rightarrow> channel_contexts" where
  "unregister_channel channel_id contexts = Mapping.delete channel_id contexts"

definition get_channel_context :: "u32 \<Rightarrow> channel_contexts \<Rightarrow> ChannelContext option" where
  "get_channel_context channel_id contexts = Mapping.lookup contexts channel_id"

section \<open>The connection\<close>

record VardiffState =
  shares_since_last_update :: u32
  timestamp_of_last_update :: u64
  min_allowed_hashrate :: u32

definition vardiff_new_with_min :: "u64 option \<Rightarrow> u32 \<Rightarrow> (VardiffState, unit) result" where
  "vardiff_new_with_min clock minimum =
     (case clock of
        Some now \<Rightarrow> Ok \<lparr>shares_since_last_update = 0, timestamp_of_last_update = now,
          min_allowed_hashrate = minimum\<rparr>
      | None \<Rightarrow> Err ())"

definition DEFAULT_MIN_HASHRATE :: u32 where "DEFAULT_MIN_HASHRATE = 0x3F800000"

definition vardiff_new :: "u64 option \<Rightarrow> (VardiffState, unit) result" where
  "vardiff_new clock = vardiff_new_with_min clock DEFAULT_MIN_HASHRATE"

definition increment_shares_since_last_update :: "VardiffState \<Rightarrow> VardiffState" where
  "increment_shares_since_last_update v = v\<lparr>shares_since_last_update := shares_since_last_update v + 1\<rparr>"

record Downstream =
  ds_id :: u32
  requires_standard_jobs :: bool
  requires_custom_work :: bool
  quote_dispatcher :: "QuoteDispatcher option"
  locking_key_bytes :: "bytes option"
  channel_id_factory :: u32
  extended_channels :: "(u32 \<times> ExtendedChannel) list"
  standard_channels :: "(u32 \<times> StandardChannel) list"
  vardiff :: "(u32 \<times> VardiffState) list"
  group_channel :: "GroupChannel option"
  ds_share_batch_size :: nat
  shares_per_minute :: u32
  last_future_template :: NewTemplate
  last_new_prev_hash :: SetNewPrevHash
  coinbase_reward_script :: bytes
  ds_pool_tag_string :: bytes
  minimum_share_difficulty_bits :: "u32 option"
  min_downstream_hashrate :: "u32 option"

datatype PoolError =
    InvalidUserIdentity
  | ExtranoncePrefixFactoryError ExtendedExtranonceError
  | FailedToProcessNewTemplateGroupChannel GroupChannelError
  | FailedToProcessSetNewPrevHashGroupChannel GroupChannelError
  | FailedToCreateStandardChannel StandardChannelError
  | FailedToCreateExtendedChannel ExtendedChannelError
  | FailedToUpdateStandardChannel StandardChannelError
  | FailedToUpdateExtendedChannel ExtendedChannelError
  | FailedToProcessNewTemplateStandardChannel StandardChannelError
  | FailedToProcessNewTemplateExtendedChannel ExtendedChannelError
  | FailedToProcessGroupChannelJob StandardChannelError
  | FailedToProcessSetNewPrevHashStandardChannel StandardChannelError
  | FailedToProcessSetNewPrevHashExtendedChannel ExtendedChannelError
  | FailedToSetCustomMiningJob ExtendedChannelError
  | FailedToDeserializeCoinbaseOutputs
  | FailedToSendSolution
  | Pool_Binary sv2_error
  | Pool_Vardiff

datatype SendTo = Respond Mining | Multiple "Mining list" | SendNone

datatype pool_task =
    DispatchQuote u32 u32 bytes "bytes option"
  | RegisterChannel u32 bytes u32

definition error_code :: "string \<Rightarrow> inner" where
  "error_code s = Owned (map (\<lambda>c. of_nat (of_char c)) s)"

definition id_factory_next :: "u32 \<Rightarrow> u32 \<times> u32" where
  "id_factory_next state = (state + 1, state + 1)"

text \<open>The state a handler works on: the connection, the shared factories, the tasks it has spawned and the
  solutions it has sent.\<close>

record pool_state =
  ps_downstream :: Downstream
  ps_factory_extended :: ExtendedExtranonce
  ps_factory_standard :: ExtendedExtranonce
  ps_tasks :: "pool_task list"
  ps_solutions :: "SubmitSolution list"

section \<open>Submitted shares\<close>

definition submit_shares_error :: "u32 \<Rightarrow> u32 \<Rightarrow> string \<Rightarrow> SendTo" where
  "submit_shares_error channel_id sequence_number code =
     Respond (Mining_SubmitSharesError \<lparr>sserr_channel_id = channel_id,
       sserr_sequence_number = sequence_number, sserr_error_code = error_code code\<rparr>)"

definition validate_minimum_share_difficulty :: "bytes \<Rightarrow> u32 option \<Rightarrow> u32 \<Rightarrow> u32 \<Rightarrow> SendTo option" where
  "validate_minimum_share_difficulty header_hash minimum_bits channel_id sequence_number =
     (case minimum_bits of
        Some min_bits \<Rightarrow>
          (case validate_share_difficulty header_hash (Some min_bits) of
             Err _ \<Rightarrow> Some (submit_shares_error channel_id sequence_number ''share-difficulty-too-low'')
           | _ \<Rightarrow> None)
      | None \<Rightarrow> None)"

definition send_share_quote_request :: "u32 \<Rightarrow> u32 \<Rightarrow> bytes \<Rightarrow> pool_state \<Rightarrow> pool_state" where
  "send_share_quote_request channel_id sequence_number header_hash ps =
     (case quote_dispatcher (ps_downstream ps) of
        Some _ \<Rightarrow> ps\<lparr>ps_tasks := ps_tasks ps @
          [DispatchQuote channel_id sequence_number header_hash (locking_key_bytes (ps_downstream ps))]\<rparr>
      | None \<Rightarrow> ps)"

fun share_error_code :: "ShareValidationError \<Rightarrow> string option" where
  "share_error_code Invalid = Some ''invalid-share''"
| "share_error_code Stale = Some ''stale-share''"
| "share_error_code InvalidJobId = Some ''invalid-job-id''"
| "share_error_code DoesNotMeetTarget = Some ''difficulty-too-low''"
| "share_error_code DuplicateShare = Some ''duplicate-share''"
| "share_error_code _ = None"

text \<open>The part the two handlers repeat: the answer to a judged share.  An error code of \<open>None\<close> is the
  branch marked unreachable.\<close>

definition answer_share ::
  "(SubmitSolution \<Rightarrow> bool) \<Rightarrow> u32 \<Rightarrow> u32 \<Rightarrow> u32 \<Rightarrow> u32 \<Rightarrow> u32 \<Rightarrow> ShareAccounting \<Rightarrow>
   (ShareValidationResult, ShareValidationError) result \<Rightarrow> pool_state \<Rightarrow>
   (SendTo, PoolError) result \<times> pool_state" where
  "answer_share try_send channel_id sequence_number version ntime nonce accounting res ps =
     (case res of
        Ok (Valid s) \<Rightarrow>
          let header_hash = header_hash_bytes s in
          (case validate_minimum_share_difficulty header_hash
                  (minimum_share_difficulty_bits (ps_downstream ps)) channel_id sequence_number of
             Some error_response \<Rightarrow> (Ok error_response, ps)
           | None \<Rightarrow> (Ok SendNone, send_share_quote_request channel_id sequence_number header_hash ps))
      | Ok (ValidWithAcknowledgement s last_sequence_number accepted_count shares_sum) \<Rightarrow>
          let header_hash = header_hash_bytes s in
          (case validate_minimum_share_difficulty header_hash
                  (minimum_share_difficulty_bits (ps_downstream ps)) channel_id sequence_number of
             Some error_response \<Rightarrow> (Ok error_response, ps)
           | None \<Rightarrow>
               (Ok (Respond (Mining_SubmitSharesSuccess \<lparr>ssok_channel_id = channel_id,
                  ssok_last_sequence_number = last_sequence_number,
                  ssok_new_submits_accepted_count = accepted_count, ssok_new_shares_sum = shares_sum\<rparr>)),
                send_share_quote_request channel_id sequence_number header_hash ps))
      | Ok (BlockFound s template_id coinbase_bytes) \<Rightarrow>
          let ps = send_share_quote_request channel_id sequence_number (header_hash_bytes s) ps;
              success = Respond (Mining_SubmitSharesSuccess \<lparr>ssok_channel_id = channel_id,
                ssok_last_sequence_number = last_share_sequence_number accounting,
                ssok_new_submits_accepted_count = shares_accepted accounting,
                ssok_new_shares_sum = share_work_sum accounting\<rparr>) in
          (case template_id of
             None \<Rightarrow> (Ok success, ps)
           | Some template_id \<Rightarrow>
               or_return (map_err Pool_Binary (inner_try_from_vec B064K coinbase_bytes)) ps (\<lambda>coinbase_tx.
                 let solution = \<lparr>sol_template_id = template_id, sol_version = version,
                   sol_header_timestamp = ntime, sol_header_nonce = nonce, sol_coinbase_tx = coinbase_tx\<rparr> in
                 if try_send solution then (Ok success, ps\<lparr>ps_solutions := ps_solutions ps @ [solution]\<rparr>)
                 else (Err FailedToSendSolution, ps)))
      | Err e \<Rightarrow>
          (case share_error_code e of
             Some code \<Rightarrow> (Ok (submit_shares_error channel_id sequence_number code), ps)
           | None \<Rightarrow> (Panic, ps))
      | Panic \<Rightarrow> (Panic, ps))"

definition handle_submit_shares_standard ::
  "bitcoin \<Rightarrow> (SubmitSolution \<Rightarrow> bool) \<Rightarrow> SubmitSharesStandard \<Rightarrow> pool_state \<Rightarrow>
   (SendTo, PoolError) result \<times> pool_state" where
  "handle_submit_shares_standard btc try_send m ps =
     (let ds = ps_downstream ps; channel_id = sss_channel_id m in
      case map_of (standard_channels ds) channel_id of
        None \<Rightarrow> (Ok (submit_shares_error channel_id (sss_sequence_number m) ''invalid-channel-id''), ps)
      | Some ch \<Rightarrow>
          (case map_of (vardiff ds) channel_id of
             None \<Rightarrow> (Panic, ps)
           | Some v \<Rightarrow>
               (case std_validate_share btc m ch of (res, ch) \<Rightarrow>
                  let ps = ps\<lparr>ps_downstream := ds
                        \<lparr>standard_channels := AList.update channel_id ch (standard_channels ds),
                         vardiff := AList.update channel_id (increment_shares_since_last_update v) (vardiff ds)\<rparr>\<rparr> in
                  answer_share try_send channel_id (sss_sequence_number m) (sss_version m) (sss_ntime m)
                    (sss_nonce m) (sc_share_accounting ch) res ps)))"

definition handle_submit_shares_extended ::
  "bitcoin \<Rightarrow> (SubmitSolution \<Rightarrow> bool) \<Rightarrow> SubmitSharesExtended \<Rightarrow> pool_state \<Rightarrow>
   (SendTo, PoolError) result \<times> pool_state" where
  "handle_submit_shares_extended btc try_send m ps =
     (let ds = ps_downstream ps; channel_id = sse_channel_id m in
      case map_of (extended_channels ds) channel_id of
        None \<Rightarrow> (Ok (submit_shares_error channel_id (sse_sequence_number m) ''invalid-channel-id''), ps)
      | Some ch \<Rightarrow>
          (case map_of (vardiff ds) channel_id of
             None \<Rightarrow> (Panic, ps)
           | Some v \<Rightarrow>
               (case ext_validate_share btc m ch of (res, ch) \<Rightarrow>
                  let ps = ps\<lparr>ps_downstream := ds
                        \<lparr>extended_channels := AList.update channel_id ch (extended_channels ds),
                         vardiff := AList.update channel_id (increment_shares_since_last_update v) (vardiff ds)\<rparr>\<rparr> in
                  answer_share try_send channel_id (sse_sequence_number m) (sse_version m) (sse_ntime m)
                    (sse_nonce m) (ec_share_accounting ch) res ps)))"

section \<open>Custom jobs, updates and closing\<close>

definition custom_job_error :: "SetCustomMiningJob \<Rightarrow> string \<Rightarrow> SendTo" where
  "custom_job_error m code =
     Respond (Mining_SetCustomMiningJobError \<lparr>scmje_channel_id = scmj_channel_id m,
       scmje_request_id = scmj_request_id m, scmje_error_code = error_code code\<rparr>)"

definition handle_set_custom_mining_job ::
  "bitcoin \<Rightarrow> SetCustomMiningJob \<Rightarrow> pool_state \<Rightarrow> (SendTo, PoolError) result \<times> pool_state" where
  "handle_set_custom_mining_job btc m ps =
     (let ds = ps_downstream ps in
      or_return (ok_or FailedToDeserializeCoinbaseOutputs
        (decode_outputs btc (inner_as_ref (scmj_coinbase_tx_outputs m)))) ps (\<lambda>(outputs, _).
      if \<not> list_ex (\<lambda>out. script_pubkey out = coinbase_reward_script ds) outputs
      then (Ok (custom_job_error m ''pool-payout-script-missing''), ps)
      else
        case map_of (extended_channels ds) (scmj_channel_id m) of
          None \<Rightarrow> (Ok (custom_job_error m ''invalid-channel-id''), ps)
        | Some ch \<Rightarrow>
            (case ext_on_set_custom_mining_job btc m ch of (r, ch) \<Rightarrow>
               let ps = ps\<lparr>ps_downstream := ds\<lparr>extended_channels :=
                     AList.update (scmj_channel_id m) ch (extended_channels ds)\<rparr>\<rparr> in
               or_return (map_err FailedToSetCustomMiningJob r) ps (\<lambda>job_id.
                 (Ok (Respond (Mining_SetCustomMiningJobSuccess \<lparr>scmjs_channel_id = scmj_channel_id m,
                    scmjs_request_id = scmj_request_id m, scmjs_job_id = job_id\<rparr>)), ps)))))"

definition handle_close_channel :: "CloseChannel \<Rightarrow> pool_state \<Rightarrow> (SendTo, PoolError) result \<times> pool_state" where
  "handle_close_channel m ps =
     (let ds = ps_downstream ps; channel_id = cc_channel_id m in
      (Ok SendNone, ps\<lparr>ps_downstream := ds
         \<lparr>extended_channels := AList.delete channel_id (extended_channels ds),
          standard_channels := AList.delete channel_id (standard_channels ds),
          vardiff := AList.delete channel_id (vardiff ds)\<rparr>\<rparr>))"

definition update_channel_error :: "u32 \<Rightarrow> string \<Rightarrow> SendTo" where
  "update_channel_error channel_id code =
     Respond (Mining_UpdateChannelError \<lparr>uce_channel_id = channel_id, uce_error_code = error_code code\<rparr>)"

definition set_target_message :: "u32 \<Rightarrow> Target \<Rightarrow> (SendTo, PoolError) result" where
  "set_target_message channel_id target =
     rbind (expect (u256_from_target target)) (\<lambda>u.
       Ok (Respond (Mining_SetTarget \<lparr>st_channel_id = channel_id, st_maximum_target = u\<rparr>)))"

definition handle_update_channel :: "UpdateChannel \<Rightarrow> pool_state \<Rightarrow> (SendTo, PoolError) result \<times> pool_state" where
  "handle_update_channel m ps =
     (let ds = ps_downstream ps; channel_id = uc_channel_id m in
      case map_of (standard_channels ds) channel_id of
        Some ch \<Rightarrow>
          or_return (target_from_u256 (uc_maximum_target m)) ps (\<lambda>max_target.
          case std_update_channel (uc_nominal_hash_rate m) (Some max_target) ch of (r, ch) \<Rightarrow>
            let ps = ps\<lparr>ps_downstream := ds\<lparr>standard_channels := AList.update channel_id ch (standard_channels ds)\<rparr>\<rparr> in
            (case r of
               Ok _ \<Rightarrow> (set_target_message channel_id (sc_target ch), ps)
             | Err e \<Rightarrow>
                 (if e = StandardChannelError.InvalidNominalHashrate
                  then (Ok (update_channel_error channel_id ''invalid-nominal-hashrate''), ps)
                  else if e = StandardChannelError.RequestedMaxTargetOutOfRange
                  then (Ok (update_channel_error channel_id ''requested-max-target-out-of-range''), ps)
                  else (Err (FailedToUpdateStandardChannel e), ps))
             | Panic \<Rightarrow> (Panic, ps)))
      | None \<Rightarrow>
          (case map_of (extended_channels ds) channel_id of
             Some ch \<Rightarrow>
               or_return (target_from_u256 (uc_maximum_target m)) ps (\<lambda>max_target.
               case ext_update_channel (uc_nominal_hash_rate m) (Some max_target) ch of (r, ch) \<Rightarrow>
                 let ps = ps\<lparr>ps_downstream := ds\<lparr>extended_channels := AList.update channel_id ch (extended_channels ds)\<rparr>\<rparr> in
                 (case r of
                    Ok _ \<Rightarrow> (set_target_message channel_id (ec_target ch), ps)
                  | Err e \<Rightarrow>
                      (if e = ExtendedChannelError.InvalidNominalHashrate
                       then (Ok (update_channel_error channel_id ''invalid-nominal-hashrate''), ps)
                       else if e = ExtendedChannelError.RequestedMaxTargetOutOfRange
                       then (Ok (update_channel_error channel_id ''max-target-out-of-range''), ps)
                       else (Err (FailedToUpdateExtendedChannel e), ps))
                  | Panic \<Rightarrow> (Panic, ps)))
           | None \<Rightarrow> (Ok (update_channel_error channel_id ''invalid-channel-id''), ps)))"

section \<open>Opening channels\<close>

text \<open>\<open>std::str::from_utf8\<close>.\<close>

fun is_utf8 :: "bytes \<Rightarrow> bool" where
  "is_utf8 [] = True"
| "is_utf8 (b # bs) =
     (case utf8_tail b of
        None \<Rightarrow> False
      | Some rs \<Rightarrow> utf8_matched rs bs = length rs \<and> is_utf8 (drop (length rs) bs))"

definition U32AsRef_as_u32 :: "inner \<Rightarrow> (u32, 'e) result" where
  "U32AsRef_as_u32 v =
     (let b = inner_as_ref v in if 4 \<le> length b then Ok (from_le_bytes (take 4 b)) else Panic)"

text \<open>The hash rate policy both handlers apply; the comparison is the one of \<open>f32\<close>.\<close>

definition clamp_hashrate :: "u32 option \<Rightarrow> u32 \<Rightarrow> u32" where
  "clamp_hashrate min_hashrate nominal_hash_rate =
     (case min_hashrate of
        Some min_hashrate \<Rightarrow>
          if f64_less (f64_from_f32 nominal_hash_rate) (f64_from_f32 min_hashrate)
          then min_hashrate else nominal_hash_rate
      | None \<Rightarrow> nominal_hash_rate)"

definition open_channel_error :: "u32 \<Rightarrow> string \<Rightarrow> SendTo" where
  "open_channel_error request_id code =
     Respond (Mining_OpenMiningChannelError \<lparr>omce_request_id = request_id, omce_error_code = error_code code\<rparr>)"

definition pool_coinbase_output :: "NewTemplate \<Rightarrow> Downstream \<Rightarrow> TxOut" where
  "pool_coinbase_output template ds =
     \<lparr>out_value = nt_coinbase_tx_value_remaining template, script_pubkey = coinbase_reward_script ds\<rparr>"

definition set_new_prev_hash_message :: "u32 \<Rightarrow> u32 \<Rightarrow> SetNewPrevHash \<Rightarrow> Mining" where
  "set_new_prev_hash_message channel_id job_id m =
     Mining_SetNewPrevHash \<lparr>mnph_channel_id = channel_id, mnph_job_id = job_id,
       mnph_prev_hash = tnph_prev_hash m, mnph_min_ntime = tnph_header_timestamp m,
       mnph_nbits = tnph_n_bits m\<rparr>"

text \<open>The two \<open>expect\<close>s that fetch the future job of a template.\<close>

definition future_job :: "u64 \<Rightarrow> 'j DefaultJobStore \<Rightarrow> (u32 \<times> 'j, 'e) result" where
  "future_job template_id store =
     (case Mapping.lookup (future_template_to_job_id store) template_id of
        None \<Rightarrow> Panic
      | Some job_id \<Rightarrow>
          (case Mapping.lookup (future_jobs store) job_id of
             None \<Rightarrow> Panic
           | Some j \<Rightarrow> Ok (job_id, j)))"

definition spawn_channel_registration :: "u32 \<Rightarrow> pool_state \<Rightarrow> pool_state" where
  "spawn_channel_registration channel_id ps =
     (case locking_key_bytes (ps_downstream ps) of
        Some locking_key \<Rightarrow> ps\<lparr>ps_tasks := ps_tasks ps @
          [RegisterChannel channel_id locking_key (ds_id (ps_downstream ps))]\<rparr>
      | None \<Rightarrow> ps)"

text \<open>The group channel is made with the first standard channel.\<close>

definition ensure_group_channel ::
  "bitcoin \<Rightarrow> pool_state \<Rightarrow> (unit, PoolError) result \<times> pool_state" where
  "ensure_group_channel btc ps =
     (let ds = ps_downstream ps in
      if \<not> requires_standard_jobs ds \<and> group_channel ds = None then
        case id_factory_next (channel_id_factory ds) of (group_channel_id, factory) \<Rightarrow>
          let ps = ps\<lparr>ps_downstream := ds\<lparr>channel_id_factory := factory\<rparr>\<rparr>;
              g = group_new_for_pool group_channel_id job_store_new (ds_pool_tag_string ds) in
          (case group_on_new_template btc (last_future_template ds)
                  [pool_coinbase_output (last_future_template ds) ds] g of (r, g) \<Rightarrow>
             or_return (map_err FailedToProcessNewTemplateGroupChannel r) ps (\<lambda>_.
             case group_on_set_new_prev_hash (last_new_prev_hash ds) g of (r, g) \<Rightarrow>
               or_return (map_err FailedToProcessSetNewPrevHashGroupChannel r) ps (\<lambda>_.
                 (Ok (), ps\<lparr>ps_downstream := (ps_downstream ps)\<lparr>group_channel := Some g\<rparr>\<rparr>))))
      else (Ok (), ps))"

text \<open>What is done with a fresh standard channel: the answer, the first job, its activation, and the entry
  in the connection's tables.\<close>

definition install_standard_channel ::
  "bitcoin \<Rightarrow> u64 option \<Rightarrow> inner \<Rightarrow> u32 \<Rightarrow> StandardChannel \<Rightarrow> pool_state \<Rightarrow>
   (SendTo, PoolError) result \<times> pool_state" where
  "install_standard_channel btc clock request_id channel_id ch ps =
     (let ds = ps_downstream ps; template = last_future_template ds; tip = last_new_prev_hash ds;
          group_channel_id = (case group_channel ds of Some g \<Rightarrow> gc_group_channel_id g | None \<Rightarrow> 0) in
      or_return (map_err Pool_Binary (u256_from_target (sc_target ch))) ps (\<lambda>target.
      or_return (expect (inner_try_from_vec B032 (sc_extranonce_prefix ch))) ps (\<lambda>prefix.
      let success = Mining_OpenStandardMiningChannelSuccess
            \<lparr>osmcs_request_id = request_id, osmcs_channel_id = channel_id, osmcs_target = target,
             osmcs_extranonce_prefix = prefix, osmcs_group_channel_id = group_channel_id\<rparr>;
          ps = spawn_channel_registration channel_id ps in
      case std_on_new_template btc template [pool_coinbase_output template ds] ch of (r, ch) \<Rightarrow>
      or_return (map_err FailedToCreateStandardChannel r) ps (\<lambda>_.
      or_return (future_job (nt_template_id template) (sc_job_store ch)) ps (\<lambda>(job_id, j).
      case std_on_set_new_prev_hash tip ch of (r, ch) \<Rightarrow>
      or_return (map_err FailedToCreateStandardChannel r) ps (\<lambda>_.
      or_return (map_err (\<lambda>_. Pool_Vardiff) (vardiff_new clock)) ps (\<lambda>v.
        (Ok (Multiple [success, Mining_NewMiningJob (sj_job_message j),
                       set_new_prev_hash_message channel_id job_id tip]),
         ps\<lparr>ps_downstream := (ps_downstream ps)
           \<lparr>standard_channels := AList.update channel_id ch (standard_channels ds),
            vardiff := AList.update channel_id v (vardiff ds),
            group_channel := map_option (add_standard_channel_id channel_id) (group_channel ds)\<rparr>\<rparr>))))))))"

definition handle_open_standard_mining_channel ::
  "bitcoin \<Rightarrow> u64 option \<Rightarrow> OpenStandardMiningChannel \<Rightarrow> pool_state \<Rightarrow>
   (SendTo, PoolError) result \<times> pool_state" where
  "handle_open_standard_mining_channel btc clock incoming ps =
     or_return (U32AsRef_as_u32 (osmc_request_id incoming)) ps (\<lambda>request_id.
     if \<not> is_utf8 (inner_as_ref (osmc_user_identity incoming)) then (Err InvalidUserIdentity, ps)
     else if requires_custom_work (ps_downstream ps)
     then (Ok (open_channel_error request_id ''standard-channels-not-supported-for-custom-work''), ps)
     else
       case ensure_group_channel btc ps of (r, ps) \<Rightarrow>
       or_return r ps (\<lambda>_.
       let nominal_hash_rate = clamp_hashrate (min_downstream_hashrate (ps_downstream ps))
             (osmc_nominal_hash_rate incoming) in
       case next_prefix_standard (ps_factory_standard ps) of
         Panic \<Rightarrow> (Panic, ps)
       | Err e \<Rightarrow> (Err (ExtranoncePrefixFactoryError e), ps)
       | Ok (factory, r) \<Rightarrow>
           let ps = ps\<lparr>ps_factory_standard := factory\<rparr> in
           or_return (map_err ExtranoncePrefixFactoryError r) ps (\<lambda>prefix.
           case id_factory_next (channel_id_factory (ps_downstream ps)) of (channel_id, ids) \<Rightarrow>
             let ps = ps\<lparr>ps_downstream := (ps_downstream ps)\<lparr>channel_id_factory := ids\<rparr>\<rparr>;
                 ds = ps_downstream ps in
             or_return (target_from_u256 (osmc_max_target incoming)) ps (\<lambda>max_target.
             case std_new_for_pool channel_id (inner_as_ref (osmc_user_identity incoming))
                    (extranonce prefix) max_target nominal_hash_rate (ds_share_batch_size ds)
                    (shares_per_minute ds) job_store_new (ds_pool_tag_string ds) of
               Ok ch \<Rightarrow> install_standard_channel btc clock (osmc_request_id incoming) channel_id ch ps
             | Err e \<Rightarrow>
                 (if e = StandardChannelError.InvalidNominalHashrate
                  then (Ok (open_channel_error request_id ''invalid-nominal-hashrate''), ps)
                  else if e = StandardChannelError.RequestedMaxTargetOutOfRange
                  then (Ok (open_channel_error request_id ''max-target-out-of-range''), ps)
                  else (Err (FailedToCreateStandardChannel e), ps))
             | Panic \<Rightarrow> (Panic, ps)))))"

definition install_extended_channel ::
  "bitcoin \<Rightarrow> u64 option \<Rightarrow> u32 \<Rightarrow> u32 \<Rightarrow> ExtendedChannel \<Rightarrow> pool_state \<Rightarrow>
   (SendTo, PoolError) result \<times> pool_state" where
  "install_extended_channel btc clock request_id channel_id ch ps =
     (let ds = ps_downstream ps; template = last_future_template ds; tip = last_new_prev_hash ds in
      or_return (map_err Pool_Binary (u256_from_target (ec_target ch))) ps (\<lambda>target.
      or_return (map_err Pool_Binary (inner_try_from_vec B032 (ec_extranonce_prefix ch))) ps (\<lambda>prefix.
      let success = Mining_OpenExtendedMiningChannelSuccess
            \<lparr>oemcs_request_id = request_id, oemcs_channel_id = channel_id, oemcs_target = target,
             oemcs_extranonce_size = ec_rollable_extranonce_size ch, oemcs_extranonce_prefix = prefix\<rparr>;
          ps = spawn_channel_registration channel_id ps;
          finish = (\<lambda>messages ch.
            or_return (map_err (\<lambda>_. Pool_Vardiff) (vardiff_new clock)) ps (\<lambda>v.
              (Ok (Multiple messages),
               ps\<lparr>ps_downstream := (ps_downstream ps)
                 \<lparr>extended_channels := AList.update channel_id ch (extended_channels ds),
                  vardiff := AList.update channel_id v (vardiff ds)\<rparr>\<rparr>))) in
      if requires_custom_work ds then
        case ext_on_set_new_prev_hash tip ch of (r, ch) \<Rightarrow>
        or_return (map_err FailedToCreateExtendedChannel r) ps (\<lambda>_. finish [success] ch)
      else
        case ext_on_new_template btc template [pool_coinbase_output template ds] ch of (r, ch) \<Rightarrow>
        or_return (map_err FailedToCreateExtendedChannel r) ps (\<lambda>_.
        or_return (future_job (nt_template_id template) (ec_job_store ch)) ps (\<lambda>(job_id, j).
        case ext_on_set_new_prev_hash tip ch of (r, ch) \<Rightarrow>
        or_return (map_err FailedToCreateExtendedChannel r) ps (\<lambda>_.
          finish [success, Mining_NewExtendedMiningJob (ej_job_message j),
                  set_new_prev_hash_message channel_id job_id tip] ch))))))"

definition handle_open_extended_mining_channel ::
  "bitcoin \<Rightarrow> u64 option \<Rightarrow> OpenExtendedMiningChannel \<Rightarrow> pool_state \<Rightarrow>
   (SendTo, PoolError) result \<times> pool_state" where
  "handle_open_extended_mining_channel btc clock m ps =
     (if \<not> is_utf8 (inner_as_ref (oemc_user_identity m)) then (Err InvalidUserIdentity, ps)
      else
        let request_id = oemc_request_id m;
            nominal_hash_rate = clamp_hashrate (min_downstream_hashrate (ps_downstream ps))
              (oemc_nominal_hash_rate m) in
        case next_prefix_extended (ps_factory_extended ps) (unat (oemc_min_extranonce_size m)) of
          Panic \<Rightarrow> (Panic, ps)
        | Err _ \<Rightarrow> (Ok (open_channel_error request_id ''min-extranonce-size-too-large''), ps)
        | Ok (factory, r) \<Rightarrow>
            let ps = ps\<lparr>ps_factory_extended := factory\<rparr> in
            (case r of
               Panic \<Rightarrow> (Panic, ps)
             | Err _ \<Rightarrow> (Ok (open_channel_error request_id ''min-extranonce-size-too-large''), ps)
             | Ok prefix \<Rightarrow>
                 (case id_factory_next (channel_id_factory (ps_downstream ps)) of (channel_id, ids) \<Rightarrow>
                    let ps = ps\<lparr>ps_downstream := (ps_downstream ps)\<lparr>channel_id_factory := ids\<rparr>\<rparr>;
                        ds = ps_downstream ps in
                    or_return (target_from_u256 (oemc_max_target m)) ps (\<lambda>max_target.
                    case ext_new_for_pool channel_id (inner_as_ref (oemc_user_identity m))
                           (extranonce prefix) max_target nominal_hash_rate True
                           (oemc_min_extranonce_size m) (ds_share_batch_size ds) (shares_per_minute ds)
                           job_store_new (ds_pool_tag_string ds) of
                      Ok ch \<Rightarrow> install_extended_channel btc clock request_id channel_id ch ps
                    | Err e \<Rightarrow>
                        (if e = ExtendedChannelError.InvalidNominalHashrate
                         then (Ok (open_channel_error request_id ''invalid-nominal-hashrate''), ps)
                         else if e = ExtendedChannelError.RequestedMaxTargetOutOfRange
                         then (Ok (open_channel_error request_id ''max-target-out-of-range''), ps)
                         else if e = ExtendedChannelError.RequestedMinExtranonceSizeTooLarge
                         then (Ok (open_channel_error request_id ''min-extranonce-size-too-large''), ps)
                         else (Err (FailedToCreateExtendedChannel e), ps))
                    | Panic \<Rightarrow> (Panic, ps)))))"

section \<open>Templates and chain tips\<close>

text \<open>A loop over the channels of a connection that stops at the first error; the messages are collected
  in order, and the channels visited so far keep their changes.\<close>

fun for_channels ::
  "(u32 \<Rightarrow> 'ch \<Rightarrow> ('m list, 'e) result \<times> 'ch) \<Rightarrow> (u32 \<times> 'ch) list \<Rightarrow>
   ('m list, 'e) result \<times> (u32 \<times> 'ch) list" where
  "for_channels f [] = (Ok [], [])"
| "for_channels f ((i, ch) # rest) =
     (case f i ch of
        (Ok ms, ch) \<Rightarrow>
          (case for_channels f rest of (r, rest) \<Rightarrow> (map_ok (\<lambda>ms'. ms @ ms') r, (i, ch) # rest))
      | (Err e, ch) \<Rightarrow> (Err e, (i, ch) # rest)
      | (Panic, ch) \<Rightarrow> (Panic, (i, ch) # rest))"

text \<open>\<open>get_active_job().expect(..)\<close>.\<close>

definition active_job_of :: "'j DefaultJobStore \<Rightarrow> ('j, 'e) result" where
  "active_job_of store = (case active_job store of Some j \<Rightarrow> Ok j | None \<Rightarrow> Panic)"

definition group_channel_new_prev_hash ::
  "SetNewPrevHash \<Rightarrow> Downstream \<Rightarrow> (Mining list, PoolError) result \<times> Downstream" where
  "group_channel_new_prev_hash m ds =
     (case group_channel ds of
        None \<Rightarrow> (Ok [], ds)
      | Some g \<Rightarrow>
          (case group_on_set_new_prev_hash m g of (r, g) \<Rightarrow>
             let ds = ds\<lparr>group_channel := Some g\<rparr> in
             or_return (map_err FailedToProcessSetNewPrevHashGroupChannel r) ds (\<lambda>_.
             or_return (active_job_of (gc_job_store g)) ds (\<lambda>j.
               (Ok [set_new_prev_hash_message (gc_group_channel_id g) (extended_job_id j) m], ds)))))"

definition standard_channels_new_prev_hash ::
  "SetNewPrevHash \<Rightarrow> Downstream \<Rightarrow> (Mining list, PoolError) result \<times> Downstream" where
  "standard_channels_new_prev_hash m ds =
     (case for_channels (\<lambda>i ch.
             case std_on_set_new_prev_hash m ch of (r, ch) \<Rightarrow>
             or_return (map_err FailedToProcessSetNewPrevHashStandardChannel r) ch (\<lambda>_.
             if group_channel ds = None
             then or_return (active_job_of (sc_job_store ch)) ch (\<lambda>j.
                    (Ok [set_new_prev_hash_message i (standard_job_id j) m], ch))
             else (Ok [], ch))) (standard_channels ds) of
        (r, channels) \<Rightarrow> (r, ds\<lparr>standard_channels := channels\<rparr>))"

definition extended_channels_new_prev_hash ::
  "SetNewPrevHash \<Rightarrow> Downstream \<Rightarrow> (Mining list, PoolError) result \<times> Downstream" where
  "extended_channels_new_prev_hash m ds =
     (case for_channels (\<lambda>i ch.
             case ext_on_set_new_prev_hash m ch of (r, ch) \<Rightarrow>
             or_return (map_err FailedToProcessSetNewPrevHashExtendedChannel r) ch (\<lambda>_.
             if requires_custom_work ds then (Ok [], ch)
             else or_return (active_job_of (ec_job_store ch)) ch (\<lambda>j.
                    (Ok [set_new_prev_hash_message i (extended_job_id j) m], ch)))) (extended_channels ds) of
        (r, channels) \<Rightarrow> (r, ds\<lparr>extended_channels := channels\<rparr>))"

definition downstream_new_prev_hash ::
  "SetNewPrevHash \<Rightarrow> Downstream \<Rightarrow> (Mining list, PoolError) result \<times> Downstream" where
  "downstream_new_prev_hash m ds =
     (case group_channel_new_prev_hash m (ds\<lparr>last_new_prev_hash := m\<rparr>) of (r, ds) \<Rightarrow>
      or_return r ds (\<lambda>group_messages.
      case standard_channels_new_prev_hash m ds of (r, ds) \<Rightarrow>
      or_return r ds (\<lambda>standard_messages.
      case extended_channels_new_prev_hash m ds of (r, ds) \<Rightarrow>
      or_return r ds (\<lambda>extended_messages.
        (Ok (group_messages @ standard_messages @ extended_messages), ds)))))"

text \<open>The job a template has led to: the future job, or the active one.\<close>

definition job_for_template :: "NewTemplate \<Rightarrow> 'j DefaultJobStore \<Rightarrow> ('j, 'e) result" where
  "job_for_template template store =
     (if nt_future_template template then map_ok snd (future_job (nt_template_id template) store)
      else active_job_of store)"

definition standard_channels_new_template ::
  "bitcoin \<Rightarrow> NewTemplate \<Rightarrow> Downstream \<Rightarrow> (Mining list, PoolError) result \<times> Downstream" where
  "standard_channels_new_template btc template ds =
     (case for_channels (\<lambda>_ ch.
             if group_channel ds = None then
               case std_on_new_template btc template [pool_coinbase_output template ds] ch of (r, ch) \<Rightarrow>
               or_return (map_err FailedToProcessNewTemplateStandardChannel r) ch (\<lambda>_.
               or_return (job_for_template template (sc_job_store ch)) ch (\<lambda>j.
                 (Ok [Mining_NewMiningJob (sj_job_message j)], ch)))
             else (Ok [], ch)) (standard_channels ds) of
        (r, channels) \<Rightarrow> (r, ds\<lparr>standard_channels := channels\<rparr>))"

definition group_channel_new_template ::
  "bitcoin \<Rightarrow> NewTemplate \<Rightarrow> Downstream \<Rightarrow> (Mining list, PoolError) result \<times> Downstream" where
  "group_channel_new_template btc template ds =
     (case group_channel ds of
        None \<Rightarrow> (Ok [], ds)
      | Some g \<Rightarrow>
          (case group_on_new_template btc template [pool_coinbase_output template ds] g of (r, g) \<Rightarrow>
             let ds = ds\<lparr>group_channel := Some g\<rparr> in
             or_return (map_err FailedToProcessNewTemplateGroupChannel r) ds (\<lambda>_.
             or_return (job_for_template template (gc_job_store g)) ds (\<lambda>j.
             case for_channels (\<lambda>_ ch.
                    case std_on_group_channel_job btc j ch of (r, ch) \<Rightarrow>
                      (map_ok (\<lambda>_. []) (map_err FailedToProcessGroupChannelJob r), ch))
                  (standard_channels ds) of (r, channels) \<Rightarrow>
               let ds = ds\<lparr>standard_channels := channels\<rparr> in
               or_return r ds (\<lambda>none.
                 (Ok (none @ [Mining_NewExtendedMiningJob (ej_job_message j)]), ds))))))"

definition extended_channels_new_template ::
  "bitcoin \<Rightarrow> NewTemplate \<Rightarrow> Downstream \<Rightarrow> (Mining list, PoolError) result \<times> Downstream" where
  "extended_channels_new_template btc template ds =
     (case for_channels (\<lambda>_ ch.
             case ext_on_new_template btc template [pool_coinbase_output template ds] ch of (r, ch) \<Rightarrow>
             or_return (map_err FailedToProcessNewTemplateExtendedChannel r) ch (\<lambda>_.
             or_return (job_for_template template (ec_job_store ch)) ch (\<lambda>j.
               (Ok [Mining_NewExtendedMiningJob (ej_job_message j)], ch)))) (extended_channels ds) of
        (r, channels) \<Rightarrow> (r, ds\<lparr>extended_channels := channels\<rparr>))"

definition downstream_new_template ::
  "bitcoin \<Rightarrow> NewTemplate \<Rightarrow> Downstream \<Rightarrow> (Mining list, PoolError) result \<times> Downstream" where
  "downstream_new_template btc template ds =
     (let ds = (if nt_future_template template then ds\<lparr>last_future_template := template\<rparr> else ds) in
      case standard_channels_new_template btc template ds of (r, ds) \<Rightarrow>
      or_return r ds (\<lambda>standard_messages.
      if requires_custom_work ds then (Ok standard_messages, ds)
      else
        case group_channel_new_template btc template ds of (r, ds) \<Rightarrow>
        or_return r ds (\<lambda>group_messages.
        case extended_channels_new_template btc template ds of (r, ds) \<Rightarrow>
        or_return r ds (\<lambda>extended_messages.
          (Ok (standard_messages @ group_messages @ extended_messages), ds)))))"

section \<open>Dispatching a quote\<close>

datatype 'er QuoteDispatchError =
    MissingLockingKey u32
  | InvalidLockingKeyFormat u32 nat
  | InvalidLockingKey u32 sv2_error
  | MintDispatcherUnavailable
  | QuoteDispatchFailed "'er DispatchError"

definition dispatch_quote ::
  "(bytes \<Rightarrow> (bytes, 'er) result) \<Rightarrow> QuoteDispatcher \<Rightarrow> channel_contexts \<Rightarrow> u32 \<Rightarrow> u32 \<Rightarrow> bytes \<Rightarrow>
   bytes option \<Rightarrow> (unit, 'er QuoteDispatchError) result \<times> (u32 \<times> u64) list \<times> hub_task list" where
  "dispatch_quote sha256_from_slice disp contexts channel_id sequence_number header_hash locking_key_hint =
     (let key = (case locking_key_hint of
          Some bs \<Rightarrow> Some bs
        | None \<Rightarrow> Option.bind (get_channel_context channel_id contexts) ctx_locking_key_bytes) in
      case key of
        None \<Rightarrow> (Err (MissingLockingKey channel_id), [], [])
      | Some bs \<Rightarrow>
          if length bs \<noteq> 33 then (Err (InvalidLockingKeyFormat channel_id (length bs)), [], [])
          else
            (case decodable_from_bytes b0255_structure b0255_from_decoded (33 # bs) of
               Err e \<Rightarrow> (Err (InvalidLockingKey channel_id e), [], [])
             | Panic \<Rightarrow> (Panic, [], [])
             | Ok pubkey \<Rightarrow>
                 (case submit_quote sha256_from_slice disp header_hash (into_static pubkey) channel_id
                         sequence_number of
                    (r, told, tasks) \<Rightarrow> (map_err QuoteDispatchFailed r, told, tasks))))"

definition run_task ::
  "(bytes \<Rightarrow> (bytes, 'er) result) \<Rightarrow> QuoteDispatcher \<Rightarrow> pool_task \<Rightarrow> channel_contexts \<Rightarrow>
   hub_task list \<times> channel_contexts" where
  "run_task sha256_from_slice disp task contexts =
     (case task of
        DispatchQuote channel_id sequence_number header_hash key \<Rightarrow>
          (snd (snd (dispatch_quote sha256_from_slice disp contexts channel_id sequence_number header_hash key)),
           contexts)
      | RegisterChannel channel_id key downstream_id \<Rightarrow>
          ([], register_channel channel_id (Some key) downstream_id contexts))"

end
