(* ===== verification/Pool_Invariant.thy ===== *)
theory Pool_Invariant
  imports Pool
begin

text \<open>
  What holds of a connection in every state it can reach: the datatype \<open>pool_op\<close> lists everything that
  happens to a connection, \<open>pool_apply\<close> is its effect, \<open>pool_reachable\<close> the states, and \<open>conn_ok\<close> the
  invariant.  Here stand what every operation on one channel keeps, and that shares, custom jobs, updates,
  closing, chain tips and templates for standard and extended channels preserve the invariant; the theory
  \<open>Pool_Safety\<close> adds the rest and the properties.
\<close>

section \<open>What a channel keeps\<close>

lemma check_target_batch [simp]:
  "share_batch_size (snd (check_target t s h ht acc)) = share_batch_size acc"
  by (simp add: check_target_def Let_def)

lemma new_extended_job_rolling:
  "jf_version_rolling_allowed (snd (new_extended_job btc c tip ep t r f)) = jf_version_rolling_allowed f"
  using new_extended_job_factory [of btc c tip ep t r f "fst (new_extended_job btc c tip ep t r f)"
      "snd (new_extended_job btc c tip ep t r f)"] by auto

lemma custom_job_rolling:
  "jf_version_rolling_allowed (snd (new_extended_job_from_custom_job btc m ep f)) = jf_version_rolling_allowed f"
  by (simp add: new_extended_job_from_custom_job_def job_id_next_def split: result.split)

lemma ext_apply_keeps:
  "ec_channel_id (ext_apply btc op ch) = ec_channel_id ch"
  "jf_version_rolling_allowed (ec_job_factory (ext_apply btc op ch)) = jf_version_rolling_allowed (ec_job_factory ch)"
  "share_batch_size (ec_share_accounting (ext_apply btc op ch)) = share_batch_size (ec_share_accounting ch)"
proof -
  have r: "new_extended_job btc c tip ep t rw f = (r, f') \<Longrightarrow>
      jf_version_rolling_allowed f' = jf_version_rolling_allowed f" for c tip ep t rw f r f'
    using new_extended_job_rolling [of btc c tip ep t rw f] by simp
  have k: "new_extended_job_from_custom_job btc m ep f = (r, f') \<Longrightarrow>
      jf_version_rolling_allowed f' = jf_version_rolling_allowed f" for m ep f r f'
    using custom_job_rolling [of btc m ep f] by simp
  have b: "check_target t s h ht acc = (r, acc') \<Longrightarrow> share_batch_size acc' = share_batch_size acc"
    for t s h ht acc r acc'
    using check_target_batch [of t s h ht acc] by simp
  note defs = ext_set_extranonce_prefix_def ext_set_target_def ext_set_nominal_hashrate_def
    ext_update_channel_def ext_on_new_template_def ext_on_set_new_prev_hash_def
    ext_on_set_custom_mining_job_def ext_validate_share_def or_return_def Let_def
  show "ec_channel_id (ext_apply btc op ch) = ec_channel_id ch"
    by (cases op) (simp_all add: defs split: prod.split option.split result.split bool.split)
  show "jf_version_rolling_allowed (ec_job_factory (ext_apply btc op ch)) = jf_version_rolling_allowed (ec_job_factory ch)"
    by (cases op) (auto simp: defs r k split: prod.split option.split result.split bool.split)
  show "share_batch_size (ec_share_accounting (ext_apply btc op ch)) = share_batch_size (ec_share_accounting ch)"
    by (cases op) (auto simp: defs b split: prod.split option.split result.split bool.split)
qed

lemma new_standard_job_factory:
  "new_standard_job btc c tip ep t rw f = (r, f') \<Longrightarrow> f' = f \<or> f' = f\<lparr>job_id_state := job_id_state f + 1\<rparr>"
  by (auto simp: new_standard_job_def job_id_next_def split: if_splits)

lemma std_apply_keeps:
  "sc_channel_id (std_apply btc op ch) = sc_channel_id ch"
  "op_pushbytes_pool_miner_tag (sc_job_factory (std_apply btc op ch)) =
     op_pushbytes_pool_miner_tag (sc_job_factory ch)"
  "share_batch_size (sc_share_accounting (std_apply btc op ch)) = share_batch_size (sc_share_accounting ch)"
  "sc_chain_tip ch \<noteq> None \<Longrightarrow> sc_chain_tip (std_apply btc op ch) \<noteq> None"
proof -
  have r: "new_standard_job btc c tip ep t rw f = (r, f') \<Longrightarrow>
      op_pushbytes_pool_miner_tag f' = op_pushbytes_pool_miner_tag f" for c tip ep t rw f r f'
    using new_standard_job_factory [of btc c tip ep t rw f r f'] by (auto simp: op_pushbytes_pool_miner_tag_def)
  have b: "check_target t s h ht acc = (r, acc') \<Longrightarrow> share_batch_size acc' = share_batch_size acc"
    for t s h ht acc r acc'
    using check_target_batch [of t s h ht acc] by simp
  note defs = std_set_extranonce_prefix_def std_set_target_def std_set_nominal_hashrate_def
    std_update_channel_def std_on_new_template_def std_on_set_new_prev_hash_def
    std_on_group_channel_job_def std_validate_share_def or_return_def Let_def
  show "sc_channel_id (std_apply btc op ch) = sc_channel_id ch"
    by (cases op) (simp_all add: defs split: prod.split option.split result.split bool.split)
  show "op_pushbytes_pool_miner_tag (sc_job_factory (std_apply btc op ch)) =
     op_pushbytes_pool_miner_tag (sc_job_factory ch)"
    by (cases op) (auto simp: defs r split: prod.split option.split result.split bool.split)
  show "share_batch_size (sc_share_accounting (std_apply btc op ch)) = share_batch_size (sc_share_accounting ch)"
    by (cases op) (auto simp: defs b split: prod.split option.split result.split bool.split)
  show "sc_chain_tip ch \<noteq> None \<Longrightarrow> sc_chain_tip (std_apply btc op ch) \<noteq> None"
    by (cases op) (auto simp: defs split: prod.split option.split result.split bool.split)
qed

text \<open>Which job ids a standard channel knows after a call: its own counter moves only with a template, and
  a job of the group brings its id along.\<close>

lemma std_ids_frame:
  assumes "\<And>t rewards. op \<noteq> std_op.OnNewTemplate t rewards" "\<And>j. op \<noteq> OnGroupChannelJob j"
    and "store_ok standard_job_id (sc_job_store ch)"
  shows "known_ids standard_job_id (sc_job_store (std_apply btc op ch)) \<subseteq> known_ids standard_job_id (sc_job_store ch)"
    and "sc_job_factory (std_apply btc op ch) = sc_job_factory ch"
proof -
  show "known_ids standard_job_id (sc_job_store (std_apply btc op ch)) \<subseteq> known_ids standard_job_id (sc_job_store ch)"
  proof (cases op)
    case (OnSetNewPrevHash m)
    then show ?thesis
      using std_job.known_ids_activate [OF assms(3), of "tnph_template_id m" "tnph_header_timestamp m"]
      by (auto simp: std_on_set_new_prev_hash_def split: prod.splits)
  qed (use assms in \<open>simp_all add: std_set_target_def std_set_nominal_hashrate_def\<close>)
  show "sc_job_factory (std_apply btc op ch) = sc_job_factory ch"
    using assms(1,2)
    by (cases op) (auto simp: std_set_extranonce_prefix_def std_set_target_def std_set_nominal_hashrate_def
        std_update_channel_def std_on_set_new_prev_hash_def std_validate_share_def or_return_def Let_def
        split: prod.split result.split)
qed

lemma std_ids_on_new_template:
  fixes btc t rewards
  assumes ids: "ids_up_to standard_job_id (job_id_state (sc_job_factory ch)) (sc_job_store ch)"
    and n: "job_id_state (sc_job_factory ch) \<noteq> - 1"
  defines "ch' \<equiv> snd (std_on_new_template btc t rewards ch)"
  shows "ids_up_to standard_job_id (job_id_state (sc_job_factory ch')) (sc_job_store ch')"
proof -
  have step: "ids_up_to standard_job_id (job_id_state (sc_job_factory (snd x))) (sc_job_store (snd x))"
    if r: "new_standard_job btc c tip ep t rewards (sc_job_factory ch) = (r, f)"
      and x: "x = or_return (map_err StandardChannelError.JobFactoryError r) (ch\<lparr>sc_job_factory := f\<rparr>) (\<lambda>j. (Ok (), ch\<lparr>sc_job_factory := f, sc_job_store := k j\<rparr>))"
      and k: "\<And>j. known_ids standard_job_id (k j) \<subseteq> insert (standard_job_id j) (known_ids standard_job_id (sc_job_store ch))"
    for c tip ep r f k and x :: "(unit, StandardChannelError) result \<times> StandardChannel"
  proof (cases r)
    case (Ok j)
    have "standard_job_id j = job_id_state (sc_job_factory ch) + 1"
      using new_standard_job_new_id [OF r [unfolded Ok]] by simp
    moreover have "f = (sc_job_factory ch)\<lparr>job_id_state := job_id_state (sc_job_factory ch) + 1\<rparr>"
      by (rule new_standard_job_Ok [OF r [unfolded Ok]])
    ultimately show ?thesis
      using ids_up_to_insert [OF ids n] k [of j] by (simp add: x Ok)
  qed (use new_standard_job_factory [OF r] ids ids_up_to_succ [OF ids n] in \<open>auto simp: x\<close>)
  have fut: "known_ids standard_job_id (snd (add_future_job standard_job_id tid j (sc_job_store ch))) \<subseteq>
      insert (standard_job_id j) (known_ids standard_job_id (sc_job_store ch))" for tid j
    by (rule std_job.known_ids_add_future)
  have act: "known_ids standard_job_id (add_active_job standard_job_id j (sc_job_store ch)) \<subseteq>
      insert (standard_job_id j) (known_ids standard_job_id (sc_job_store ch))" for j
    by (rule std_job.known_ids_add_active)
  show ?thesis
    using ids by (auto simp: ch'_def std_on_new_template_def Let_def split: prod.split option.split
        intro: step [OF _ refl fut] step [OF _ refl act])
qed

lemma std_ids_on_group_channel_job:
  "known_ids standard_job_id (sc_job_store (snd (std_on_group_channel_job btc j ch))) \<subseteq>
     insert (extended_job_id j) (known_ids standard_job_id (sc_job_store ch))"
proof (cases "into_standard_job btc j (sc_channel_id ch) (sc_extranonce_prefix ch)")
  case (Ok sj)
  then show ?thesis
    using into_standard_job_Ok [OF Ok] std_job.known_ids_add_future [of _ sj] std_job.known_ids_add_active [of sj]
    by (cases "standard_job_is_future sj") (auto simp: std_on_group_channel_job_def)
qed (auto simp: std_on_group_channel_job_def)

section \<open>Tables of channels\<close>

lemma update_entries: "(i, c) \<in> set (AList.update k v xs) \<Longrightarrow> (i, c) = (k, v) \<or> (i, c) \<in> set xs"
  by (induction xs) (auto split: if_splits)

lemma delete_entries: "(i, c) \<in> set (AList.delete k xs) \<longleftrightarrow> (i, c) \<in> set xs \<and> i \<noteq> k"
  by (auto simp: AList.delete_eq)

lemma for_channels_keys [simp]: "map fst (snd (for_channels f xs)) = map fst xs"
  by (induction f xs rule: for_channels.induct) (auto split: prod.split result.split)

text \<open>Every channel is either done or untouched, also after an error.\<close>

lemma for_channels_entries:
  "(i, c) \<in> set (snd (for_channels f xs)) \<Longrightarrow>
   (i, c) \<in> set xs \<or> (\<exists>ch. (i, ch) \<in> set xs \<and> c = snd (f i ch))"
proof (induction f xs rule: for_channels.induct)
  case (2 f i' ch rest)
  obtain r ch' where f: "f i' ch = (r, ch')" by fastforce
  show ?case
  proof (cases r)
    case (Ok ms)
    have "(i, c) = (i', ch') \<or> (i, c) \<in> set (snd (for_channels f rest))"
      using 2(2) f Ok by (auto split: prod.splits)
    then show ?thesis using 2(1) f Ok by auto
  qed (use 2(2) f in auto)
qed simp

lemma update_keys: "k \<in> fst ` set xs \<Longrightarrow> map fst (AList.update k v xs) = map fst xs"
  by (induction xs) (auto simp: image_iff)

lemma update_new: "k \<notin> fst ` set xs \<Longrightarrow> AList.update k v xs = xs @ [(k, v)]"
  by (induction xs) auto

section \<open>Everything that happens to a connection\<close>

datatype pool_op =
    OpenStandard "u64 option" OpenStandardMiningChannel
  | OpenExtended "u64 option" OpenExtendedMiningChannel
  | Update UpdateChannel
  | SubmitStandard "SubmitSolution \<Rightarrow> bool" SubmitSharesStandard
  | SubmitExtended "SubmitSolution \<Rightarrow> bool" SubmitSharesExtended
  | CustomJob SetCustomMiningJob
  | Close CloseChannel
  | Template NewTemplate
  | NewTip SetNewPrevHash
  | FactoriesMoved ExtendedExtranonce ExtendedExtranonce

fun pool_apply :: "bitcoin \<Rightarrow> pool_op \<Rightarrow> pool_state \<Rightarrow> pool_state" where
  "pool_apply btc (OpenStandard clock m) ps = snd (handle_open_standard_mining_channel btc clock m ps)"
| "pool_apply btc (OpenExtended clock m) ps = snd (handle_open_extended_mining_channel btc clock m ps)"
| "pool_apply btc (Update m) ps = snd (handle_update_channel m ps)"
| "pool_apply btc (SubmitStandard try_send m) ps = snd (handle_submit_shares_standard btc try_send m ps)"
| "pool_apply btc (SubmitExtended try_send m) ps = snd (handle_submit_shares_extended btc try_send m ps)"
| "pool_apply btc (CustomJob m) ps = snd (handle_set_custom_mining_job btc m ps)"
| "pool_apply btc (Close m) ps = snd (handle_close_channel m ps)"
| "pool_apply btc (Template t) ps = ps\<lparr>ps_downstream := snd (downstream_new_template btc t (ps_downstream ps))\<rparr>"
| "pool_apply btc (NewTip m) ps = ps\<lparr>ps_downstream := snd (downstream_new_prev_hash m (ps_downstream ps))\<rparr>"
| "pool_apply btc (FactoriesMoved e s) ps = ps\<lparr>ps_factory_extended := e, ps_factory_standard := s\<rparr>"

text \<open>No counter of job ids is at its maximum.\<close>

definition jobs_left :: "Downstream \<Rightarrow> bool" where
  "jobs_left ds \<longleftrightarrow>
     (\<forall>(i, ch) \<in> set (extended_channels ds). job_id_state (ec_job_factory ch) \<noteq> - 1) \<and>
     (\<forall>(i, ch) \<in> set (standard_channels ds). job_id_state (sc_job_factory ch) \<noteq> - 1) \<and>
     (case group_channel ds of Some g \<Rightarrow> job_id_state (gc_job_factory g) \<noteq> - 1 | None \<Rightarrow> True)"

definition template_fits :: "NewTemplate \<Rightarrow> bool" where
  "template_fits t \<longleftrightarrow> length (inner_as_ref (nt_coinbase_prefix t)) \<le> 157"

definition tip_fits :: "SetNewPrevHash \<Rightarrow> bool" where
  "tip_fits m \<longleftrightarrow> length (inner_as_ref (tnph_prev_hash m)) = 32"

text \<open>What is asked of the outside world: the sizes the protocol prescribes, and that the counters of
  channel and job ids have not run out.\<close>

fun pool_op_ok :: "pool_op \<Rightarrow> Downstream \<Rightarrow> bool" where
  "pool_op_ok (OpenStandard clock m) ds \<longleftrightarrow> unat (channel_id_factory ds) + 2 < 2 ^ 32"
| "pool_op_ok (OpenExtended clock m) ds \<longleftrightarrow> unat (channel_id_factory ds) + 2 < 2 ^ 32"
| "pool_op_ok (CustomJob m) ds \<longleftrightarrow> length (inner_as_ref (scmj_coinbase_prefix m)) \<le> 220 \<and>
     length (inner_as_ref (scmj_prev_hash m)) = 32 \<and> jobs_left ds"
| "pool_op_ok (Template t) ds \<longleftrightarrow> template_fits t \<and> jobs_left ds"
| "pool_op_ok (NewTip m) ds \<longleftrightarrow> tip_fits m"
| "pool_op_ok _ ds \<longleftrightarrow> True"

definition fresh_connection :: "Downstream \<Rightarrow> bool" where
  "fresh_connection ds \<longleftrightarrow> channel_id_factory ds = 0 \<and> extended_channels ds = [] \<and>
     standard_channels ds = [] \<and> vardiff ds = [] \<and> group_channel ds = None \<and>
     (of_nat (ds_share_batch_size ds) :: u32) \<noteq> 0 \<and>
     template_fits (last_future_template ds) \<and> tip_fits (last_new_prev_hash ds)"

inductive pool_reachable :: "bitcoin \<Rightarrow> pool_state \<Rightarrow> bool" for btc where
  connected: "fresh_connection (ps_downstream ps) \<Longrightarrow> pool_reachable btc ps"
| step: "pool_reachable btc ps \<Longrightarrow> pool_op_ok op (ps_downstream ps) \<Longrightarrow>
    pool_reachable btc (pool_apply btc op ps)"

section \<open>The invariant of a connection\<close>

definition ext_entry_ok :: "bitcoin \<Rightarrow> Downstream \<Rightarrow> u32 \<Rightarrow> ExtendedChannel \<Rightarrow> bool" where
  "ext_entry_ok btc ds i ch \<longleftrightarrow> ext_ok btc ch \<and> jf_version_rolling_allowed (ec_job_factory ch) \<and>
     share_batch_size (ec_share_accounting ch) = ds_share_batch_size ds \<and> ec_channel_id ch = i \<and>
     i \<le> channel_id_factory ds \<and> i \<in> fst ` set (vardiff ds)"

text \<open>The ids of the jobs a standard channel knows are bounded by the counter its next job will be drawn
  from: the one of the group if there is a group, and its own otherwise.\<close>

definition std_id_bound :: "GroupChannel option \<Rightarrow> StandardChannel \<Rightarrow> u32" where
  "std_id_bound grp ch = job_id_state (case grp of Some g \<Rightarrow> gc_job_factory g | None \<Rightarrow> sc_job_factory ch)"

definition std_entry_ok :: "Downstream \<Rightarrow> u32 \<Rightarrow> StandardChannel \<Rightarrow> bool" where
  "std_entry_ok ds i ch \<longleftrightarrow> std_ok ch \<and> sc_chain_tip ch \<noteq> None \<and>
     is_ok (op_pushbytes_pool_miner_tag (sc_job_factory ch)) \<and>
     share_batch_size (sc_share_accounting ch) = ds_share_batch_size ds \<and> sc_channel_id ch = i \<and>
     i \<le> channel_id_factory ds \<and> i \<in> fst ` set (vardiff ds) \<and>
     ids_up_to standard_job_id (std_id_bound (group_channel ds) ch) (sc_job_store ch)"

definition group_entry_ok :: "Downstream \<Rightarrow> bool" where
  "group_entry_ok ds \<longleftrightarrow>
     (\<forall>g. group_channel ds = Some g \<longrightarrow> group_ok g \<and> 1 \<le> job_id_state (gc_job_factory g) \<and>
        gc_group_channel_id g \<le> channel_id_factory ds \<and>
        gc_group_channel_id g \<notin> fst ` set (extended_channels ds) \<union> fst ` set (standard_channels ds)) \<and>
     (requires_standard_jobs ds \<longrightarrow> group_channel ds = None) \<and>
     (group_channel ds = None \<longrightarrow> requires_standard_jobs ds \<or> standard_channels ds = [])"

definition conn_ok :: "bitcoin \<Rightarrow> Downstream \<Rightarrow> bool" where
  "conn_ok btc ds \<longleftrightarrow>
     (\<forall>i ch. (i, ch) \<in> set (extended_channels ds) \<longrightarrow> ext_entry_ok btc ds i ch) \<and>
     (\<forall>i ch. (i, ch) \<in> set (standard_channels ds) \<longrightarrow> std_entry_ok ds i ch) \<and>
     distinct (map fst (extended_channels ds) @ map fst (standard_channels ds)) \<and> group_entry_ok ds \<and>
     (of_nat (ds_share_batch_size ds) :: u32) \<noteq> 0 \<and>
     template_fits (last_future_template ds) \<and> tip_fits (last_new_prev_hash ds)"

lemma ext_entry_apply:
  assumes "segwit_encoding btc" and "ext_entry_ok btc ds i ch" and "ext_op_ok op ch"
  shows "ext_entry_ok btc ds i (ext_apply btc op ch)"
  using assms ext_ok_apply [OF assms(1) _ assms(3)] by (simp add: ext_entry_ok_def ext_apply_keeps)

lemma std_entry_apply:
  assumes "std_entry_ok ds i ch" and "std_op_ok op ch"
    and "\<And>t rewards. op \<noteq> std_op.OnNewTemplate t rewards" "\<And>j. op \<noteq> OnGroupChannelJob j"
  shows "std_entry_ok ds i (std_apply btc op ch)"
proof -
  have ok: "std_ok ch" and st: "store_ok standard_job_id (sc_job_store ch)"
    using assms(1) by (simp_all add: std_entry_ok_def std_ok_def)
  show ?thesis
    using assms(1) std_ok_apply [OF ok assms(2)] std_ids_frame(1) [OF assms(3,4) st, of btc]
      std_ids_frame(2) [OF assms(3,4) st, of btc] std_apply_keeps [where btc = btc and ch = ch and op = op]
    by (cases "group_channel ds") (auto simp: std_entry_ok_def ids_up_to_def std_id_bound_def)
qed

lemma std_entry_on_new_template:
  assumes "std_entry_ok ds i ch" and "job_id_state (sc_job_factory ch) \<noteq> - 1" and "group_channel ds = None"
  shows "std_entry_ok ds i (snd (std_on_new_template btc t rewards ch))"
proof -
  have ids: "ids_up_to standard_job_id (job_id_state (sc_job_factory ch)) (sc_job_store ch)"
    using assms by (simp add: std_entry_ok_def std_id_bound_def)
  have "std_op_ok (std_op.OnNewTemplate t rewards) ch"
    using ids_up_to_fresh [OF ids assms(2)] by simp
  from std_ok_apply [OF _ this, of btc] show ?thesis
    using assms std_apply_keeps [where btc = btc and ch = ch and op = "std_op.OnNewTemplate t rewards"]
      std_ids_on_new_template [OF ids assms(2), of btc t rewards]
    by (simp add: std_entry_ok_def std_id_bound_def)
qed

lemma std_entry_group_job:
  assumes "std_entry_ok ds i ch" and "group_channel ds = Some g" and "job_id_state (gc_job_factory g) \<noteq> - 1"
    and "extended_job_id j = job_id_state (gc_job_factory g) + 1"
    and "job_id_state (gc_job_factory g') = job_id_state (gc_job_factory g) + 1"
  shows "std_entry_ok (ds\<lparr>group_channel := Some g'\<rparr>) i (snd (std_on_group_channel_job btc j ch))"
proof -
  have ids: "ids_up_to standard_job_id (job_id_state (gc_job_factory g)) (sc_job_store ch)"
    using assms by (simp add: std_entry_ok_def std_id_bound_def)
  have "std_op_ok (OnGroupChannelJob j) ch"
    using ids_up_to_fresh [OF ids assms(3)] assms(1,4) by (simp add: std_entry_ok_def)
  from std_ok_apply [OF _ this, of btc] show ?thesis
    using assms std_apply_keeps [where btc = btc and ch = ch and op = "OnGroupChannelJob j"]
      ids_up_to_insert [OF ids assms(3) std_ids_on_group_channel_job [of btc j ch, unfolded assms(4)]]
    by (simp add: std_entry_ok_def std_id_bound_def)
qed

lemmas entry_simps = ext_entry_ok_def std_entry_ok_def group_entry_ok_def

text \<open>Replacing the channels of a table by good ones with the same keys.\<close>

lemma conn_ok_ext_table:
  assumes "conn_ok btc ds" and "map fst xs = map fst (extended_channels ds)"
    and "\<And>i ch. (i, ch) \<in> set xs \<Longrightarrow> ext_entry_ok btc ds i ch"
  shows "conn_ok btc (ds\<lparr>extended_channels := xs\<rparr>)"
proof -
  have "fst ` set xs = fst ` set (extended_channels ds)"
    using arg_cong [OF assms(2), of set] by simp
  then show ?thesis using assms by (simp add: conn_ok_def entry_simps)
qed

lemma conn_ok_std_table:
  assumes "conn_ok btc ds" and "map fst xs = map fst (standard_channels ds)"
    and "\<And>i ch. (i, ch) \<in> set xs \<Longrightarrow> std_entry_ok ds i ch"
  shows "conn_ok btc (ds\<lparr>standard_channels := xs\<rparr>)"
proof -
  have "fst ` set xs = fst ` set (standard_channels ds)" "xs = [] \<longleftrightarrow> standard_channels ds = []"
    using arg_cong [OF assms(2), of set] arg_cong [OF assms(2), of length] by auto
  then show ?thesis using assms by (simp add: conn_ok_def entry_simps)
qed

lemma conn_ok_vardiff:
  assumes "conn_ok btc ds" and "fst ` set (vardiff ds) \<subseteq> fst ` set v"
  shows "conn_ok btc (ds\<lparr>vardiff := v\<rparr>)"
proof -
  have "ext_entry_ok btc ds i ch \<Longrightarrow> ext_entry_ok btc (ds\<lparr>vardiff := v\<rparr>) i ch" for i ch
    using assms(2) by (simp add: ext_entry_ok_def subset_iff)
  moreover have "std_entry_ok ds i ch \<Longrightarrow> std_entry_ok (ds\<lparr>vardiff := v\<rparr>) i ch" for i ch
    using assms(2) by (simp add: std_entry_ok_def subset_iff)
  moreover have "group_entry_ok (ds\<lparr>vardiff := v\<rparr>) = group_entry_ok ds" by (simp add: group_entry_ok_def)
  ultimately show ?thesis using assms(1) by (simp add: conn_ok_def)
qed

lemma conn_ok_ext_update:
  assumes "segwit_encoding btc" and "conn_ok btc ds" and "map_of (extended_channels ds) i = Some ch"
    and "ext_op_ok op ch"
  shows "conn_ok btc (ds\<lparr>extended_channels := AList.update i (ext_apply btc op ch) (extended_channels ds)\<rparr>)"
proof -
  have i: "(i, ch) \<in> set (extended_channels ds)" using assms(3) by (rule map_of_SomeD)
  then have k: "i \<in> fst ` set (extended_channels ds)" by force
  have "ext_entry_ok btc ds i ch" using i assms(2) by (simp add: conn_ok_def)
  from ext_entry_apply [OF assms(1) this assms(4)] k assms(2) show ?thesis
    by (intro conn_ok_ext_table [OF assms(2)] update_keys) (auto simp: conn_ok_def dest!: update_entries)
qed

lemma conn_ok_std_update:
  assumes "conn_ok btc ds" and "map_of (standard_channels ds) i = Some ch" and "std_op_ok op ch"
    and "\<And>t rewards. op \<noteq> std_op.OnNewTemplate t rewards" "\<And>j. op \<noteq> OnGroupChannelJob j"
  shows "conn_ok btc (ds\<lparr>standard_channels := AList.update i (std_apply btc op ch) (standard_channels ds)\<rparr>)"
proof -
  have i: "(i, ch) \<in> set (standard_channels ds)" using assms(2) by (rule map_of_SomeD)
  then have k: "i \<in> fst ` set (standard_channels ds)" by force
  have "std_entry_ok ds i ch" using i assms(1) by (simp add: conn_ok_def)
  from std_entry_apply [OF this assms(3-)] k assms(1) show ?thesis
    by (intro conn_ok_std_table [OF assms(1)] update_keys) (auto simp: conn_ok_def dest!: update_entries)
qed

section \<open>The handlers keep the invariant\<close>

lemma send_share_quote_request_downstream [simp]:
  "ps_downstream (send_share_quote_request c s h ps) = ps_downstream ps"
  by (simp add: send_share_quote_request_def split: option.split)

lemma answer_share_downstream [simp]:
  "ps_downstream (snd (answer_share try_send c s v nt nn acc r ps)) = ps_downstream ps"
  by (simp add: answer_share_def Let_def or_return_def split: result.split ShareValidationResult.split option.split)

lemma conn_ok_submit_standard:
  assumes "conn_ok btc (ps_downstream ps)"
  shows "conn_ok btc (ps_downstream (snd (handle_submit_shares_standard btc try_send m ps)))"
proof -
  have "conn_ok btc (ds\<lparr>standard_channels := AList.update i ch' (standard_channels ds), vardiff := AList.update i v (vardiff ds)\<rparr>)"
    if "map_of (standard_channels ds) i = Some ch" "std_validate_share btc m ch = (r, ch')" "ds = ps_downstream ps"
    for ds i ch r ch' v
    using conn_ok_std_update [OF _ that(1), of btc "std_op.ValidateShare m"] assms that(2,3)
      conn_ok_vardiff [of btc "ds\<lparr>standard_channels := AList.update i ch' (standard_channels ds)\<rparr>"
        "AList.update i v (vardiff ds)"]
    by (auto simp: dom_update)
  then show ?thesis
    using assms by (auto simp: handle_submit_shares_standard_def Let_def split: option.split prod.split)
qed

lemma conn_ok_submit_extended:
  assumes "segwit_encoding btc" and "conn_ok btc (ps_downstream ps)"
  shows "conn_ok btc (ps_downstream (snd (handle_submit_shares_extended btc try_send m ps)))"
proof -
  have "conn_ok btc (ds\<lparr>extended_channels := AList.update i ch' (extended_channels ds), vardiff := AList.update i v (vardiff ds)\<rparr>)"
    if "map_of (extended_channels ds) i = Some ch" "ext_validate_share btc m ch = (r, ch')" "ds = ps_downstream ps"
    for ds i ch r ch' v
    using conn_ok_ext_update [OF assms(1) _ that(1), of "ext_op.ValidateShare m"] assms that(2,3)
      conn_ok_vardiff [of btc "ds\<lparr>extended_channels := AList.update i ch' (extended_channels ds)\<rparr>"
        "AList.update i v (vardiff ds)"]
    by (auto simp: dom_update)
  then show ?thesis
    using assms by (auto simp: handle_submit_shares_extended_def Let_def split: option.split prod.split)
qed

lemma conn_ok_custom_job:
  assumes "segwit_encoding btc" and "conn_ok btc (ps_downstream ps)" and "pool_op_ok (CustomJob m) (ps_downstream ps)"
  shows "conn_ok btc (ps_downstream (snd (handle_set_custom_mining_job btc m ps)))"
proof -
  have "conn_ok btc (ds\<lparr>extended_channels := AList.update i ch' (extended_channels ds)\<rparr>)"
    if "map_of (extended_channels ds) i = Some ch" "ext_on_set_custom_mining_job btc m ch = (r, ch')" "ds = ps_downstream ps"
    for ds i ch r ch'
    using conn_ok_ext_update [OF assms(1) _ that(1), of "ext_op.OnSetCustomMiningJob m"] assms(2,3) that
      map_of_SomeD [OF that(1)]
    by (auto simp: jobs_left_def)
  then show ?thesis
    using assms(2)
    by (auto simp: handle_set_custom_mining_job_def Let_def or_return_def split: option.split prod.split result.split)
qed

lemma conn_ok_update_channel:
  assumes "segwit_encoding btc" and "conn_ok btc (ps_downstream ps)"
  shows "conn_ok btc (ps_downstream (snd (handle_update_channel m ps)))"
proof -
  have "conn_ok btc (ds\<lparr>extended_channels := AList.update i ch' (extended_channels ds)\<rparr>)"
    if "map_of (extended_channels ds) i = Some ch" "ext_update_channel h t ch = (r, ch')" "ds = ps_downstream ps"
    for ds i ch r ch' h t
    using conn_ok_ext_update [OF assms(1) _ that(1), of "ext_op.UpdateChannel h t"] assms(2) that by auto
  moreover have "conn_ok btc (ds\<lparr>standard_channels := AList.update i ch' (standard_channels ds)\<rparr>)"
    if "map_of (standard_channels ds) i = Some ch" "std_update_channel h t ch = (r, ch')" "ds = ps_downstream ps"
    for ds i ch r ch' h t
    using conn_ok_std_update [OF _ that(1), of btc "std_op.UpdateChannel h t"] assms(2) that by auto
  ultimately show ?thesis
    using assms(2)
    by (auto simp: handle_update_channel_def Let_def or_return_def split: option.split prod.split result.split)
qed

lemma conn_ok_close_channel:
  assumes "conn_ok btc (ps_downstream ps)"
  shows "conn_ok btc (ps_downstream (snd (handle_close_channel m ps)))"
proof -
  have d: "distinct (map fst (AList.delete k xs) @ map fst (AList.delete k ys))"
    if "distinct (map fst xs @ map fst ys)" for k :: u32 and xs :: "(u32 \<times> ExtendedChannel) list" and ys :: "(u32 \<times> StandardChannel) list"
    using that by (auto simp: AList.delete_eq distinct_map inj_on_def)
  have k: "i \<in> fst ` set (AList.delete k xs)" if "i \<in> fst ` set xs" "i \<noteq> k" for i k :: u32 and xs :: "(u32 \<times> VardiffState) list"
    using that by (auto simp: AList.delete_eq)
  define ds ds' c where "ds = ps_downstream ps" and "ds' = ps_downstream (snd (handle_close_channel m ps))"
    and "c = cc_channel_id m"
  note ds' = ds'_def [unfolded handle_close_channel_def Let_def, folded ds_def c_def, simplified]
  have e: "ext_entry_ok btc ds i ch \<Longrightarrow> i \<noteq> c \<Longrightarrow> ext_entry_ok btc ds' i ch" for i ch
    by (simp add: ext_entry_ok_def ds' k)
  have s: "std_entry_ok ds i ch \<Longrightarrow> i \<noteq> c \<Longrightarrow> std_entry_ok ds' i ch" for i ch
    by (simp add: std_entry_ok_def ds' k)
  have g: "group_entry_ok ds \<Longrightarrow> group_entry_ok ds'"
    by (auto simp: group_entry_ok_def ds' delete_entries) (metis fst_conv image_eqI)+
  show ?thesis
    using assms d [of "extended_channels ds" "standard_channels ds" c] e s g
    unfolding conn_ok_def ds_def [symmetric] ds'_def [symmetric]
    by (simp add: delete_entries ds')
qed

lemma conn_ok_group:
  assumes "conn_ok btc ds" and "group_channel ds = Some g" and "group_ok g'"
    and "job_id_state (gc_job_factory g) \<le> job_id_state (gc_job_factory g')"
    and "gc_group_channel_id g' = gc_group_channel_id g"
  shows "conn_ok btc (ds\<lparr>group_channel := Some g'\<rparr>)"
proof -
  have "ext_entry_ok btc (ds\<lparr>group_channel := Some g'\<rparr>) i ch = ext_entry_ok btc ds i ch" for i ch
    by (simp add: ext_entry_ok_def)
  moreover have "std_entry_ok ds i ch \<Longrightarrow> std_entry_ok (ds\<lparr>group_channel := Some g'\<rparr>) i ch" for i ch
    using assms(2,4) by (auto simp: std_entry_ok_def std_id_bound_def ids_up_to_def)
  moreover have "group_entry_ok ds \<Longrightarrow> group_entry_ok (ds\<lparr>group_channel := Some g'\<rparr>)"
    using assms(2-) by (auto simp: group_entry_ok_def)
  ultimately show ?thesis using assms(1) by (simp add: conn_ok_def)
qed

lemma conn_ok_ext_loop:
  assumes "conn_ok btc ds"
    and "\<And>i ch. (i, ch) \<in> set (extended_channels ds) \<Longrightarrow> ext_entry_ok btc ds i ch \<Longrightarrow> ext_entry_ok btc ds i (snd (f i ch))"
  shows "conn_ok btc (ds\<lparr>extended_channels := snd (for_channels f (extended_channels ds))\<rparr>)"
  using assms by (intro conn_ok_ext_table) (auto simp: conn_ok_def dest!: for_channels_entries)

lemma conn_ok_std_loop:
  assumes "conn_ok btc ds"
    and "\<And>i ch. (i, ch) \<in> set (standard_channels ds) \<Longrightarrow> std_entry_ok ds i ch \<Longrightarrow> std_entry_ok ds i (snd (f i ch))"
  shows "conn_ok btc (ds\<lparr>standard_channels := snd (for_channels f (standard_channels ds))\<rparr>)"
  using assms by (intro conn_ok_std_table) (auto simp: conn_ok_def dest!: for_channels_entries)

lemma or_return_keeps: "(\<And>x. r = Ok x \<Longrightarrow> snd (k x) = st) \<Longrightarrow> snd (or_return r st k) = st"
  by (cases r) auto

lemma group_tip_frame:
  "gc_job_factory (snd (group_on_set_new_prev_hash m g)) = gc_job_factory g"
  "gc_group_channel_id (snd (group_on_set_new_prev_hash m g)) = gc_group_channel_id g"
  by (simp_all add: group_on_set_new_prev_hash_def)

text \<open>The steps of a new chain tip.\<close>

lemma or_return_inv:
  assumes "P st" and "\<And>x. r = Ok x \<Longrightarrow> P (snd (k x))"
  shows "P (snd (or_return r st k))"
  using assms by (cases r) auto

lemma conn_ok_group_tip:
  assumes "conn_ok btc ds"
  shows "conn_ok btc (snd (group_channel_new_prev_hash m ds))"
proof (cases "group_channel ds")
  case (Some g)
  obtain r g' where g': "group_on_set_new_prev_hash m g = (r, g')" by fastforce
  have "conn_ok btc (ds\<lparr>group_channel := Some g'\<rparr>)"
    using conn_ok_group [OF assms Some, of g'] group_tip_frame [of m g] group_ok_on_set_new_prev_hash [of g m]
      assms Some g' by (auto simp: conn_ok_def group_entry_ok_def)
  then show ?thesis
    by (simp add: group_channel_new_prev_hash_def Some g' Let_def or_return_keeps)
qed (use assms in \<open>simp add: group_channel_new_prev_hash_def\<close>)

lemma conn_ok_standard_tip:
  assumes "conn_ok btc ds" and "tip_fits m"
  shows "conn_ok btc (snd (standard_channels_new_prev_hash m ds))"
proof -
  have "std_entry_ok ds i ch \<Longrightarrow> std_entry_ok ds i (snd (std_on_set_new_prev_hash m ch))" for i ch
    using std_entry_apply [of ds i ch "std_op.OnSetNewPrevHash m"] assms(2) by (simp add: tip_fits_def)
  then show ?thesis
    unfolding standard_channels_new_prev_hash_def case_prod_unfold snd_conv
    by (intro conn_ok_std_loop [OF assms(1)]) (auto simp: or_return_keeps)
qed

lemma conn_ok_extended_tip:
  assumes "segwit_encoding btc" and "conn_ok btc ds" and "tip_fits m"
  shows "conn_ok btc (snd (extended_channels_new_prev_hash m ds))"
proof -
  have "ext_entry_ok btc ds i ch \<Longrightarrow> ext_entry_ok btc ds i (snd (ext_on_set_new_prev_hash m ch))" for i ch
    using ext_entry_apply [OF assms(1), of ds i ch "ext_op.OnSetNewPrevHash m"] assms(3) by (simp add: tip_fits_def)
  then show ?thesis
    unfolding extended_channels_new_prev_hash_def case_prod_unfold snd_conv
    by (intro conn_ok_ext_loop [OF assms(2)]) (auto simp: or_return_keeps)
qed

lemma conn_ok_new_prev_hash:
  assumes "segwit_encoding btc" and "conn_ok btc ds" and "tip_fits m"
  shows "conn_ok btc (snd (downstream_new_prev_hash m ds))"
proof -
  have "conn_ok btc (ds\<lparr>last_new_prev_hash := m\<rparr>)"
    using assms(2,3) by (simp add: conn_ok_def entry_simps)
  then show ?thesis
    unfolding downstream_new_prev_hash_def case_prod_unfold
    by (intro or_return_inv [where P = "conn_ok btc"])
      (simp_all add: assms(1,3) conn_ok_group_tip conn_ok_standard_tip conn_ok_extended_tip)
qed

text \<open>The steps of a new template.\<close>

lemma conn_ok_standard_template:
  assumes "conn_ok btc ds" and "jobs_left ds"
  shows "conn_ok btc (snd (standard_channels_new_template btc t ds))"
proof -
  have "std_entry_ok ds i (snd (std_on_new_template btc t rewards ch))"
    if "std_entry_ok ds i ch" "(i, ch) \<in> set (standard_channels ds)" "group_channel ds = None" for i ch rewards
    using std_entry_on_new_template [OF that(1) _ that(3)] that(2) assms(2) by (auto simp: jobs_left_def)
  then show ?thesis
    unfolding standard_channels_new_template_def case_prod_unfold snd_conv
    by (intro conn_ok_std_loop [OF assms(1)]) (auto simp: or_return_keeps)
qed

lemma conn_ok_extended_template:
  assumes "segwit_encoding btc" and "conn_ok btc ds" and "template_fits t"
    and "\<forall>(i, ch) \<in> set (extended_channels ds). job_id_state (ec_job_factory ch) \<noteq> - 1"
  shows "conn_ok btc (snd (extended_channels_new_template btc t ds))"
proof -
  have "ext_entry_ok btc ds i (snd (ext_on_new_template btc t rewards ch))"
    if "ext_entry_ok btc ds i ch" "(i, ch) \<in> set (extended_channels ds)" for i ch rewards
    using ext_entry_apply [OF assms(1) that(1), of "ext_op.OnNewTemplate t rewards"] that(2) assms(3,4)
    by (auto simp: jobs_left_def template_fits_def)
  then show ?thesis
    unfolding extended_channels_new_template_def case_prod_unfold snd_conv
    by (intro conn_ok_ext_loop [OF assms(2)]) (auto simp: or_return_keeps)
qed

end
