(* ===== verification/Pool_Safety.thy ===== *)
theory Pool_Safety
  imports Pool_Invariant
begin

text \<open>
  The rest of the invariant of a connection: templates for the group channel, opening channels, and with
  them all reachable states.  The properties are the invariant itself, that a submitted share never makes
  the pool panic, that is, that the branches marked unreachable are, and that an accepted share earns
  its quote.
\<close>

section \<open>A template for the group\<close>

lemma group_on_new_template_frame:
  assumes "group_on_new_template btc t rewards g = (r, g')"
  shows "gc_group_channel_id g' = gc_group_channel_id g"
    and "job_id_state (gc_job_factory g) \<noteq> - 1 \<Longrightarrow>
      job_id_state (gc_job_factory g) \<le> job_id_state (gc_job_factory g')"
proof -
  have f: "job_id_state f \<noteq> - 1 \<Longrightarrow> job_id_state f \<le> job_id_state f'"
    if "new_extended_job btc c tip ep t rewards f = (x, f')" for c tip ep f f' x
    using new_extended_job_factory [OF that] word_less_succ [of "job_id_state f"] by auto
  show "gc_group_channel_id g' = gc_group_channel_id g"
    using assms by (auto simp: group_on_new_template_def Let_def or_return_def split: if_splits prod.splits
        option.splits result.splits)
  show "job_id_state (gc_job_factory g) \<noteq> - 1 \<Longrightarrow>
      job_id_state (gc_job_factory g) \<le> job_id_state (gc_job_factory g')"
    using assms f by (auto simp: group_on_new_template_def Let_def or_return_def split: if_splits prod.splits
        option.splits result.splits)
qed

lemma group_template_job:
  assumes "group_on_new_template btc t rewards g = (Ok (), g')"
    and "job_for_template t (gc_job_store g') = (Ok j :: (ExtendedJob, 'e) result)"
  shows "extended_job_id j = job_id_state (gc_job_factory g) + 1"
    and "job_id_state (gc_job_factory g') = job_id_state (gc_job_factory g) + 1"
proof -
  have n: "extended_job_id k = job_id_state f + 1 \<and> job_id_state f' = job_id_state f + 1"
    if "new_extended_job btc c tip ep t rewards f = (Ok k, f')" for c tip ep f f' k
    using new_extended_job_new_id [OF that] by simp
  have "extended_job_id j = job_id_state (gc_job_factory g) + 1 \<and>
      job_id_state (gc_job_factory g') = job_id_state (gc_job_factory g) + 1"
    using assms
    by (auto simp: group_on_new_template_def Let_def job_for_template_def future_job_def active_job_of_def
        job_store_defs lookup_update result_simps dest!: n split: if_splits prod.splits option.splits
        elim!: or_return_cases)
  then show "extended_job_id j = job_id_state (gc_job_factory g) + 1"
    and "job_id_state (gc_job_factory g') = job_id_state (gc_job_factory g) + 1" by simp_all
qed

lemma conn_ok_group_template:
  assumes "conn_ok btc ds" and "\<forall>g. group_channel ds = Some g \<longrightarrow> job_id_state (gc_job_factory g) \<noteq> - 1"
  shows "conn_ok btc (snd (group_channel_new_template btc t ds))"
proof (cases "group_channel ds")
  case (Some g)
  obtain r g' where g': "group_on_new_template btc t [pool_coinbase_output t ds] g = (r, g')" by fastforce
  have n: "job_id_state (gc_job_factory g) \<noteq> - 1" using assms(2) Some by simp
  have "group_ok g" using assms(1) Some by (simp add: conn_ok_def group_entry_ok_def)
  then have ok: "group_ok g'" using group_ok_on_new_template [OF _ n, of btc t "[pool_coinbase_output t ds]"] g' by simp
  define d where "d = ds\<lparr>group_channel := Some g'\<rparr>"
  have c: "conn_ok btc d"
    unfolding d_def by (rule conn_ok_group [OF assms(1) Some ok])
      (use group_on_new_template_frame [OF g'] n in auto)
  have "conn_ok btc (d\<lparr>standard_channels := snd (for_channels f (standard_channels d))\<rparr>)"
    if "r = Ok ()" and j: "job_for_template t (gc_job_store g') = (Ok j :: (ExtendedJob, PoolError) result)"
      and f: "\<And>i ch. snd (f i ch) = snd (std_on_group_channel_job btc j ch)"
    for j and f :: "u32 \<Rightarrow> StandardChannel \<Rightarrow> (Mining list, PoolError) result \<times> StandardChannel"
  proof (rule conn_ok_std_loop [OF c], unfold f)
    fix i ch assume "(i, ch) \<in> set (standard_channels d)"
    then have "std_entry_ok ds i ch" using assms(1) by (simp add: conn_ok_def d_def)
    from std_entry_group_job [OF this Some n] group_template_job [OF g' [unfolded that(1)] j]
    show "std_entry_ok d i (snd (std_on_group_channel_job btc j ch))" by (simp add: d_def)
  qed
  note loop = this [unfolded d_def, simplified] c [unfolded d_def]
  show ?thesis
  proof (cases r)
    case (Ok u)
    then have Ok: "r = Ok ()" by simp
    show ?thesis
    proof (cases "job_for_template t (gc_job_store g') :: (ExtendedJob, PoolError) result")
      case j: (Ok j)
      show ?thesis
        using loop(1) [OF Ok j, where f = "\<lambda>_ ch. case std_on_group_channel_job btc j ch of (r, ch) \<Rightarrow>
            (map_ok (\<lambda>_. []) (map_err FailedToProcessGroupChannelJob r), ch)"]
        by (simp add: group_channel_new_template_def Some g' Ok j Let_def case_prod_unfold or_return_keeps)
    qed (use loop in \<open>simp_all add: group_channel_new_template_def Some g' Ok Let_def\<close>)
  qed (use loop in \<open>simp_all add: group_channel_new_template_def Some g' Let_def\<close>)
qed (use assms(1) in \<open>simp add: group_channel_new_template_def\<close>)

lemma for_channels_nothing: "for_channels (\<lambda>_ ch. (Ok [], ch)) xs = (Ok [], xs)"
  by (induction xs) auto

lemma conn_ok_new_template:
  assumes "segwit_encoding btc" and "conn_ok btc ds" and "jobs_left ds" and "template_fits t"
  shows "conn_ok btc (snd (downstream_new_template btc t ds))"
proof -
  define d0 where "d0 = (if nt_future_template t then ds\<lparr>last_future_template := t\<rparr> else ds)"
  define d1 where "d1 = snd (standard_channels_new_template btc t d0)"
  define d2 where "d2 = snd (group_channel_new_template btc t d1)"
  have c0: "conn_ok btc d0" and j0: "jobs_left d0"
    using assms(2-) by (simp_all add: d0_def conn_ok_def entry_simps jobs_left_def)
  have c1: "conn_ok btc d1" unfolding d1_def by (rule conn_ok_standard_template [OF c0 j0])
  have f1: "group_channel d1 = group_channel d0" "extended_channels d1 = extended_channels d0"
    by (simp_all add: d1_def standard_channels_new_template_def case_prod_unfold)
  have c2: "conn_ok btc d2"
    unfolding d2_def by (rule conn_ok_group_template [OF c1]) (use j0 f1 in \<open>auto simp: jobs_left_def\<close>)
  have "extended_channels d2 = extended_channels d1"
    by (simp add: d2_def group_channel_new_template_def Let_def case_prod_unfold or_return_def
        split: option.split result.split)
  then have c3: "conn_ok btc (snd (extended_channels_new_template btc t d2))"
    using conn_ok_extended_template [OF assms(1) c2 assms(4)] j0 f1 by (simp add: jobs_left_def)
  show ?thesis
    unfolding downstream_new_template_def Let_def case_prod_unfold d0_def [symmetric] d1_def [symmetric]
      d2_def [symmetric]
    using c1 c2 c3 by (auto simp: or_return_def split: result.split)
qed

section \<open>Opening channels\<close>

lemma conn_ok_counter:
  assumes "conn_ok btc ds" and "channel_id_factory ds \<le> n"
  shows "conn_ok btc (ds\<lparr>channel_id_factory := n\<rparr>)"
proof -
  have "ext_entry_ok btc ds i ch \<Longrightarrow> ext_entry_ok btc (ds\<lparr>channel_id_factory := n\<rparr>) i ch" for i ch
    using assms(2) by (auto simp: ext_entry_ok_def)
  moreover have "std_entry_ok ds i ch \<Longrightarrow> std_entry_ok (ds\<lparr>channel_id_factory := n\<rparr>) i ch" for i ch
    using assms(2) by (auto simp: std_entry_ok_def)
  moreover have "group_entry_ok ds \<Longrightarrow> group_entry_ok (ds\<lparr>channel_id_factory := n\<rparr>)"
    using assms(2) by (auto simp: group_entry_ok_def)
  ultimately show ?thesis using assms(1) by (simp add: conn_ok_def)
qed

text \<open>No channel has the id that the counter gives next.\<close>

definition fresh_id :: "Downstream \<Rightarrow> u32 \<Rightarrow> bool" where
  "fresh_id ds i \<longleftrightarrow> i \<notin> fst ` set (extended_channels ds) \<union> fst ` set (standard_channels ds) \<and>
     (\<forall>g. group_channel ds = Some g \<longrightarrow> gc_group_channel_id g \<noteq> i)"

lemma fresh_next_id:
  assumes "conn_ok btc ds" and "channel_id_factory ds \<noteq> - 1"
  shows "fresh_id (ds\<lparr>channel_id_factory := n\<rparr>) (channel_id_factory ds + 1)"
proof -
  have le: "i \<noteq> channel_id_factory ds + 1" if "i \<le> channel_id_factory ds" for i
    using that word_less_succ [OF assms(2)] by auto
  have ext: "i \<le> channel_id_factory ds" if "i \<in> fst ` set (extended_channels ds)" for i
    using assms(1) that by (auto simp: conn_ok_def ext_entry_ok_def)
  have std: "i \<le> channel_id_factory ds" if "i \<in> fst ` set (standard_channels ds)" for i
    using assms(1) that by (auto simp: conn_ok_def std_entry_ok_def)
  have "gc_group_channel_id g \<le> channel_id_factory ds" if "group_channel ds = Some g" for g
    using assms(1) that by (simp add: conn_ok_def group_entry_ok_def)
  moreover have "channel_id_factory ds + 1 \<notin> fst ` set (extended_channels ds)"
      "channel_id_factory ds + 1 \<notin> fst ` set (standard_channels ds)"
    using le ext std by blast+
  ultimately show ?thesis using le by (simp add: fresh_id_def)
qed

lemma conn_ok_add_ext:
  assumes "conn_ok btc ds" and "fresh_id ds i" and "ext_entry_ok btc (ds\<lparr>vardiff := v\<rparr>) i ch"
    and "fst ` set (vardiff ds) \<subseteq> fst ` set v"
  shows "conn_ok btc (ds\<lparr>extended_channels := AList.update i ch (extended_channels ds), vardiff := v\<rparr>)"
proof -
  define d where "d = ds\<lparr>vardiff := v\<rparr>"
  have c: "conn_ok btc d" unfolding d_def by (rule conn_ok_vardiff [OF assms(1,4)])
  have e: "ext_entry_ok btc (d\<lparr>extended_channels := xs\<rparr>) = ext_entry_ok btc d"
    "std_entry_ok (d\<lparr>extended_channels := xs\<rparr>) = std_entry_ok d" for xs
    by (simp_all add: fun_eq_iff ext_entry_ok_def std_entry_ok_def)
  have new: "i \<notin> fst ` set (extended_channels d)" "i \<notin> fst ` set (standard_channels d)"
    using assms(2) by (simp_all add: fresh_id_def d_def)
  have "conn_ok btc (d\<lparr>extended_channels := AList.update i ch (extended_channels d)\<rparr>)"
    unfolding conn_ok_def e
    using c new assms(2) assms(3) [folded d_def]
    by (simp add: conn_ok_def update_new) (auto simp: group_entry_ok_def fresh_id_def d_def)
  then show ?thesis by (cases ds) (simp add: d_def)
qed

lemma conn_ok_add_std:
  assumes "conn_ok btc ds" and "fresh_id ds i" and "std_entry_ok (ds\<lparr>vardiff := v\<rparr>) i ch"
    and "fst ` set (vardiff ds) \<subseteq> fst ` set v" and "group_channel ds = None \<longleftrightarrow> requires_standard_jobs ds"
  shows "conn_ok btc (ds\<lparr>standard_channels := AList.update i ch (standard_channels ds), vardiff := v,
    group_channel := map_option (add_standard_channel_id i) (group_channel ds)\<rparr>)"
proof -
  define d where "d = ds\<lparr>vardiff := v\<rparr>"
  let ?g = "map_option (add_standard_channel_id i) (group_channel d)"
  have c: "conn_ok btc d" unfolding d_def by (rule conn_ok_vardiff [OF assms(1,4)])
  have b: "std_id_bound ?g ch = std_id_bound (group_channel d) ch" for ch
    by (cases "group_channel d") (simp_all add: std_id_bound_def add_standard_channel_id_def)
  have e: "ext_entry_ok btc (d\<lparr>standard_channels := xs, group_channel := ?g\<rparr>) = ext_entry_ok btc d"
    "std_entry_ok (d\<lparr>standard_channels := xs, group_channel := ?g\<rparr>) = std_entry_ok d" for xs
    by (simp_all add: fun_eq_iff ext_entry_ok_def std_entry_ok_def b)
  have new: "i \<notin> fst ` set (extended_channels d)" "i \<notin> fst ` set (standard_channels d)"
    using assms(2) by (simp_all add: fresh_id_def d_def)
  have g: "group_ok (add_standard_channel_id i g) = group_ok g" for g
    by (simp add: group_ok_def add_standard_channel_id_def)
  have "group_entry_ok d" using c by (simp add: conn_ok_def)
  moreover have "gc_group_channel_id x \<noteq> i" if "group_channel d = Some x" for x
    using assms(2) that by (simp add: fresh_id_def d_def)
  moreover have "group_channel d = None \<longleftrightarrow> requires_standard_jobs d" using assms(5) by (simp add: d_def)
  ultimately have ge: "group_entry_ok (d\<lparr>standard_channels := standard_channels d @ [(i, ch)], group_channel := ?g\<rparr>)"
    by (cases "group_channel d") (simp_all add: group_entry_ok_def g, simp_all add: add_standard_channel_id_def)
  have "conn_ok btc (d\<lparr>standard_channels := AList.update i ch (standard_channels d), group_channel := ?g\<rparr>)"
    unfolding conn_ok_def e update_new [OF new(2)]
    using c new assms(3) [folded d_def] ge by (auto simp: conn_ok_def)
  then show ?thesis by (cases ds) (simp add: d_def)
qed

lemma vardiff_update: "fst ` set (vardiff ds) \<subseteq> fst ` set (AList.update i v (vardiff ds))"
  "i \<in> fst ` set (AList.update i v (vardiff ds))"
  by (auto simp: dom_update)

lemma spawn_channel_registration_downstream [simp]:
  "ps_downstream (spawn_channel_registration i ps) = ps_downstream ps"
  by (simp add: spawn_channel_registration_def split: option.split)

text \<open>What a channel opened by the pool starts with.\<close>

lemma ext_opened:
  assumes "ext_new_for_pool i user prefix mt h True ms batch spm job_store_new tag = Ok ch"
  shows "ext_ok btc ch \<and> jf_version_rolling_allowed (ec_job_factory ch) \<and> ec_channel_id ch = i \<and>
    share_batch_size (ec_share_accounting ch) = batch \<and> job_id_state (ec_job_factory ch) = 0"
  using ext_ok_opened [OF assms [unfolded ext_new_for_pool_def], of btc] assms
  by (auto simp: ext_new_for_pool_def extended_channel_new_def result_simps job_factory_new_def
      share_accounting_new_def Let_def split: if_splits)

lemma std_opened:
  assumes "std_new_for_pool i user prefix mt h batch spm job_store_new tag = Ok ch"
  shows "std_ok ch \<and> sc_channel_id ch = i \<and> share_batch_size (sc_share_accounting ch) = batch \<and>
    job_id_state (sc_job_factory ch) = 0 \<and> sc_job_store ch = job_store_new"
  using std_ok_opened [OF assms [unfolded std_new_for_pool_def]] assms
  by (auto simp: std_new_for_pool_def standard_channel_new_def result_simps job_factory_new_def
      share_accounting_new_def Let_def split: if_splits)

lemma conn_ok_install_extended:
  assumes "segwit_encoding btc" and c: "conn_ok btc (ps_downstream ps)"
    and "fresh_id (ps_downstream ps) i" and "i \<le> channel_id_factory (ps_downstream ps)"
    and "ext_new_for_pool i user prefix mt h True ms (ds_share_batch_size (ps_downstream ps)) spm
      job_store_new tag = Ok ch"
  shows "conn_ok btc (ps_downstream (snd (install_extended_channel btc clock request_id i ch ps)))"
proof -
  define ds where "ds = ps_downstream ps"
  note o = ext_opened [OF assms(5), of btc]
  have fin: "conn_ok btc (ds\<lparr>extended_channels := AList.update i ch' (extended_channels ds),
      vardiff := AList.update i v (vardiff ds)\<rparr>)"
    if "ext_entry_ok btc (ds\<lparr>vardiff := AList.update i v (vardiff ds)\<rparr>) i ch'" for ch' v
    using conn_ok_add_ext [OF c [folded ds_def] assms(3) [folded ds_def] that] vardiff_update by blast
  have start: "ext_entry_ok btc (ds\<lparr>vardiff := AList.update i v (vardiff ds)\<rparr>) i ch" for v
    using o assms(4) vardiff_update by (simp add: ext_entry_ok_def ds_def)
  have fits: "template_fits (last_future_template ds)" "tip_fits (last_new_prev_hash ds)"
    using c by (simp_all add: conn_ok_def ds_def)
  have tip: "ext_entry_ok btc d i (snd (ext_on_set_new_prev_hash (last_new_prev_hash ds) k))"
    if "ext_entry_ok btc d i k" for d k
    using ext_entry_apply [OF assms(1) that, of "ext_op.OnSetNewPrevHash (last_new_prev_hash ds)"] fits
    by (simp add: tip_fits_def)
  have tem: "ext_entry_ok btc d i (snd (ext_on_new_template btc (last_future_template ds) rewards ch))"
    if "ext_entry_ok btc d i ch" for d rewards
    using ext_entry_apply [OF assms(1) that, of "ext_op.OnNewTemplate (last_future_template ds) rewards"] fits o
    by (simp add: template_fits_def)
  show ?thesis
    using c fin start tip tem
    unfolding install_extended_channel_def Let_def ds_def [symmetric]
    by (simp add: or_return_def case_prod_unfold ds_def split: result.split)
qed

lemma std_first_job:
  assumes "std_on_new_template btc t rewards ch = (Ok (), ch1)" and "std_ok ch"
    and "sc_job_store ch = job_store_new" and "job_id_state (sc_job_factory ch) = 0"
  shows "std_ok ch1" and "ids_up_to standard_job_id 1 (sc_job_store ch1)" and "job_id_state (sc_job_factory ch1) = 1"
    and "is_ok (op_pushbytes_pool_miner_tag (sc_job_factory ch1))"
proof -
  have op: "std_op_ok (std_op.OnNewTemplate t rewards) ch" by (simp add: assms(3))
  show "std_ok ch1" using std_ok_apply [OF assms(2) op, of btc] assms(1) by simp
  obtain j f c tip ep where j: "new_standard_job btc c tip ep t rewards (sc_job_factory ch) = (Ok j, f)"
    and f: "sc_job_factory ch1 = f"
    using assms(1) by (auto simp: std_on_new_template_def Let_def result_simps split: if_splits prod.splits
        option.splits elim!: or_return_cases)
  show n: "job_id_state (sc_job_factory ch1) = 1"
    by (rule new_standard_job_Ok [OF j]) (simp add: f assms(4))
  have "ids_up_to standard_job_id (job_id_state (sc_job_factory ch)) (sc_job_store ch)"
    by (simp add: assms(3) ids_up_to_def)
  from std_ids_on_new_template [OF this, of btc t rewards] show "ids_up_to standard_job_id 1 (sc_job_store ch1)"
    using assms(1,4) n by simp
  obtain prefix suffix where p: "coinbase_tx_prefix btc f t rewards = Ok prefix" "coinbase_tx_suffix btc f t rewards = Ok suffix"
    by (rule new_standard_job_Ok [OF j])
  obtain tx where "coinbase btc f t rewards = Ok tx" by (rule coinbase_halves_Ok [OF p])
  then obtain tag where "op_pushbytes_pool_miner_tag f = Ok tag" by (rule coinbase_Ok)
  then show "is_ok (op_pushbytes_pool_miner_tag (sc_job_factory ch1))" by (simp add: f)
qed

lemma conn_ok_install_standard:
  assumes c: "conn_ok btc (ps_downstream ps)"
    and "fresh_id (ps_downstream ps) i" and "i \<le> channel_id_factory (ps_downstream ps)"
    and "group_channel (ps_downstream ps) = None \<longleftrightarrow> requires_standard_jobs (ps_downstream ps)"
    and "std_new_for_pool i user prefix mt h (ds_share_batch_size (ps_downstream ps)) spm
      job_store_new tag = Ok ch"
  shows "conn_ok btc (ps_downstream (snd (install_standard_channel btc clock request_id i ch ps)))"
proof -
  define ds where "ds = ps_downstream ps"
  have o: "std_ok ch" "sc_channel_id ch = i"
      "share_batch_size (sc_share_accounting ch) = ds_share_batch_size (ps_downstream ps)"
      "job_id_state (sc_job_factory ch) = 0" "sc_job_store ch = job_store_new"
    using std_opened [OF assms(5)] by simp_all
  have fits: "tip_fits (last_new_prev_hash ds)" using c by (simp add: conn_ok_def ds_def)
  have fin: "conn_ok btc (ds\<lparr>standard_channels := AList.update i ch2 (standard_channels ds),
      vardiff := AList.update i v (vardiff ds),
      group_channel := map_option (add_standard_channel_id i) (group_channel ds)\<rparr>)"
    if "std_on_new_template btc t rewards ch = (Ok (), ch1)"
      and tip: "std_on_set_new_prev_hash (last_new_prev_hash ds) ch1 = (Ok (), ch2)" for ch1 ch2 v t rewards
  proof (rule conn_ok_add_std [OF c [folded ds_def] assms(2) [folded ds_def] _ vardiff_update(1)])
    note first = std_first_job [OF that(1) o(1,5,4)]
    let ?d = "ds\<lparr>vardiff := AList.update i v (vardiff ds)\<rparr>"
    let ?op = "std_op.OnSetNewPrevHash (last_new_prev_hash ds)"
    have op: "std_op_ok ?op ch1" using fits by (simp add: tip_fits_def)
    have a: "std_apply btc ?op ch1 = ch2" using tip by simp
    have st: "store_ok standard_job_id (sc_job_store ch1)" using first(1) by (simp add: std_ok_def)
    note frame = std_ids_frame [OF _ _ st, of ?op btc, unfolded a]
      std_apply_keeps [where btc = btc and op = ?op and ch = ch1, unfolded a]
      std_apply_keeps [where btc = btc and op = "std_op.OnNewTemplate t rewards" and ch = ch]
    have "1 \<le> std_id_bound (group_channel ds) ch2"
    proof (cases "group_channel ds")
      case (Some g)
      then show ?thesis using c by (simp add: std_id_bound_def conn_ok_def group_entry_ok_def ds_def)
    qed (use first(3) o frame in \<open>simp add: std_id_bound_def\<close>)
    then have "ids_up_to standard_job_id (std_id_bound (group_channel ds) ch2) (sc_job_store ch2)"
      using first(2) o frame by (auto simp: ids_up_to_def intro: order_trans)
    moreover have "std_ok ch2" using std_ok_apply [OF first(1) op, of btc] o a by simp
    moreover have "sc_chain_tip ch2 \<noteq> None"
      using tip by (auto simp: std_on_set_new_prev_hash_def split: if_splits prod.splits)
    ultimately show "std_entry_ok ?d i ch2"
      using first(4) o frame that assms(3) vardiff_update(2) by (simp add: std_entry_ok_def ds_def)
  qed (use assms(4) in \<open>simp add: ds_def\<close>)
  show ?thesis
    using c fin [OF prod_eqI prod_eqI]
    unfolding install_standard_channel_def Let_def ds_def [symmetric]
    by (simp add: or_return_def case_prod_unfold ds_def result_simps split: result.split)
qed

lemma pool_group_ready:
  assumes "group_on_new_template btc t rewards (group_new_for_pool i job_store_new tag) = (Ok (), g1)"
    and "group_on_set_new_prev_hash m g1 = (r, g2)"
  shows "group_ok g2 \<and> job_id_state (gc_job_factory g2) = 1 \<and> gc_group_channel_id g2 = i"
proof -
  let ?g = "group_new_for_pool i job_store_new tag"
  have g: "group_ok ?g" "job_id_state (gc_job_factory ?g) = 0" "gc_group_channel_id ?g = i"
    by (simp_all add: group_new_for_pool_def group_channel_new_def group_ok_def ids_up_to_def job_factory_new_def)
  obtain j f c tip ep where j: "new_extended_job btc c tip ep t rewards (gc_job_factory ?g) = (Ok j, f)"
    and f: "gc_job_factory g1 = f"
    using assms(1) by (auto simp: group_on_new_template_def Let_def result_simps split: if_splits prod.splits
        option.splits elim!: or_return_cases)
  have "job_id_state (gc_job_factory g1) = 1"
    using new_extended_job_new_id [OF j] g(2) by (simp add: f)
  moreover have "group_ok g1" using group_ok_on_new_template [OF g(1), of btc t rewards] g(2) assms(1) by simp
  ultimately show ?thesis
    using group_ok_on_set_new_prev_hash [of g1 m] group_tip_frame [of m g1] assms(2) g(3)
      group_on_new_template_frame(1) [OF assms(1)] by simp
qed

lemma counter_room:
  assumes "unat (w :: u32) + 2 < 2 ^ 32"
  shows "w \<noteq> - 1" and "w + 1 \<noteq> - 1" and "w \<le> w + 1"
proof -
  have s: "unat (w + 1) = unat w + 1" "unat (w + 2) = unat w + 2"
    using assms unat_add_lem [of w 1] unat_add_lem [of w 2] by simp_all
  show w: "w \<noteq> - 1" using s(1) by (metis add.right_inverse add.commute unat_0 add_is_0 one_neq_zero)
  show "w \<le> w + 1" using word_less_succ [OF w] by simp
  have "w + 2 = (w + 1) + 1" by simp
  then show "w + 1 \<noteq> - 1" using s(2) by (auto simp: add.commute)
qed

lemma conn_ok_ensure_group:
  assumes c: "conn_ok btc (ps_downstream ps)" and n: "unat (channel_id_factory (ps_downstream ps)) + 2 < 2 ^ 32"
    and e: "ensure_group_channel btc ps = (r, ps')"
  shows "conn_ok btc (ps_downstream ps') \<and> channel_id_factory (ps_downstream ps') \<noteq> - 1 \<and>
    (r = Ok () \<longrightarrow> (group_channel (ps_downstream ps') = None \<longleftrightarrow> requires_standard_jobs (ps_downstream ps')))"
proof (cases "\<not> requires_standard_jobs (ps_downstream ps) \<and> group_channel (ps_downstream ps) = None")
  case True
  define ds where "ds = ps_downstream ps"
  let ?i = "channel_id_factory ds + 1"
  define d where "d = ds\<lparr>channel_id_factory := ?i\<rparr>"
  note room = counter_room [OF n, folded ds_def]
  have none: "group_channel ds = None" "standard_channels ds = []" "\<not> requires_standard_jobs ds"
    using True c by (auto simp: ds_def conn_ok_def group_entry_ok_def)
  have cd: "conn_ok btc d" unfolding d_def by (rule conn_ok_counter [OF c [folded ds_def] room(3)])
  have fresh: "fresh_id d ?i" unfolding d_def by (rule fresh_next_id [OF c [folded ds_def] room(1)])
  have ready: "conn_ok btc (d\<lparr>group_channel := Some g\<rparr>)"
    if "group_ok g" "job_id_state (gc_job_factory g) = 1" "gc_group_channel_id g = ?i" for g
  proof -
    have "ext_entry_ok btc (d\<lparr>group_channel := Some g\<rparr>) = ext_entry_ok btc d"
      by (simp add: fun_eq_iff ext_entry_ok_def)
    then show ?thesis
      using cd fresh none that by (simp add: conn_ok_def d_def group_entry_ok_def fresh_id_def)
  qed
  obtain r1 g1 where g1: "group_on_new_template btc (last_future_template ds)
      [pool_coinbase_output (last_future_template ds) ds]
      (group_new_for_pool ?i job_store_new (ds_pool_tag_string ds)) = (r1, g1)" by fastforce
  obtain r2 g2 where g2: "group_on_set_new_prev_hash (last_new_prev_hash ds) g1 = (r2, g2)" by fastforce
  have "conn_ok btc (d\<lparr>group_channel := Some g2\<rparr>)" if "r1 = Ok ()"
    using pool_group_ready [OF g1 [unfolded that] g2] by (intro ready) auto
  then show ?thesis
    using e True cd room(2) g1 g2
    by (auto simp: ensure_group_channel_def id_factory_next_def Let_def result_simps d_def simp flip: ds_def
        elim!: or_return_cases)
next
  case False
  then have "ps' = ps" using e by (auto simp: ensure_group_channel_def Let_def split: if_splits)
  moreover have "group_entry_ok (ps_downstream ps)" using c by (simp add: conn_ok_def)
  ultimately show ?thesis using False c counter_room(1) [OF n] by (auto simp: group_entry_ok_def)
qed

lemma conn_ok_open_standard:
  assumes c: "conn_ok btc (ps_downstream ps)" and n: "pool_op_ok (OpenStandard clock m) (ps_downstream ps)"
  shows "conn_ok btc (ps_downstream (snd (handle_open_standard_mining_channel btc clock m ps)))"
proof -
  obtain r ps1 where e: "ensure_group_channel btc ps = (r, ps1)" by fastforce
  have c1: "conn_ok btc (ps_downstream ps1)" and n1: "channel_id_factory (ps_downstream ps1) \<noteq> - 1"
    and g: "r = Ok () \<Longrightarrow> group_channel (ps_downstream ps1) = None \<longleftrightarrow> requires_standard_jobs (ps_downstream ps1)"
    using conn_ok_ensure_group [OF c _ e] n by simp_all
  define d where "d = (ps_downstream ps1)\<lparr>channel_id_factory := channel_id_factory (ps_downstream ps1) + 1\<rparr>"
  have le: "channel_id_factory (ps_downstream ps1) \<le> channel_id_factory (ps_downstream ps1) + 1"
    using word_less_succ [OF n1] by simp
  have cd: "conn_ok btc d" unfolding d_def by (rule conn_ok_counter [OF c1 le])
  have inst: "conn_ok btc (ps_downstream (snd (install_standard_channel btc clock q
      (channel_id_factory (ps_downstream ps1) + 1) ch p)))"
    if "r = Ok ()" "ps_downstream p = d" and "std_new_for_pool (channel_id_factory (ps_downstream ps1) + 1) user
      prefix mt h (ds_share_batch_size (ps_downstream ps1)) spm job_store_new tag = Ok ch" for p q ch user prefix mt h spm tag
    by (rule conn_ok_install_standard)
      (use that cd g fresh_next_id [OF c1 n1] in \<open>simp_all add: d_def\<close>)
  show ?thesis
    using c c1 cd inst
    unfolding handle_open_standard_mining_channel_def e id_factory_next_def Let_def
    by (auto simp: d_def [symmetric] or_return_def split: result.split prod.split)
qed

lemma conn_ok_open_extended:
  assumes "segwit_encoding btc" and c: "conn_ok btc (ps_downstream ps)"
    and n: "pool_op_ok (OpenExtended clock m) (ps_downstream ps)"
  shows "conn_ok btc (ps_downstream (snd (handle_open_extended_mining_channel btc clock m ps)))"
proof -
  let ?i = "channel_id_factory (ps_downstream ps) + 1"
  define d where "d = (ps_downstream ps)\<lparr>channel_id_factory := ?i\<rparr>"
  have room: "channel_id_factory (ps_downstream ps) \<noteq> - 1" "channel_id_factory (ps_downstream ps) \<le> ?i"
    using counter_room n by simp_all
  have cd: "conn_ok btc d" unfolding d_def by (rule conn_ok_counter [OF c room(2)])
  have inst: "conn_ok btc (ps_downstream (snd (install_extended_channel btc clock q ?i ch p)))"
    if "ps_downstream p = d" and "ext_new_for_pool ?i user prefix mt h True ms (ds_share_batch_size (ps_downstream ps)) spm
      job_store_new tag = Ok ch" for p q ch user prefix mt h ms spm tag
    by (rule conn_ok_install_extended [OF assms(1)])
      (use that cd fresh_next_id [OF c room(1)] in \<open>simp_all add: d_def\<close>)
  show ?thesis
    using c cd inst
    unfolding handle_open_extended_mining_channel_def id_factory_next_def Let_def
    by (auto simp: d_def [symmetric] or_return_def split: result.split prod.split)
qed

section \<open>All reachable states\<close>

lemma conn_ok_apply:
  assumes "segwit_encoding btc" and "conn_ok btc (ps_downstream ps)" and "pool_op_ok op (ps_downstream ps)"
  shows "conn_ok btc (ps_downstream (pool_apply btc op ps))"
  using assms conn_ok_open_standard [OF assms(2)] conn_ok_open_extended [OF assms(1,2)]
    conn_ok_update_channel [OF assms(1,2)] conn_ok_submit_standard [OF assms(2)]
    conn_ok_submit_extended [OF assms(1,2)] conn_ok_custom_job [OF assms(1,2)]
    conn_ok_close_channel [OF assms(2)] conn_ok_new_template [OF assms(1,2)]
    conn_ok_new_prev_hash [OF assms(1,2)]
  by (cases op) simp_all

lemma fresh_connection_ok: "fresh_connection ds \<Longrightarrow> conn_ok btc ds"
  by (simp add: fresh_connection_def conn_ok_def group_entry_ok_def)

lemma pool_reachable_ok: "pool_reachable btc ps \<Longrightarrow> segwit_encoding btc \<Longrightarrow> conn_ok btc (ps_downstream ps)"
  by (induction rule: pool_reachable.induct) (auto intro: fresh_connection_ok conn_ok_apply)

section \<open>Submitted shares\<close>

lemma answer_share_no_panic:
  assumes "r \<noteq> Panic" and "\<And>e. r = Err e \<Longrightarrow> share_error_code e \<noteq> None"
  shows "fst (answer_share try_send c s v nt nn acc r ps) \<noteq> Panic"
proof (cases r)
  case (Ok x)
  have "inner_try_from_vec B064K b \<noteq> Panic" for b by (simp add: inner_try_from_vec_def)
  then show ?thesis
    by (cases x) (auto simp: answer_share_def Ok Let_def or_return_def result_simps
        split: option.split result.split)
next
  case (Err e)
  then show ?thesis using assms(2) by (auto simp: answer_share_def split: option.split)
qed (use assms in simp)

lemma submit_standard_no_panic:
  assumes "conn_ok btc (ps_downstream ps)" and "hash_lengths btc"
  shows "fst (handle_submit_shares_standard btc try_send m ps) \<noteq> Panic"
proof (cases "map_of (standard_channels (ps_downstream ps)) (sss_channel_id m)")
  case (Some ch)
  obtain r ch' where v: "std_validate_share btc m ch = (r, ch')" by fastforce
  have e: "std_entry_ok (ps_downstream ps) (sss_channel_id m) ch"
    using assms(1) map_of_SomeD [OF Some] by (simp add: conn_ok_def)
  then have "map_of (vardiff (ps_downstream ps)) (sss_channel_id m) \<noteq> None"
    by (simp add: std_entry_ok_def map_of_eq_None_iff)
  moreover have "r \<noteq> Panic" "\<And>x. r = Err x \<Longrightarrow> x \<in> {Stale, InvalidJobId, DoesNotMeetTarget, DuplicateShare}"
    using std_validate_share_errors [OF _ assms(2) _ v] e assms(1)
    by (auto simp: std_entry_ok_def conn_ok_def)
  then have "fst (answer_share try_send c s vv nt nn acc r p) \<noteq> Panic" for c s vv nt nn acc p
    by (intro answer_share_no_panic) auto
  ultimately show ?thesis
    using Some v by (auto simp: handle_submit_shares_standard_def Let_def)
qed (simp add: handle_submit_shares_standard_def Let_def)

lemma submit_extended_no_panic:
  assumes "conn_ok btc (ps_downstream ps)" and "hash_lengths btc"
  shows "fst (handle_submit_shares_extended btc try_send m ps) \<noteq> Panic"
proof (cases "map_of (extended_channels (ps_downstream ps)) (sse_channel_id m)")
  case (Some ch)
  obtain r ch' where v: "ext_validate_share btc m ch = (r, ch')" by fastforce
  have e: "ext_entry_ok btc (ps_downstream ps) (sse_channel_id m) ch"
    using assms(1) map_of_SomeD [OF Some] by (simp add: conn_ok_def)
  then have "map_of (vardiff (ps_downstream ps)) (sse_channel_id m) \<noteq> None"
    by (simp add: ext_entry_ok_def map_of_eq_None_iff)
  moreover have "r \<noteq> Panic" "share_error_code x \<noteq> None" if "r = Err x \<or> r = Panic" for x
    using ext_validate_share_errors [OF _ assms(2) _ v] e assms(1) that
    by (cases x; auto simp: ext_entry_ok_def conn_ok_def)+
  then have "fst (answer_share try_send c s vv nt nn acc r p) \<noteq> Panic" for c s vv nt nn acc p
    by (intro answer_share_no_panic) auto
  ultimately show ?thesis
    using Some v by (auto simp: handle_submit_shares_extended_def Let_def)
qed (simp add: handle_submit_shares_extended_def Let_def)

section \<open>Quotes for shares\<close>

lemma count_leading_zero_bits_loop_eq:
  "count_leading_zero_bits_loop bs n = calculate_difficulty_loop bs n"
  by (induction bs arbitrary: n) simp_all

text \<open>The pool's filter and the amount count the same bits.\<close>

lemma count_leading_zero_bits_difficulty: "count_leading_zero_bits = calculate_difficulty"
  by (simp add: fun_eq_iff count_leading_zero_bits_def calculate_difficulty_def count_leading_zero_bits_loop_eq)

lemma minimum_share_difficulty_iff:
  assumes "length h = 32"
  shows "validate_minimum_share_difficulty h minimum c s = None \<longleftrightarrow>
    (case minimum of Some b \<Rightarrow> unat b \<le> zero_bits h | None \<Rightarrow> True)"
  using unat_calculate_difficulty [OF assms]
  by (auto simp: validate_minimum_share_difficulty_def validate_share_difficulty_def Let_def
      count_leading_zero_bits_difficulty word_less_nat_alt split: option.split)

text \<open>The hashes a judged share earns a quote for: an accepted share that passes the filter of the pool, and
  a block in any case.\<close>

definition earned :: "u32 option \<Rightarrow> (ShareValidationResult, ShareValidationError) result \<Rightarrow> bytes list" where
  "earned minimum r =
     (let hard_enough = (\<lambda>h. case minimum of Some b \<Rightarrow> unat b \<le> zero_bits h | None \<Rightarrow> True) in
      case r of
        Ok (Valid s) \<Rightarrow> filter hard_enough [rev (hash s)]
      | Ok (ValidWithAcknowledgement s _ _ _) \<Rightarrow> filter hard_enough [rev (hash s)]
      | Ok (BlockFound s _ _) \<Rightarrow> [rev (hash s)]
      | _ \<Rightarrow> [])"

lemma answer_share_tasks:
  assumes "quote_dispatcher (ps_downstream ps) = Some disp"
    and "\<And>x. r = Ok x \<Longrightarrow> length (hash (case x of Valid s \<Rightarrow> s | ValidWithAcknowledgement s _ _ _ \<Rightarrow> s | BlockFound s _ _ \<Rightarrow> s)) = 32"
  shows "ps_tasks (snd (answer_share try_send c s v nt nn acc r ps)) = ps_tasks ps @
    map (\<lambda>h. DispatchQuote c s h (locking_key_bytes (ps_downstream ps)))
      (earned (minimum_share_difficulty_bits (ps_downstream ps)) r)"
proof (cases r)
  case (Ok x)
  have m: "validate_minimum_share_difficulty (rev (hash a)) b c s = None \<longleftrightarrow>
      (case b of Some b \<Rightarrow> unat b \<le> zero_bits (rev (hash a)) | None \<Rightarrow> True)" if "length (hash a) = 32" for a b
    using that by (intro minimum_share_difficulty_iff) simp
  note defs = answer_share_def earned_def header_hash_bytes_def send_share_quote_request_def Ok Let_def assms(1)
  show ?thesis
  proof (cases x)
    case (Valid a)
    then show ?thesis
      using m [of a "minimum_share_difficulty_bits (ps_downstream ps)"] assms(2) [OF Ok]
      by (cases "validate_minimum_share_difficulty (rev (hash a))
        (minimum_share_difficulty_bits (ps_downstream ps)) c s") (simp_all add: defs)
  next
    case (ValidWithAcknowledgement a q1 q2 q3)
    then show ?thesis
      using m [of a "minimum_share_difficulty_bits (ps_downstream ps)"] assms(2) [OF Ok]
      by (cases "validate_minimum_share_difficulty (rev (hash a))
        (minimum_share_difficulty_bits (ps_downstream ps)) c s") (simp_all add: defs)
  qed (simp add: defs or_return_def split: option.split result.split)
qed (auto simp: answer_share_def earned_def split: option.split)

lemma ext_share_hash_length:
  assumes "hash_lengths btc" and "ext_validate_share btc share ch = (Ok x, ch')"
  shows "length (hash (case x of Valid s \<Rightarrow> s | ValidWithAcknowledgement s _ _ _ \<Rightarrow> s | BlockFound s _ _ \<Rightarrow> s)) = 32"
  using assms(2)
proof (cases rule: ext_validate_share_cases)
  case (judged j header t)
  have len: "length (block_hash btc header) = 32" using assms(1) by (simp add: hash_lengths_def)
  show ?thesis
  proof (cases "is_met_by btc (hdr_bits header) (block_hash btc header)")
    case True
    then show ?thesis using assms(2) len by (auto simp: ext_validate_share_selected [OF judged])
  next
    case False
    obtain acc where "check_target (ec_target ch) (sse_sequence_number share) (block_hash btc header) t
        (ec_share_accounting ch) = (Ok x, acc)"
      using assms(2) False
      by (cases "check_target (ec_target ch) (sse_sequence_number share) (block_hash btc header) t
        (ec_share_accounting ch)") (auto simp: ext_validate_share_selected [OF judged])
    from check_target_cases [OF this] len show ?thesis by auto
  qed
qed simp

lemma dispatch_quote_tasks:
  assumes "length header_hash = 32" and "length key = 33" and "sha header_hash = Ok header_hash"
    and "dispatch_enabled disp \<noteq> Some False"
  shows "dispatch_quote sha disp contexts c s header_hash (Some key) =
    (Ok (), if has_callback disp then [(c, calculate_ehash_amount header_hash (minimum_difficulty disp))] else [],
     [SendQuoteRequest
       \<lparr>parsed_request = \<lparr>mqr_amount = calculate_ehash_amount header_hash (minimum_difficulty disp),
          mqr_unit = Owned HASH_unit, mqr_header_hash = Owned header_hash, mqr_description = [],
          mqr_locking_key = Owned key\<rparr>, parsed_share_hash = ShareHash header_hash\<rparr>
       \<lparr>pqc_channel_id = c, pqc_sequence_number = s,
        pqc_amount = calculate_ehash_amount header_hash (minimum_difficulty disp)\<rparr>])"
  using b0255_from_bytes [of key] assms
  by (auto simp: dispatch_quote_def submit_quote_def Let_def build_parsed_quote_request_Ok split: option.split)

section \<open>A connection at work\<close>

definition demo_dispatcher :: QuoteDispatcher where
  "demo_dispatcher = \<lparr>dispatch_enabled = None, minimum_difficulty = 0, has_callback = True\<rparr>"

definition demo_downstream :: Downstream where
  "demo_downstream =
     \<lparr>ds_id = 1, requires_standard_jobs = False, requires_custom_work = False,
      quote_dispatcher = Some demo_dispatcher, locking_key_bytes = Some (replicate 33 2),
      channel_id_factory = 0, extended_channels = [], standard_channels = [], vardiff = [],
      group_channel = None, ds_share_batch_size = 10, shares_per_minute = 0x42700000,
      last_future_template = demo_template, last_new_prev_hash = demo_prev_hash,
      coinbase_reward_script = [0x51], ds_pool_tag_string = [0x41],
      minimum_share_difficulty_bits = None, min_downstream_hashrate = None\<rparr>"

definition demo_extranonce :: ExtendedExtranonce where
  "demo_extranonce =
     \<lparr>inner_bytes = replicate 32 0, range_0 = \<lparr>start = 0, stop = 0\<rparr>, range_1 = \<lparr>start = 0, stop = 16\<rparr>,
      range_2 = \<lparr>start = 16, stop = 32\<rparr>, static_prefix = None\<rparr>"

definition demo_pool :: pool_state where
  "demo_pool =
     \<lparr>ps_downstream = demo_downstream, ps_factory_extended = demo_extranonce,
      ps_factory_standard = demo_extranonce, ps_tasks = [], ps_solutions = []\<rparr>"

definition demo_open :: OpenExtendedMiningChannel where
  "demo_open =
     \<lparr>oemc_request_id = 1, oemc_user_identity = Owned [0x6d], oemc_nominal_hash_rate = 0x41200000,
      oemc_max_target = Owned (replicate 32 255), oemc_min_extranonce_size = 8\<rparr>"

lemma demo_pool_fresh: "fresh_connection (ps_downstream demo_pool)"
  by (simp add: demo_pool_def demo_downstream_def fresh_connection_def template_fits_def tip_fits_def
      demo_template_def demo_prev_hash_def)

lemma demo_pool_reachable:
  "pool_reachable demo_bitcoin (pool_apply demo_bitcoin (OpenExtended (Some 0) demo_open) demo_pool)"
  by (rule pool_reachable.step [OF pool_reachable.connected [OF demo_pool_fresh]])
    (simp add: demo_pool_def demo_downstream_def)

section \<open>Properties\<close>

text \<open>C3: in every state that a connection of the pool reaches, through messages of the miner, templates
  and chain tips in any order and with any failures in between, the invariant holds: all its channels
  satisfy theirs, every channel has a vardiff state, the ids of its channels and of its group are
  distinct, no standard channel knows a job id that its next job could get, and a connection that
  asked for standard jobs has no group.\<close>

theorem pool_connection_invariant:
  assumes "segwit_encoding btc" and "pool_reachable btc ps"
  shows "conn_ok btc (ps_downstream ps)"
  by (rule pool_reachable_ok [OF assms(2,1)])

theorem pool_connection_invariant_witness:
  "conn_ok demo_bitcoin (ps_downstream (pool_apply demo_bitcoin (OpenExtended (Some 0) demo_open) demo_pool))"
  by (rule pool_connection_invariant [OF demo_segwit_encoding demo_pool_reachable])



text \<open>C2: a share submitted on an extended channel earns exactly what it should: if it is accepted and has
  the leading zero bits the pool asks for, or is a block, one request for its hash, channel and sequence
  number is handed to the hub, for the connection's locking key and an amount that doubles with every
  leading zero bit above the mint's minimum; otherwise nothing is sent.\<close>

theorem accepted_share_earns_quote:
  assumes "hash_lengths btc"
    and "map_of (extended_channels (ps_downstream ps)) (sse_channel_id m) = Some ch"
    and "map_of (vardiff (ps_downstream ps)) (sse_channel_id m) = Some v"
    and "ext_validate_share btc m ch = (r, ch')"
    and "quote_dispatcher (ps_downstream ps) = Some disp" and "dispatch_enabled disp \<noteq> Some False"
    and "locking_key_bytes (ps_downstream ps) = Some key" and "length key = 33"
    and "\<And>h. length h = 32 \<Longrightarrow> sha h = Ok h"
  shows "\<exists>tasks. ps_tasks (snd (handle_submit_shares_extended btc try_send m ps)) = ps_tasks ps @ tasks \<and>
    list_all2 (\<lambda>h task. \<exists>amount. fst (run_task sha disp task contexts) =
        [SendQuoteRequest
          \<lparr>parsed_request = \<lparr>mqr_amount = amount, mqr_unit = Owned HASH_unit, mqr_header_hash = Owned h,
             mqr_description = [], mqr_locking_key = Owned key\<rparr>, parsed_share_hash = ShareHash h\<rparr>
          \<lparr>pqc_channel_id = sse_channel_id m, pqc_sequence_number = sse_sequence_number m, pqc_amount = amount\<rparr>] \<and>
        unat amount = (if zero_bits h < unat (minimum_difficulty disp) then 0
          else 2 ^ min 63 (zero_bits h - unat (minimum_difficulty disp))))
      (earned (minimum_share_difficulty_bits (ps_downstream ps)) r) tasks"
proof -
  let ?hs = "earned (minimum_share_difficulty_bits (ps_downstream ps)) r"
  let ?task = "\<lambda>h. DispatchQuote (sse_channel_id m) (sse_sequence_number m) h (Some key)"
  have len: "length (hash (case x of Valid s \<Rightarrow> s | ValidWithAcknowledgement s _ _ _ \<Rightarrow> s | BlockFound s _ _ \<Rightarrow> s)) = 32"
    if "r = Ok x" for x
    using ext_share_hash_length [OF assms(1) assms(4) [unfolded that]] .
  have "ps_tasks (snd (handle_submit_shares_extended btc try_send m ps)) = ps_tasks ps @ map ?task ?hs"
    using answer_share_tasks [OF _ len, of _ disp] assms(2-7)
    by (simp add: handle_submit_shares_extended_def Let_def)
  moreover have "length h = 32" if "h \<in> set ?hs" for h
    using that len by (cases r) (auto simp: earned_def Let_def split: ShareValidationResult.splits if_splits)
  then have "list_all2 (\<lambda>h task. task = ?task h \<and> length h = 32) ?hs (map ?task ?hs)"
    by (simp add: list_all2_conv_all_nth)
  ultimately show ?thesis
    using assms(6,8,9)
    by (intro exI [of _ "map ?task ?hs"])
      (auto simp: run_task_def dispatch_quote_tasks unat_calculate_ehash_amount elim!: list_all2_mono)
qed

theorem accepted_share_earns_quote_witness:
  "\<exists>ps h amount tasks. quote_dispatcher (ps_downstream ps) = Some demo_dispatcher \<and>
     ps_tasks (snd (handle_submit_shares_extended demo_bitcoin (\<lambda>_. True) (demo_share 0) ps)) = ps_tasks ps @ tasks \<and>
     map (\<lambda>t. fst (run_task (\<lambda>h. Ok h :: (bytes, unit) result) demo_dispatcher t Mapping.empty)) tasks =
       [[SendQuoteRequest
          \<lparr>parsed_request = \<lparr>mqr_amount = amount, mqr_unit = Owned HASH_unit, mqr_header_hash = Owned h,
             mqr_description = [], mqr_locking_key = Owned (replicate 33 2)\<rparr>, parsed_share_hash = ShareHash h\<rparr>
          \<lparr>pqc_channel_id = 7, pqc_sequence_number = 1, pqc_amount = amount\<rparr>]] \<and>
     unat amount = 2 ^ min 63 (zero_bits h)"
proof -
  let ?v = "\<lparr>shares_since_last_update = 0, timestamp_of_last_update = 0, min_allowed_hashrate = 0\<rparr>"
  let ?ps = "demo_pool\<lparr>ps_downstream := demo_downstream\<lparr>extended_channels := [(7, demo_mining)], vardiff := [(7, ?v)]\<rparr>\<rparr>"
  obtain s i cb ch' where v: "ext_validate_share demo_bitcoin (demo_share 0) demo_mining = (Ok (BlockFound s i cb), ch')"
    by (rule demo_validate_block)
  have "earned None (Ok (BlockFound s i cb)) = [rev (hash s)]" by (simp add: earned_def)
  moreover have "sse_channel_id (demo_share 0) = 7" "sse_sequence_number (demo_share 0) = 1"
    by (simp_all add: demo_share_def)
  ultimately obtain tasks where
    "ps_tasks (snd (handle_submit_shares_extended demo_bitcoin (\<lambda>_. True) (demo_share 0) ?ps)) = ps_tasks ?ps @ tasks"
    "list_all2 (\<lambda>h task. \<exists>amount. fst (run_task (\<lambda>h. Ok h :: (bytes, unit) result) demo_dispatcher task Mapping.empty) =
        [SendQuoteRequest
          \<lparr>parsed_request = \<lparr>mqr_amount = amount, mqr_unit = Owned HASH_unit, mqr_header_hash = Owned h,
             mqr_description = [], mqr_locking_key = Owned (replicate 33 2)\<rparr>, parsed_share_hash = ShareHash h\<rparr>
          \<lparr>pqc_channel_id = 7, pqc_sequence_number = 1, pqc_amount = amount\<rparr>] \<and>
        unat amount = 2 ^ min 63 (zero_bits h)) [rev (hash s)] tasks"
    using accepted_share_earns_quote [OF demo_hash_lengths, of ?ps "demo_share 0" demo_mining ?v _ ch' demo_dispatcher
        "replicate 33 2" "\<lambda>h. Ok h" "\<lambda>_. True" Mapping.empty, OF _ _ v]
    by (auto simp: demo_pool_def demo_downstream_def demo_dispatcher_def)
  moreover have "quote_dispatcher (ps_downstream ?ps) = Some demo_dispatcher" by (simp add: demo_downstream_def)
  ultimately show ?thesis
    by (intro exI [of _ ?ps] exI [of _ "rev (hash s)"]) (fastforce simp: list_all2_Cons1)
qed

end
