(* ===== verification/Pool_Messages.thy ===== *)
theory Pool_Messages
  imports Pool_Safety
begin

text \<open>
  From a frame to the answer: the routing of \<open>ParseMiningMessagesFromDownstream\<close>
  (roles-logic-sv2/src/handlers/mining.rs) with the choices of the pool, and \<open>next\<close>, \<open>match_send_to\<close> and
  \<open>send\<close> of mining\_pool/mod.rs.  The queue to the miner is a function that says whether it takes a
  message.  The properties are about what ends the task that serves a connection.
\<close>

section \<open>Routing\<close>

datatype SupportedChannelTypes = Standard | Extended | Group | GroupAndExtended

definition get_channel_type :: SupportedChannelTypes where
  "get_channel_type = GroupAndExtended"

definition is_work_selection_enabled :: bool where
  "is_work_selection_enabled = True"

datatype downstream_error =
    UnexpectedDownstreamMessage u8
  | DownstreamParser ParserError
  | DownstreamHandler PoolError

definition handled ::
  "(SendTo, PoolError) result \<times> pool_state \<Rightarrow> (SendTo, downstream_error) result \<times> pool_state" where
  "handled x = (map_err DownstreamHandler (fst x), snd x)"

text \<open>\<open>is_downstream_authorized\<close> of the pool always answers \<open>Ok(true)\<close>, so that the two answers
  for unknown users are not reached.\<close>

definition handle_message_mining_deserialized ::
  "bitcoin \<Rightarrow> u64 option \<Rightarrow> (SubmitSolution \<Rightarrow> bool) \<Rightarrow> (Mining, downstream_error) result \<Rightarrow> pool_state \<Rightarrow>
   (SendTo, downstream_error) result \<times> pool_state" where
  "handle_message_mining_deserialized btc clock try_send message ps =
     (case message of
        Ok (Mining_OpenStandardMiningChannel m) \<Rightarrow>
          (case get_channel_type of
             Extended \<Rightarrow> (Err (UnexpectedDownstreamMessage MESSAGE_TYPE_OPEN_STANDARD_MINING_CHANNEL), ps)
           | _ \<Rightarrow> handled (handle_open_standard_mining_channel btc clock m ps))
      | Ok (Mining_OpenExtendedMiningChannel m) \<Rightarrow>
          (case get_channel_type of
             Standard \<Rightarrow> (Err (UnexpectedDownstreamMessage MESSAGE_TYPE_OPEN_EXTENDED_MINING_CHANNEL), ps)
           | Extended \<Rightarrow> handled (handle_open_extended_mining_channel btc clock m ps)
           | Group \<Rightarrow> (Err (UnexpectedDownstreamMessage MESSAGE_TYPE_OPEN_EXTENDED_MINING_CHANNEL), ps)
           | GroupAndExtended \<Rightarrow> handled (handle_open_extended_mining_channel btc clock m ps))
      | Ok (Mining_UpdateChannel m) \<Rightarrow> handled (handle_update_channel m ps)
      | Ok (Mining_SubmitSharesStandard m) \<Rightarrow>
          (case get_channel_type of
             Extended \<Rightarrow> (Err (UnexpectedDownstreamMessage MESSAGE_TYPE_SUBMIT_SHARES_STANDARD), ps)
           | _ \<Rightarrow> handled (handle_submit_shares_standard btc try_send m ps))
      | Ok (Mining_SubmitSharesExtended m) \<Rightarrow>
          (case get_channel_type of
             Standard \<Rightarrow> (Err (UnexpectedDownstreamMessage MESSAGE_TYPE_SUBMIT_SHARES_EXTENDED), ps)
           | Extended \<Rightarrow> handled (handle_submit_shares_extended btc try_send m ps)
           | Group \<Rightarrow> (Err (UnexpectedDownstreamMessage MESSAGE_TYPE_SUBMIT_SHARES_EXTENDED), ps)
           | GroupAndExtended \<Rightarrow> handled (handle_submit_shares_extended btc try_send m ps))
      | Ok (Mining_SetCustomMiningJob m) \<Rightarrow>
          if get_channel_type \<in> {Extended, GroupAndExtended} \<and> is_work_selection_enabled
          then handled (handle_set_custom_mining_job btc m ps)
          else (Err (UnexpectedDownstreamMessage MESSAGE_TYPE_SET_CUSTOM_MINING_JOB), ps)
      | Ok (Mining_CloseChannel m) \<Rightarrow> handled (handle_close_channel m ps)
      | Ok _ \<Rightarrow> (Err (UnexpectedDownstreamMessage 0), ps)
      | Err e \<Rightarrow> (Err e, ps)
      | Panic \<Rightarrow> (Panic, ps))"

definition handle_message_mining ::
  "bitcoin \<Rightarrow> u64 option \<Rightarrow> (SubmitSolution \<Rightarrow> bool) \<Rightarrow> u8 \<Rightarrow> bytes \<Rightarrow> pool_state \<Rightarrow>
   (SendTo, downstream_error) result \<times> pool_state" where
  "handle_message_mining btc clock try_send message_type data ps =
     (case handle_message_mining_deserialized btc clock try_send
             (map_err DownstreamParser (mining_try_from (message_type, data))) ps of
        (r, ps) \<Rightarrow>
          (if r = Err (UnexpectedDownstreamMessage 0) then Err (UnexpectedDownstreamMessage message_type) else r, ps))"

section \<open>Sending\<close>

datatype send_error =
    Sv2ProtocolError u32 Mining
  | FrameError ParserError
  | SenderClosed

definition send_message :: "(AnyMessage Sv2Frame \<Rightarrow> bool) \<Rightarrow> Mining \<Rightarrow> (unit, send_error) result" where
  "send_message sender message =
     rbind (map_err FrameError (any_frame (Any_Mining message))) (\<lambda>sv2_frame.
       if sender sv2_frame then Ok () else Err SenderClosed)"

definition respond :: "(AnyMessage Sv2Frame \<Rightarrow> bool) \<Rightarrow> u32 \<Rightarrow> Mining \<Rightarrow> (unit, send_error) result" where
  "respond sender downstream_id message =
     (case message of
        Mining_OpenMiningChannelError _ \<Rightarrow>
          rbind (send_message sender message) (\<lambda>_. Err (Sv2ProtocolError downstream_id message))
      | _ \<Rightarrow> send_message sender message)"

fun respond_all :: "(AnyMessage Sv2Frame \<Rightarrow> bool) \<Rightarrow> u32 \<Rightarrow> Mining list \<Rightarrow> (unit, send_error) result" where
  "respond_all sender downstream_id [] = Ok ()"
| "respond_all sender downstream_id (message # messages) =
     rbind (respond sender downstream_id message) (\<lambda>_. respond_all sender downstream_id messages)"

text \<open>An error of a handler meets \<open>todo!()\<close>, which panics.\<close>

definition match_send_to ::
  "(AnyMessage Sv2Frame \<Rightarrow> bool) \<Rightarrow> u32 \<Rightarrow> (SendTo, downstream_error) result \<Rightarrow> (unit, send_error) result" where
  "match_send_to sender downstream_id send_to =
     (case send_to of
        Ok (Respond message) \<Rightarrow> respond sender downstream_id message
      | Ok (Multiple messages) \<Rightarrow> respond_all sender downstream_id messages
      | Ok SendNone \<Rightarrow> Ok ()
      | Err _ \<Rightarrow> Panic
      | Panic \<Rightarrow> Panic)"

definition downstream_next ::
  "bitcoin \<Rightarrow> u64 option \<Rightarrow> (SubmitSolution \<Rightarrow> bool) \<Rightarrow> (AnyMessage Sv2Frame \<Rightarrow> bool) \<Rightarrow> u8 \<Rightarrow> bytes \<Rightarrow>
   pool_state \<Rightarrow> (unit, send_error) result \<times> pool_state" where
  "downstream_next btc clock try_send sender message_type data ps =
     (case handle_message_mining btc clock try_send message_type data ps of
        (r, ps) \<Rightarrow> (match_send_to sender (ds_id (ps_downstream ps)) r, ps))"

section \<open>What ends the task\<close>

text \<open>The messages a miner may send.\<close>

fun from_miner :: "Mining \<Rightarrow> bool" where
  "from_miner (Mining_OpenStandardMiningChannel m) = True"
| "from_miner (Mining_OpenExtendedMiningChannel m) = True"
| "from_miner (Mining_UpdateChannel m) = True"
| "from_miner (Mining_SubmitSharesStandard m) = True"
| "from_miner (Mining_SubmitSharesExtended m) = True"
| "from_miner (Mining_SetCustomMiningJob m) = True"
| "from_miner (Mining_CloseChannel m) = True"
| "from_miner _ = False"

lemma not_from_miner:
  "\<not> from_miner m \<Longrightarrow> handle_message_mining_deserialized btc clock try_send (Ok m) ps =
     (Err (UnexpectedDownstreamMessage 0), ps)"
  by (cases m) (simp_all add: handle_message_mining_deserialized_def)

lemma send_message_no_panic: "send_message sender m \<noteq> Panic"
  by (auto simp: send_message_def any_frame_def result_simps split: if_splits)

lemma respond_no_panic: "respond sender i m \<noteq> Panic"
  using send_message_no_panic [of sender m]
  by (cases m) (auto simp: respond_def result_simps)

lemma respond_all_no_panic: "respond_all sender i ms \<noteq> Panic"
  by (induction ms) (auto simp: result_simps respond_no_panic)

lemma match_send_to_panics: "match_send_to sender i r = Panic \<longleftrightarrow> \<not> is_ok r"
  by (cases r) (auto simp: match_send_to_def respond_no_panic respond_all_no_panic split: SendTo.split)

text \<open>C39: the task that serves a connection panics on every message it cannot decode and on every message
  that a miner has no business to send: the error reaches the unfinished branch of \<open>match_send_to\<close>.  In
  general it panics exactly if the handler does not return an answer.\<close>

theorem bad_message_panics:
  "let (r, ps') = downstream_next btc clock try_send sender message_type data ps in
   (r = Panic \<longleftrightarrow> \<not> is_ok (fst (handle_message_mining btc clock try_send message_type data ps))) \<and>
   (case mining_try_from (message_type, data) of
      Ok m \<Rightarrow> \<not> from_miner m \<longrightarrow> r = Panic \<and> ps' = ps
    | _ \<Rightarrow> r = Panic \<and> ps' = ps)"
  by (cases "mining_try_from (message_type, data)")
    (auto simp: downstream_next_def handle_message_mining_def match_send_to_panics not_from_miner Let_def
      handle_message_mining_deserialized_def [of _ _ _ "Err _"] handle_message_mining_deserialized_def [of _ _ _ Panic]
      split: prod.splits)

theorem bad_message_panics_witness:
  "downstream_next demo_bitcoin (Some 0) (\<lambda>_. True) (\<lambda>_. True) 0xFF [] demo_pool = (Panic, demo_pool)"
proof -
  have "mining_try_from (0xFF, []) = Err (ParserError.UnexpectedMessage 0xFF)"
    by (simp add: mining_try_from_def mining_types_try_from_def message_type_defs)
  with bad_message_panics [of demo_bitcoin "Some 0" "\<lambda>_. True" "\<lambda>_. True" "0xFF" "[]" demo_pool]
  show ?thesis by (auto split: prod.splits)
qed

lemma fresh_channel_unknown_tip:
  assumes "ec_job_store ch = job_store_new" and "nt_future_template t"
    and "tnph_template_id m \<noteq> nt_template_id t"
    and "ext_on_new_template btc t rewards ch = (Ok (), ch')"
  shows "fst (ext_on_set_new_prev_hash m ch') = Err ExtendedChannelError.TemplateIdNotFound"
proof -
  obtain j where "ec_job_store ch' = snd (add_future_job extended_job_id (nt_template_id t) j job_store_new)"
    using assms(1,2,4)
    by (auto simp: ext_on_new_template_def Let_def result_simps split: prod.splits elim!: or_return_cases)
  then have "\<not> Mapping.is_empty (future_jobs (ec_job_store ch'))"
      "Mapping.lookup (future_template_to_job_id (ec_job_store ch')) (tnph_template_id m) = None"
    using assms(3) by (simp_all add: job_store_defs Mapping.is_empty_def lookup_update' lookup_empty)
  then show ?thesis by (simp add: ext_on_set_new_prev_hash_def ext_job.activate_unknown_template)
qed

lemma install_before_tip:
  assumes "\<not> requires_custom_work (ps_downstream ps)" and "nt_future_template (last_future_template (ps_downstream ps))"
    and "tnph_template_id (last_new_prev_hash (ps_downstream ps)) \<noteq> nt_template_id (last_future_template (ps_downstream ps))"
    and "ext_new_for_pool i user prefix mt h True ms batch spm job_store_new tag = Ok ch"
  shows "\<not> is_ok (fst (install_extended_channel btc clock request_id i ch ps))"
    and "ps_downstream (snd (install_extended_channel btc clock request_id i ch ps)) = ps_downstream ps"
proof -
  let ?t = "last_future_template (ps_downstream ps)" and ?m = "last_new_prev_hash (ps_downstream ps)"
  have st: "ec_job_store ch = job_store_new"
    using assms(4) by (auto simp: ext_new_for_pool_def extended_channel_new_def result_simps Let_def split: if_splits)
  have f: "fst (ext_on_set_new_prev_hash ?m ch') = Err ExtendedChannelError.TemplateIdNotFound"
    if "ext_on_new_template btc ?t rewards ch = (Ok (), ch')" for ch' rewards
    by (rule fresh_channel_unknown_tip [OF st assms(2,3) that])
  show "\<not> is_ok (fst (install_extended_channel btc clock request_id i ch ps))"
    and "ps_downstream (snd (install_extended_channel btc clock request_id i ch ps)) = ps_downstream ps"
    using assms(1)
    by (auto simp: install_extended_channel_def Let_def or_return_def result_simps split: result.splits prod.splits
        dest!: f)
qed

text \<open>Opening an extended channel ends with an error, an error message, or the installation of a new channel.\<close>

lemma open_extended_cases:
  obtains (error) "\<not> is_ok (fst (handle_open_extended_mining_channel btc clock m ps)) \<or>
      (\<exists>code. fst (handle_open_extended_mining_channel btc clock m ps) = Ok (open_channel_error (oemc_request_id m) code))"
      "extended_channels (ps_downstream (snd (handle_open_extended_mining_channel btc clock m ps))) =
         extended_channels (ps_downstream ps)"
  | (install) p ch prefix max_target hashrate where
      "handle_open_extended_mining_channel btc clock m ps = install_extended_channel btc clock (oemc_request_id m)
         (channel_id_factory (ps_downstream ps) + 1) ch p"
      "ps_downstream p = (ps_downstream ps)\<lparr>channel_id_factory := channel_id_factory (ps_downstream ps) + 1\<rparr>"
      "ps_tasks p = ps_tasks ps"
      "ext_new_for_pool (channel_id_factory (ps_downstream ps) + 1) (inner_as_ref (oemc_user_identity m)) prefix
         max_target hashrate True (oemc_min_extranonce_size m) (ds_share_batch_size (ps_downstream ps))
         (shares_per_minute (ps_downstream ps)) job_store_new (ds_pool_tag_string (ps_downstream ps)) = Ok ch"
proof -
  note defs = handle_open_extended_mining_channel_def id_factory_next_def Let_def
  let ?h = "clamp_hashrate (min_downstream_hashrate (ps_downstream ps)) (oemc_nominal_hash_rate m)"
  let ?i = "channel_id_factory (ps_downstream ps) + 1"
  show thesis
  proof (cases "is_utf8 (inner_as_ref (oemc_user_identity m))")
    case utf8: True
    show thesis
    proof (cases "next_prefix_extended (ps_factory_extended ps) (unat (oemc_min_extranonce_size m))")
      case (Ok x)
      obtain factory r where x: "x = (factory, r)" by fastforce
      show thesis
      proof (cases r)
        case prefix: (Ok prefix)
        let ?new = "\<lambda>mt. ext_new_for_pool ?i (inner_as_ref (oemc_user_identity m)) (extranonce prefix) mt ?h True
          (oemc_min_extranonce_size m) (ds_share_batch_size (ps_downstream ps))
          (shares_per_minute (ps_downstream ps)) job_store_new (ds_pool_tag_string (ps_downstream ps))"
        let ?p = "ps\<lparr>ps_factory_extended := factory,
          ps_downstream := (ps_downstream ps)\<lparr>channel_id_factory := ?i\<rparr>\<rparr>"
        show thesis
        proof (cases "target_from_u256 (oemc_max_target m) :: (Target, PoolError) result")
          case mt: (Ok mt)
          show thesis
          proof (cases "?new mt")
            case ch: (Ok ch)
            have "handle_open_extended_mining_channel btc clock m ps =
                install_extended_channel btc clock (oemc_request_id m) ?i ch ?p"
              using utf8 by (simp add: defs Ok x prefix mt ch)
            then show thesis by (rule install [OF _ _ _ ch]) simp_all
          next
            case (Err e)
            show thesis by (rule error) (use utf8 in \<open>auto simp: defs Ok x prefix mt Err\<close>)
          next
            case Panic
            show thesis by (rule error) (use utf8 in \<open>simp_all add: defs Ok x prefix mt Panic\<close>)
          qed
        qed (rule error; use utf8 in \<open>simp add: defs Ok x prefix\<close>)+
      qed (rule error; use utf8 in \<open>auto simp: defs Ok x\<close>)+
    qed (rule error; use utf8 in \<open>auto simp: defs\<close>)+
  qed (rule error; simp add: defs)+
qed

text \<open>C40: between a future template and the chain tip that activates it no extended channel can be opened
  on a connection that takes its jobs from the pool: the miner gets an error, or the task that
  serves it panics; the channels stay as they are.\<close>

theorem no_channel_before_tip:
  assumes "\<not> requires_custom_work (ps_downstream ps)"
    and "nt_future_template (last_future_template (ps_downstream ps))"
    and "tnph_template_id (last_new_prev_hash (ps_downstream ps)) \<noteq> nt_template_id (last_future_template (ps_downstream ps))"
    and "mining_try_from (message_type, data) = Ok (Mining_OpenExtendedMiningChannel m)"
  shows "let (r, ps') = downstream_next btc clock try_send sender message_type data ps in
    r \<noteq> Ok () \<and>
    (r = Panic \<or> (\<exists>code. fst (handle_message_mining btc clock try_send message_type data ps) =
       Ok (open_channel_error (oemc_request_id m) code))) \<and>
    extended_channels (ps_downstream ps') = extended_channels (ps_downstream ps)"
proof -
  have e: "respond sender i (Mining_OpenMiningChannelError x) \<noteq> Ok ()" for i x
    by (simp add: respond_def result_simps)
  obtain r ps' where h: "handle_open_extended_mining_channel btc clock m ps = (r, ps')" by fastforce
  have ok: "(\<not> is_ok r \<or> (\<exists>code. r = Ok (open_channel_error (oemc_request_id m) code))) \<and>
      extended_channels (ps_downstream ps') = extended_channels (ps_downstream ps)"
  proof (cases btc clock m ps rule: open_extended_cases)
    case (install p ch prefix max_target hashrate)
    have "install_extended_channel btc clock (oemc_request_id m) (channel_id_factory (ps_downstream ps) + 1) ch p =
        (r, ps')" using install(1) h by simp
    with install_before_tip [OF _ _ _ install(4), of p btc clock "oemc_request_id m"] assms(1-3) install(2)
    show ?thesis by simp
  qed (simp_all add: h)
  have n: "handle_message_mining btc clock try_send message_type data ps = (map_err DownstreamHandler r, ps')"
    using h assms(4)
    by (auto simp: handle_message_mining_def handle_message_mining_deserialized_def get_channel_type_def handled_def
        result_simps)
  show ?thesis
    using ok e by (cases r)
      (auto simp: downstream_next_def n match_send_to_def open_channel_error_def)
qed

theorem no_channel_before_tip_witness:
  "let m = Mining_OpenExtendedMiningChannel demo_open;
       ps = demo_pool\<lparr>ps_downstream := demo_downstream\<lparr>last_future_template := demo_template\<lparr>nt_template_id := 2\<rparr>\<rparr>\<rparr> in
   fst (downstream_next demo_bitcoin (Some 0) (\<lambda>_. True) (\<lambda>_. True) (mining_message_type m)
     (field_wire (mining_into_field m)) ps) \<noteq> Ok ()"
proof -
  let ?m = "Mining_OpenExtendedMiningChannel demo_open"
  let ?ps = "demo_pool\<lparr>ps_downstream := demo_downstream\<lparr>last_future_template := demo_template\<lparr>nt_template_id := 2\<rparr>\<rparr>\<rparr>"
  have "mining_wf ?m"
    by (simp add: OpenExtendedMiningChannel_wf_def demo_open_def inner_wf_def B0255_def U256_def)
  then obtain m where "mining_try_from (mining_message_type ?m, field_wire (mining_into_field ?m)) =
      Ok (Mining_OpenExtendedMiningChannel m)"
    using mining_try_from_wire [of ?m "[]"] by simp
  from no_channel_before_tip [OF _ _ _ this, of ?ps demo_bitcoin "Some 0" "\<lambda>_. True" "\<lambda>_. True"] show ?thesis
    by (auto simp: Let_def demo_downstream_def demo_template_def demo_prev_hash_def split: prod.splits)
qed

end
