(* ===== verification/Client_Channel.thy ===== *)
theory Client_Channel
  imports Extended_Channel
begin

text \<open>Channels as a mining client sees them (\<open>channels-sv2/src/client\<close>): extended, standard and group
  channels that follow the jobs and chain tips an upstream server announces and judge a share before
  it is sent upstream. A hash map from job ids is a mapping; an extended job is the message together
  with the extranonce prefix in use when it arrived. The code that the two kinds of channels repeat,
  choosing the job and comparing the hash with the target, is \<open>client_select_job\<close> and
  \<open>client_judge\<close>. Logging is left out; getters are the fields of the records.\<close>

section \<open>share\_accounting.rs\<close>

datatype client_share_result = Client_Valid | Client_BlockFound

datatype client_share_error =
    Client_Invalid
  | Client_Stale
  | Client_InvalidJobId
  | Client_DoesNotMeetTarget
  | Client_VersionRollingNotAllowed
  | Client_DuplicateShare
  | Client_NoChainTip

record client_share_accounting =
  csa_last_share_sequence_number :: u32
  csa_shares_accepted :: u32
  csa_share_work_sum :: u64
  csa_seen_shares :: "bytes set"
  csa_best_diff :: f64

definition client_accounting_new :: client_share_accounting where
  "client_accounting_new =
     \<lparr>csa_last_share_sequence_number = 0, csa_shares_accepted = 0, csa_share_work_sum = 0,
      csa_seen_shares = {}, csa_best_diff = f64_zero\<rparr>"

definition client_update_share_accounting ::
    "u64 \<Rightarrow> u32 \<Rightarrow> bytes \<Rightarrow> client_share_accounting \<Rightarrow> client_share_accounting" where
  "client_update_share_accounting work seq h a =
     a\<lparr>csa_last_share_sequence_number := seq,
       csa_shares_accepted := csa_shares_accepted a + 1,
       csa_share_work_sum := csa_share_work_sum a + work,
       csa_seen_shares := insert h (csa_seen_shares a)\<rparr>"

definition client_flush_seen_shares :: "client_share_accounting \<Rightarrow> client_share_accounting" where
  "client_flush_seen_shares a = a\<lparr>csa_seen_shares := {}\<rparr>"

definition client_is_share_seen :: "bytes \<Rightarrow> client_share_accounting \<Rightarrow> bool" where
  "client_is_share_seen h a = (h \<in> csa_seen_shares a)"

definition client_update_best_diff :: "f64 \<Rightarrow> client_share_accounting \<Rightarrow> client_share_accounting" where
  "client_update_best_diff d a = (if f64_less (csa_best_diff a) d then a\<lparr>csa_best_diff := d\<rparr> else a)"

section \<open>What extended and standard channels share\<close>

datatype client_channel_error =
    Client_NewExtranoncePrefixTooLarge
  | Client_JobIdNotFound
  | Client_FailedToTryToStripBip141 StripBip141Error
  | Client_FailedToStripBip141
  | Client_FailedToSerializeToB064K
  | Client_FailedToDeserializeCoinbaseOutputs
  | Client_ChannelIdMismatch
  | Client_RequestIdMismatch
  | Client_ChannelNoChainTip
  | Client_ChainTipMismatch

definition client_select_job ::
    "('j \<Rightarrow> u32) \<Rightarrow> 'j option \<Rightarrow> (u32, 'j) mapping \<Rightarrow> (u32, 'j) mapping \<Rightarrow> u32 \<Rightarrow>
     ('j, client_share_error) result" where
  "client_select_job get_job_id active past stale job_id =
     (let is_active_job = (case active of None \<Rightarrow> False | Some j \<Rightarrow> get_job_id j = job_id);
          is_past_job = (Mapping.lookup past job_id \<noteq> None);
          is_stale_job = (Mapping.lookup stale job_id \<noteq> None) in
      if is_stale_job then Err Client_Stale
      else if is_active_job then expect (ok_or () active)
      else if is_past_job then expect (ok_or () (Mapping.lookup past job_id))
      else Err Client_InvalidJobId)"

definition client_judge ::
    "bitcoin \<Rightarrow> Target \<Rightarrow> u32 \<Rightarrow> block_header \<Rightarrow> client_share_accounting \<Rightarrow>
     (client_share_result, client_share_error) result \<times> client_share_accounting" where
  "client_judge btc target sequence_number header acc =
     (let share_hash = block_hash btc header in
      or_return (target_from_bytes share_hash) acc (\<lambda>hash_as_target.
        if is_met_by btc (hdr_bits header) share_hash then
          (Ok Client_BlockFound,
           client_update_share_accounting (share_work target) sequence_number share_hash acc)
        else if hash_as_target < target then
          if client_is_share_seen share_hash acc then (Err Client_DuplicateShare, acc)
          else
            (Ok Client_Valid,
             client_update_best_diff (target_to_difficulty hash_as_target)
               (client_update_share_accounting (share_work target) sequence_number share_hash acc))
        else (Err Client_DoesNotMeetTarget, acc)))"

section \<open>extended.rs\<close>

type_synonym client_extended_job = "NewExtendedMiningJob \<times> bytes"

record ClientExtendedChannel =
  cec_channel_id :: u32
  cec_user_identity :: bytes
  cec_extranonce_prefix :: bytes
  cec_rollable_extranonce_size :: u16
  cec_target :: Target
  cec_nominal_hashrate :: u32
  cec_version_rolling :: bool
  cec_future_jobs :: "(u32, client_extended_job) mapping"
  cec_active_job :: "client_extended_job option"
  cec_past_jobs :: "(u32, client_extended_job) mapping"
  cec_stale_jobs :: "(u32, client_extended_job) mapping"
  cec_share_accounting :: client_share_accounting
  cec_chain_tip :: "ChainTip option"

definition cext_new ::
    "u32 \<Rightarrow> bytes \<Rightarrow> bytes \<Rightarrow> Target \<Rightarrow> u32 \<Rightarrow> bool \<Rightarrow> u16 \<Rightarrow> ClientExtendedChannel" where
  "cext_new channel_id user_identity extranonce_prefix target nominal_hashrate version_rolling
     rollable_extranonce_size =
     \<lparr>cec_channel_id = channel_id, cec_user_identity = user_identity,
      cec_extranonce_prefix = extranonce_prefix,
      cec_rollable_extranonce_size = rollable_extranonce_size, cec_target = target,
      cec_nominal_hashrate = nominal_hashrate, cec_version_rolling = version_rolling,
      cec_future_jobs = Mapping.empty, cec_active_job = None, cec_past_jobs = Mapping.empty,
      cec_stale_jobs = Mapping.empty, cec_share_accounting = client_accounting_new,
      cec_chain_tip = None\<rparr>"

definition cext_set_chain_tip :: "ChainTip \<Rightarrow> ClientExtendedChannel \<Rightarrow> ClientExtendedChannel" where
  "cext_set_chain_tip chain_tip c = c\<lparr>cec_chain_tip := Some chain_tip\<rparr>"

definition cext_set_extranonce_prefix ::
    "bytes \<Rightarrow> ClientExtendedChannel \<Rightarrow> (unit, client_channel_error) result \<times> ClientExtendedChannel" where
  "cext_set_extranonce_prefix new_extranonce_prefix c =
     (let new_rollable_extranonce_size = rollable_size new_extranonce_prefix in
      if new_rollable_extranonce_size < cec_rollable_extranonce_size c
      then (Err Client_NewExtranoncePrefixTooLarge, c)
      else (Ok (), c\<lparr>cec_extranonce_prefix := new_extranonce_prefix,
                     cec_rollable_extranonce_size := new_rollable_extranonce_size\<rparr>))"

definition cext_set_target :: "Target \<Rightarrow> ClientExtendedChannel \<Rightarrow> ClientExtendedChannel" where
  "cext_set_target new_target c = c\<lparr>cec_target := new_target\<rparr>"

text \<open>The two places that make a job active move the active one to the past jobs.\<close>

definition cext_activate :: "NewExtendedMiningJob \<Rightarrow> ClientExtendedChannel \<Rightarrow> ClientExtendedChannel" where
  "cext_activate m c =
     (let c = (case cec_active_job c of
          None \<Rightarrow> c
        | Some active \<Rightarrow>
            c\<lparr>cec_past_jobs := Mapping.update (nemj_job_id (fst active)) active (cec_past_jobs c)\<rparr>) in
      c\<lparr>cec_active_job := Some (m, cec_extranonce_prefix c)\<rparr>)"

definition strip_job ::
    "bitcoin \<Rightarrow> NewExtendedMiningJob \<Rightarrow> (NewExtendedMiningJob, client_channel_error) result" where
  "strip_job btc m =
     rbind (map_err Client_FailedToTryToStripBip141
       (try_strip_bip141 btc (inner_as_ref (nemj_coinbase_tx_prefix m))
          (inner_as_ref (nemj_coinbase_tx_suffix m)))) (\<lambda>stripped.
       case stripped of
         None \<Rightarrow> Ok m
       | Some (prefix, suffix) \<Rightarrow>
           rbind (map_err (\<lambda>_. Client_FailedToSerializeToB064K) (inner_try_from_vec B064K prefix)) (\<lambda>p.
           rbind (map_err (\<lambda>_. Client_FailedToSerializeToB064K) (inner_try_from_vec B064K suffix)) (\<lambda>s.
             Ok (m\<lparr>nemj_coinbase_tx_prefix := p, nemj_coinbase_tx_suffix := s\<rparr>))))"

definition cext_on_new_extended_mining_job ::
    "bitcoin \<Rightarrow> NewExtendedMiningJob \<Rightarrow> ClientExtendedChannel \<Rightarrow>
     (unit, client_channel_error) result \<times> ClientExtendedChannel" where
  "cext_on_new_extended_mining_job btc m c =
     or_return (strip_job btc m) c (\<lambda>m.
     or_return (expect (sv2_option_into_inner (nemj_min_ntime m))) c (\<lambda>min_ntime.
       case min_ntime of
         Some _ \<Rightarrow> (Ok (), cext_activate m c)
       | None \<Rightarrow>
           (Ok (), c\<lparr>cec_future_jobs :=
              Mapping.update (nemj_job_id m) (m, cec_extranonce_prefix c) (cec_future_jobs c)\<rparr>)))"

definition client_custom_coinbase ::
    "bitcoin \<Rightarrow> SetCustomMiningJob \<Rightarrow> TxOut list \<Rightarrow> Transaction" where
  "client_custom_coinbase btc m outputs =
     \<lparr>tx_version = scmj_coinbase_tx_version m, lock_time = scmj_coinbase_tx_locktime m,
      tx_input = [\<lparr>previous_output = outpoint_null btc,
                   script_sig = inner_as_ref (scmj_coinbase_prefix m) @ replicate MAX_EXTRANONCE_LEN 0,
                   sequence = scmj_coinbase_tx_input_n_sequence m,
                   witness = [replicate 32 0]\<rparr>],
      tx_output = outputs\<rparr>"

definition client_custom_halves ::
    "bitcoin \<Rightarrow> SetCustomMiningJob \<Rightarrow> (bytes \<times> bytes, client_channel_error) result" where
  "client_custom_halves btc m =
     rbind (ok_or Client_FailedToDeserializeCoinbaseOutputs
       (decode_outputs btc (inner_as_ref (scmj_coinbase_tx_outputs m)))) (\<lambda>(outputs, _).
     let serialized_coinbase = serialize btc (client_custom_coinbase btc m outputs);
         prefix_index = 4 + 2 + 1 + 32 + 4 + 1 + length (inner_as_ref (scmj_coinbase_prefix m));
         suffix_index = prefix_index + MAX_EXTRANONCE_LEN in
     if length serialized_coinbase < suffix_index then Panic
     else
       rbind (map_err Client_FailedToTryToStripBip141
         (try_strip_bip141 btc (take prefix_index serialized_coinbase)
            (drop suffix_index serialized_coinbase))) (ok_or Client_FailedToStripBip141))"

definition cext_on_set_custom_mining_job_success ::
    "bitcoin \<Rightarrow> SetCustomMiningJob \<Rightarrow> SetCustomMiningJobSuccess \<Rightarrow> ClientExtendedChannel \<Rightarrow>
     (unit, client_channel_error) result \<times> ClientExtendedChannel" where
  "cext_on_set_custom_mining_job_success btc m success c =
     (if scmj_channel_id m \<noteq> scmjs_channel_id success \<or> scmj_channel_id m \<noteq> cec_channel_id c
      then (Err Client_ChannelIdMismatch, c)
      else if scmj_request_id m \<noteq> scmjs_request_id success then (Err Client_RequestIdMismatch, c)
      else case cec_chain_tip c of
        None \<Rightarrow> (Err Client_ChannelNoChainTip, c)
      | Some chain_tip \<Rightarrow>
          if scmj_min_ntime m \<noteq> ct_min_ntime chain_tip \<or>
             \<not> inner_eq (scmj_prev_hash m) (ct_prev_hash chain_tip) \<or>
             scmj_nbits m \<noteq> ct_nbits chain_tip
          then (Err Client_ChainTipMismatch, c)
          else
            or_return (client_custom_halves btc m) c (\<lambda>(prefix, suffix).
            or_return (map_err (\<lambda>_. Client_FailedToSerializeToB064K) (inner_try_from_vec B064K prefix)) c (\<lambda>p.
            or_return (map_err (\<lambda>_. Client_FailedToSerializeToB064K) (inner_try_from_vec B064K suffix)) c (\<lambda>s.
              (Ok (), cext_activate
                 \<lparr>nemj_channel_id = scmj_channel_id m, nemj_job_id = scmjs_job_id success,
                  nemj_min_ntime = sv2_option_new (Some (scmj_min_ntime m)),
                  nemj_version = scmj_version m,
                  nemj_version_rolling_allowed = cec_version_rolling c,
                  nemj_merkle_path = scmj_merkle_path m,
                  nemj_coinbase_tx_prefix = p, nemj_coinbase_tx_suffix = s\<rparr> c)))))"

text \<open>What a new chain tip does to jobs and seen shares.\<close>

definition cext_expire :: "ClientExtendedChannel \<Rightarrow> ClientExtendedChannel" where
  "cext_expire c =
     c\<lparr>cec_future_jobs := Mapping.empty, cec_stale_jobs := cec_past_jobs c,
       cec_past_jobs := Mapping.empty,
       cec_share_accounting := client_flush_seen_shares (cec_share_accounting c)\<rparr>"

definition cext_on_chain_tip_update :: "ChainTip \<Rightarrow> ClientExtendedChannel \<Rightarrow> ClientExtendedChannel" where
  "cext_on_chain_tip_update chain_tip c = cext_expire (c\<lparr>cec_chain_tip := Some chain_tip\<rparr>)"

definition cext_on_set_new_prev_hash ::
    "MiningSetNewPrevHash \<Rightarrow> ClientExtendedChannel \<Rightarrow>
     (unit, client_channel_error) result \<times> ClientExtendedChannel" where
  "cext_on_set_new_prev_hash m c =
     (case Mapping.lookup (cec_future_jobs c) (mnph_job_id m) of
        None \<Rightarrow> (Err Client_JobIdNotFound, c)
      | Some (job_message, prefix) \<Rightarrow>
          let activated = (job_message\<lparr>nemj_min_ntime := sv2_option_new (Some (mnph_min_ntime m))\<rparr>, prefix) in
          (Ok (), (cext_expire (c\<lparr>cec_active_job := Some activated\<rparr>))
             \<lparr>cec_chain_tip := Some (chain_tip_from_mp m)\<rparr>))"

definition cext_share_header ::
    "bitcoin \<Rightarrow> SubmitSharesExtended \<Rightarrow> client_extended_job \<Rightarrow> ChainTip option \<Rightarrow>
     (block_header, client_share_error) result" where
  "cext_share_header btc share cj tip =
     rbind (ok_or Client_Invalid (merkle_root_from_path btc
       (inner_as_ref (nemj_coinbase_tx_prefix (fst cj)))
       (inner_as_ref (nemj_coinbase_tx_suffix (fst cj)))
       (snd cj @ inner_as_ref (sse_extranonce share))
       (map inner_as_ref (nemj_merkle_path (fst cj))))) (\<lambda>merkle_root.
       if length merkle_root \<noteq> 32 then Panic
       else
     rbind (ok_or Client_NoChainTip tip) (\<lambda>chain_tip.
       if \<not> nemj_version_rolling_allowed (fst cj) \<and> and (sse_version share) 0x1fffe000 \<noteq> 0
       then Err Client_VersionRollingNotAllowed
       else
     rbind (u256_to_block_hash (ct_prev_hash chain_tip)) (\<lambda>prev_hash.
       Ok \<lparr>hdr_version = sse_version share, prev_blockhash = prev_hash,
           hdr_merkle_root = merkle_root, hdr_time = sse_ntime share,
           hdr_bits = ct_nbits chain_tip, hdr_nonce = sse_nonce share\<rparr>)))"

definition cext_validate_share ::
    "bitcoin \<Rightarrow> SubmitSharesExtended \<Rightarrow> ClientExtendedChannel \<Rightarrow>
     (client_share_result, client_share_error) result \<times> ClientExtendedChannel" where
  "cext_validate_share btc share c =
     or_return (client_select_job (\<lambda>j. nemj_job_id (fst j)) (cec_active_job c) (cec_past_jobs c)
        (cec_stale_jobs c) (sse_job_id share)) c (\<lambda>cj.
     or_return (cext_share_header btc share cj (cec_chain_tip c)) c (\<lambda>header.
       case client_judge btc (cec_target c) (sse_sequence_number share) header (cec_share_accounting c) of
         (r, acc) \<Rightarrow> (r, c\<lparr>cec_share_accounting := acc\<rparr>)))"

section \<open>standard.rs\<close>

record ClientStandardChannel =
  csc_channel_id :: u32
  csc_user_identity :: bytes
  csc_extranonce_prefix :: bytes
  csc_target :: Target
  csc_nominal_hashrate :: u32
  csc_future_jobs :: "(u32, NewMiningJob) mapping"
  csc_active_job :: "NewMiningJob option"
  csc_past_jobs :: "(u32, NewMiningJob) mapping"
  csc_stale_jobs :: "(u32, NewMiningJob) mapping"
  csc_share_accounting :: client_share_accounting
  csc_chain_tip :: "ChainTip option"

definition cstd_new :: "u32 \<Rightarrow> bytes \<Rightarrow> bytes \<Rightarrow> Target \<Rightarrow> u32 \<Rightarrow> ClientStandardChannel" where
  "cstd_new channel_id user_identity extranonce_prefix target nominal_hashrate =
     \<lparr>csc_channel_id = channel_id, csc_user_identity = user_identity,
      csc_extranonce_prefix = extranonce_prefix, csc_target = target,
      csc_nominal_hashrate = nominal_hashrate, csc_future_jobs = Mapping.empty,
      csc_active_job = None, csc_past_jobs = Mapping.empty, csc_stale_jobs = Mapping.empty,
      csc_share_accounting = client_accounting_new, csc_chain_tip = None\<rparr>"

definition cstd_set_chain_tip :: "ChainTip \<Rightarrow> ClientStandardChannel \<Rightarrow> ClientStandardChannel" where
  "cstd_set_chain_tip chain_tip c = c\<lparr>csc_chain_tip := Some chain_tip\<rparr>"

definition cstd_set_extranonce_prefix ::
    "bytes \<Rightarrow> ClientStandardChannel \<Rightarrow> (unit, client_channel_error) result \<times> ClientStandardChannel" where
  "cstd_set_extranonce_prefix extranonce_prefix c =
     (if MAX_EXTRANONCE_LEN < length extranonce_prefix then (Err Client_NewExtranoncePrefixTooLarge, c)
      else (Ok (), c\<lparr>csc_extranonce_prefix := extranonce_prefix\<rparr>))"

definition cstd_set_target :: "Target \<Rightarrow> ClientStandardChannel \<Rightarrow> ClientStandardChannel" where
  "cstd_set_target target c = c\<lparr>csc_target := target\<rparr>"

definition cstd_on_new_mining_job ::
    "NewMiningJob \<Rightarrow> ClientStandardChannel \<Rightarrow> (unit, client_channel_error) result \<times> ClientStandardChannel" where
  "cstd_on_new_mining_job m c =
     or_return (expect (sv2_option_into_inner (nmj_min_ntime m))) c (\<lambda>min_ntime.
       case min_ntime of
         Some _ \<Rightarrow>
           let c = (case csc_active_job c of
               None \<Rightarrow> c
             | Some active \<Rightarrow>
                 c\<lparr>csc_past_jobs := Mapping.update (nmj_job_id active) active (csc_past_jobs c)\<rparr>) in
           (Ok (), c\<lparr>csc_active_job := Some m\<rparr>)
       | None \<Rightarrow> (Ok (), c\<lparr>csc_future_jobs := Mapping.update (nmj_job_id m) m (csc_future_jobs c)\<rparr>))"

definition cstd_on_new_group_channel_job ::
    "bitcoin \<Rightarrow> NewExtendedMiningJob \<Rightarrow> ClientStandardChannel \<Rightarrow>
     (unit, client_channel_error) result \<times> ClientStandardChannel" where
  "cstd_on_new_group_channel_job btc m c =
     or_return (expect (ok_or () (merkle_root_from_path btc
       (inner_as_ref (nemj_coinbase_tx_prefix m)) (inner_as_ref (nemj_coinbase_tx_suffix m))
       (csc_extranonce_prefix c) (map inner_as_ref (nemj_merkle_path m))))) c (\<lambda>root.
     or_return (expect (inner_try_from_vec U256 root)) c (\<lambda>merkle_root.
       cstd_on_new_mining_job
         \<lparr>nmj_channel_id = csc_channel_id c, nmj_job_id = nemj_job_id m,
          nmj_min_ntime = nemj_min_ntime m, nmj_version = nemj_version m,
          nmj_merkle_root = merkle_root\<rparr> c))"

definition cstd_on_set_new_prev_hash ::
    "MiningSetNewPrevHash \<Rightarrow> ClientStandardChannel \<Rightarrow>
     (unit, client_channel_error) result \<times> ClientStandardChannel" where
  "cstd_on_set_new_prev_hash m c =
     (case Mapping.lookup (csc_future_jobs c) (mnph_job_id m) of
        None \<Rightarrow> (Err Client_JobIdNotFound, c)
      | Some activated \<Rightarrow>
          (Ok (), c\<lparr>csc_active_job :=
                      Some (activated\<lparr>nmj_min_ntime := sv2_option_new (Some (mnph_min_ntime m))\<rparr>),
                    csc_future_jobs := Mapping.empty, csc_stale_jobs := csc_past_jobs c,
                    csc_past_jobs := Mapping.empty,
                    csc_share_accounting := client_flush_seen_shares (csc_share_accounting c),
                    csc_chain_tip := Some (chain_tip_from_mp m)\<rparr>))"

definition cstd_share_header ::
    "SubmitSharesStandard \<Rightarrow> NewMiningJob \<Rightarrow> ChainTip option \<Rightarrow> (block_header, client_share_error) result" where
  "cstd_share_header share m tip =
     (let merkle_root = inner_as_ref (nmj_merkle_root m) in
      if length merkle_root \<noteq> 32 then Panic
      else
     rbind (ok_or Client_NoChainTip tip) (\<lambda>chain_tip.
     rbind (u256_to_block_hash (ct_prev_hash chain_tip)) (\<lambda>prev_hash.
       Ok \<lparr>hdr_version = sss_version share, prev_blockhash = prev_hash,
           hdr_merkle_root = merkle_root, hdr_time = sss_ntime share,
           hdr_bits = ct_nbits chain_tip, hdr_nonce = sss_nonce share\<rparr>)))"

definition cstd_validate_share ::
    "bitcoin \<Rightarrow> SubmitSharesStandard \<Rightarrow> ClientStandardChannel \<Rightarrow>
     (client_share_result, client_share_error) result \<times> ClientStandardChannel" where
  "cstd_validate_share btc share c =
     or_return (client_select_job nmj_job_id (csc_active_job c) (csc_past_jobs c) (csc_stale_jobs c)
        (sss_job_id share)) c (\<lambda>m.
     or_return (cstd_share_header share m (csc_chain_tip c)) c (\<lambda>header.
       case client_judge btc (csc_target c) (sss_sequence_number share) header (csc_share_accounting c) of
         (r, acc) \<Rightarrow> (r, c\<lparr>csc_share_accounting := acc\<rparr>)))"

section \<open>group.rs\<close>

record ClientGroupChannel =
  cgc_group_channel_id :: u32
  cgc_standard_channel_ids :: "u32 set"
  cgc_future_jobs :: "(u32, NewExtendedMiningJob) mapping"
  cgc_active_job :: "NewExtendedMiningJob option"

definition cgroup_new :: "u32 \<Rightarrow> ClientGroupChannel" where
  "cgroup_new group_channel_id =
     \<lparr>cgc_group_channel_id = group_channel_id, cgc_standard_channel_ids = {},
      cgc_future_jobs = Mapping.empty, cgc_active_job = None\<rparr>"

definition cgroup_add_standard_channel_id :: "u32 \<Rightarrow> ClientGroupChannel \<Rightarrow> ClientGroupChannel" where
  "cgroup_add_standard_channel_id i g =
     g\<lparr>cgc_standard_channel_ids := insert i (cgc_standard_channel_ids g)\<rparr>"

definition cgroup_remove_standard_channel_id :: "u32 \<Rightarrow> ClientGroupChannel \<Rightarrow> ClientGroupChannel" where
  "cgroup_remove_standard_channel_id i g =
     g\<lparr>cgc_standard_channel_ids := cgc_standard_channel_ids g - {i}\<rparr>"

definition cgroup_on_new_extended_mining_job ::
    "NewExtendedMiningJob \<Rightarrow> ClientGroupChannel \<Rightarrow>
     (unit, client_channel_error) result \<times> ClientGroupChannel" where
  "cgroup_on_new_extended_mining_job m g =
     or_return (expect (sv2_option_into_inner (nemj_min_ntime m))) g (\<lambda>min_ntime.
       case min_ntime of
         Some _ \<Rightarrow> (Ok (), g\<lparr>cgc_active_job := Some m\<rparr>)
       | None \<Rightarrow> (Ok (), g\<lparr>cgc_future_jobs := Mapping.update (nemj_job_id m) m (cgc_future_jobs g)\<rparr>))"

definition cgroup_on_set_new_prev_hash ::
    "MiningSetNewPrevHash \<Rightarrow> ClientGroupChannel \<Rightarrow>
     (unit, client_channel_error) result \<times> ClientGroupChannel" where
  "cgroup_on_set_new_prev_hash m g =
     (case Mapping.lookup (cgc_future_jobs g) (mnph_job_id m) of
        None \<Rightarrow> (Err Client_JobIdNotFound, g)
      | Some j \<Rightarrow> (Ok (), g\<lparr>cgc_active_job := Some j, cgc_future_jobs := Mapping.empty\<rparr>))"

end
