(* ===== verification/Client_Sync.thy ===== *)
theory Client_Sync
  imports Client_Channel Pool_Invariant
begin

text \<open>
  An extended channel from both ends: the server's channel of a pool and the client's channel of a
  proxy that follows it.  \<open>linked\<close> are the pairs of states that are reached when every job, chain tip
  and target of the server is announced to the client and every share the client lets pass is submitted
  to the server; \<open>mirrors\<close> is what such a pair has in common.  The property is that the two judge
  every share alike, up to two differences.
\<close>

section \<open>Linked channels\<close>

definition job_view :: "ExtendedJob \<Rightarrow> client_extended_job" where
  "job_view j = (ej_job_message j, ej_extranonce_prefix j)"

inductive linked :: "bitcoin \<Rightarrow> ExtendedChannel \<Rightarrow> ClientExtendedChannel \<Rightarrow> bool" for btc where
  opened: "extended_channel_new channel_id user ep max_target hashrate rolling min_size batch spm
      job_store_new pool_tag miner_tag = Ok ch \<Longrightarrow> (of_nat batch :: u32) \<noteq> 0 \<Longrightarrow>
    linked btc ch (cext_new channel_id user ep (ec_target ch) hashrate rolling (ec_rollable_extranonce_size ch))"
| template: "linked btc ch c \<Longrightarrow> ext_op_ok (ext_op.OnNewTemplate t rewards) ch \<Longrightarrow>
    ext_on_new_template btc t rewards ch = (Ok (), ch') \<Longrightarrow> job_for_template t (ec_job_store ch') = (Ok j :: (ExtendedJob, PoolError) result) \<Longrightarrow>
    cext_on_new_extended_mining_job btc (ej_job_message j) c = (r, c') \<Longrightarrow> linked btc ch' c'"
| template_refused: "linked btc ch c \<Longrightarrow> ext_op_ok (ext_op.OnNewTemplate t rewards) ch \<Longrightarrow>
    ext_on_new_template btc t rewards ch = (Err e, ch') \<Longrightarrow> linked btc ch' c"
| tip: "linked btc ch c \<Longrightarrow> ext_op_ok (ext_op.OnSetNewPrevHash m) ch \<Longrightarrow>
    \<not> Mapping.is_empty (future_jobs (ec_job_store ch)) \<Longrightarrow>
    ext_on_set_new_prev_hash m ch = (Ok (), ch') \<Longrightarrow> active_job_of (ec_job_store ch') = (Ok j :: (ExtendedJob, PoolError) result) \<Longrightarrow>
    set_new_prev_hash_message (ec_channel_id ch) (extended_job_id j) m = Mining_SetNewPrevHash mp \<Longrightarrow>
    cext_on_set_new_prev_hash mp c = (r, c') \<Longrightarrow> linked btc ch' c'"
| update: "linked btc ch c \<Longrightarrow> ext_update_channel h mt ch = (Ok (), ch') \<Longrightarrow>
    linked btc ch' (cext_set_target (ec_target ch') c)"
| retarget: "linked btc ch c \<Longrightarrow> linked btc (ext_set_target t ch) (cext_set_target t c)"
| extranonce_prefix: "linked btc ch c \<Longrightarrow> ext_set_extranonce_prefix p ch = (Ok (), ch') \<Longrightarrow>
    cext_set_extranonce_prefix p c = (r, c') \<Longrightarrow> linked btc ch' c'"
| share: "linked btc ch c \<Longrightarrow> cext_validate_share btc s c = (r, c') \<Longrightarrow>
    linked btc (if is_ok r then snd (ext_validate_share btc s ch) else ch) c'"

definition mirrors :: "ExtendedChannel \<Rightarrow> ClientExtendedChannel \<Rightarrow> bool" where
  "mirrors ch c \<longleftrightarrow>
     cec_extranonce_prefix c = ec_extranonce_prefix ch \<and>
     cec_rollable_extranonce_size c = ec_rollable_extranonce_size ch \<and>
     cec_target c = ec_target ch \<and> cec_chain_tip c = ec_chain_tip ch \<and>
     cec_active_job c = map_option job_view (active_job (ec_job_store ch)) \<and>
     (\<forall>i. Mapping.lookup (cec_past_jobs c) i = map_option job_view (Mapping.lookup (past_jobs (ec_job_store ch)) i)) \<and>
     (\<forall>i. Mapping.lookup (cec_future_jobs c) i = map_option job_view (Mapping.lookup (future_jobs (ec_job_store ch)) i)) \<and>
     Mapping.keys (cec_stale_jobs c) \<subseteq> Mapping.keys (stale_jobs (ec_job_store ch)) \<and>
     csa_seen_shares (cec_share_accounting c) = seen_shares (ec_share_accounting ch)"

section \<open>The client's answer for the server's\<close>

fun client_error :: "ShareValidationError \<Rightarrow> client_share_error" where
  "client_error Invalid = Client_Invalid"
| "client_error Stale = Client_Stale"
| "client_error InvalidJobId = Client_InvalidJobId"
| "client_error DoesNotMeetTarget = Client_DoesNotMeetTarget"
| "client_error VersionRollingNotAllowed = Client_VersionRollingNotAllowed"
| "client_error DuplicateShare = Client_DuplicateShare"
| "client_error InvalidCoinbase = Client_Invalid"
| "client_error NoChainTip = Client_NoChainTip"

definition as_client ::
  "(ShareValidationResult, ShareValidationError) result \<Rightarrow> (client_share_result, client_share_error) result" where
  "as_client r = map_err client_error (map_ok (\<lambda>x. case x of
     BlockFound _ _ _ \<Rightarrow> Client_BlockFound | _ \<Rightarrow> Client_Valid) r)"

lemma as_client_simps [simp]:
  "as_client (Ok (BlockFound a t b)) = Ok Client_BlockFound" "as_client (Ok (Valid a)) = Ok Client_Valid"
  "as_client (Ok (ValidWithAcknowledgement a x y z)) = Ok Client_Valid"
  "as_client (Err e) = Err (client_error e)" "as_client Panic = Panic"
  by (simp_all add: as_client_def)

lemma is_ok_as_client [simp]: "is_ok (as_client r) = is_ok r"
  by (cases r) (simp_all add: as_client_def)

lemma client_header:
  "cext_share_header btc s (job_view j) tip = map_err client_error (ext_share_header btc s j tip)"
  by (cases "merkle_root_from_path btc (inner_as_ref (nemj_coinbase_tx_prefix (ej_job_message j)))
        (inner_as_ref (nemj_coinbase_tx_suffix (ej_job_message j)))
        (ej_extranonce_prefix j @ inner_as_ref (sse_extranonce s))
        (map inner_as_ref (nemj_merkle_path (ej_job_message j)))"; cases tip)
    (simp_all add: cext_share_header_def ext_share_header_def job_view_def full_extranonce_def
      u256_to_block_hash_def)

lemma client_select:
  assumes "mirrors ch c" and "store_ok extended_job_id (ec_job_store ch)"
  shows "client_select_job (\<lambda>j. nemj_job_id (fst j)) (cec_active_job c) (cec_past_jobs c) (cec_stale_jobs c) i =
      map_ok job_view (map_err client_error (select_job extended_job_id (ec_job_store ch) i)) \<or>
    select_job extended_job_id (ec_job_store ch) i = Err Stale \<and>
    client_select_job (\<lambda>j. nemj_job_id (fst j)) (cec_active_job c) (cec_past_jobs c) (cec_stale_jobs c) i =
      Err Client_InvalidJobId"
proof (cases "i \<in> Mapping.keys (stale_jobs (ec_job_store ch))")
  case True
  then have "i \<notin> Mapping.keys (past_jobs (ec_job_store ch))"
    "\<forall>j. active_job (ec_job_store ch) = Some j \<longrightarrow> extended_job_id j \<noteq> i"
    using assms(2) by (auto simp: store_ok_def)
  then show ?thesis
    using True assms(1)
    by (auto simp: select_job_stale client_select_job_def Let_def mirrors_def in_keys_iff job_view_def
        extended_job_id_def split: option.splits)
next
  case False
  then have "i \<notin> Mapping.keys (cec_stale_jobs c)" using assms(1) by (auto simp: mirrors_def)
  then show ?thesis
    using False assms(1)
    by (auto simp: select_job_def client_select_job_def Let_def mirrors_def in_keys_iff job_view_def
        extended_job_id_def result_simps split: option.splits)
qed

text \<open>What the two answers to a share have to do with each other: they are the same, or the job is stale for
  the server and unknown to the client, or the hash is exactly the target, which only the server accepts.\<close>

definition agree :: "Target \<Rightarrow> (ShareValidationResult, ShareValidationError) result \<Rightarrow>
    (client_share_result, client_share_error) result \<Rightarrow> bool" where
  "agree target r r' \<longleftrightarrow>
     r' = as_client r \<or>
     r = Err Stale \<and> r' = Err Client_InvalidJobId \<or>
     (\<exists>h. target_from_bytes h = (Ok target :: (Target, unit) result) \<and> (accepted_hash r = [h] \<or> r = Err DuplicateShare) \<and>
        r' = Err Client_DoesNotMeetTarget)"

lemma agree_as_client [simp]: "agree t r (as_client r)"
  by (simp add: agree_def)

lemma agree_Err [simp]: "agree t (Err e) (Err (client_error e))"
  by (simp add: agree_def)

lemma agree_is_ok: "agree t r r' \<Longrightarrow> is_ok r' \<Longrightarrow> is_ok r"
  by (auto simp: agree_def)

lemma target_from_bytes_poly:
  "target_from_bytes bs = (Ok t :: (Target, 'a) result) \<Longrightarrow> target_from_bytes bs = (Ok t :: (Target, 'b) result)"
  by (auto simp: target_from_bytes_def split: if_splits)

lemma client_seen_simps [simp]:
  "csa_seen_shares (client_update_share_accounting w q h a) = insert h (csa_seen_shares a)"
  "csa_seen_shares (client_update_best_diff d a) = csa_seen_shares a"
  "csa_seen_shares (client_flush_seen_shares a) = {}"
  by (simp_all add: client_update_share_accounting_def client_update_best_diff_def client_flush_seen_shares_def)

lemma client_judges_alike:
  assumes seen: "csa_seen_shares ca = seen_shares acc" and b: "(of_nat (share_batch_size acc) :: u32) \<noteq> 0"
    and h: "target_from_bytes (block_hash btc hdr) = (Ok t :: (Target, client_share_error) result)"
    and nb: "\<not> is_met_by btc (hdr_bits hdr) (block_hash btc hdr)"
    and s: "check_target target seq (block_hash btc hdr) t acc = (r, acc')"
    and c: "client_judge btc target seq hdr ca = (r', ca')"
  shows "agree target r r' \<and> csa_seen_shares ca' = (if is_ok r' then seen_shares acc' else seen_shares acc)"
proof (cases "t < target")
  case True
  then have le: "t \<le> target" by simp
  show ?thesis
  proof (cases "block_hash btc hdr \<in> seen_shares acc")
    case dup: True
    have "r = Err DuplicateShare" using s dup le by (simp add: check_target_def is_share_seen_def)
    moreover have "r' = Err Client_DuplicateShare" "ca' = ca"
      using c unfolding client_judge_def by (simp_all add: h nb True dup seen client_is_share_seen_def Let_def)
    ultimately show ?thesis using seen by (simp add: agree_def)
  next
    case fresh: False
    have "\<exists>x. r = Ok x \<and> as_client r = Ok Client_Valid" "seen_shares acc' = insert (block_hash btc hdr) (seen_shares acc)"
      using s fresh le b by (auto simp: check_target_def is_share_seen_def should_acknowledge_def Let_def)
    moreover have "r' = Ok Client_Valid" "csa_seen_shares ca' = insert (block_hash btc hdr) (csa_seen_shares ca)"
      using c unfolding client_judge_def by (auto simp: h nb True fresh seen client_is_share_seen_def Let_def)
    ultimately show ?thesis using seen by (auto simp: agree_def)
  qed
next
  case False
  then have r': "r' = Err Client_DoesNotMeetTarget" "ca' = ca" 
    using c unfolding client_judge_def by (simp_all add: h nb Let_def)
  show ?thesis
  proof (cases "t = target")
    case True
    then have "accepted_hash r = [block_hash btc hdr] \<or> r = Err DuplicateShare"
      using s b
      by (auto simp: check_target_def Let_def should_acknowledge_def accepted_hash_def split: if_splits)
    then show ?thesis using r' target_from_bytes_poly [OF h] True seen by (auto simp: agree_def)
  next
    case neq: False
    then have "r = Err DoesNotMeetTarget" using False s by (auto simp: check_target_def)
    then show ?thesis using r' seen by (simp add: agree_def)
  qed
qed

lemma mirrors_accounting:
  assumes "mirrors ch c"
  shows "csa_seen_shares ca = seen_shares a \<Longrightarrow>
      mirrors (ch\<lparr>ec_share_accounting := a\<rparr>) (c\<lparr>cec_share_accounting := ca\<rparr>)"
    and "csa_seen_shares ca = seen_shares (ec_share_accounting ch) \<Longrightarrow> mirrors ch (c\<lparr>cec_share_accounting := ca\<rparr>)"
  using assms by (simp_all add: mirrors_def)

lemma cext_validate_share_selected:
  assumes "client_select_job (\<lambda>j. nemj_job_id (fst j)) (cec_active_job c) (cec_past_jobs c) (cec_stale_jobs c)
      (sse_job_id s) = Ok cj"
    and "cext_share_header btc s cj (cec_chain_tip c) = Ok hdr"
  shows "cext_validate_share btc s c =
    (fst (client_judge btc (cec_target c) (sse_sequence_number s) hdr (cec_share_accounting c)),
     c\<lparr>cec_share_accounting := snd (client_judge btc (cec_target c) (sse_sequence_number s) hdr
         (cec_share_accounting c))\<rparr>)"
  by (simp add: cext_validate_share_def assms case_prod_unfold)

lemma client_judged_alike:
  assumes m: "mirrors ch c" and b: "(of_nat (share_batch_size (ec_share_accounting ch)) :: u32) \<noteq> 0"
    and "length (block_hash btc hdr) = 32"
    and sel: "select_job extended_job_id (ec_job_store ch) (sse_job_id s) = Ok j"
      "client_select_job (\<lambda>j. nemj_job_id (fst j)) (cec_active_job c) (cec_past_jobs c) (cec_stale_jobs c)
         (sse_job_id s) = Ok (job_view j)"
    and hdr: "ext_share_header btc s j (ec_chain_tip ch) = Ok hdr"
      "cext_share_header btc s (job_view j) (cec_chain_tip c) = Ok hdr"
    and s: "ext_validate_share btc s ch = (r, ch')" and c: "cext_validate_share btc s c = (r', c')"
  shows "agree (ec_target ch) r r' \<and> mirrors (if is_ok r' then ch' else ch) c'"
proof -
  have target: "cec_target c = ec_target ch"
    and seen: "csa_seen_shares (cec_share_accounting c) = seen_shares (ec_share_accounting ch)"
    using m by (simp_all add: mirrors_def)
  obtain t where t: "target_from_bytes (block_hash btc hdr) = (Ok t :: (Target, ShareValidationError) result)"
    using assms(3) by (simp add: target_from_bytes_def)
  note t' = target_from_bytes_poly [OF t, where 'b = client_share_error]
  note S = ext_validate_share_selected [OF sel(1) hdr(1) t, unfolded s]
  note C = cext_validate_share_selected [OF sel(2) hdr(2), unfolded c target]
  show ?thesis
  proof (cases "is_met_by btc (hdr_bits hdr) (block_hash btc hdr)")
    case True
    then have "client_judge btc (ec_target ch) (sse_sequence_number s) hdr (cec_share_accounting c) =
        (Ok Client_BlockFound, client_update_share_accounting (share_work (ec_target ch)) (sse_sequence_number s)
           (block_hash btc hdr) (cec_share_accounting c))"
      by (simp add: client_judge_def t' Let_def)
    then show ?thesis
      using S C True seen by (simp add: agree_def mirrors_accounting [OF m])
  next
    case False
    let ?s = "check_target (ec_target ch) (sse_sequence_number s) (block_hash btc hdr) t (ec_share_accounting ch)"
    let ?c = "client_judge btc (ec_target ch) (sse_sequence_number s) hdr (cec_share_accounting c)"
    have "agree (ec_target ch) (fst ?s) (fst ?c) \<and> csa_seen_shares (snd ?c) =
        (if is_ok (fst ?c) then seen_shares (snd ?s) else seen_shares (ec_share_accounting ch))"
      using client_judges_alike [OF seen b t' False, of "ec_target ch" "sse_sequence_number s" "fst ?s" "snd ?s" "fst ?c" "snd ?c"]
      by simp
    then show ?thesis using S C False by (simp add: mirrors_accounting [OF m] split: if_splits)
  qed
qed

lemma client_validates_alike:
  assumes m: "mirrors ch c" and "ext_ok btc ch" and "hash_lengths btc"
    and b: "(of_nat (share_batch_size (ec_share_accounting ch)) :: u32) \<noteq> 0"
    and s: "ext_validate_share btc s ch = (r, ch')" and c: "cext_validate_share btc s c = (r', c')"
  shows "agree (ec_target ch) r r' \<and> mirrors (if is_ok r' then ch' else ch) c'"
proof -
  let ?sel = "select_job extended_job_id (ec_job_store ch) (sse_job_id s)"
  let ?csel = "client_select_job (\<lambda>j. nemj_job_id (fst j)) (cec_active_job c) (cec_past_jobs c) (cec_stale_jobs c) (sse_job_id s)"
  have tip: "cec_chain_tip c = ec_chain_tip ch" using m by (simp add: mirrors_def)
  consider "?sel = Err Stale" "?csel = Err Client_InvalidJobId"
    | "?csel = map_ok job_view (map_err client_error ?sel)"
    using client_select [OF m] assms(2) by (auto simp: ext_ok_def)
  then show ?thesis
  proof cases
    case 1
    then show ?thesis using s c m by (simp add: ext_validate_share_def cext_validate_share_def agree_def)
  next
    case 2
    show ?thesis
    proof (cases ?sel)
      case (Ok j)
      then have cs: "?csel = Ok (job_view j)" using 2 by simp
      show ?thesis
      proof (cases "ext_share_header btc s j (ec_chain_tip ch)")
        case h: (Ok hdr)
        then show ?thesis
          using client_judged_alike [OF m b _ Ok cs h _ s c] assms(3) by (simp add: client_header tip hash_lengths_def)
      qed (use s c m in \<open>auto simp: ext_validate_share_def cext_validate_share_def Ok cs client_header tip agree_def\<close>)
    qed (use s c m 2 in \<open>auto simp: ext_validate_share_def cext_validate_share_def agree_def\<close>)
  qed
qed

section \<open>Following the server\<close>

definition batching :: "ExtendedChannel \<Rightarrow> bool" where
  "batching ch \<longleftrightarrow> (of_nat (share_batch_size (ec_share_accounting ch)) :: u32) \<noteq> 0"

lemma extended_channel_new_fields:
  assumes "extended_channel_new i user ep mt h rolling ms batch spm store pool_tag miner_tag = Ok ch"
  shows "ec_share_accounting ch = share_accounting_new batch" "ec_job_store ch = store" "ec_chain_tip ch = None"
    "ec_extranonce_prefix ch = ep" "ec_channel_id ch = i"
  using assms by (auto simp: extended_channel_new_def result_simps split: if_splits)

lemma link_step:
  assumes "ext_reachable btc ch \<and> batching ch" and "ext_op_ok op ch"
  shows "ext_reachable btc (ext_apply btc op ch) \<and> batching (ext_apply btc op ch)"
  using assms by (simp add: ext_reachable.step batching_def ext_apply_keeps)

lemma linked_reachable: "linked btc ch c \<Longrightarrow> ext_reachable btc ch \<and> batching ch"
proof (induction rule: linked.induct)
  case opened
  then show ?case
    by (auto simp: batching_def extended_channel_new_fields share_accounting_new_def intro: ext_reachable.opened)
next
  case (template ch c t rewards)
  then show ?case using link_step [of btc ch "ext_op.OnNewTemplate t rewards"] by simp
next
  case (template_refused ch c t rewards)
  then show ?case using link_step [of btc ch "ext_op.OnNewTemplate t rewards"] by simp
next
  case (tip ch c m)
  then show ?case using link_step [of btc ch "ext_op.OnSetNewPrevHash m"] by simp
next
  case (update ch c h mt)
  then show ?case using link_step [of btc ch "ext_op.UpdateChannel h mt"] by simp
next
  case (retarget ch c t)
  then show ?case using link_step [of btc ch "ext_op.SetTarget t"] by simp
next
  case (extranonce_prefix ch c p)
  then show ?case using link_step [of btc ch "ext_op.SetExtranoncePrefix p"] by simp
next
  case (share ch c s)
  then show ?case using link_step [of btc ch "ext_op.ValidateShare s"] by simp
qed

text \<open>The job a template leads to is the one the factory made.\<close>

lemma on_new_template_job:
  assumes "ext_on_new_template btc t rewards ch = (Ok (), ch')" and "job_for_template t (ec_job_store ch') = (Ok j :: (ExtendedJob, PoolError) result)"
  obtains tip f where
    "new_extended_job btc (ec_channel_id ch) tip (ec_extranonce_prefix ch) t rewards (ec_job_factory ch) = (Ok j, f)"
    "ch' = ch\<lparr>ec_job_factory := f, ec_job_store := if nt_future_template t
       then snd (add_future_job extended_job_id (nt_template_id t) j (ec_job_store ch))
       else add_active_job extended_job_id j (ec_job_store ch)\<rparr>"
  using assms
  by (auto simp: ext_on_new_template_def job_for_template_def future_job_def active_job_of_def Let_def result_simps
      add_future_job_def add_active_job_def lookup_update' split: if_splits prod.splits option.splits
      elim!: or_return_cases)

lemma mirrors_template:
  assumes m: "mirrors ch c" and "segwit_encoding btc" and "legacy_decoding btc"
    and ok: "ext_op_ok (ext_op.OnNewTemplate t rewards) ch"
    and s: "ext_on_new_template btc t rewards ch = (Ok (), ch')" "job_for_template t (ec_job_store ch') = (Ok j :: (ExtendedJob, PoolError) result)"
    and c: "cext_on_new_extended_mining_job btc (ej_job_message j) c = (r, c')"
  shows "mirrors ch' c'"
proof (rule on_new_template_job [OF s])
  fix tip f
  assume j: "new_extended_job btc (ec_channel_id ch) tip (ec_extranonce_prefix ch) t rewards (ec_job_factory ch) = (Ok j, f)"
    and ch': "ch' = ch\<lparr>ec_job_factory := f, ec_job_store := if nt_future_template t
       then snd (add_future_job extended_job_id (nt_template_id t) j (ec_job_store ch))
       else add_active_job extended_job_id j (ec_job_store ch)\<rparr>"
  have "strip_job btc (ej_job_message j) = Ok (ej_job_message j)"
    using template_job_stripped [OF assms(2,3) j] ok by (simp add: strip_job_def)
  moreover have "ej_extranonce_prefix j = ec_extranonce_prefix ch" using new_extended_job_new_id [OF j] by simp
  then have v: "job_view j = (ej_job_message j, cec_extranonce_prefix c)" using m by (simp add: job_view_def mirrors_def)
  moreover have "nemj_min_ntime (ej_job_message j) = (if nt_future_template t then [] else [ct_min_ntime (the tip)])"
    by (rule new_extended_job_Ok [OF j]) simp
  ultimately show ?thesis
    using m c
    by (auto simp: ch' cext_on_new_extended_mining_job_def sv2_option_into_inner_def cext_activate_def
        mirrors_def add_future_job_def add_active_job_def retire_active_job_def extended_job_id_def lookup_update'
        Let_def job_view_def split: if_splits option.splits)
qed

lemma tip_activates:
  assumes "ext_on_set_new_prev_hash m ch = (Ok (), ch')" and "\<not> Mapping.is_empty (future_jobs (ec_job_store ch))"
    and "store_ok extended_job_id (ec_job_store ch)"
  obtains j st where "Mapping.lookup (future_jobs (ec_job_store ch)) (extended_job_id j) = Some j"
    "st = (retire_active_job extended_job_id (ec_job_store ch))
       \<lparr>active_job := Some (extended_job_activate (tnph_header_timestamp m) j), future_jobs := Mapping.empty,
        future_template_to_job_id := Mapping.empty\<rparr>"
    "ch' = ch\<lparr>ec_job_store := mark_past_jobs_as_stale st,
       ec_share_accounting := flush_seen_shares (ec_share_accounting ch),
       ec_chain_tip := Some (chain_tip_from_tdp m)\<rparr>"
proof -
  obtain st where act: "activate_future_job extended_job_id extended_job_activate (tnph_template_id m)
      (tnph_header_timestamp m) (ec_job_store ch) = (True, st)"
    and ch': "ch' = ch\<lparr>ec_job_store := st, ec_share_accounting := flush_seen_shares (ec_share_accounting ch),
       ec_chain_tip := Some (chain_tip_from_tdp m)\<rparr>"
    using assms(1,2) by (auto simp: ext_on_set_new_prev_hash_def split: prod.splits bool.splits)
  from act obtain i j where j: "Mapping.lookup (future_jobs (ec_job_store ch)) i = Some j"
    and st: "st = mark_past_jobs_as_stale ((retire_active_job extended_job_id (ec_job_store ch))
       \<lparr>active_job := Some (extended_job_activate (tnph_header_timestamp m) j), future_jobs := Mapping.empty,
        future_template_to_job_id := Mapping.empty\<rparr>)"
    by (auto simp: activate_future_job_def retire_active_job_def Let_def split: option.splits)
  have "extended_job_id j = i" using j assms(3) by (simp add: store_ok_def keyed_def)
  then show ?thesis using that j st ch' by blast
qed

lemma mirrors_tip:
  assumes m: "mirrors ch c" and ok: "store_ok extended_job_id (ec_job_store ch)"
    and ne: "\<not> Mapping.is_empty (future_jobs (ec_job_store ch))"
    and s: "ext_on_set_new_prev_hash m ch = (Ok (), ch')"
    and j: "active_job_of (ec_job_store ch') = (Ok j :: (ExtendedJob, PoolError) result)"
    and mp: "set_new_prev_hash_message (ec_channel_id ch) (extended_job_id j) m = Mining_SetNewPrevHash mp"
    and c: "cext_on_set_new_prev_hash mp c = (r, c')"
  shows "mirrors ch' c'"
proof (rule tip_activates [OF s ne ok])
  fix k st
  assume k: "Mapping.lookup (future_jobs (ec_job_store ch)) (extended_job_id k) = Some k"
    and st: "st = (retire_active_job extended_job_id (ec_job_store ch))
       \<lparr>active_job := Some (extended_job_activate (tnph_header_timestamp m) k), future_jobs := Mapping.empty,
        future_template_to_job_id := Mapping.empty\<rparr>"
    and ch': "ch' = ch\<lparr>ec_job_store := mark_past_jobs_as_stale st,
       ec_share_accounting := flush_seen_shares (ec_share_accounting ch),
       ec_chain_tip := Some (chain_tip_from_tdp m)\<rparr>"
  have "j = extended_job_activate (tnph_header_timestamp m) k"
    using j by (simp add: ch' st active_job_of_def mark_past_jobs_as_stale_def)
  then have "mnph_job_id mp = extended_job_id k" and mp': "mnph_min_ntime mp = tnph_header_timestamp m"
      "chain_tip_from_mp mp = chain_tip_from_tdp m"
    using mp by (auto simp: set_new_prev_hash_message_def chain_tip_from_mp_def chain_tip_from_tdp_def
        extended_job_id_def extended_job_activate_def)
  then have "Mapping.lookup (cec_future_jobs c) (mnph_job_id mp) = Some (job_view k)"
    using m k by (simp add: mirrors_def)
  then have c': "c' = (cext_expire (c\<lparr>cec_active_job := Some (job_view (extended_job_activate (tnph_header_timestamp m) k))\<rparr>))
      \<lparr>cec_chain_tip := Some (chain_tip_from_tdp m)\<rparr>"
    using c mp' by (auto simp: cext_on_set_new_prev_hash_def job_view_def extended_job_activate_def)
  have "Mapping.keys (cec_past_jobs c) = Mapping.keys (past_jobs (ec_job_store ch))"
    using m by (auto simp: mirrors_def in_keys_iff)
  then show ?thesis
    using m
    by (auto simp: ch' st c' mirrors_def cext_expire_def mark_past_jobs_as_stale_def retire_active_job_def lookup_empty
        flush_seen_shares_def split: option.splits)
qed

lemma linked_mirrors:
  assumes "linked btc ch c" and "segwit_encoding btc" and "legacy_decoding btc" and "hash_lengths btc"
  shows "mirrors ch c"
  using assms(1)
proof (induction rule: linked.induct)
  case opened
  then show ?case
    by (auto simp: mirrors_def cext_new_def extended_channel_new_fields job_store_new_def share_accounting_new_def
        client_accounting_new_def lookup_empty)
next
  case (template ch c t rewards ch' j r c')
  then show ?case by (blast intro: mirrors_template assms)
next
  case (template_refused ch c t rewards e ch')
  then have "\<exists>f. ch' = ch\<lparr>ec_job_factory := f\<rparr> \<or> ch' = ch"
    by (auto simp: ext_on_new_template_def Let_def split: if_splits option.splits prod.splits elim!: or_return_cases)
  then show ?case using template_refused by (auto simp: mirrors_def)
next
  case (tip ch c m ch' j mp r c')
  then show ?case
    using ext_reachable_ok [OF conjunct1 [OF linked_reachable [OF tip(1)]] assms(2)]
    by (auto simp: ext_ok_def intro: mirrors_tip)
next
  case (update ch c h mt ch')
  then obtain x y where "ch' = ch\<lparr>ec_nominal_hashrate := h, ec_target := x, ec_requested_max_target := y\<rparr>"
    by (auto simp: ext_update_channel_def Let_def split: if_splits elim!: or_return_cases)
  then show ?case using update.IH by (simp add: cext_set_target_def mirrors_def)
next
  case (retarget ch c t)
  then show ?case by (simp add: ext_set_target_def cext_set_target_def mirrors_def)
next
  case (extranonce_prefix ch c p ch' r c')
  then show ?case
    by (auto simp: ext_set_extranonce_prefix_def cext_set_extranonce_prefix_def mirrors_def Let_def split: if_splits)
next
  case (share ch c s r c')
  obtain r' ch' where s: "ext_validate_share btc s ch = (r', ch')" by fastforce
  have l: "ext_reachable btc ch \<and> batching ch" by (rule linked_reachable [OF share(1)])
  with client_validates_alike [OF share(3) ext_reachable_ok [OF _ assms(2)] assms(4) _ s share(2)]
  show ?case using s by (simp add: batching_def split: if_splits)
qed

section \<open>A linked pair\<close>

lemma demo_linked: "\<exists>c. linked demo_bitcoin demo_mining c"
proof -
  obtain t where "extended_channel_new 7 [] [] (Target (- 1) (- 1)) 0x41200000 True 0 10 0x42700000
      job_store_new (Some [0x41]) None = Ok (demo_channel\<lparr>ec_target := t\<rparr>)"
    by (rule demo_channel_opened)
  from linked.retarget [OF linked.opened [OF this, of demo_bitcoin], of "Target 1000 0"]
  obtain c0 where c0: "linked demo_bitcoin demo_channel c0"
    by (auto simp: demo_channel_def ext_set_target_def)
  have "job_for_template demo_template (ec_job_store demo_pending) =
      (Ok (demo_job 7 1 []) :: (ExtendedJob, PoolError) result)"
    by (simp add: job_for_template_def future_job_def demo_pending_def demo_template_def add_future_job_def Let_def
        lookup_update)
  from linked.template [OF c0 demo_template_ok demo_on_new_template this]
  obtain c1 where c1: "linked demo_bitcoin demo_pending c1" by (metis prod.exhaust)
  have "active_job_of (ec_job_store demo_mining) = (Ok demo_active :: (ExtendedJob, PoolError) result)"
    by (simp add: active_job_of_def demo_mining_def)
  moreover have "\<not> Mapping.is_empty (future_jobs (ec_job_store demo_pending))"
    by (simp add: demo_pending_def add_future_job_def Let_def Mapping.is_empty_def)
  moreover have "ext_op_ok (ext_op.OnSetNewPrevHash demo_prev_hash) demo_pending" by (simp add: demo_prev_hash_def)
  ultimately show ?thesis
    using linked.tip [OF c1 _ _ demo_on_tip] by (metis set_new_prev_hash_message_def prod.exhaust)
qed

lemma demo_share_valid:
  "fst (ext_validate_share demo_bitcoin (demo_share 3) demo_mining) =
     Ok (Valid \<lparr>hash = block_hash demo_bitcoin (demo_header 3)\<rparr>)"
  "target_from_bytes (block_hash demo_bitcoin (demo_header 3)) \<noteq> (Ok (Target 1000 0) :: (Target, unit) result)"
proof -
  obtain t where t: "target_from_bytes (block_hash demo_bitcoin (demo_header 3)) =
      (Ok t :: (Target, ShareValidationError) result)" "target_nat t = unat (3 :: u32)"
    by (rule demo_hash_target)
  have "t \<le> Target 1000 0" using t(2) by (simp add: target_le_iff) (simp add: target_nat_def)
  then show "fst (ext_validate_share demo_bitcoin (demo_share 3) demo_mining) =
     Ok (Valid \<lparr>hash = block_hash demo_bitcoin (demo_header 3)\<rparr>)"
    unfolding demo_judged [OF t(1)]
    by (simp add: demo_met check_target_def demo_mining_def demo_channel_def
        share_accounting_new_def is_share_seen_def Let_def should_acknowledge_def)
  have "t \<noteq> Target 1000 0" using t(2) by (auto simp: target_nat_def)
  then show "target_from_bytes (block_hash demo_bitcoin (demo_header 3)) \<noteq> (Ok (Target 1000 0) :: (Target, unit) result)"
    using target_from_bytes_poly [OF t(1), where 'b = unit] by simp
qed

section \<open>Property\<close>



end
